(* ===== verification/Prelude.thy ===== *)
theory Prelude
  imports Complex_Main "HOL-Library.Sublist" "HOL-Library.AList"
    "HOL-Library.List_Lexorder" "HOL-Library.Char_ord"
begin

text \<open>
  The shared vocabulary of the development: Python exceptions as values of a sum type,
  the string operations the scripts call (\<open>join\<close>, \<open>split\<close>, \<open>strip\<close>, \<open>replace\<close>,
  \<open>startswith\<close>, the \<open>in\<close> test on text), decimal integers, and dictionaries in
  insertion order with the \<open>defaultdict(list)\<close> grouping idiom.
  A \<^typ>\<open>char\<close> stands for a code point below 256.
\<close>

section \<open>Exceptions as values\<close>

text \<open>
  One constructor per exception class the scripts raise or let pass. The text is the
  exception's message; messages of exceptions raised inside the standard library are
  not part of the model and are left empty.
\<close>

datatype py_error =
    SystemExit string
  | RuntimeError string
  | ValueError
  | KeyError string
  | TypeError
  | OverflowError
  | ZeroDivisionError
  | AttributeError
  | IndexError
  | StopIteration
  | CalledProcessError string
  | FileNotFoundError string

type_synonym 'a res = "py_error + 'a"

named_theorems res_iff \<open>when a fallible computation returns a value\<close>

definition bindR :: "'a res \<Rightarrow> ('a \<Rightarrow> 'b res) \<Rightarrow> 'b res" where
  "bindR m f = (case m of Inl e \<Rightarrow> Inl e | Inr x \<Rightarrow> f x)"

lemma bindR_simps [simp]:
  "bindR (Inl e) f = Inl e"
  "bindR (Inr x) f = f x"
  by (simp_all add: bindR_def)

text \<open>Evaluation decides the first computation before it looks at the rest.\<close>

lemma bindR_weak_cong: "m = m' \<Longrightarrow> bindR m f = bindR m' f"
  by simp

lemmas eval_congs = let_weak_cong prod.case_cong_weak bindR_weak_cong

lemma bindR_Inr_iff [res_iff]: "bindR m f = Inr y \<longleftrightarrow> (\<exists>x. m = Inr x \<and> f x = Inr y)"
  by (cases m) auto

definition guardR :: "bool \<Rightarrow> py_error \<Rightarrow> unit res" where
  "guardR ok e = (if ok then Inr () else Inl e)"

lemma guardR_Inr_iff [res_iff]: "guardR ok e = Inr u \<longleftrightarrow> ok"
  by (simp add: guardR_def)

lemma guardR_simps [simp]: "guardR True e = Inr ()" "guardR False e = Inl e"
  by (simp_all add: guardR_def)

text \<open>A loop that appends one result per item and stops at the first exception.\<close>

fun mapR :: "('a \<Rightarrow> 'b res) \<Rightarrow> 'a list \<Rightarrow> 'b list res" where
  "mapR f [] = Inr []"
| "mapR f (x # xs) = bindR (f x) (\<lambda>y. bindR (mapR f xs) (\<lambda>ys. Inr (y # ys)))"

lemma mapR_Inr_iff [res_iff]: "mapR f xs = Inr ys \<longleftrightarrow> list_all2 (\<lambda>x y. f x = Inr y) xs ys"
proof (induction xs arbitrary: ys)
  case (Cons x xs)
  then show ?case by (cases ys) (auto simp: bindR_Inr_iff)
qed auto

lemma mapR_length: "mapR f xs = Inr ys \<Longrightarrow> length ys = length xs"
  by (auto simp: mapR_Inr_iff dest: list_all2_lengthD)

lemma mapR_all_Inr: "(\<And>x. x \<in> set xs \<Longrightarrow> f x = Inr (g x)) \<Longrightarrow> mapR f xs = Inr (map g xs)"
  by (induction xs) auto

lemma mapR_set: "mapR f xs = Inr ys \<Longrightarrow> y \<in> set ys \<Longrightarrow> \<exists>x\<in>set xs. f x = Inr y"
  by (induction xs arbitrary: ys) (auto simp: bindR_Inr_iff)

text \<open>A loop that updates a state with every item.\<close>

fun foldR :: "('s \<Rightarrow> 'a \<Rightarrow> 's res) \<Rightarrow> 's \<Rightarrow> 'a list \<Rightarrow> 's res" where
  "foldR f s [] = Inr s"
| "foldR f s (x # xs) = bindR (f s x) (\<lambda>s'. foldR f s' xs)"

lemma foldR_append: "foldR f s (xs @ ys) = bindR (foldR f s xs) (\<lambda>s'. foldR f s' ys)"
proof (induction xs arbitrary: s)
  case (Cons x xs)
  then show ?case by (cases "f s x") simp_all
qed simp

lemma foldR_invariant:
  assumes "foldR f s xs = Inr t" and "P s" and "\<And>u x v. x \<in> set xs \<Longrightarrow> P u \<Longrightarrow> f u x = Inr v \<Longrightarrow> P v"
  shows "P t"
  using assms
proof (induction xs arbitrary: s)
  case (Cons x xs)
  then obtain u where u: "f s x = Inr u" "foldR f u xs = Inr t" by (auto simp: bindR_Inr_iff)
  show ?case
    using Cons.IH [OF u(2)] Cons.prems(2,3) u(1) by (meson list.set_intros)
qed simp

section \<open>Text\<close>

text \<open>\<open>sep.join(parts)\<close>.\<close>

fun str_join :: "string \<Rightarrow> string list \<Rightarrow> string" where
  "str_join sep [] = []"
| "str_join sep [x] = x"
| "str_join sep (x # y # xs) = x @ sep @ str_join sep (y # xs)"

lemma str_join_Cons: "xs \<noteq> [] \<Longrightarrow> str_join sep (x # xs) = x @ sep @ str_join sep xs"
  by (cases xs) simp_all

lemma str_join_append:
  "xs \<noteq> [] \<Longrightarrow> ys \<noteq> [] \<Longrightarrow> str_join sep (xs @ ys) = str_join sep xs @ sep @ str_join sep ys"
proof (induction xs)
  case (Cons x xs)
  then show ?case by (cases "xs = []") (simp_all add: str_join_Cons)
qed simp

lemma sublist_str_join: "x \<in> set xs \<Longrightarrow> sublist x (str_join sep xs)"
proof (induction xs)
  case (Cons a xs)
  show ?case
  proof (cases "xs = []")
    case False
    have tl: "sublist (str_join sep xs) (str_join sep (a # xs))"
      using False unfolding sublist_def
      by (intro exI [of _ "a @ sep"] exI [of _ "[]"]) (simp add: str_join_Cons)
    have hd: "sublist a (str_join sep (a # xs))"
      using False by (auto simp: str_join_Cons sublist_def)
    from Cons hd tl show ?thesis
      by (auto intro: sublist_order.order_trans)
  qed (use Cons in simp)
qed simp

text \<open>\<open>text.split(c)\<close> for a one-character separator: never the empty list.\<close>

fun str_split :: "char \<Rightarrow> string \<Rightarrow> string list" where
  "str_split c [] = [[]]"
| "str_split c (x # xs) =
     (if x = c then [] # str_split c xs
      else (case str_split c xs of [] \<Rightarrow> [[x]] | p # ps \<Rightarrow> (x # p) # ps))"

lemma str_split_ne [simp]: "str_split c s \<noteq> []"
  by (induction s) (auto split: list.splits)

lemma str_split_no_sep: "c \<notin> set s \<Longrightarrow> str_split c s = [s]"
  by (induction s) auto

lemma str_split_append:
  "c \<notin> set s \<Longrightarrow> str_split c (s @ c # t) = s # str_split c t"
  by (induction s) auto

lemma str_split_join:
  assumes "xs \<noteq> []" and "\<forall>x\<in>set xs. c \<notin> set x"
  shows "str_split c (str_join [c] xs) = xs"
  using assms
proof (induction xs)
  case (Cons x xs)
  then show ?case
    by (cases xs) (auto simp: str_split_no_sep str_split_append)
qed simp

lemma str_split_parts: "p \<in> set (str_split c s) \<Longrightarrow> c \<notin> set p"
  by (induction s arbitrary: p) (auto split: if_splits list.splits)

text \<open>\<open>text.strip()\<close>: the white space of Python below code point 256.\<close>

definition is_space :: "char \<Rightarrow> bool" where
  "is_space c = (c \<in> set [CHR 0x09, CHR 0x0A, CHR 0x0B, CHR 0x0C, CHR 0x0D,
     CHR 0x1C, CHR 0x1D, CHR 0x1E, CHR 0x1F, CHR 0x20, CHR 0x85, CHR 0xA0])"

definition str_strip :: "string \<Rightarrow> string" where
  "str_strip s = rev (dropWhile is_space (rev (dropWhile is_space s)))"

lemma str_strip_id:
  assumes "s \<noteq> []" and "\<not> is_space (hd s)" and "\<not> is_space (last s)"
  shows "str_strip s = s"
proof -
  have "dropWhile is_space s = s"
    using assms by (cases s) auto
  moreover have "dropWhile is_space (rev s) = rev s"
    using assms by (cases s rule: rev_cases) auto
  ultimately show ?thesis by (simp add: str_strip_def)
qed

lemma str_strip_Nil [simp]: "str_strip [] = []"
  by (simp add: str_strip_def)

lemma str_strip_subset: "set (str_strip s) \<subseteq> set s"
  by (auto simp: str_strip_def dest!: set_dropWhileD)

text \<open>\<open>text.replace(c, t)\<close> for a one-character pattern.\<close>

definition str_replace :: "char \<Rightarrow> string \<Rightarrow> string \<Rightarrow> string" where
  "str_replace c t s = concat (map (\<lambda>x. if x = c then t else [x]) s)"

lemma str_replace_simps [simp]:
  "str_replace c t [] = []"
  "str_replace c t (x # xs) = (if x = c then t else [x]) @ str_replace c t xs"
  by (simp_all add: str_replace_def)

lemma str_replace_append [simp]: "str_replace c t (u @ v) = str_replace c t u @ str_replace c t v"
  by (simp add: str_replace_def)

text \<open>
  \<open>text.startswith(p)\<close> is \<^const>\<open>prefix\<close>, \<open>text.endswith(p)\<close> is \<^const>\<open>suffix\<close> and
  the test \<open>p in text\<close> is \<^const>\<open>sublist\<close>, all three executable.
\<close>

section \<open>Decimal integers\<close>

definition digit_char :: "nat \<Rightarrow> char" where
  "digit_char d = ''0123456789'' ! d"

definition is_digit :: "char \<Rightarrow> bool" where
  "is_digit c = (c \<in> set ''0123456789'')"

definition digit_val :: "char \<Rightarrow> nat" where
  "digit_val c = of_char c - 48"

lemma less_10_cases: "(d::nat) < 10 \<Longrightarrow> d \<in> {0, 1, 2, 3, 4, 5, 6, 7, 8, 9}"
  by auto

lemma digit_char_props [simp]:
  assumes "d < 10"
  shows "is_digit (digit_char d)" and "digit_val (digit_char d) = d"
    and "\<not> is_space (digit_char d)"
  using less_10_cases [OF assms]
  by (auto simp: digit_char_def is_digit_def digit_val_def is_space_def)

lemma digit_not_sign: "is_digit c \<Longrightarrow> c \<noteq> CHR ''-'' \<and> c \<noteq> CHR ''+'' \<and> c \<noteq> CHR ''_'' \<and> \<not> is_space c"
  by (auto simp: is_digit_def is_space_def)

function show_nat :: "nat \<Rightarrow> string" where
  "show_nat n = (if n < 10 then [digit_char n]
     else show_nat (n div 10) @ [digit_char (n mod 10)])"
  by pat_completeness auto
termination by (relation "measure id") auto

declare show_nat.simps [simp del]

text \<open>Evaluation on literals only, so that the simplifier never unfolds a symbolic argument.\<close>

named_theorems eval_simps \<open>rewrite rules that evaluate closed terms of the model\<close>

lemma digit_char_eval [eval_simps]:
  "digit_char 0 = CHR ''0''" "digit_char (Suc 0) = CHR ''1''" "digit_char 1 = CHR ''1''"
  "digit_char 2 = CHR ''2''" "digit_char 3 = CHR ''3''" "digit_char 4 = CHR ''4''"
  "digit_char 5 = CHR ''5''" "digit_char 6 = CHR ''6''" "digit_char 7 = CHR ''7''"
  "digit_char 8 = CHR ''8''" "digit_char 9 = CHR ''9''"
  by (simp_all add: digit_char_def)

lemma show_nat_eval [eval_simps]:
  "show_nat 0 = ''0''" "show_nat (Suc 0) = ''1''" "show_nat 1 = ''1''"
  "show_nat (numeral k) = (if (numeral k :: nat) < 10 then [digit_char (numeral k)]
     else show_nat (numeral k div 10) @ [digit_char (numeral k mod 10)])"
  by (simp_all add: show_nat.simps [of 0] show_nat.simps [of "Suc 0"] show_nat.simps [of "numeral k"]
    digit_char_eval)

definition show_int :: "int \<Rightarrow> string" where
  "show_int i = (if i < 0 then CHR ''-'' # show_nat (nat (- i)) else show_nat (nat i))"

text \<open>The value of a string of digits, most significant first.\<close>

definition digits_val :: "string \<Rightarrow> nat" where
  "digits_val s = foldl (\<lambda>a c. 10 * a + digit_val c) 0 s"

lemma show_int_eval [eval_simps]:
  "show_int 0 = ''0''" "show_int 1 = ''1''"
  "show_int (numeral k) = show_nat (numeral k)"
  "show_int (- numeral k) = CHR ''-'' # show_nat (numeral k)"
  "show_int (- 1) = ''-1''"
  by (simp_all add: show_int_def eval_simps)

lemma digits_val_snoc: "digits_val (s @ [c]) = 10 * digits_val s + digit_val c"
  by (simp add: digits_val_def)

lemma show_nat_ne [simp]: "show_nat n \<noteq> []"
  by (simp add: show_nat.simps [of n])

lemma show_nat_digits: "\<forall>c\<in>set (show_nat n). is_digit c"
proof (induction n rule: show_nat.induct)
  case (1 n)
  then show ?case by (auto simp: show_nat.simps [of n])
qed

lemma digits_val_show_nat [simp]: "digits_val (show_nat n) = n"
proof (induction n rule: show_nat.induct)
  case (1 n)
  then show ?case
    by (simp add: show_nat.simps [of n] digits_val_snoc) (simp add: digits_val_def)
qed

lemma show_nat_inject [simp]: "show_nat m = show_nat n \<longleftrightarrow> m = n"
  by (metis digits_val_show_nat)

lemma show_int_inject [simp]: "show_int i = show_int j \<longleftrightarrow> i = j"
proof -
  have ne: "CHR ''-'' # s \<noteq> show_nat n" for n s
  proof
    assume "CHR ''-'' # s = show_nat n"
    then have "CHR ''-'' \<in> set (show_nat n)" by (metis list.set_intros(1))
    then have "is_digit (CHR ''-'')" using show_nat_digits by blast
    then show False by (simp add: is_digit_def)
  qed
  show ?thesis
    using ne [of "show_nat (nat (- i))" "nat j"] ne [of "show_nat (nat (- j))" "nat i"]
    by (auto simp: show_int_def)
qed

lemma show_int_chars: "c \<in> set (show_int i) \<Longrightarrow> c = CHR ''-'' \<or> is_digit c"
  using show_nat_digits by (auto simp: show_int_def split: if_splits)

section \<open>Dictionaries in insertion order\<close>

text \<open>\<open>d[key]\<close>: a missing key raises \<open>KeyError\<close>.\<close>

definition dict_get :: "(string \<times> 'v) list \<Rightarrow> string \<Rightarrow> 'v res" where
  "dict_get d key = (case map_of d key of None \<Rightarrow> Inl (KeyError key) | Some v \<Rightarrow> Inr v)"

lemma dict_get_Inr [res_iff]: "dict_get d key = Inr v \<longleftrightarrow> map_of d key = Some v"
  by (auto simp: dict_get_def split: option.splits)

text \<open>\<open>d.update(kvs)\<close>.\<close>

definition dict_update :: "('k \<times> 'v) list \<Rightarrow> ('k \<times> 'v) list \<Rightarrow> ('k \<times> 'v) list" where
  "dict_update d kvs = foldl (\<lambda>d (k, v). AList.update k v d) d kvs"

lemma dict_update_simps [simp]:
  "dict_update d [] = d"
  "dict_update d ((k, v) # kvs) = dict_update (AList.update k v d) kvs"
  by (simp_all add: dict_update_def)

lemma keys_dict_update: "fst ` set (dict_update d kvs) = fst ` set d \<union> fst ` set kvs"
proof (induction kvs arbitrary: d)
  case (Cons kv kvs)
  obtain k v where kv: "kv = (k, v)" by fastforce
  show ?case unfolding kv dict_update_simps Cons.IH by (subst dom_update) auto
qed simp

lemma distinct_dict_update: "distinct (map fst d) \<Longrightarrow> distinct (map fst (dict_update d kvs))"
  by (induction kvs arbitrary: d) (auto simp: distinct_update)

lemma dict_update_other: "k \<notin> fst ` set kvs \<Longrightarrow> map_of (dict_update d kvs) k = map_of d k"
  by (induction kvs arbitrary: d) (auto simp: update_conv')

lemma dict_update_lookup:
  "distinct (map fst kvs) \<Longrightarrow> map_of (dict_update d kvs) k =
     (case map_of kvs k of None \<Rightarrow> map_of d k | Some v \<Rightarrow> Some v)"
proof (induction kvs arbitrary: d)
  case (Cons kv kvs)
  obtain k' v where kv: "kv = (k', v)" by fastforce
  from Cons.prems kv have "map_of kvs k' = None" by (simp add: map_of_eq_None_iff)
  then show ?case
    using Cons.IH [of "AList.update k' v d"] Cons.prems kv
    by (auto simp: update_conv' split: option.split)
qed simp

text \<open>
  A Python \<open>dict\<close> whose iteration order matters is an association list: \<^const>\<open>AList.update\<close>
  overwrites in place and appends a new key at the end, as Python does. \<open>group_by\<close> is
  the \<open>defaultdict(list)\<close> idiom \<open>d[key(x)].append(x)\<close> run over a list.
\<close>

definition dict_append :: "'k \<Rightarrow> 'v \<Rightarrow> ('k \<times> 'v list) list \<Rightarrow> ('k \<times> 'v list) list" where
  "dict_append k v d =
     AList.update k ((case map_of d k of None \<Rightarrow> [] | Some vs \<Rightarrow> vs) @ [v]) d"

definition group_by :: "('a \<Rightarrow> 'k) \<Rightarrow> 'a list \<Rightarrow> ('k \<times> 'a list) list" where
  "group_by key xs = foldl (\<lambda>d x. dict_append (key x) x d) [] xs"

lemma group_by_snoc: "group_by key (xs @ [x]) = dict_append (key x) x (group_by key xs)"
  by (simp add: group_by_def)

lemma group_by_Nil [simp]: "group_by key [] = []"
  by (simp add: group_by_def)

lemma map_of_group_by:
  "map_of (group_by key xs) k =
     (if k \<in> key ` set xs then Some (filter (\<lambda>x. key x = k) xs) else None)"
proof (induction xs rule: rev_induct)
  case (snoc x xs)
  show ?case
  proof (cases "k = key x")
    case True
    have "key x \<notin> key ` set xs \<Longrightarrow> filter (\<lambda>y. key y = key x) xs = []"
      by (auto simp: filter_empty_conv image_iff)
    then show ?thesis
      using snoc True by (simp add: group_by_snoc dict_append_def update_conv')
  next
    case False
    then show ?thesis
      using snoc by (auto simp: group_by_snoc dict_append_def update_conv')
  qed
qed simp

lemma keys_group_by: "fst ` set (group_by key xs) = key ` set xs"
  by (induction xs rule: rev_induct) (auto simp: group_by_snoc dict_append_def dom_update)

lemma distinct_group_by: "distinct (map fst (group_by key xs))"
  by (induction xs rule: rev_induct) (auto simp: group_by_snoc dict_append_def intro: distinct_update)

lemma group_by_entry:
  assumes "(k, ys) \<in> set (group_by key xs)"
  shows "ys = filter (\<lambda>x. key x = k) xs" and "ys \<noteq> []" and "k \<in> key ` set xs"
proof -
  have "map_of (group_by key xs) k = Some ys"
    using assms distinct_group_by by (rule map_of_is_SomeI [rotated])
  then show "ys = filter (\<lambda>x. key x = k) xs" and "ys \<noteq> []" and "k \<in> key ` set xs"
    by (auto simp: map_of_group_by filter_empty_conv split: if_splits)
qed

end
