(* ===== verification/PyFloat.thy ===== *)
theory PyFloat
  imports Prelude
begin

text \<open>
  Python's \<open>float\<close>: IEEE 754 binary64 with round-to-nearest-even, written over integers so
  that every operation computes. A finite value is \<open>(-1)^s * m * 2^e\<close> in the unique
  normal form \<open>canonical\<close>; signed zeros, infinities and a single NaN are values of the
  type. The exact rational result of each operation is rounded once by \<open>round_ratio\<close>.
  The second half is the text interface the scripts use: \<open>float(text)\<close>, \<open>int(text)\<close>,
  the formats \<open>:g\<close>, \<open>:.Nf\<close> and \<open>repr\<close>, and \<open>round\<close>, \<open>math.ceil\<close>, \<open>math.isfinite\<close>.
\<close>

section \<open>Values and rounding\<close>

datatype pyfloat = Fin bool nat int | Inf bool | NaN

definition canonical :: "pyfloat \<Rightarrow> bool" where
  "canonical x = (case x of
     Fin s m e \<Rightarrow> (2 ^ 52 \<le> m \<and> m < 2 ^ 53 \<and> - 1074 \<le> e \<and> e \<le> 971) \<or> (m < 2 ^ 52 \<and> e = - 1074)
   | _ \<Rightarrow> True)"

fun is_finite :: "pyfloat \<Rightarrow> bool" where
  "is_finite (Fin s m e) = True"
| "is_finite (Inf s) = False"
| "is_finite NaN = False"

text \<open>The signed mantissa and the exact value.\<close>

definition signed :: "bool \<Rightarrow> nat \<Rightarrow> int" where
  "signed s m = (if s then - int m else int m)"

definition fval :: "pyfloat \<Rightarrow> rat" where
  "fval x = (case x of Fin s m e \<Rightarrow> of_int (signed s m) * 2 powi e | _ \<Rightarrow> 0)"

function bit_len :: "nat \<Rightarrow> nat" where
  "bit_len n = (if n = 0 then 0 else Suc (bit_len (n div 2)))"
  by pat_completeness auto
termination by (relation "measure id") auto

declare bit_len.simps [simp del]

lemma bit_len_eval [eval_simps]:
  "bit_len 0 = 0" "bit_len (Suc 0) = 1" "bit_len 1 = 1"
  "bit_len (numeral (num.Bit0 k)) = Suc (bit_len (numeral k))"
  "bit_len (numeral (num.Bit1 k)) = Suc (bit_len (numeral k))"
  by (simp_all add: bit_len.simps [of 0] bit_len.simps [of "Suc 0"]
    bit_len.simps [of "numeral (num.Bit0 k)"] bit_len.simps [of "numeral (num.Bit1 k)"])

definition div_half_even :: "nat \<Rightarrow> nat \<Rightarrow> nat" where
  "div_half_even a b =
     (let q = a div b; r = a mod b
      in if 2 * r < b then q else if b < 2 * r then Suc q else if even q then q else Suc q)"

text \<open>
  The float nearest to \<open>p / q\<close> (\<open>0 < q\<close>), ties to the even mantissa. \<open>lg\<close> is the binary
  logarithm rounded down; below \<open>2^-1022\<close> the exponent stays at \<open>-1074\<close> (gradual underflow);
  a mantissa that rounds up to \<open>2^53\<close> moves to the next exponent; beyond the largest
  exponent the result is an infinity.
\<close>

definition floor_log2 :: "nat \<Rightarrow> nat \<Rightarrow> int" where
  "floor_log2 p q =
     (let k = int (bit_len p) - int (bit_len q)
      in if p * 2 ^ nat (- k) < q * 2 ^ nat k then k - 1 else k)"

definition round_ratio :: "bool \<Rightarrow> nat \<Rightarrow> nat \<Rightarrow> pyfloat" where
  "round_ratio s p q =
     (if p = 0 then Fin s 0 (- 1074)
      else let e = max (- 1074) (floor_log2 p q - 52);
               m = div_half_even (p * 2 ^ nat (- e)) (q * 2 ^ nat e)
           in if m = 2 ^ 53 then (if 971 < e + 1 then Inf s else Fin s (2 ^ 52) (e + 1))
              else if 971 < e then Inf s else Fin s m e)"

definition of_dyadic :: "bool \<Rightarrow> nat \<Rightarrow> int \<Rightarrow> pyfloat" where
  "of_dyadic s m e = round_ratio s (m * 2 ^ nat e) (2 ^ nat (- e))"

definition float_of_int :: "int \<Rightarrow> pyfloat" where
  "float_of_int i = round_ratio (i < 0) (nat \<bar>i\<bar>) 1"

text \<open>A decimal literal \<open>n * 10^-d\<close> of the source, e.g. \<open>0.25\<close> is \<open>flit 25 2\<close>.\<close>

definition flit :: "nat \<Rightarrow> nat \<Rightarrow> pyfloat" where
  "flit n d = round_ratio False n (10 ^ d)"

section \<open>Arithmetic and comparison\<close>

fun fneg :: "pyfloat \<Rightarrow> pyfloat" where
  "fneg (Fin s m e) = Fin (\<not> s) m e"
| "fneg (Inf s) = Inf (\<not> s)"
| "fneg NaN = NaN"

fun fabs :: "pyfloat \<Rightarrow> pyfloat" where
  "fabs (Fin s m e) = Fin False m e"
| "fabs (Inf s) = Inf False"
| "fabs NaN = NaN"

definition align :: "bool \<Rightarrow> nat \<Rightarrow> int \<Rightarrow> int \<Rightarrow> int" where
  "align s m e e0 = signed s m * 2 ^ nat (e - e0)"

fun fadd :: "pyfloat \<Rightarrow> pyfloat \<Rightarrow> pyfloat" where
  "fadd (Fin s1 m1 e1) (Fin s2 m2 e2) =
     (let e = min e1 e2; v = align s1 m1 e1 e + align s2 m2 e2 e
      in if v = 0 then Fin (s1 \<and> s2) 0 (- 1074) else of_dyadic (v < 0) (nat \<bar>v\<bar>) e)"
| "fadd (Inf s) (Inf t) = (if s = t then Inf s else NaN)"
| "fadd (Inf s) (Fin _ _ _) = Inf s"
| "fadd (Fin _ _ _) (Inf t) = Inf t"
| "fadd _ _ = NaN"

definition fsub :: "pyfloat \<Rightarrow> pyfloat \<Rightarrow> pyfloat" where
  "fsub x y = fadd x (fneg y)"

fun fmul :: "pyfloat \<Rightarrow> pyfloat \<Rightarrow> pyfloat" where
  "fmul (Fin s1 m1 e1) (Fin s2 m2 e2) = of_dyadic (s1 \<noteq> s2) (m1 * m2) (e1 + e2)"
| "fmul (Inf s) (Inf t) = Inf (s \<noteq> t)"
| "fmul (Inf s) (Fin t m _) = (if m = 0 then NaN else Inf (s \<noteq> t))"
| "fmul (Fin s m _) (Inf t) = (if m = 0 then NaN else Inf (s \<noteq> t))"
| "fmul _ _ = NaN"

text \<open>
  Division by a divisor that is not zero. Python raises on a zero divisor, so a division the
  code does not guard goes through \<open>py_div\<close> below; the NaN given here for that case is a filler.
\<close>

fun fdiv :: "pyfloat \<Rightarrow> pyfloat \<Rightarrow> pyfloat" where
  "fdiv (Fin s1 m1 e1) (Fin s2 m2 e2) =
     (if m2 = 0 then NaN
      else round_ratio (s1 \<noteq> s2) (m1 * 2 ^ nat (e1 - e2)) (m2 * 2 ^ nat (e2 - e1)))"
| "fdiv (Inf s) (Fin t m _) = (if m = 0 then NaN else Inf (s \<noteq> t))"
| "fdiv (Fin s _ _) (Inf t) = Fin (s \<noteq> t) 0 (- 1074)"
| "fdiv _ _ = NaN"

definition is_fzero :: "pyfloat \<Rightarrow> bool" where
  "is_fzero x = (case x of Fin _ m _ \<Rightarrow> m = 0 | _ \<Rightarrow> False)"

definition py_div :: "pyfloat \<Rightarrow> pyfloat \<Rightarrow> pyfloat res" where
  "py_div x y = (if is_fzero y then Inl ZeroDivisionError else Inr (fdiv x y))"

fun flt :: "pyfloat \<Rightarrow> pyfloat \<Rightarrow> bool" where
  "flt (Fin s1 m1 e1) (Fin s2 m2 e2) =
     (let e = min e1 e2 in align s1 m1 e1 e < align s2 m2 e2 e)"
| "flt (Inf s) (Inf t) = (s \<and> \<not> t)"
| "flt (Inf s) (Fin _ _ _) = s"
| "flt (Fin _ _ _) (Inf t) = (\<not> t)"
| "flt _ _ = False"

fun feq :: "pyfloat \<Rightarrow> pyfloat \<Rightarrow> bool" where
  "feq (Fin s1 m1 e1) (Fin s2 m2 e2) =
     (let e = min e1 e2 in align s1 m1 e1 e = align s2 m2 e2 e)"
| "feq (Inf s) (Inf t) = (s = t)"
| "feq _ _ = False"

definition fle :: "pyfloat \<Rightarrow> pyfloat \<Rightarrow> bool" where
  "fle x y = (flt x y \<or> feq x y)"

definition fzero :: pyfloat where "fzero = Fin False 0 (- 1074)"

definition fone :: pyfloat where "fone = Fin False (2 ^ 52) (- 52)"

text \<open>\<open>sum(xs)\<close> starts from the integer 0 and adds from the left; \<open>max\<close>/\<open>min\<close> of a non-empty list.\<close>

definition fsum :: "pyfloat list \<Rightarrow> pyfloat" where
  "fsum xs = foldl fadd fzero xs"

fun fmaximum :: "pyfloat \<Rightarrow> pyfloat list \<Rightarrow> pyfloat" where
  "fmaximum x [] = x"
| "fmaximum x (y # ys) = fmaximum (if flt x y then y else x) ys"

fun fminimum :: "pyfloat \<Rightarrow> pyfloat list \<Rightarrow> pyfloat" where
  "fminimum x [] = x"
| "fminimum x (y # ys) = fminimum (if flt y x then y else x) ys"

lemmas float_defs [eval_simps] = flit_def round_ratio_def floor_log2_def div_half_even_def
  of_dyadic_def float_of_int_def align_def signed_def fsub_def fle_def fzero_def fone_def fsum_def
  is_fzero_def py_div_def

section \<open>Facts about rounding\<close>

lemma bit_len_bounds: "0 < n \<Longrightarrow> 2 ^ (bit_len n - 1) \<le> n \<and> n < 2 ^ bit_len n \<and> 0 < bit_len n"
proof (induction n rule: bit_len.induct)
  case (1 n)
  show ?case
  proof (cases "n div 2 = 0")
    case True
    with "1.prems" have "n = 1" by simp
    then show ?thesis by (simp add: bit_len.simps)
  next
    case False
    with "1.IH" "1.prems" have
      ih: "2 ^ (bit_len (n div 2) - 1) \<le> n div 2" "n div 2 < 2 ^ bit_len (n div 2)"
        "0 < bit_len (n div 2)"
      by auto
    have "2 ^ bit_len (n div 2) = 2 * (2::nat) ^ (bit_len (n div 2) - 1)"
      using ih(3) by (simp flip: power_Suc)
    moreover have "bit_len n = Suc (bit_len (n div 2))"
      using "1.prems" by (simp add: bit_len.simps [of n])
    moreover have "2 * (n div 2) \<le> n" and "n < 2 * (n div 2) + 2" by simp_all
    ultimately have "2 ^ (bit_len n - 1) \<le> n" and "n < 2 ^ bit_len n" and "0 < bit_len n"
      using ih by (simp, linarith)+
    then show ?thesis by blast
  qed
qed

lemma scaled_less_iff:
  fixes p q :: nat
  shows "p * 2 ^ nat (- k) < q * 2 ^ nat k \<longleftrightarrow> (of_nat p :: rat) < 2 powi k * of_nat q"
proof (cases "0 \<le> k")
  case True
  have "p < q * 2 ^ nat k \<longleftrightarrow> (of_nat p :: rat) < of_nat (q * 2 ^ nat k)"
    by (simp only: of_nat_less_iff)
  with True show ?thesis by (simp add: power_int_def mult.commute)
next
  case False
  have "p * 2 ^ nat (- k) < q \<longleftrightarrow> (of_nat (p * 2 ^ nat (- k)) :: rat) < of_nat q"
    by (simp only: of_nat_less_iff)
  with False show ?thesis by (simp add: power_int_def field_simps)
qed

lemma floor_log2_bounds:
  assumes "0 < p" and "0 < q"
  shows "2 powi floor_log2 p q * of_nat q \<le> (of_nat p :: rat)"
    and "(of_nat p :: rat) < 2 powi (floor_log2 p q + 1) * of_nat q"
proof -
  define k where "k = int (bit_len p) - int (bit_len q)"
  note P = bit_len_bounds [OF assms(1)] and Q = bit_len_bounds [OF assms(2)]
  have pw: "(2::rat) powi (int a - int b) * 2 ^ b = 2 ^ a" for a b
    by (simp add: power_int_diff)
  have up: "(of_nat p :: rat) < 2 powi (k + 1) * of_nat q"
  proof -
    have "(of_nat p :: rat) < of_nat (2 ^ bit_len p)"
      using P by (simp only: of_nat_less_iff)
    also have "\<dots> = 2 powi (k + 1) * of_nat (2 ^ (bit_len q - 1))"
      using pw [of "bit_len p" "bit_len q - 1"] Q by (simp add: k_def algebra_simps of_nat_diff)
    also have "\<dots> \<le> 2 powi (k + 1) * of_nat q"
      using Q by (intro mult_left_mono) (simp_all only: of_nat_le_iff zero_le_power_int zero_le_numeral)
    finally show ?thesis .
  qed
  have lo: "2 powi (k - 1) * of_nat q \<le> (of_nat p :: rat)"
  proof -
    have "2 powi (k - 1) * of_nat q \<le> 2 powi (k - 1) * (of_nat (2 ^ bit_len q) :: rat)"
      using Q by (intro mult_left_mono)
        (simp_all only: of_nat_le_iff zero_le_power_int zero_le_numeral less_imp_le)
    also have "\<dots> = of_nat (2 ^ (bit_len p - 1))"
      using pw [of "bit_len p - 1" "bit_len q"] P by (simp add: k_def algebra_simps of_nat_diff)
    also have "\<dots> \<le> of_nat p" using P by (simp only: of_nat_le_iff)
    finally show ?thesis .
  qed
  have fl: "floor_log2 p q = (if (of_nat p :: rat) < 2 powi k * of_nat q then k - 1 else k)"
    by (simp only: floor_log2_def Let_def k_def [symmetric] scaled_less_iff)
  show "2 powi floor_log2 p q * of_nat q \<le> (of_nat p :: rat)"
    and "(of_nat p :: rat) < 2 powi (floor_log2 p q + 1) * of_nat q"
    using up lo by (auto simp: fl not_less)
qed

lemma floor_log2_unique:
  assumes "0 < p" and "0 < q"
    and "2 powi l * of_nat q \<le> (of_nat p :: rat)" and "(of_nat p :: rat) < 2 powi (l + 1) * of_nat q"
  shows "floor_log2 p q = l"
proof -
  have q: "(0 :: rat) < of_nat q" using assms(2) by simp
  have le: "a < b + 1" if "2 powi a * of_nat q \<le> (of_nat p :: rat)"
    and "(of_nat p :: rat) < 2 powi (b + 1) * of_nat q" for a b :: int
  proof -
    have "(2 :: rat) powi a * of_nat q < 2 powi (b + 1) * of_nat q"
      using that by (rule order.strict_trans1)
    then have "(2 :: rat) powi a < 2 powi (b + 1)" using q by (simp only: mult_less_cancel_right_pos)
    then show ?thesis by (metis linorder_not_less one_le_numeral power_int_increasing)
  qed
  from le [OF floor_log2_bounds(1) [OF assms(1,2)] assms(4)]
    le [OF assms(3) floor_log2_bounds(2) [OF assms(1,2)]]
  show ?thesis by simp
qed

lemma div_half_even_bounds: "a div b \<le> div_half_even a b \<and> div_half_even a b \<le> Suc (a div b)"
  by (simp add: div_half_even_def Let_def)

lemma div_half_even_exact [simp]: "0 < b \<Longrightarrow> div_half_even (a * b) b = a"
  by (simp add: div_half_even_def Let_def)

text \<open>The rounded integer is within half a unit of the quotient.\<close>

lemma div_half_even_half_unit:
  assumes "0 < b"
  shows "2 * a \<le> (2 * div_half_even a b + 1) * b" and "2 * (div_half_even a b * b) \<le> 2 * a + b"
proof -
  define q where "q = a div b"
  define r where "r = a mod b"
  have a: "a = q * b + r" and r: "r < b" using assms by (simp_all add: q_def r_def)
  define d where "d = div_half_even a b"
  have d: "d = (if 2 * r < b then q else if b < 2 * r then Suc q
      else if even q then q else Suc q)"
    by (simp add: d_def div_half_even_def q_def r_def Let_def)
  have "2 * (q * b + r) \<le> (2 * d + 1) * b" and "2 * (d * b) \<le> 2 * (q * b + r) + b"
    using r by (auto simp: d algebra_simps)
  then show "2 * a \<le> (2 * div_half_even a b + 1) * b" and "2 * (div_half_even a b * b) \<le> 2 * a + b"
    by (simp_all only: a [symmetric] d_def)
qed

definition ratio_exp :: "nat \<Rightarrow> nat \<Rightarrow> int" where
  "ratio_exp p q = max (- 1074) (floor_log2 p q - 52)"

definition ratio_mant :: "nat \<Rightarrow> nat \<Rightarrow> nat" where
  "ratio_mant p q = div_half_even (p * 2 ^ nat (- ratio_exp p q)) (q * 2 ^ nat (ratio_exp p q))"

lemma round_ratio_eq:
  "round_ratio s p q =
     (if p = 0 then Fin s 0 (- 1074)
      else if ratio_mant p q = 2 ^ 53
        then (if 971 < ratio_exp p q + 1 then Inf s else Fin s (2 ^ 52) (ratio_exp p q + 1))
      else if 971 < ratio_exp p q then Inf s else Fin s (ratio_mant p q) (ratio_exp p q))"
  by (simp only: round_ratio_def ratio_mant_def ratio_exp_def Let_def)

lemma scaled_div_bounds:
  assumes "0 < q"
  shows "a \<le> p * 2 ^ nat (- k) div (q * 2 ^ nat k) \<longleftrightarrow> of_nat a * 2 powi k * of_nat q \<le> (of_nat p :: rat)"
proof -
  have "a \<le> p * 2 ^ nat (- k) div (q * 2 ^ nat k) \<longleftrightarrow> a * (q * 2 ^ nat k) \<le> p * 2 ^ nat (- k)"
    using assms by (simp add: less_eq_div_iff_mult_less_eq)
  also have "\<dots> \<longleftrightarrow> \<not> p * 2 ^ nat (- k) < a * q * 2 ^ nat k"
    by (simp add: not_less mult.assoc)
  also have "\<dots> \<longleftrightarrow> of_nat a * 2 powi k * of_nat q \<le> (of_nat p :: rat)"
    unfolding scaled_less_iff not_less of_nat_mult by (simp only: ac_simps)
  finally show ?thesis .
qed

lemma ratio_mant_bounds:
  assumes "0 < p" and "0 < q"
  shows "ratio_mant p q \<le> 2 ^ 53"
    and "- 1074 < ratio_exp p q \<Longrightarrow> 2 ^ 52 \<le> ratio_mant p q"
proof -
  define e where "e = ratio_exp p q"
  define d where "d = p * 2 ^ nat (- e) div (q * 2 ^ nat e)"
  have m: "d \<le> ratio_mant p q" "ratio_mant p q \<le> Suc d"
    using div_half_even_bounds unfolding ratio_mant_def d_def e_def by blast+
  have e: "floor_log2 p q + 1 \<le> e + 53" by (simp add: e_def ratio_exp_def)
  have "(of_nat p :: rat) < 2 powi (floor_log2 p q + 1) * of_nat q"
    using assms by (rule floor_log2_bounds)
  also have "\<dots> \<le> 2 powi (e + 53) * of_nat q"
    using e by (intro mult_right_mono power_int_increasing) auto
  finally have "\<not> of_nat (2 ^ 53) * 2 powi e * of_nat q \<le> (of_nat p :: rat)"
    by (simp add: power_int_add not_le ac_simps)
  then have "\<not> 2 ^ 53 \<le> d"
    unfolding d_def scaled_div_bounds [OF assms(2)] .
  then show "ratio_mant p q \<le> 2 ^ 53" using m by simp
  show "2 ^ 52 \<le> ratio_mant p q" if "- 1074 < ratio_exp p q"
  proof -
    have "floor_log2 p q = e + 52" using that by (simp add: e_def ratio_exp_def max_def split: if_splits)
    then have "2 powi (e + 52) * of_nat q \<le> (of_nat p :: rat)"
      using floor_log2_bounds(1) [OF assms] by simp
    then have "of_nat (2 ^ 52) * 2 powi e * of_nat q \<le> (of_nat p :: rat)"
      by (simp add: power_int_add ac_simps)
    then have "2 ^ 52 \<le> d"
      using scaled_div_bounds [OF assms(2), of "2 ^ 52" p e] by (simp only: d_def)
    with m show ?thesis by simp
  qed
qed

text \<open>Rounding gives a float in normal form, of the sign asked for, and never a NaN.\<close>

lemma canonical_round_ratio: "0 < q \<Longrightarrow> canonical (round_ratio s p q)"
proof -
  have "- 1074 = ratio_exp p q \<or> - 1074 < ratio_exp p q" by (auto simp: ratio_exp_def)
  then show ?thesis if "0 < q"
    using ratio_mant_bounds [of p q] that by (cases "p = 0") (auto simp: round_ratio_eq canonical_def)
qed

lemma round_ratio_sign:
  "round_ratio s p q = Fin t m e \<Longrightarrow> t = s"
  "round_ratio s p q = Inf t \<Longrightarrow> t = s"
  "round_ratio s p q \<noteq> NaN"
  by (auto simp: round_ratio_eq split: if_splits)

lemma round_ratio_zero [simp]: "round_ratio s 0 q = Fin s 0 (- 1074)"
  by (simp add: round_ratio_def)

text \<open>A value that already is a float is not changed by rounding.\<close>

lemma ratio_exp_canonical:
  assumes "canonical (Fin s m e)" and "m \<noteq> 0"
  shows "ratio_exp (m * 2 ^ nat e) (2 ^ nat (- e)) = e"
proof -
  let ?p = "m * 2 ^ nat e" and ?q = "2 ^ nat (- e) :: nat"
  have val: "(of_nat ?p :: rat) = of_nat m * 2 powi e * of_nat ?q"
    by (simp add: power_int_def power_one_over)
  have pos: "0 < ?p" "0 < ?q" using assms(2) by simp_all
  show ?thesis
  proof (cases "2 ^ 52 \<le> m")
    case True
    with assms have m: "m < 2 ^ 53" and e: "- 1074 \<le> e" by (auto simp: canonical_def)
    have "(2 ^ 52 :: rat) \<le> of_nat m" "(of_nat m :: rat) < 2 ^ 53"
      using True m by (simp_all flip: of_nat_less_iff of_nat_le_iff)
    then have "2 powi (e + 52) * of_nat ?q \<le> (of_nat ?p :: rat)"
      and "(of_nat ?p :: rat) < 2 powi (e + 52 + 1) * of_nat ?q"
      unfolding val by (auto simp: power_int_add mult.commute intro!: mult_right_mono mult_strict_right_mono)
    then have "floor_log2 ?p ?q = e + 52" by (rule floor_log2_unique [OF pos])
    with e show ?thesis by (simp add: ratio_exp_def)
  next
    case False
    with assms have m: "m < 2 ^ 52" and e: "e = - 1074" by (auto simp: canonical_def)
    have "(of_nat m :: rat) < 2 ^ 52" using m by (simp flip: of_nat_less_iff)
    then have lt: "(of_nat ?p :: rat) < 2 powi (e + 52) * of_nat ?q"
      unfolding val by (auto simp: power_int_add mult.commute intro!: mult_strict_right_mono)
    have "floor_log2 ?p ?q < e + 52"
    proof (rule ccontr)
      assume "\<not> floor_log2 ?p ?q < e + 52"
      then have "(2 :: rat) powi (e + 52) * of_nat ?q \<le> 2 powi floor_log2 ?p ?q * of_nat ?q"
        by (intro mult_right_mono power_int_increasing) auto
      also have "\<dots> \<le> of_nat ?p" by (rule floor_log2_bounds [OF pos])
      finally show False using lt by simp
    qed
    with e show ?thesis by (simp add: ratio_exp_def)
  qed
qed

lemma of_dyadic_canonical:
  assumes "canonical (Fin s m e)"
  shows "of_dyadic s m e = Fin s m e"
proof (cases "m = 0")
  case True
  with assms show ?thesis by (auto simp: canonical_def of_dyadic_def)
next
  case False
  let ?p = "m * 2 ^ nat e" and ?q = "2 ^ nat (- e) :: nat"
  have pos: "0 < ?p" "0 < ?q" using False by simp_all
  note ex = ratio_exp_canonical [OF assms False]
  have "?p * 2 ^ nat (- e) = m * (?q * 2 ^ nat e)" by simp
  then have mant: "ratio_mant ?p ?q = m"
    unfolding ratio_mant_def ex by (metis div_half_even_exact mult_pos_pos pos(2) zero_less_numeral zero_less_power)
  show ?thesis
    using assms False unfolding of_dyadic_def round_ratio_eq ex mant
    by (auto simp: canonical_def)
qed

lemma canonical_of_dyadic: "canonical (of_dyadic s m e)"
  by (simp add: of_dyadic_def canonical_round_ratio)

lemma canonical_flit [simp]: "canonical (flit n d)"
  by (simp add: flit_def canonical_round_ratio)

lemma canonical_float_of_int [simp]: "canonical (float_of_int i)"
  by (simp add: float_of_int_def canonical_round_ratio)

lemma canonical_fzero [simp]: "canonical fzero" and canonical_fone [simp]: "canonical fone"
  by (simp_all add: canonical_def fzero_def fone_def)

lemma canonical_fneg [simp]: "canonical (fneg x) = canonical x"
  by (cases x) (simp_all add: canonical_def)

lemma canonical_fadd [simp]: "canonical (fadd x y)"
  by (induction x y rule: fadd.induct)
    (auto simp: Let_def canonical_of_dyadic, simp_all add: canonical_def)

lemma canonical_fmul [simp]: "canonical (fmul x y)"
  by (induction x y rule: fmul.induct) (auto simp: canonical_of_dyadic, simp_all add: canonical_def)

lemma canonical_fdiv [simp]: "canonical (fdiv x y)"
  by (induction x y rule: fdiv.induct)
    (auto simp: canonical_round_ratio, simp_all add: canonical_def)

section \<open>Facts about comparison\<close>

lemma align_value:
  assumes "e0 \<le> e"
  shows "(of_int (align s m e e0) :: rat) * 2 powi e0 = of_int (signed s m) * 2 powi e"
proof -
  have "(2 :: rat) ^ nat (e - e0) * 2 powi e0 = 2 powi e"
    using assms by (simp flip: power_int_of_nat power_int_add)
  then show ?thesis by (simp add: align_def mult.assoc)
qed

lemma flt_Fin: "flt (Fin s1 m1 e1) (Fin s2 m2 e2) \<longleftrightarrow> fval (Fin s1 m1 e1) < fval (Fin s2 m2 e2)"
proof -
  let ?e = "min e1 e2"
  let ?a = "align s1 m1 e1 ?e" and ?b = "align s2 m2 e2 ?e"
  have "?a < ?b \<longleftrightarrow> (of_int ?a :: rat) * 2 powi ?e < of_int ?b * 2 powi ?e"
    by simp
  then show ?thesis by (simp add: align_value fval_def Let_def)
qed

lemma feq_Fin: "feq (Fin s1 m1 e1) (Fin s2 m2 e2) \<longleftrightarrow> fval (Fin s1 m1 e1) = fval (Fin s2 m2 e2)"
proof -
  let ?e = "min e1 e2"
  let ?a = "align s1 m1 e1 ?e" and ?b = "align s2 m2 e2 ?e"
  have "?a = ?b \<longleftrightarrow> (of_int ?a :: rat) * 2 powi ?e = of_int ?b * 2 powi ?e"
    by simp
  then show ?thesis by (simp add: align_value fval_def Let_def)
qed

lemma flt_fval: "is_finite x \<Longrightarrow> is_finite y \<Longrightarrow> flt x y \<longleftrightarrow> fval x < fval y"
  and feq_fval: "is_finite x \<Longrightarrow> is_finite y \<Longrightarrow> feq x y \<longleftrightarrow> fval x = fval y"
  and fle_fval: "is_finite x \<Longrightarrow> is_finite y \<Longrightarrow> fle x y \<longleftrightarrow> fval x \<le> fval y"
  by (cases x; cases y; auto simp only: flt_Fin feq_Fin fle_def is_finite.simps)+

lemmas cmp_fval = flt_fval feq_fval fle_fval

lemma fval_neg [simp]: "fval (fneg x) = - fval x"
  by (cases x) (simp_all add: fval_def signed_def)

lemma is_finite_fneg [simp]: "is_finite (fneg x) = is_finite x"
  by (cases x) simp_all

lemma powi_2_not_neg [simp]: "\<not> (2 :: rat) powi e < 0"
  by (simp add: not_less)

lemma fval_sign:
  "fval (Fin s m e) < 0 \<longleftrightarrow> s \<and> 0 < m"
  "0 < fval (Fin s m e) \<longleftrightarrow> \<not> s \<and> 0 < m"
  "fval (Fin s m e) = 0 \<longleftrightarrow> m = 0"
  by (auto simp: fval_def signed_def zero_less_mult_iff mult_less_0_iff)

lemma fval_fzero [simp]: "fval fzero = 0" "is_finite fzero"
  by (simp_all add: fval_def fzero_def signed_def)

lemma fval_fone [simp]: "fval fone = 1" "is_finite fone"
  by (simp_all add: fval_def fone_def signed_def power_int_minus)

text \<open>
  The sign of a rounded difference and quotient is the sign of the exact one; this is
  all the classification of latency deltas rests on.
\<close>

fun fsign :: "pyfloat \<Rightarrow> bool" where
  "fsign (Fin s m e) = s"
| "fsign (Inf s) = s"
| "fsign NaN = False"

text \<open>Neither a zero nor a NaN.\<close>

fun fnonzero :: "pyfloat \<Rightarrow> bool" where
  "fnonzero (Fin s m e) = (0 < m)"
| "fnonzero (Inf s) = True"
| "fnonzero NaN = False"

lemma round_ratio_fsign [simp]: "fsign (round_ratio s p q) = s"
  by (simp add: round_ratio_eq)

lemma fadd_sign:
  assumes "is_finite x" and "is_finite y" and "fnonzero (fadd x y)"
  shows "fsign (fadd x y) \<longleftrightarrow> fval x + fval y < 0" and "fval x + fval y \<noteq> 0"
proof -
  obtain s1 m1 e1 s2 m2 e2 where xy: "x = Fin s1 m1 e1" "y = Fin s2 m2 e2"
    using assms(1,2) by (cases x; cases y) auto
  let ?e = "min e1 e2"
  let ?v = "align s1 m1 e1 ?e + align s2 m2 e2 ?e"
  have v: "fval x + fval y = of_int ?v * 2 powi ?e"
    by (simp add: xy fval_def align_value distrib_right)
  have pw: "(0 :: rat) < 2 powi ?e" by simp
  have ne: "?v \<noteq> 0" using assms(3) by (auto simp: xy Let_def)
  then have "fsign (fadd x y) \<longleftrightarrow> ?v < 0"
    by (simp add: xy Let_def of_dyadic_def)
  then show "fsign (fadd x y) \<longleftrightarrow> fval x + fval y < 0" and "fval x + fval y \<noteq> 0"
    using ne pw unfolding v by (auto simp: mult_less_0_iff)
qed

lemma fsub_sign:
  assumes "is_finite x" and "is_finite y" and "fnonzero (fsub x y)"
  shows "fsign (fsub x y) \<longleftrightarrow> flt x y" and "\<not> feq x y"
  using fadd_sign [of x "fneg y"] assms by (simp_all add: fsub_def cmp_fval)

lemma fnonzero_round_ratio: "fnonzero (round_ratio s p q) \<Longrightarrow> 0 < p"
  by (cases "p = 0") simp_all

lemma fdiv_sign:
  assumes "is_finite y" and "fnonzero (fdiv x y)"
  shows "fsign (fdiv x y) = (fsign x \<noteq> fsign y)" and "fnonzero x"
proof -
  obtain s2 m2 e2 where y: "y = Fin s2 m2 e2" using assms(1) by (cases y) auto
  show "fsign (fdiv x y) = (fsign x \<noteq> fsign y)"
    using assms(2) by (cases x) (auto simp: y split: if_splits)
  show "fnonzero x"
    using assms(2) by (cases x) (auto simp: y split: if_splits dest: fnonzero_round_ratio)
qed

lemma flt_sign_neg:
  assumes "flt x y" and "is_finite y" and "fval y \<le> 0"
  shows "fnonzero x" and "fsign x"
proof -
  obtain s2 m2 e2 where y: "y = Fin s2 m2 e2" using assms(2) by (cases y) auto
  have "fnonzero x \<and> fsign x"
  proof (cases x)
    case (Fin s m e)
    with assms y have "fval (Fin s m e) < 0"
      by (metis flt_Fin order.strict_trans2)
    then show ?thesis by (simp add: Fin fval_sign)
  qed (use assms y in auto)
  then show "fnonzero x" and "fsign x" by simp_all
qed

lemma flt_sign_pos:
  assumes "flt x y" and "is_finite x" and "0 \<le> fval x"
  shows "fnonzero y" and "\<not> fsign y"
proof -
  obtain s1 m1 e1 where x: "x = Fin s1 m1 e1" using assms(2) by (cases x) auto
  have "fnonzero y \<and> \<not> fsign y"
  proof (cases y)
    case (Fin s m e)
    with assms x have "0 < fval (Fin s m e)"
      by (metis flt_Fin order.strict_trans1)
    then show ?thesis by (simp add: Fin fval_sign)
  qed (use assms x in auto)
  then show "fnonzero y" and "\<not> fsign y" by simp_all
qed

end
