(* ===== verification/PyText.thy ===== *)
theory PyText
  imports PyFloat
begin

text \<open>
  The text side of Python numbers: the constructors \<open>int(text)\<close> and \<open>float(text)\<close>, the
  formats \<open>:g\<close>, \<open>:.Nf\<close> and \<open>repr\<close>, and \<open>round\<close>, \<open>math.ceil\<close> and \<open>math.isfinite\<close>.
  Digits other than the ASCII ones are outside the model's code points.
\<close>

section \<open>Parsing\<close>

text \<open>
  Underscores may group digits: each one stands between two digits. The check runs over
  the text with the previous character in hand.
\<close>

fun underscores_ok :: "char \<Rightarrow> string \<Rightarrow> bool" where
  "underscores_ok p [] = (p \<noteq> CHR ''_'')"
| "underscores_ok p (c # cs) =
     ((if c = CHR ''_'' then is_digit p else if p = CHR ''_'' then is_digit c else True)
      \<and> underscores_ok c cs)"

definition drop_underscores :: "string \<Rightarrow> string" where
  "drop_underscores s = filter (\<lambda>c. c \<noteq> CHR ''_'') s"

definition split_sign :: "string \<Rightarrow> bool \<times> string" where
  "split_sign s = (case s of [] \<Rightarrow> (False, [])
     | c # cs \<Rightarrow> if c = CHR ''-'' then (True, cs) else if c = CHR ''+'' then (False, cs) else (False, s))"

definition all_digits :: "string \<Rightarrow> bool" where
  "all_digits s = (s \<noteq> [] \<and> list_all is_digit s)"

text \<open>\<open>int(text)\<close>; \<^const>\<open>None\<close> is the \<open>ValueError\<close>, also past the 4300 digit limit.\<close>

definition py_int :: "string \<Rightarrow> int option" where
  "py_int text =
     (let (neg, body) = split_sign (str_strip text); ds = drop_underscores body
      in if underscores_ok (CHR 0x00) body \<and> all_digits ds \<and> length ds \<le> 4300
         then Some (signed neg (digits_val ds)) else None)"

definition lower_char :: "char \<Rightarrow> char" where
  "lower_char c =
     (let n = (of_char c :: nat)
      in if (65 \<le> n \<and> n \<le> 90) \<or> (192 \<le> n \<and> n \<le> 222 \<and> n \<noteq> 215) then char_of (n + 32) else c)"

definition str_lower :: "string \<Rightarrow> string" where
  "str_lower s = map lower_char s"

text \<open>The exponent part \<open>e[+-]digits\<close>, empty for none.\<close>

definition parse_exponent :: "string \<Rightarrow> int option" where
  "parse_exponent s =
     (case s of [] \<Rightarrow> Some 0
      | c # cs \<Rightarrow> let (neg, ds) = split_sign cs
          in if (c = CHR ''e'' \<or> c = CHR ''E'') \<and> all_digits ds
             then Some (signed neg (digits_val ds)) else None)"

definition decimal_float :: "bool \<Rightarrow> nat \<Rightarrow> int \<Rightarrow> pyfloat" where
  "decimal_float neg n x = round_ratio neg (n * 10 ^ nat x) (10 ^ nat (- x))"

definition parse_decimal :: "bool \<Rightarrow> string \<Rightarrow> pyfloat option" where
  "parse_decimal neg s =
     (let ip = takeWhile is_digit s; r1 = dropWhile is_digit s;
          (fp, r2) = (case r1 of [] \<Rightarrow> ([], [])
             | c # cs \<Rightarrow> if c = CHR ''.'' then (takeWhile is_digit cs, dropWhile is_digit cs) else ([], r1))
      in if ip = [] \<and> fp = [] then None
         else map_option (\<lambda>x. decimal_float neg (digits_val (ip @ fp)) (x - int (length fp)))
                (parse_exponent r2))"

text \<open>\<open>float(text)\<close>; \<^const>\<open>None\<close> is the \<open>ValueError\<close>.\<close>

definition py_float :: "string \<Rightarrow> pyfloat option" where
  "py_float text =
     (let stripped = str_strip text
      in if \<not> underscores_ok (CHR 0x00) stripped then None
         else let (neg, body) = split_sign (drop_underscores stripped); low = str_lower body
           in if low = ''inf'' \<or> low = ''infinity'' then Some (Inf neg)
              else if low = ''nan'' then Some NaN
              else parse_decimal neg body)"

section \<open>Integers from floats\<close>

text \<open>\<open>round(x)\<close> to the nearest integer, ties to even, and \<open>math.ceil(x)\<close>.\<close>

definition py_round :: "pyfloat \<Rightarrow> int res" where
  "py_round x = (case x of
     Fin s m e \<Rightarrow> Inr (signed s (div_half_even (m * 2 ^ nat e) (2 ^ nat (- e))))
   | Inf s \<Rightarrow> Inl OverflowError | NaN \<Rightarrow> Inl ValueError)"

definition py_ceil :: "pyfloat \<Rightarrow> int res" where
  "py_ceil x = (case x of
     Fin s m e \<Rightarrow> Inr (- ((- signed s m * 2 ^ nat e) div 2 ^ nat (- e)))
   | Inf s \<Rightarrow> Inl OverflowError | NaN \<Rightarrow> Inl ValueError)"

section \<open>Formatting\<close>

text \<open>The exact value of a finite float as a ratio of naturals.\<close>

definition ratio_of :: "nat \<Rightarrow> int \<Rightarrow> nat \<times> nat" where
  "ratio_of m e = (m * 2 ^ nat e, 2 ^ nat (- e))"

definition sign_str :: "bool \<Rightarrow> string" where
  "sign_str s = (if s then ''-'' else [])"

text \<open>The decimal logarithm of \<open>p / q\<close> rounded down.\<close>

definition floor_log10 :: "nat \<Rightarrow> nat \<Rightarrow> int" where
  "floor_log10 p q =
     (let k = int (length (show_nat p)) - int (length (show_nat q))
      in if p * 10 ^ nat (- k) < q * 10 ^ nat k then k - 1 else k)"

text \<open>
  \<open>k\<close> significant digits of \<open>p / q > 0\<close>: the digit string and the exponent of its first
  digit. Rounding up to one more digit moves the exponent.
\<close>

definition sig_digits :: "nat \<Rightarrow> nat \<Rightarrow> nat \<Rightarrow> string \<times> int" where
  "sig_digits k p q =
     (let x = floor_log10 p q; sh = int k - 1 - x;
          n = div_half_even (p * 10 ^ nat sh) (q * 10 ^ nat (- sh))
      in if n = 10 ^ k then (show_nat (10 ^ (k - 1)), x + 1) else (show_nat n, x))"

definition strip_zeros :: "string \<Rightarrow> string" where
  "strip_zeros s = rev (dropWhile (\<lambda>c. c = CHR ''0'') (rev s))"

definition with_fraction :: "string \<Rightarrow> string \<Rightarrow> string" where
  "with_fraction ip fp = (if fp = [] then ip else ip @ ''.'' @ fp)"

definition exp_str :: "int \<Rightarrow> string" where
  "exp_str x = (let ds = show_nat (nat \<bar>x\<bar>)
     in ''e'' @ (if x < 0 then ''-'' else ''+'') @ (if length ds < 2 then ''0'' @ ds else ds))"

text \<open>Digits \<open>ds\<close> with the decimal point after the digit of weight \<open>10^0\<close>; \<open>x\<close> is the first weight.\<close>

definition fixed_digits :: "string \<Rightarrow> int \<Rightarrow> string \<times> string" where
  "fixed_digits ds x =
     (if x < 0 then (''0'', replicate (nat (- x) - 1) (CHR ''0'') @ ds)
      else (take (nat x + 1) ds @ replicate (nat x + 1 - length ds) (CHR ''0''), drop (nat x + 1) ds))"

text \<open>\<open>f"{x:g}"\<close>: six significant digits, trailing zeros dropped.\<close>

definition fmt_g :: "pyfloat \<Rightarrow> string" where
  "fmt_g v = (case v of NaN \<Rightarrow> ''nan'' | Inf s \<Rightarrow> sign_str s @ ''inf''
   | Fin s m e \<Rightarrow>
      if m = 0 then sign_str s @ ''0''
      else let (p, q) = ratio_of m e; (ds, x) = sig_digits 6 p q
        in sign_str s @
           (if - 4 \<le> x \<and> x < 6
            then let (ip, fp) = fixed_digits ds x in with_fraction ip (strip_zeros fp)
            else with_fraction (take 1 ds) (strip_zeros (drop 1 ds)) @ exp_str x))"

text \<open>\<open>f"{x:.Nf}"\<close> and \<open>f"{x:+.Nf}"\<close>.\<close>

definition fmt_f_abs :: "nat \<Rightarrow> nat \<Rightarrow> int \<Rightarrow> string" where
  "fmt_f_abs d m e =
     (let (p, q) = ratio_of m e; n = div_half_even (p * 10 ^ d) q;
          fp = show_nat (n mod 10 ^ d)
      in show_nat (n div 10 ^ d) @
         (if d = 0 then [] else ''.'' @ replicate (d - length fp) (CHR ''0'') @ fp))"

definition fmt_f :: "nat \<Rightarrow> pyfloat \<Rightarrow> string" where
  "fmt_f d v = (case v of NaN \<Rightarrow> ''nan'' | Inf s \<Rightarrow> sign_str s @ ''inf''
   | Fin s m e \<Rightarrow> sign_str s @ fmt_f_abs d m e)"

definition fmt_f_signed :: "nat \<Rightarrow> pyfloat \<Rightarrow> string" where
  "fmt_f_signed d v = (case v of NaN \<Rightarrow> ''+nan'' | Inf s \<Rightarrow> (if s then ''-'' else ''+'') @ ''inf''
   | Fin s m e \<Rightarrow> (if s then ''-'' else ''+'') @ fmt_f_abs d m e)"

text \<open>
  \<open>repr(x)\<close>: the shortest digit string that reads back as \<open>x\<close>. For \<open>k\<close> digits the two
  neighbouring decimals are tried, the nearer one first. 17 digits always suffice, so the
  first equation, the exact decimal value, only makes the function total.
\<close>

definition repr_candidates :: "nat \<Rightarrow> nat \<Rightarrow> nat \<Rightarrow> (nat \<times> int) list" where
  "repr_candidates k p q =
     (let x = floor_log10 p q; sh = int k - 1 - x;
          a = p * 10 ^ nat sh; b = q * 10 ^ nat (- sh); n = div_half_even a b;
          lo = a div b
      in [(n, - sh), (if n = lo then (Suc lo, - sh) else (lo, - sh))])"

fun shortest_repr :: "nat list \<Rightarrow> nat \<Rightarrow> int \<Rightarrow> nat \<times> int" where
  "shortest_repr [] m e = (m * (if 0 \<le> e then 2 ^ nat e else 5 ^ nat (- e)), min 0 e)"
| "shortest_repr (k # ks) m e =
     (let (p, q) = ratio_of m e
      in case filter (\<lambda>(n, x). decimal_float False n x = Fin False m e) (repr_candidates k p q) of
           [] \<Rightarrow> shortest_repr ks m e | c # _ \<Rightarrow> c)"

definition py_repr :: "pyfloat \<Rightarrow> string" where
  "py_repr v = (case v of NaN \<Rightarrow> ''nan'' | Inf s \<Rightarrow> sign_str s @ ''inf''
   | Fin s m e \<Rightarrow>
      if m = 0 then sign_str s @ ''0.0''
      else let (n, sh) = shortest_repr [1..<18] m e; all = show_nat n;
               x = sh + int (length all) - 1; ds = strip_zeros all
        in sign_str s @
           (if - 4 \<le> x \<and> x < 16
            then let (ip, fp) = fixed_digits ds x in ip @ ''.'' @ (if fp = [] then ''0'' else fp)
            else with_fraction (take 1 ds) (drop 1 ds) @ exp_str x))"

text \<open>
  Counting the digits of a number by comparing it with powers of ten, for evaluation:
  dividing by ten again and again is much slower.
\<close>

definition decimal_length :: "nat \<Rightarrow> nat" where "decimal_length n = length (show_nat n)"

lemma decimal_length_le: "0 < k \<Longrightarrow> decimal_length n \<le> k \<longleftrightarrow> n < 10 ^ k"
proof (induction n arbitrary: k rule: show_nat.induct)
  case (1 n)
  show ?case
  proof (cases "n < 10")
    case True
    have "(10::nat) \<le> 10 ^ k" using 1(2) by (cases k) simp_all
    then show ?thesis using True 1(2) by (simp add: decimal_length_def show_nat.simps [of n])
  next
    case False
    then have len: "decimal_length n = Suc (decimal_length (n div 10))"
      by (simp add: decimal_length_def show_nat.simps [of n])
    show ?thesis
    proof (cases "k = 1")
      case True
      then show ?thesis using False by (simp add: len) (simp add: decimal_length_def)
    next
      case other: False
      then obtain j where j: "k = Suc j" "0 < j" using 1(2) by (cases k) auto
      have "decimal_length (n div 10) \<le> j \<longleftrightarrow> n div 10 < 10 ^ j" using 1(1) [OF False j(2)] .
      also have "\<dots> \<longleftrightarrow> n < 10 ^ k" by (simp add: j(1) div_less_iff_less_mult mult.commute)
      finally show ?thesis by (simp add: len j(1))
    qed
  qed
qed

primrec decimal_scan :: "nat \<Rightarrow> nat \<Rightarrow> nat \<Rightarrow> nat" where
  "decimal_scan 0 n k = decimal_length n"
| "decimal_scan (Suc f) n k = (if n < 10 ^ k then k else decimal_scan f n (k + 1))"

lemma decimal_scan_length: "0 < k \<Longrightarrow> k = 1 \<or> 10 ^ (k - 1) \<le> n \<Longrightarrow> decimal_scan f n k = decimal_length n"
proof (induction f arbitrary: k)
  case (Suc f)
  have "0 < decimal_length n" by (simp add: decimal_length_def)
  then have "decimal_length n = k" if "n < 10 ^ k"
    using that Suc.prems decimal_length_le [of k n] decimal_length_le [of "k - 1" n] by (cases "k = 1") auto
  then show ?case using Suc.IH [of "k + 1"] by (simp add: not_less)
qed simp

lemma decimal_scan_eval [eval_simps]:
  "decimal_length 0 = 1" "decimal_length (Suc 0) = 1" "decimal_length 1 = 1"
  "decimal_length (numeral m) = decimal_scan 24 (numeral m) 1"
  "decimal_scan (numeral f) (numeral m) k =
     (if (numeral m :: nat) < 10 ^ k then k else decimal_scan (pred_numeral f) (numeral m) (k + 1))"
proof -
  show "decimal_length 0 = 1" "decimal_length (Suc 0) = 1" "decimal_length 1 = 1"
    by (simp_all add: decimal_length_def show_nat_eval)
  show "decimal_length (numeral m) = decimal_scan 24 (numeral m) 1"
    by (rule decimal_scan_length [symmetric]) simp_all
  show "decimal_scan (numeral f) (numeral m) k =
     (if (numeral m :: nat) < 10 ^ k then k else decimal_scan (pred_numeral f) (numeral m) (k + 1))"
    by (simp only: numeral_eq_Suc [of f] decimal_scan.simps)
qed

lemma floor_log10_eval:
  "floor_log10 p q =
     (let k = int (decimal_length p) - int (decimal_length q)
      in if p * 10 ^ nat (- k) < q * 10 ^ nat k then k - 1 else k)"
  by (simp add: floor_log10_def decimal_length_def)

text \<open>The same for \<open>:g\<close>: the digits are computed before anything is done with them.\<close>

definition g_text :: "bool \<Rightarrow> string \<times> int \<Rightarrow> string" where
  "g_text s d = sign_str s @
     (if - 4 \<le> snd d \<and> snd d < 6
      then with_fraction (fst (fixed_digits (fst d) (snd d))) (strip_zeros (snd (fixed_digits (fst d) (snd d))))
      else with_fraction (take 1 (fst d)) (strip_zeros (drop 1 (fst d))) @ exp_str (snd d))"

lemma fmt_g_eval:
  "fmt_g NaN = ''nan''" "fmt_g (Inf s) = sign_str s @ ''inf''"
  "fmt_g (Fin s m e) = (if m = 0 then sign_str s @ ''0'' else g_text s (sig_digits 6 (m * 2 ^ nat e) (2 ^ nat (- e))))"
  by (simp_all add: fmt_g_def g_text_def ratio_of_def Let_def split: prod.split)

lemma g_text_eval:
  "g_text s (ds, x) = sign_str s @
     (if - 4 \<le> x \<and> x < 6 then with_fraction (fst (fixed_digits ds x)) (strip_zeros (snd (fixed_digits ds x)))
      else with_fraction (take 1 ds) (strip_zeros (drop 1 ds)) @ exp_str x)"
  by (simp add: g_text_def)

lemmas text_defs [eval_simps] = split_sign_def str_strip_def is_space_def drop_underscores_def
  all_digits_def is_digit_def digits_val_def digit_val_def py_int_def str_lower_def lower_char_def
  parse_exponent_def decimal_float_def parse_decimal_def py_float_def py_round_def py_ceil_def
  ratio_of_def sign_str_def floor_log10_eval sig_digits_def strip_zeros_def with_fraction_def
  exp_str_def fixed_digits_def fmt_g_eval g_text_eval fmt_f_abs_def fmt_f_def fmt_f_signed_def
  repr_candidates_def py_repr_def

end
