(* ===== verification/RunMatrixData.thy ===== *)
theory RunMatrixData
  imports PyText
begin

text \<open>
  The constants and dataclasses of \<^verbatim>\<open>scripts/run_matrix.py\<close> (lines 25 to 472): the policy
  tuples, the named-level tables, the contention weight profiles, the aggregate CSV
  schema, and the records of a preset and of one generated run. Tables are association
  lists in the source's order. A field of \<^verbatim>\<open>MatrixPreset\<close> keeps its name (\<^verbatim>\<open>name\<close> is
  \<open>preset_name\<close>); a field \<^verbatim>\<open>x\<close> of \<^verbatim>\<open>MatrixRun\<close> is \<open>run_x\<close>.
\<close>

section \<open>Policies and level tables\<close>

definition BASE_POLICIES :: "string list" where
  "BASE_POLICIES =
    [''always_remote'', ''lru'', ''hotness_only'', ''global_hottest_replication'',
     ''contention_aware'']"

definition CONTENTION_VARIANT_POLICIES :: "string list" where
  "CONTENTION_VARIANT_POLICIES =
    [''contention_aware_v1'', ''contention_aware_smoothed'',
     ''contention_aware_reuse_gated'', ''contention_aware_hysteresis'']"

definition PHASE_E_DEFAULT_POLICIES :: "string list" where
  "PHASE_E_DEFAULT_POLICIES =
    [''lru'', ''hotness_only'', ''hotness_only_cumulative'', ''hotness_only_windowed'',
     ''global_hottest_replication''] @
    CONTENTION_VARIANT_POLICIES"

definition EVAL_CONTENTION_CALIBRATION_POLICIES :: "string list" where
  "EVAL_CONTENTION_CALIBRATION_POLICIES =
    [''always_remote'', ''lru'']"

definition EVAL_POLICY_VIABILITY_POLICIES :: "string list" where
  "EVAL_POLICY_VIABILITY_POLICIES =
    [''lru'', ''hotness_only_windowed'', ''global_hottest_replication''] @
    CONTENTION_VARIANT_POLICIES"

definition EVAL_POLICY_ITERATION_POLICIES :: "string list" where
  "EVAL_POLICY_ITERATION_POLICIES =
    [''lru'', ''hotness_only_windowed'', ''contention_aware_smoothed'',
     ''contention_aware_smoothed_reuse_gated'',
     ''contention_aware_smoothed_reuse_gated_hysteresis'', ''contention_aware_size_value'']"

definition EVAL_FINAL_NODE_BANDWIDTH_POLICIES :: "string list" where
  "EVAL_FINAL_NODE_BANDWIDTH_POLICIES =
    [''lru'', ''hotness_only_windowed'', ''contention_aware_smoothed'',
     ''contention_aware_smoothed_reuse_gated_hysteresis'', ''contention_aware_size_value'']"

definition EVAL_INTERACTION_POLICIES :: "string list" where
  "EVAL_INTERACTION_POLICIES =
    [''lru'', ''hotness_only_windowed'', ''contention_aware_smoothed'',
     ''contention_aware_reuse_gated'', ''contention_aware_hysteresis'']"

definition EVAL_KNOB_POLICIES :: "string list" where
  "EVAL_KNOB_POLICIES =
    [''lru'', ''hotness_only_windowed'', ''contention_aware_smoothed'']"

definition EVAL_CONTENTION_WEIGHT_POLICIES :: "string list" where
  "EVAL_CONTENTION_WEIGHT_POLICIES =
    [''lru'', ''contention_aware_smoothed'']"

definition EVAL_CHANNEL_CALIBRATION_POLICIES :: "string list" where
  "EVAL_CHANNEL_CALIBRATION_POLICIES =
    [''always_remote'', ''lru'']"

definition EVAL_CHANNEL_HOTSPOT_POLICIES :: "string list" where
  "EVAL_CHANNEL_HOTSPOT_POLICIES =
    [''lru'', ''hotness_only_windowed'', ''contention_aware_smoothed'']"

definition EVAL_BURSTY_CALIBRATION_POLICIES :: "string list" where
  "EVAL_BURSTY_CALIBRATION_POLICIES =
    [''always_remote'', ''lru'']"

definition POLICIES :: "string list" where
  "POLICIES =
    BASE_POLICIES @
    [''hotness_only_cumulative'', ''hotness_only_windowed''] @
    CONTENTION_VARIANT_POLICIES @
    [''contention_aware_smoothed_reuse_gated'',
     ''contention_aware_smoothed_reuse_gated_hysteresis'', ''contention_aware_size_value'']"

definition MEMORY_BANDWIDTH_BYTES_PER_TIME_BY_LEVEL :: "(string \<times> int) list" where
  "MEMORY_BANDWIDTH_BYTES_PER_TIME_BY_LEVEL =
    [(''mild'', 64), (''moderate'', 16), (''severe'', 4)]"

definition MEMORY_BASE_LATENCY_BY_LEVEL :: "(string \<times> int) list" where
  "MEMORY_BASE_LATENCY_BY_LEVEL =
    [(''low'', 10), (''medium'', 25), (''high'', 75)]"

definition LINK_LATENCY_BY_LEVEL :: "(string \<times> int) list" where
  "LINK_LATENCY_BY_LEVEL =
    [(''low'', 2), (''medium'', 6), (''high'', 20)]"

definition RUN_NAME_ALIASES :: "(string \<times> string) list" where
  "RUN_NAME_ALIASES =
    [(''eval_final_contention_scaling'', ''final_scale''),
     (''eval_final_node_bandwidth'', ''final_node_bw''),
     (''eval_final_policy_iteration'', ''final_policy''),
     (''eval_policy_iteration'', ''policy_iter''),
     (''eval_interactions_churn_epoch'', ''int_churn_epoch''),
     (''eval_interactions_cache_hotset'', ''int_cache_hotset''),
     (''eval_interactions_node_bandwidth'', ''int_node_bw''),
     (''contention_aware_smoothed'', ''ca_smoothed''),
     (''contention_aware_smoothed_reuse_gated'', ''ca_srg''),
     (''contention_aware_smoothed_reuse_gated_hysteresis'', ''ca_srg_hyst''),
     (''contention_aware_size_value'', ''ca_size_value''),
     (''contention_aware_reuse_gated'', ''ca_reuse_gated''),
     (''contention_aware_hysteresis'', ''ca_hysteresis''),
     (''eval_knob_cache_pressure'', ''knob_cache''),
     (''eval_knob_epoch_reuse'', ''knob_epoch''),
     (''eval_knob_object_size_mix'', ''knob_size_mix''),
     (''eval_knob_hot_concentration'', ''knob_hotp''),
     (''eval_contention_weight_sensitivity'', ''weight_sensitivity''),
     (''eval_channel_calibration'', ''chcal''), (''eval_channel_hotspots'', ''chhot''),
     (''eval_bursty_calibration'', ''burstcal''), (''completion_driven'', ''comp''),
     (''scheduled_bursty'', ''burst'')]"

section \<open>Contention weight profiles\<close>

record ContentionWeightProfile =
  profile :: string
  weight_name :: string
  weight_value :: "pyfloat option"

definition NO_CONTENTION_WEIGHT_PROFILE :: ContentionWeightProfile where
  "NO_CONTENTION_WEIGHT_PROFILE = \<lparr>profile = [], weight_name = [], weight_value = None\<rparr>"

definition DEFAULT_CONTENTION_WEIGHTS :: "(string \<times> pyfloat) list" where
  "DEFAULT_CONTENTION_WEIGHTS =
    [(''local_hotness_weight'', flit 1 0), (''remote_access_weight'', flit 1 0),
     (''distinct_requester_weight'', flit 15 1), (''queue_wait_weight'', flit 2 0),
     (''remote_service_time_weight'', flit 1 0), (''size_penalty_weight'', flit 5 1),
     (''cost_density_weight'', flit 0 0)]"

definition CONTENTION_WEIGHT_NAME_TOKENS :: "(string \<times> string) list" where
  "CONTENTION_WEIGHT_NAME_TOKENS =
    [(''local_hotness_weight'', ''lh''), (''remote_access_weight'', ''ra''),
     (''distinct_requester_weight'', ''dr''), (''queue_wait_weight'', ''qw''),
     (''remote_service_time_weight'', ''rs''), (''size_penalty_weight'', ''sp''),
     (''cost_density_weight'', ''cd'')]"

definition CONTENTION_WEIGHT_SWEEPS :: "(string \<times> pyfloat list) list" where
  "CONTENTION_WEIGHT_SWEEPS =
    [(''local_hotness_weight'', [flit 0 0, flit 5 1, flit 1 0, flit 2 0]),
     (''remote_access_weight'', [flit 0 0, flit 5 1, flit 1 0, flit 2 0]),
     (''distinct_requester_weight'', [flit 0 0, flit 1 0, flit 15 1, flit 3 0]),
     (''queue_wait_weight'', [flit 0 0, flit 1 0, flit 2 0, flit 4 0]),
     (''remote_service_time_weight'', [flit 0 0, flit 5 1, flit 1 0, flit 2 0]),
     (''size_penalty_weight'', [flit 0 0, flit 25 2, flit 5 1, flit 1 0])]"

definition profile_value_token :: "pyfloat \<Rightarrow> string" where
  "profile_value_token value = str_replace (CHR ''.'') ''p'' (fmt_g value)"

definition CONTENTION_WEIGHT_PROFILES :: "ContentionWeightProfile list" where
  "CONTENTION_WEIGHT_PROFILES =
     [\<lparr>profile = the (map_of CONTENTION_WEIGHT_NAME_TOKENS w) @ ''-'' @ profile_value_token v,
       weight_name = w, weight_value = Some v\<rparr>.
      (w, vs) \<leftarrow> CONTENTION_WEIGHT_SWEEPS, v \<leftarrow> vs]"

section \<open>Aggregate columns\<close>

definition AGGREGATE_COLUMNS :: "string list" where
  "AGGREGATE_COLUMNS =
    [''status'', ''error'', ''preset'', ''experiment_name'', ''policy'',
     ''contention_weight_profile'', ''contention_weight_name'',
     ''contention_weight_value'', ''seed'', ''node_count'', ''compute_node_count'',
     ''epoch_count'', ''requests_per_node_per_epoch'', ''workload_issue_mode'',
     ''burst_size'', ''burst_interval'', ''intra_burst_gap'', ''node_phase_jitter'',
     ''hot_set_mode'', ''hot_set_churn_label'', ''hot_set_churn_fraction'',
     ''cross_node_overlap'', ''object_count'', ''hot_set_size'',
     ''hot_access_probability'', ''object_size_mode'', ''object_size_bytes'',
     ''object_size_small_bytes'', ''object_size_large_bytes'',
     ''large_object_probability'', ''cache_capacity_hotset_multiplier'',
     ''cache_capacity_bytes'', ''memory_channel_count'', ''hot_object_channel_count'',
     ''memory_bandwidth_level'', ''memory_bandwidth_bytes_per_time'',
     ''memory_base_latency_level'', ''memory_base_latency'', ''link_latency_level'',
     ''one_way_link_latency'', ''completed_requests'', ''mean_latency'',
     ''median_latency'', ''p95_latency'', ''p99_latency'', ''local_hit_rate'',
     ''local_hits'', ''local_misses'', ''average_memory_wait'', ''max_memory_wait'',
     ''peak_memory_queue_depth'', ''peak_memory_channel_queue_depth'',
     ''max_channel_total_queue_wait'', ''channel_queue_imbalance'',
     ''total_remote_accesses'', ''total_queue_wait'', ''total_remote_service_time'',
     ''max_observed_queue_depth'', ''per_node_mean_latency_min'',
     ''per_node_mean_latency_max'', ''per_node_mean_latency_spread'',
     ''per_node_p99_latency_max'', ''per_node_hit_rate_min'', ''per_node_hit_rate_max'',
     ''policy_admitted'', ''policy_rejected'', ''admission_yield'',
     ''reuse_after_admit_rate'', ''stale_telemetry_rate'', ''average_top_object_overlap'',
     ''estimated_avoided_remote_accesses'', ''estimated_avoided_queue_wait'',
     ''estimated_avoided_remote_service_time'', ''eviction_regret_count'',
     ''remote_eviction_regret_count'', ''jain_inverse_latency_fairness'', ''config_path'',
     ''output_dir'']"

section \<open>Presets and runs\<close>

record MatrixPreset =
  preset_name :: string
  memory_node_id :: int
  cache_hit_latency :: int
  compute_node_ids :: "int list"
  compute_node_count_values :: "int list"
  object_count_values :: "int list"
  object_size_bytes :: int
  object_size_small_bytes :: int
  object_size_large_bytes :: int
  large_object_probabilities :: "pyfloat list"
  cache_capacity_hotset_multipliers :: "pyfloat list"
  memory_bandwidth_levels :: "string list"
  memory_base_latency_levels :: "string list"
  link_latency_levels :: "string list"
  requests_per_node_per_epoch_values :: "int list"
  epoch_count_values :: "int list"
  hot_set_size_values :: "int list"
  hot_access_probabilities :: "pyfloat list"
  hot_set_mode :: string
  hot_set_churn_fractions :: "pyfloat list"
  cross_node_overlaps :: "string list"
  object_size_modes :: "string list"
  workload_issue_modes :: "string list"
  burst_sizes :: "int list"
  burst_intervals :: "int list"
  intra_burst_gaps :: "int list"
  node_phase_jitters :: "int list"
  memory_channel_counts :: "int list"
  hot_object_channel_counts :: "int list"

record MatrixRun =
  run_preset :: MatrixPreset
  run_policy :: string
  run_contention_weight_profile :: ContentionWeightProfile
  run_seed :: int
  run_compute_node_count :: int
  run_object_count :: int
  run_epoch_count :: int
  run_requests_per_node_per_epoch :: int
  run_workload_issue_mode :: string
  run_burst_size :: int
  run_burst_interval :: int
  run_intra_burst_gap :: int
  run_node_phase_jitter :: int
  run_hot_set_size :: int
  run_hot_access_probability :: pyfloat
  run_hot_set_churn_fraction :: pyfloat
  run_cross_node_overlap :: string
  run_object_size_mode :: string
  run_large_object_probability :: pyfloat
  run_cache_capacity_hotset_multiplier :: pyfloat
  run_memory_channel_count :: int
  run_hot_object_channel_count :: int
  run_memory_bandwidth_level :: string
  run_memory_base_latency_level :: string
  run_link_latency_level :: string
  run_run_name :: string
  run_config_path :: string
  run_output_dir :: string

lemmas policy_defs [eval_simps] = BASE_POLICIES_def CONTENTION_VARIANT_POLICIES_def
  PHASE_E_DEFAULT_POLICIES_def EVAL_CONTENTION_CALIBRATION_POLICIES_def
  EVAL_POLICY_VIABILITY_POLICIES_def EVAL_POLICY_ITERATION_POLICIES_def
  EVAL_FINAL_NODE_BANDWIDTH_POLICIES_def EVAL_INTERACTION_POLICIES_def EVAL_KNOB_POLICIES_def
  EVAL_CONTENTION_WEIGHT_POLICIES_def EVAL_CHANNEL_CALIBRATION_POLICIES_def
  EVAL_CHANNEL_HOTSPOT_POLICIES_def EVAL_BURSTY_CALIBRATION_POLICIES_def POLICIES_def

section \<open>Facts about the weight profiles\<close>

lemma profile_tokens [eval_simps]:
  "profile_value_token (flit 0 0) = ''0''" "profile_value_token (flit 5 1) = ''0p5''"
  "profile_value_token (flit 1 0) = ''1''" "profile_value_token (flit 15 1) = ''1p5''"
  "profile_value_token (flit 2 0) = ''2''" "profile_value_token (flit 25 2) = ''0p25''"
  "profile_value_token (flit 3 0) = ''3''" "profile_value_token (flit 4 0) = ''4''"
  by (simp_all add: profile_value_token_def eval_simps cong: eval_congs)

lemma weight_profile_tokens:
  "map profile CONTENTION_WEIGHT_PROFILES =
     [''lh-0'', ''lh-0p5'', ''lh-1'', ''lh-2'', ''ra-0'', ''ra-0p5'', ''ra-1'', ''ra-2'',
      ''dr-0'', ''dr-1'', ''dr-1p5'', ''dr-3'', ''qw-0'', ''qw-1'', ''qw-2'', ''qw-4'',
      ''rs-0'', ''rs-0p5'', ''rs-1'', ''rs-2'', ''sp-0'', ''sp-0p25'', ''sp-0p5'', ''sp-1'']"
  by (simp add: CONTENTION_WEIGHT_PROFILES_def CONTENTION_WEIGHT_SWEEPS_def
    CONTENTION_WEIGHT_NAME_TOKENS_def profile_tokens del: One_nat_def)

lemma length_weight_profiles: "length CONTENTION_WEIGHT_PROFILES = 24"
  using arg_cong [OF weight_profile_tokens, of length] by simp

lemma distinct_weight_profiles: "distinct (map profile CONTENTION_WEIGHT_PROFILES)"
  by (simp add: weight_profile_tokens)

lemma weight_profile_fields:
  assumes "p \<in> set CONTENTION_WEIGHT_PROFILES"
  shows "weight_name p \<in> fst ` set DEFAULT_CONTENTION_WEIGHTS" and "weight_name p \<noteq> []"
    and "profile p \<noteq> []" and "weight_value p \<noteq> None"
  using assms
  by (auto simp: CONTENTION_WEIGHT_PROFILES_def CONTENTION_WEIGHT_SWEEPS_def
    DEFAULT_CONTENTION_WEIGHTS_def)

end
