(* ===== verification/RunMatrixPresets.thy ===== *)
theory RunMatrixPresets
  imports RunMatrixData
begin

text \<open>
  The built-in matrix presets of \<^verbatim>\<open>scripts/run_matrix.py\<close> (\<^verbatim>\<open>PRESETS\<close>, lines 484 to 1124), one
  definition each. Fields a preset does not give take the defaults of the dataclass
  (lines 398 to 404); a decimal literal is the nearest double.
\<close>

definition preset_quick :: MatrixPreset where
  "preset_quick = \<lparr>
    preset_name = ''quick'', memory_node_id = 99, cache_hit_latency = 1,
    compute_node_ids = [1, 2, 3, 4], compute_node_count_values = [4],
    object_count_values = [128], object_size_bytes = 64, object_size_small_bytes = 64,
    object_size_large_bytes = 256, large_object_probabilities = [flit 1 1],
    cache_capacity_hotset_multipliers = [flit 5 1],
    memory_bandwidth_levels = [''moderate''], memory_base_latency_levels = [''medium''],
    link_latency_levels = [''medium''], requests_per_node_per_epoch_values = [16],
    epoch_count_values = [3], hot_set_size_values = [8],
    hot_access_probabilities = [flit 8 1], hot_set_mode = ''epoch_shift'',
    hot_set_churn_fractions = [flit 1 0], cross_node_overlaps = [''medium''],
    object_size_modes = [''fixed''], workload_issue_modes = [''completion_driven''],
    burst_sizes = [4], burst_intervals = [100], intra_burst_gaps = [1],
    node_phase_jitters = [0], memory_channel_counts = [1], hot_object_channel_counts = [0]\<rparr>"

definition preset_phase8 :: MatrixPreset where
  "preset_phase8 = \<lparr>
    preset_name = ''phase8'', memory_node_id = 99, cache_hit_latency = 1,
    compute_node_ids = [1, 2, 3, 4, 5, 6, 7, 8], compute_node_count_values = [8],
    object_count_values = [128], object_size_bytes = 64, object_size_small_bytes = 64,
    object_size_large_bytes = 256, large_object_probabilities = [flit 1 1],
    cache_capacity_hotset_multipliers = [flit 5 1],
    memory_bandwidth_levels = [''moderate''], memory_base_latency_levels = [''medium''],
    link_latency_levels = [''medium''], requests_per_node_per_epoch_values = [512],
    epoch_count_values = [10], hot_set_size_values = [8],
    hot_access_probabilities = [flit 8 1], hot_set_mode = ''epoch_shift'',
    hot_set_churn_fractions = [flit 1 0], cross_node_overlaps = [''medium''],
    object_size_modes = [''fixed''], workload_issue_modes = [''completion_driven''],
    burst_sizes = [4], burst_intervals = [100], intra_burst_gaps = [1],
    node_phase_jitters = [0], memory_channel_counts = [1], hot_object_channel_counts = [0]\<rparr>"

definition preset_phase_b :: MatrixPreset where
  "preset_phase_b = \<lparr>
    preset_name = ''phase_b'', memory_node_id = 99, cache_hit_latency = 1,
    compute_node_ids = [1, 2, 3, 4, 5, 6, 7, 8], compute_node_count_values = [8],
    object_count_values = [256], object_size_bytes = 64, object_size_small_bytes = 64,
    object_size_large_bytes = 256, large_object_probabilities = [flit 2 1],
    cache_capacity_hotset_multipliers = [flit 1 0],
    memory_bandwidth_levels = [''moderate''], memory_base_latency_levels = [''medium''],
    link_latency_levels = [''medium''],
    requests_per_node_per_epoch_values = [16, 64, 256, 1024], epoch_count_values = [8],
    hot_set_size_values = [8], hot_access_probabilities = [flit 8 1],
    hot_set_mode = ''epoch_shift'',
    hot_set_churn_fractions = [flit 0 0, flit 25 2, flit 5 1, flit 75 2, flit 1 0],
    cross_node_overlaps = [''low'', ''medium'', ''high''],
    object_size_modes = [''fixed'', ''bimodal''],
    workload_issue_modes = [''completion_driven''], burst_sizes = [4],
    burst_intervals = [100], intra_burst_gaps = [1], node_phase_jitters = [0],
    memory_channel_counts = [1], hot_object_channel_counts = [0]\<rparr>"

definition preset_phase_c :: MatrixPreset where
  "preset_phase_c = \<lparr>
    preset_name = ''phase_c'', memory_node_id = 99, cache_hit_latency = 1,
    compute_node_ids = [1..16], compute_node_count_values = [4, 8],
    object_count_values = [256], object_size_bytes = 64, object_size_small_bytes = 64,
    object_size_large_bytes = 256, large_object_probabilities = [flit 2 1],
    cache_capacity_hotset_multipliers = [flit 5 1, flit 1 0, flit 2 0],
    memory_bandwidth_levels = [''moderate'', ''severe''],
    memory_base_latency_levels = [''medium''], link_latency_levels = [''medium''],
    requests_per_node_per_epoch_values = [256], epoch_count_values = [8],
    hot_set_size_values = [8], hot_access_probabilities = [flit 8 1],
    hot_set_mode = ''epoch_shift'', hot_set_churn_fractions = [flit 5 1],
    cross_node_overlaps = [''medium''], object_size_modes = [''fixed''],
    workload_issue_modes = [''completion_driven''], burst_sizes = [4],
    burst_intervals = [100], intra_burst_gaps = [1], node_phase_jitters = [0],
    memory_channel_counts = [1], hot_object_channel_counts = [0]\<rparr>"

definition preset_eval_contention_calibration :: MatrixPreset where
  "preset_eval_contention_calibration = \<lparr>
    preset_name = ''eval_contention_calibration'', memory_node_id = 99,
    cache_hit_latency = 1, compute_node_ids = [1..16],
    compute_node_count_values = [2, 4, 8, 16], object_count_values = [1024],
    object_size_bytes = 64, object_size_small_bytes = 64, object_size_large_bytes = 256,
    large_object_probabilities = [flit 1 1],
    cache_capacity_hotset_multipliers = [flit 2 1, flit 5 1, flit 8 1],
    memory_bandwidth_levels = [''mild'', ''moderate'', ''severe''],
    memory_base_latency_levels = [''medium''], link_latency_levels = [''medium''],
    requests_per_node_per_epoch_values = [8], epoch_count_values = [32],
    hot_set_size_values = [16], hot_access_probabilities = [flit 6 1, flit 8 1, flit 95 2],
    hot_set_mode = ''epoch_shift'', hot_set_churn_fractions = [flit 3 1],
    cross_node_overlaps = [''low'', ''medium'', ''high''],
    object_size_modes = [''bimodal''], workload_issue_modes = [''scheduled_bursty''],
    burst_sizes = [4], burst_intervals = [20], intra_burst_gaps = [1],
    node_phase_jitters = [5], memory_channel_counts = [4], hot_object_channel_counts = [2]\<rparr>"

definition preset_eval_final_contention_scaling :: MatrixPreset where
  "preset_eval_final_contention_scaling = \<lparr>
    preset_name = ''eval_final_contention_scaling'', memory_node_id = 99,
    cache_hit_latency = 1, compute_node_ids = [1..16],
    compute_node_count_values = [2, 4, 8, 16], object_count_values = [1024],
    object_size_bytes = 64, object_size_small_bytes = 64, object_size_large_bytes = 256,
    large_object_probabilities = [flit 1 1],
    cache_capacity_hotset_multipliers = [flit 5 1],
    memory_bandwidth_levels = [''mild'', ''moderate'', ''severe''],
    memory_base_latency_levels = [''medium''], link_latency_levels = [''medium''],
    requests_per_node_per_epoch_values = [8], epoch_count_values = [32],
    hot_set_size_values = [16], hot_access_probabilities = [flit 8 1],
    hot_set_mode = ''epoch_shift'', hot_set_churn_fractions = [flit 3 1],
    cross_node_overlaps = [''high''], object_size_modes = [''bimodal''],
    workload_issue_modes = [''scheduled_bursty''], burst_sizes = [4],
    burst_intervals = [20], intra_burst_gaps = [1], node_phase_jitters = [5],
    memory_channel_counts = [4], hot_object_channel_counts = [2]\<rparr>"

definition preset_eval_policy_viability :: MatrixPreset where
  "preset_eval_policy_viability = \<lparr>
    preset_name = ''eval_policy_viability'', memory_node_id = 99, cache_hit_latency = 1,
    compute_node_ids = [1..16], compute_node_count_values = [16],
    object_count_values = [256], object_size_bytes = 64, object_size_small_bytes = 64,
    object_size_large_bytes = 256, large_object_probabilities = [flit 1 1],
    cache_capacity_hotset_multipliers = [flit 2 1, flit 4 1, flit 6 1, flit 8 1],
    memory_bandwidth_levels = [''severe''], memory_base_latency_levels = [''medium''],
    link_latency_levels = [''medium''], requests_per_node_per_epoch_values = [4, 8],
    epoch_count_values = [32], hot_set_size_values = [16],
    hot_access_probabilities = [flit 8 1], hot_set_mode = ''epoch_shift'',
    hot_set_churn_fractions = [flit 1 1, flit 2 1, flit 3 1, flit 4 1, flit 5 1],
    cross_node_overlaps = [''high''], object_size_modes = [''bimodal''],
    workload_issue_modes = [''scheduled_bursty''], burst_sizes = [4],
    burst_intervals = [20], intra_burst_gaps = [1], node_phase_jitters = [5],
    memory_channel_counts = [4], hot_object_channel_counts = [2]\<rparr>"

definition preset_eval_policy_iteration :: MatrixPreset where
  "preset_eval_policy_iteration = \<lparr>
    preset_name = ''eval_policy_iteration'', memory_node_id = 99, cache_hit_latency = 1,
    compute_node_ids = [1..16], compute_node_count_values = [16],
    object_count_values = [256], object_size_bytes = 64, object_size_small_bytes = 64,
    object_size_large_bytes = 256, large_object_probabilities = [flit 1 1],
    cache_capacity_hotset_multipliers = [flit 2 1, flit 4 1, flit 6 1],
    memory_bandwidth_levels = [''severe''], memory_base_latency_levels = [''medium''],
    link_latency_levels = [''medium''], requests_per_node_per_epoch_values = [4, 16],
    epoch_count_values = [32], hot_set_size_values = [16],
    hot_access_probabilities = [flit 8 1], hot_set_mode = ''epoch_shift'',
    hot_set_churn_fractions = [flit 1 1, flit 3 1, flit 5 1],
    cross_node_overlaps = [''high''], object_size_modes = [''bimodal''],
    workload_issue_modes = [''completion_driven''], burst_sizes = [4],
    burst_intervals = [100], intra_burst_gaps = [1], node_phase_jitters = [0],
    memory_channel_counts = [4], hot_object_channel_counts = [2]\<rparr>"

definition preset_eval_final_policy_iteration :: MatrixPreset where
  "preset_eval_final_policy_iteration = \<lparr>
    preset_name = ''eval_final_policy_iteration'', memory_node_id = 99,
    cache_hit_latency = 1, compute_node_ids = [1..16], compute_node_count_values = [16],
    object_count_values = [256], object_size_bytes = 64, object_size_small_bytes = 64,
    object_size_large_bytes = 256, large_object_probabilities = [flit 1 1],
    cache_capacity_hotset_multipliers = [flit 2 1, flit 4 1, flit 6 1],
    memory_bandwidth_levels = [''severe''], memory_base_latency_levels = [''medium''],
    link_latency_levels = [''medium''], requests_per_node_per_epoch_values = [4, 16],
    epoch_count_values = [32], hot_set_size_values = [16],
    hot_access_probabilities = [flit 8 1], hot_set_mode = ''epoch_shift'',
    hot_set_churn_fractions = [flit 1 1, flit 3 1, flit 5 1],
    cross_node_overlaps = [''high''], object_size_modes = [''bimodal''],
    workload_issue_modes = [''scheduled_bursty''], burst_sizes = [4],
    burst_intervals = [20], intra_burst_gaps = [1], node_phase_jitters = [5],
    memory_channel_counts = [4], hot_object_channel_counts = [2]\<rparr>"

definition preset_eval_channel_calibration :: MatrixPreset where
  "preset_eval_channel_calibration = \<lparr>
    preset_name = ''eval_channel_calibration'', memory_node_id = 99, cache_hit_latency = 1,
    compute_node_ids = [1..16], compute_node_count_values = [8],
    object_count_values = [256], object_size_bytes = 64, object_size_small_bytes = 64,
    object_size_large_bytes = 256, large_object_probabilities = [flit 1 1],
    cache_capacity_hotset_multipliers = [flit 5 1], memory_bandwidth_levels = [''severe''],
    memory_base_latency_levels = [''medium''], link_latency_levels = [''medium''],
    requests_per_node_per_epoch_values = [128], epoch_count_values = [16],
    hot_set_size_values = [16], hot_access_probabilities = [flit 8 1],
    hot_set_mode = ''epoch_shift'', hot_set_churn_fractions = [flit 2 1],
    cross_node_overlaps = [''high''], object_size_modes = [''fixed''],
    workload_issue_modes = [''completion_driven''], burst_sizes = [4],
    burst_intervals = [100], intra_burst_gaps = [1], node_phase_jitters = [0],
    memory_channel_counts = [1, 2, 4, 8], hot_object_channel_counts = [0]\<rparr>"

definition preset_eval_channel_hotspots :: MatrixPreset where
  "preset_eval_channel_hotspots = \<lparr>
    preset_name = ''eval_channel_hotspots'', memory_node_id = 99, cache_hit_latency = 1,
    compute_node_ids = [1..16], compute_node_count_values = [8],
    object_count_values = [256], object_size_bytes = 64, object_size_small_bytes = 64,
    object_size_large_bytes = 256, large_object_probabilities = [flit 1 1],
    cache_capacity_hotset_multipliers = [flit 5 1], memory_bandwidth_levels = [''severe''],
    memory_base_latency_levels = [''medium''], link_latency_levels = [''medium''],
    requests_per_node_per_epoch_values = [128], epoch_count_values = [16],
    hot_set_size_values = [16], hot_access_probabilities = [flit 8 1],
    hot_set_mode = ''epoch_shift'', hot_set_churn_fractions = [flit 2 1],
    cross_node_overlaps = [''high''], object_size_modes = [''bimodal''],
    workload_issue_modes = [''completion_driven''], burst_sizes = [4],
    burst_intervals = [100], intra_burst_gaps = [1], node_phase_jitters = [0],
    memory_channel_counts = [4], hot_object_channel_counts = [1, 2, 4]\<rparr>"

definition preset_eval_bursty_calibration :: MatrixPreset where
  "preset_eval_bursty_calibration = \<lparr>
    preset_name = ''eval_bursty_calibration'', memory_node_id = 99, cache_hit_latency = 1,
    compute_node_ids = [1..16], compute_node_count_values = [8],
    object_count_values = [256], object_size_bytes = 64, object_size_small_bytes = 64,
    object_size_large_bytes = 256, large_object_probabilities = [flit 1 1],
    cache_capacity_hotset_multipliers = [flit 5 1], memory_bandwidth_levels = [''severe''],
    memory_base_latency_levels = [''medium''], link_latency_levels = [''medium''],
    requests_per_node_per_epoch_values = [8], epoch_count_values = [16],
    hot_set_size_values = [16], hot_access_probabilities = [flit 8 1],
    hot_set_mode = ''epoch_shift'', hot_set_churn_fractions = [flit 2 1],
    cross_node_overlaps = [''high''], object_size_modes = [''bimodal''],
    workload_issue_modes = [''completion_driven'', ''scheduled_bursty''],
    burst_sizes = [4], burst_intervals = [20], intra_burst_gaps = [1],
    node_phase_jitters = [0], memory_channel_counts = [4], hot_object_channel_counts = [2]\<rparr>"

definition preset_eval_interactions_churn_epoch :: MatrixPreset where
  "preset_eval_interactions_churn_epoch = \<lparr>
    preset_name = ''eval_interactions_churn_epoch'', memory_node_id = 99,
    cache_hit_latency = 1, compute_node_ids = [1..16], compute_node_count_values = [8],
    object_count_values = [256], object_size_bytes = 64, object_size_small_bytes = 64,
    object_size_large_bytes = 256, large_object_probabilities = [flit 1 1],
    cache_capacity_hotset_multipliers = [flit 5 1], memory_bandwidth_levels = [''severe''],
    memory_base_latency_levels = [''medium''], link_latency_levels = [''medium''],
    requests_per_node_per_epoch_values = [8, 16, 32, 64], epoch_count_values = [32],
    hot_set_size_values = [16], hot_access_probabilities = [flit 8 1],
    hot_set_mode = ''epoch_shift'',
    hot_set_churn_fractions = [flit 0 0, flit 25 2, flit 5 1, flit 75 2, flit 1 0],
    cross_node_overlaps = [''high''], object_size_modes = [''bimodal''],
    workload_issue_modes = [''completion_driven''], burst_sizes = [4],
    burst_intervals = [100], intra_burst_gaps = [1], node_phase_jitters = [0],
    memory_channel_counts = [1], hot_object_channel_counts = [0]\<rparr>"

definition preset_eval_interactions_cache_hotset :: MatrixPreset where
  "preset_eval_interactions_cache_hotset = \<lparr>
    preset_name = ''eval_interactions_cache_hotset'', memory_node_id = 99,
    cache_hit_latency = 1, compute_node_ids = [1..16], compute_node_count_values = [8],
    object_count_values = [256], object_size_bytes = 64, object_size_small_bytes = 64,
    object_size_large_bytes = 256, large_object_probabilities = [flit 1 1],
    cache_capacity_hotset_multipliers = [flit 2 1, flit 4 1, flit 6 1, flit 8 1],
    memory_bandwidth_levels = [''severe''], memory_base_latency_levels = [''medium''],
    link_latency_levels = [''medium''], requests_per_node_per_epoch_values = [4],
    epoch_count_values = [32], hot_set_size_values = [8, 16, 32],
    hot_access_probabilities = [flit 8 1], hot_set_mode = ''epoch_shift'',
    hot_set_churn_fractions = [flit 3 1], cross_node_overlaps = [''high''],
    object_size_modes = [''bimodal''], workload_issue_modes = [''completion_driven''],
    burst_sizes = [4], burst_intervals = [100], intra_burst_gaps = [1],
    node_phase_jitters = [0], memory_channel_counts = [4], hot_object_channel_counts = [2]\<rparr>"

definition preset_eval_interactions_node_bandwidth :: MatrixPreset where
  "preset_eval_interactions_node_bandwidth = \<lparr>
    preset_name = ''eval_interactions_node_bandwidth'', memory_node_id = 99,
    cache_hit_latency = 1, compute_node_ids = [1..16],
    compute_node_count_values = [4, 8, 16], object_count_values = [256],
    object_size_bytes = 64, object_size_small_bytes = 64, object_size_large_bytes = 256,
    large_object_probabilities = [flit 1 1],
    cache_capacity_hotset_multipliers = [flit 5 1],
    memory_bandwidth_levels = [''mild'', ''moderate'', ''severe''],
    memory_base_latency_levels = [''medium''], link_latency_levels = [''medium''],
    requests_per_node_per_epoch_values = [4], epoch_count_values = [32],
    hot_set_size_values = [16], hot_access_probabilities = [flit 8 1],
    hot_set_mode = ''epoch_shift'', hot_set_churn_fractions = [flit 3 1],
    cross_node_overlaps = [''high''], object_size_modes = [''bimodal''],
    workload_issue_modes = [''completion_driven''], burst_sizes = [4],
    burst_intervals = [100], intra_burst_gaps = [1], node_phase_jitters = [0],
    memory_channel_counts = [4], hot_object_channel_counts = [2]\<rparr>"

definition preset_eval_final_node_bandwidth :: MatrixPreset where
  "preset_eval_final_node_bandwidth = \<lparr>
    preset_name = ''eval_final_node_bandwidth'', memory_node_id = 99,
    cache_hit_latency = 1, compute_node_ids = [1..16],
    compute_node_count_values = [4, 8, 16], object_count_values = [256],
    object_size_bytes = 64, object_size_small_bytes = 64, object_size_large_bytes = 256,
    large_object_probabilities = [flit 1 1],
    cache_capacity_hotset_multipliers = [flit 5 1],
    memory_bandwidth_levels = [''mild'', ''severe''],
    memory_base_latency_levels = [''medium''], link_latency_levels = [''medium''],
    requests_per_node_per_epoch_values = [4], epoch_count_values = [32],
    hot_set_size_values = [16], hot_access_probabilities = [flit 8 1],
    hot_set_mode = ''epoch_shift'', hot_set_churn_fractions = [flit 3 1],
    cross_node_overlaps = [''high''], object_size_modes = [''bimodal''],
    workload_issue_modes = [''scheduled_bursty''], burst_sizes = [4],
    burst_intervals = [20], intra_burst_gaps = [1], node_phase_jitters = [5],
    memory_channel_counts = [4], hot_object_channel_counts = [2]\<rparr>"

definition preset_eval_knob_cache_pressure :: MatrixPreset where
  "preset_eval_knob_cache_pressure = \<lparr>
    preset_name = ''eval_knob_cache_pressure'', memory_node_id = 99, cache_hit_latency = 1,
    compute_node_ids = [1..16], compute_node_count_values = [8],
    object_count_values = [256], object_size_bytes = 64, object_size_small_bytes = 64,
    object_size_large_bytes = 256, large_object_probabilities = [flit 1 1],
    cache_capacity_hotset_multipliers = [flit 1 1, flit 2 1, flit 3 1, flit 4 1, flit 5 1, flit 6 1, flit 8 1, flit 1 0],
    memory_bandwidth_levels = [''severe''], memory_base_latency_levels = [''medium''],
    link_latency_levels = [''medium''], requests_per_node_per_epoch_values = [8],
    epoch_count_values = [32], hot_set_size_values = [16],
    hot_access_probabilities = [flit 8 1], hot_set_mode = ''epoch_shift'',
    hot_set_churn_fractions = [flit 2 1], cross_node_overlaps = [''high''],
    object_size_modes = [''bimodal''], workload_issue_modes = [''completion_driven''],
    burst_sizes = [4], burst_intervals = [100], intra_burst_gaps = [1],
    node_phase_jitters = [0], memory_channel_counts = [4], hot_object_channel_counts = [2]\<rparr>"

definition preset_eval_knob_epoch_reuse :: MatrixPreset where
  "preset_eval_knob_epoch_reuse = \<lparr>
    preset_name = ''eval_knob_epoch_reuse'', memory_node_id = 99, cache_hit_latency = 1,
    compute_node_ids = [1..16], compute_node_count_values = [8],
    object_count_values = [256], object_size_bytes = 64, object_size_small_bytes = 64,
    object_size_large_bytes = 256, large_object_probabilities = [flit 1 1],
    cache_capacity_hotset_multipliers = [flit 5 1], memory_bandwidth_levels = [''severe''],
    memory_base_latency_levels = [''medium''], link_latency_levels = [''medium''],
    requests_per_node_per_epoch_values = [4, 8, 16, 32, 64, 128],
    epoch_count_values = [32], hot_set_size_values = [16],
    hot_access_probabilities = [flit 8 1], hot_set_mode = ''epoch_shift'',
    hot_set_churn_fractions = [flit 2 1], cross_node_overlaps = [''high''],
    object_size_modes = [''bimodal''], workload_issue_modes = [''completion_driven''],
    burst_sizes = [4], burst_intervals = [100], intra_burst_gaps = [1],
    node_phase_jitters = [0], memory_channel_counts = [1], hot_object_channel_counts = [0]\<rparr>"

definition preset_eval_knob_object_size_mix :: MatrixPreset where
  "preset_eval_knob_object_size_mix = \<lparr>
    preset_name = ''eval_knob_object_size_mix'', memory_node_id = 99,
    cache_hit_latency = 1, compute_node_ids = [1..16], compute_node_count_values = [8],
    object_count_values = [256], object_size_bytes = 64, object_size_small_bytes = 64,
    object_size_large_bytes = 256,
    large_object_probabilities = [flit 0 0, flit 5 2, flit 1 1, flit 2 1, flit 3 1],
    cache_capacity_hotset_multipliers = [flit 5 1], memory_bandwidth_levels = [''severe''],
    memory_base_latency_levels = [''medium''], link_latency_levels = [''medium''],
    requests_per_node_per_epoch_values = [8], epoch_count_values = [32],
    hot_set_size_values = [16], hot_access_probabilities = [flit 8 1],
    hot_set_mode = ''epoch_shift'', hot_set_churn_fractions = [flit 2 1],
    cross_node_overlaps = [''high''], object_size_modes = [''bimodal''],
    workload_issue_modes = [''completion_driven''], burst_sizes = [4],
    burst_intervals = [100], intra_burst_gaps = [1], node_phase_jitters = [0],
    memory_channel_counts = [1], hot_object_channel_counts = [0]\<rparr>"

definition preset_eval_knob_hot_concentration :: MatrixPreset where
  "preset_eval_knob_hot_concentration = \<lparr>
    preset_name = ''eval_knob_hot_concentration'', memory_node_id = 99,
    cache_hit_latency = 1, compute_node_ids = [1..16], compute_node_count_values = [8],
    object_count_values = [256], object_size_bytes = 64, object_size_small_bytes = 64,
    object_size_large_bytes = 256, large_object_probabilities = [flit 1 1],
    cache_capacity_hotset_multipliers = [flit 5 1], memory_bandwidth_levels = [''severe''],
    memory_base_latency_levels = [''medium''], link_latency_levels = [''medium''],
    requests_per_node_per_epoch_values = [8], epoch_count_values = [32],
    hot_set_size_values = [16],
    hot_access_probabilities = [flit 5 1, flit 6 1, flit 7 1, flit 8 1, flit 9 1, flit 95 2],
    hot_set_mode = ''epoch_shift'', hot_set_churn_fractions = [flit 2 1],
    cross_node_overlaps = [''high''], object_size_modes = [''bimodal''],
    workload_issue_modes = [''completion_driven''], burst_sizes = [4],
    burst_intervals = [100], intra_burst_gaps = [1], node_phase_jitters = [0],
    memory_channel_counts = [1], hot_object_channel_counts = [0]\<rparr>"

definition preset_eval_contention_weight_sensitivity :: MatrixPreset where
  "preset_eval_contention_weight_sensitivity = \<lparr>
    preset_name = ''eval_contention_weight_sensitivity'', memory_node_id = 99,
    cache_hit_latency = 1, compute_node_ids = [1..16], compute_node_count_values = [8],
    object_count_values = [256], object_size_bytes = 64, object_size_small_bytes = 64,
    object_size_large_bytes = 256, large_object_probabilities = [flit 1 1],
    cache_capacity_hotset_multipliers = [flit 5 1], memory_bandwidth_levels = [''severe''],
    memory_base_latency_levels = [''medium''], link_latency_levels = [''medium''],
    requests_per_node_per_epoch_values = [8], epoch_count_values = [32],
    hot_set_size_values = [16], hot_access_probabilities = [flit 8 1],
    hot_set_mode = ''epoch_shift'', hot_set_churn_fractions = [flit 2 1],
    cross_node_overlaps = [''high''], object_size_modes = [''bimodal''],
    workload_issue_modes = [''completion_driven''], burst_sizes = [4],
    burst_intervals = [100], intra_burst_gaps = [1], node_phase_jitters = [0],
    memory_channel_counts = [1], hot_object_channel_counts = [0]\<rparr>"

definition preset_phase_e :: MatrixPreset where
  "preset_phase_e = \<lparr>
    preset_name = ''phase_e'', memory_node_id = 99, cache_hit_latency = 1,
    compute_node_ids = [1..16], compute_node_count_values = [8],
    object_count_values = [256], object_size_bytes = 64, object_size_small_bytes = 64,
    object_size_large_bytes = 256, large_object_probabilities = [flit 2 1],
    cache_capacity_hotset_multipliers = [flit 5 1], memory_bandwidth_levels = [''severe''],
    memory_base_latency_levels = [''medium''], link_latency_levels = [''medium''],
    requests_per_node_per_epoch_values = [16, 64], epoch_count_values = [8],
    hot_set_size_values = [8], hot_access_probabilities = [flit 8 1],
    hot_set_mode = ''epoch_shift'', hot_set_churn_fractions = [flit 25 2, flit 5 1],
    cross_node_overlaps = [''medium''], object_size_modes = [''fixed''],
    workload_issue_modes = [''completion_driven''], burst_sizes = [4],
    burst_intervals = [100], intra_burst_gaps = [1], node_phase_jitters = [0],
    memory_channel_counts = [1], hot_object_channel_counts = [0]\<rparr>"

definition PRESETS :: "(string \<times> MatrixPreset) list" where
  "PRESETS =
    [(''quick'', preset_quick), (''phase8'', preset_phase8), (''phase_b'', preset_phase_b),
     (''phase_c'', preset_phase_c),
     (''eval_contention_calibration'', preset_eval_contention_calibration),
     (''eval_final_contention_scaling'', preset_eval_final_contention_scaling),
     (''eval_policy_viability'', preset_eval_policy_viability),
     (''eval_policy_iteration'', preset_eval_policy_iteration),
     (''eval_final_policy_iteration'', preset_eval_final_policy_iteration),
     (''eval_channel_calibration'', preset_eval_channel_calibration),
     (''eval_channel_hotspots'', preset_eval_channel_hotspots),
     (''eval_bursty_calibration'', preset_eval_bursty_calibration),
     (''eval_interactions_churn_epoch'', preset_eval_interactions_churn_epoch),
     (''eval_interactions_cache_hotset'', preset_eval_interactions_cache_hotset),
     (''eval_interactions_node_bandwidth'', preset_eval_interactions_node_bandwidth),
     (''eval_final_node_bandwidth'', preset_eval_final_node_bandwidth),
     (''eval_knob_cache_pressure'', preset_eval_knob_cache_pressure),
     (''eval_knob_epoch_reuse'', preset_eval_knob_epoch_reuse),
     (''eval_knob_object_size_mix'', preset_eval_knob_object_size_mix),
     (''eval_knob_hot_concentration'', preset_eval_knob_hot_concentration),
     (''eval_contention_weight_sensitivity'', preset_eval_contention_weight_sensitivity),
     (''phase_e'', preset_phase_e)]"

lemmas preset_defs =
  preset_quick_def preset_phase8_def preset_phase_b_def preset_phase_c_def
  preset_eval_contention_calibration_def preset_eval_final_contention_scaling_def
  preset_eval_policy_viability_def preset_eval_policy_iteration_def
  preset_eval_final_policy_iteration_def preset_eval_channel_calibration_def
  preset_eval_channel_hotspots_def preset_eval_bursty_calibration_def
  preset_eval_interactions_churn_epoch_def preset_eval_interactions_cache_hotset_def
  preset_eval_interactions_node_bandwidth_def preset_eval_final_node_bandwidth_def
  preset_eval_knob_cache_pressure_def preset_eval_knob_epoch_reuse_def
  preset_eval_knob_object_size_mix_def preset_eval_knob_hot_concentration_def
  preset_eval_contention_weight_sensitivity_def preset_phase_e_def

end
