(* ===== verification/RunMatrixCli.thy ===== *)
theory RunMatrixCli
  imports RunMatrixPresets
begin

text \<open>
  The option values of \<^verbatim>\<open>scripts/run_matrix.py\<close>: the namespace \<^verbatim>\<open>parse_args\<close> returns with its
  defaults, and the parsers that turn each comma-separated option into a sweep dimension
  or stop the program with \<^verbatim>\<open>SystemExit\<close>. The first part of the lemmas gives, for every
  parser, exactly when it returns a value; the second part says that a list written with
  the usual decimal digits is read back.
\<close>

section \<open>The namespace\<close>

text \<open>
  How \<^verbatim>\<open>argparse\<close> reads the command line is in the theory \<open>CommandLines\<close>; the record holds the
  attributes of the namespace it returns, and \<open>default_args\<close> their values when no option is given.
  \<open>repo\<close> is \<^verbatim>\<open>Path(__file__).resolve().parents[1]\<close>.
\<close>

record cli_args =
  arg_preset :: string
  arg_binary :: string
  arg_results_dir :: "string option"
  arg_seeds :: string
  arg_policies :: "string option"
  arg_node_counts :: "string option"
  arg_object_counts :: "string option"
  arg_hot_set_sizes :: "string option"
  arg_hot_access_probabilities :: "string option"
  arg_epoch_counts :: "string option"
  arg_workload_issue_modes :: "string option"
  arg_burst_sizes :: "string option"
  arg_burst_intervals :: "string option"
  arg_intra_burst_gaps :: "string option"
  arg_node_phase_jitters :: "string option"
  arg_cache_hotset_multipliers :: "string option"
  arg_memory_bandwidth_levels :: "string option"
  arg_memory_base_latency_levels :: "string option"
  arg_link_latency_levels :: "string option"
  arg_churn_fractions :: "string option"
  arg_epoch_lengths :: "string option"
  arg_overlaps :: "string option"
  arg_object_size_modes :: "string option"
  arg_large_object_probabilities :: "string option"
  arg_memory_channel_counts :: "string option"
  arg_hot_object_channel_counts :: "string option"
  arg_expect_runs :: "int option"
  arg_dry_run :: bool
  arg_keep_going :: bool

definition path_join :: "string \<Rightarrow> string \<Rightarrow> string" where
  "path_join p q = (if p = ''.'' then q else if suffix ''/'' p then p @ q else p @ ''/'' @ q)"

lemma path_join_inject [simp]: "path_join p q = path_join p q' \<longleftrightarrow> q = q'"
  by (simp add: path_join_def)

definition default_args :: "string \<Rightarrow> cli_args" where
  "default_args repo = \<lparr>
    arg_preset = ''quick'',
    arg_binary = path_join (path_join repo ''build'') ''dm_simulator'',
    arg_results_dir = None, arg_seeds = ''8888'', arg_policies = None,
    arg_node_counts = None, arg_object_counts = None, arg_hot_set_sizes = None,
    arg_hot_access_probabilities = None, arg_epoch_counts = None,
    arg_workload_issue_modes = None, arg_burst_sizes = None, arg_burst_intervals = None,
    arg_intra_burst_gaps = None, arg_node_phase_jitters = None,
    arg_cache_hotset_multipliers = None, arg_memory_bandwidth_levels = None,
    arg_memory_base_latency_levels = None, arg_link_latency_levels = None,
    arg_churn_fractions = None, arg_epoch_lengths = None, arg_overlaps = None,
    arg_object_size_modes = None, arg_large_object_probabilities = None,
    arg_memory_channel_counts = None, arg_hot_object_channel_counts = None,
    arg_expect_runs = None, arg_dry_run = False, arg_keep_going = False\<rparr>"

section \<open>The option parsers\<close>

definition quoted :: "string \<Rightarrow> string" where
  "quoted s = CHR 0x27 # s @ [CHR 0x27]"

definition parse_csv_list :: "string \<Rightarrow> string list" where
  "parse_csv_list value = filter (\<lambda>item. item \<noteq> []) (map str_strip (str_split (CHR '','') value))"

definition nonempty_or :: "string \<Rightarrow> 'a list \<Rightarrow> 'a list res" where
  "nonempty_or msg values = (if values = [] then Inl (SystemExit msg) else Inr values)"

definition seed_item :: "string \<Rightarrow> int res" where
  "seed_item item = (case py_int item of
     None \<Rightarrow> Inl (SystemExit (''Invalid seed '' @ quoted item @ '': expected integer''))
   | Some n \<Rightarrow> Inr n)"

definition parse_seeds :: "string \<Rightarrow> int list res" where
  "parse_seeds value = bindR (mapR seed_item (parse_csv_list value))
     (nonempty_or ''At least one seed is required'')"

definition parse_policies :: "string \<Rightarrow> string list res" where
  "parse_policies value =
     (let policies = parse_csv_list value; invalid = filter (\<lambda>p. p \<notin> set POLICIES) policies
      in if policies = [] then Inl (SystemExit ''At least one policy is required'')
         else if invalid \<noteq> [] then Inl (SystemExit (''Invalid policy value(s): ''
           @ str_join '', '' invalid @ ''. Expected one of: '' @ str_join '', '' POLICIES))
         else Inr policies)"

definition positive_int_item :: "string \<Rightarrow> int res" where
  "positive_int_item item = (case py_int item of
     None \<Rightarrow> Inl (SystemExit (''Invalid integer '' @ quoted item))
   | Some parsed \<Rightarrow>
       if parsed \<le> 0 then Inl (SystemExit (''Invalid positive integer '' @ quoted item))
       else Inr parsed)"

definition parse_positive_ints :: "string \<Rightarrow> int list res" where
  "parse_positive_ints value = bindR (mapR positive_int_item (parse_csv_list value))
     (nonempty_or ''At least one integer value is required'')"

definition nonnegative_int_item :: "string \<Rightarrow> int res" where
  "nonnegative_int_item item = (case py_int item of
     None \<Rightarrow> Inl (SystemExit (''Invalid integer '' @ quoted item))
   | Some parsed \<Rightarrow>
       if parsed < 0 then Inl (SystemExit (''Invalid nonnegative integer '' @ quoted item))
       else Inr parsed)"

definition parse_nonnegative_ints :: "string \<Rightarrow> int list res" where
  "parse_nonnegative_ints value = bindR (mapR nonnegative_int_item (parse_csv_list value))
     (nonempty_or ''At least one integer value is required'')"

definition positive_float_item :: "string \<Rightarrow> string \<Rightarrow> pyfloat res" where
  "positive_float_item label item = (case py_float item of
     None \<Rightarrow> Inl (SystemExit (''Invalid '' @ label @ '' '' @ quoted item))
   | Some parsed \<Rightarrow>
       if \<not> is_finite parsed \<or> fle parsed fzero
       then Inl (SystemExit (''Invalid '' @ label @ '' '' @ quoted item @ '': expected > 0''))
       else Inr parsed)"

definition parse_positive_floats :: "string \<Rightarrow> string \<Rightarrow> pyfloat list res" where
  "parse_positive_floats value label = bindR (mapR (positive_float_item label) (parse_csv_list value))
     (nonempty_or (''At least one '' @ label @ '' value is required''))"

definition probability_item :: "string \<Rightarrow> string \<Rightarrow> pyfloat res" where
  "probability_item label item = (case py_float item of
     None \<Rightarrow> Inl (SystemExit (''Invalid '' @ label @ '' '' @ quoted item))
   | Some parsed \<Rightarrow>
       if \<not> is_finite parsed \<or> flt parsed fzero \<or> flt fone parsed
       then Inl (SystemExit (''Invalid '' @ label @ '' '' @ quoted item @ '': expected [0, 1]''))
       else Inr parsed)"

definition parse_probabilities :: "string \<Rightarrow> string \<Rightarrow> pyfloat list res" where
  "parse_probabilities value label = bindR (mapR (probability_item label) (parse_csv_list value))
     (nonempty_or (''At least one '' @ label @ '' value is required''))"

text \<open>The four name parsers check membership first and emptiness second.\<close>

definition parse_levels :: "string \<Rightarrow> (string \<times> int) list \<Rightarrow> string \<Rightarrow> string list res" where
  "parse_levels value allowed_levels label =
     (let levels = parse_csv_list value;
          invalid = filter (\<lambda>l. l \<notin> fst ` set allowed_levels) levels
      in if invalid \<noteq> [] then Inl (SystemExit (''Invalid '' @ label @ '' value(s): ''
           @ str_join '', '' invalid @ ''. Expected one of: ''
           @ str_join '', '' (map fst allowed_levels)))
         else nonempty_or (''At least one '' @ label @ '' value is required'') levels)"

definition parse_overlaps :: "string \<Rightarrow> string list res" where
  "parse_overlaps value =
     (let overlaps = parse_csv_list value;
          invalid = filter (\<lambda>l. l \<notin> {''low'', ''medium'', ''high''}) overlaps
      in if invalid \<noteq> [] then Inl (SystemExit (''Invalid overlap value(s): ''
           @ str_join '', '' invalid @ ''. Expected low, medium, or high''))
         else nonempty_or ''At least one overlap value is required'' overlaps)"

definition parse_object_size_modes :: "string \<Rightarrow> string list res" where
  "parse_object_size_modes value =
     (let modes = parse_csv_list value;
          invalid = filter (\<lambda>m. m \<notin> {''fixed'', ''bimodal''}) modes
      in if invalid \<noteq> [] then Inl (SystemExit (''Invalid object size mode(s): ''
           @ str_join '', '' invalid @ ''. Expected fixed or bimodal''))
         else nonempty_or ''At least one object size mode is required'' modes)"

definition parse_workload_issue_modes :: "string \<Rightarrow> string list res" where
  "parse_workload_issue_modes value =
     (let modes = parse_csv_list value;
          invalid = filter (\<lambda>m. m \<notin> {''completion_driven'', ''scheduled_bursty''}) modes
      in if invalid \<noteq> [] then Inl (SystemExit (''Invalid workload issue mode(s): ''
           @ str_join '', '' invalid @ ''. Expected completion_driven or scheduled_bursty''))
         else nonempty_or ''At least one workload issue mode is required'' modes)"

section \<open>What the parsers accept\<close>

named_theorems parser_iff \<open>when an option parser returns a value\<close>

lemma nonempty_or_Inr [res_iff]: "nonempty_or msg vs = Inr ws \<longleftrightarrow> ws = vs \<and> vs \<noteq> []"
  by (auto simp: nonempty_or_def)

lemma parse_csv_list_items:
  "item \<in> set (parse_csv_list value) \<Longrightarrow> item \<noteq> [] \<and> CHR '','' \<notin> set item"
  using str_strip_subset str_split_parts by (fastforce simp: parse_csv_list_def)

lemma seed_item_Inr [parser_iff]: "seed_item item = Inr n \<longleftrightarrow> py_int item = Some n"
  by (auto simp: seed_item_def split: option.splits)

lemma positive_int_item_Inr [parser_iff]:
  "positive_int_item item = Inr n \<longleftrightarrow> py_int item = Some n \<and> 0 < n"
  by (auto simp: positive_int_item_def split: option.splits if_splits)

lemma nonnegative_int_item_Inr [parser_iff]:
  "nonnegative_int_item item = Inr n \<longleftrightarrow> py_int item = Some n \<and> 0 \<le> n"
  by (auto simp: nonnegative_int_item_def split: option.splits if_splits)

lemma positive_float_item_Inr [parser_iff]:
  "positive_float_item label item = Inr x \<longleftrightarrow>
     py_float item = Some x \<and> is_finite x \<and> 0 < fval x"
  by (auto simp: positive_float_item_def cmp_fval split: option.splits if_splits)

lemma probability_item_Inr [parser_iff]:
  "probability_item label item = Inr x \<longleftrightarrow>
     py_float item = Some x \<and> is_finite x \<and> 0 \<le> fval x \<and> fval x \<le> 1"
  by (auto simp: probability_item_def cmp_fval split: option.splits if_splits)

lemma parse_policies_Inr [parser_iff]:
  "parse_policies value = Inr ps \<longleftrightarrow>
     ps = parse_csv_list value \<and> ps \<noteq> [] \<and> set ps \<subseteq> set POLICIES"
  by (auto simp: parse_policies_def Let_def filter_empty_conv)

lemma parse_levels_Inr [parser_iff]:
  "parse_levels value allowed label = Inr ls \<longleftrightarrow>
     ls = parse_csv_list value \<and> ls \<noteq> [] \<and> set ls \<subseteq> fst ` set allowed"
  by (auto simp: parse_levels_def Let_def filter_empty_conv res_iff)

lemma parse_overlaps_Inr [parser_iff]:
  "parse_overlaps value = Inr ls \<longleftrightarrow>
     ls = parse_csv_list value \<and> ls \<noteq> [] \<and> set ls \<subseteq> {''low'', ''medium'', ''high''}"
  by (auto simp: parse_overlaps_def Let_def filter_empty_conv res_iff)

lemma parse_object_size_modes_Inr [parser_iff]:
  "parse_object_size_modes value = Inr ls \<longleftrightarrow>
     ls = parse_csv_list value \<and> ls \<noteq> [] \<and> set ls \<subseteq> {''fixed'', ''bimodal''}"
  by (auto simp: parse_object_size_modes_def Let_def filter_empty_conv res_iff)

lemma parse_workload_issue_modes_Inr [parser_iff]:
  "parse_workload_issue_modes value = Inr ls \<longleftrightarrow>
     ls = parse_csv_list value \<and> ls \<noteq> [] \<and> set ls \<subseteq> {''completion_driven'', ''scheduled_bursty''}"
  by (auto simp: parse_workload_issue_modes_def Let_def filter_empty_conv res_iff)

section \<open>Reading back a written list\<close>

text \<open>A token the splitter leaves alone: not empty, no comma, no white space at the ends.\<close>

definition plain_token :: "string \<Rightarrow> bool" where
  "plain_token s = (s \<noteq> [] \<and> CHR '','' \<notin> set s \<and> \<not> is_space (hd s) \<and> \<not> is_space (last s))"

lemma parse_csv_list_join:
  assumes "\<forall>s\<in>set items. plain_token s"
  shows "parse_csv_list (str_join '','' items) = items"
proof (cases "items = []")
  case True
  then show ?thesis by (simp add: parse_csv_list_def)
next
  case False
  have "str_split (CHR '','') (str_join '','' items) = items"
    using False assms by (intro str_split_join) (auto simp: plain_token_def)
  moreover have "map str_strip items = items"
    using assms by (intro map_idI) (auto simp: plain_token_def intro: str_strip_id)
  ultimately show ?thesis
    using assms by (auto simp: parse_csv_list_def plain_token_def filter_id_conv)
qed

lemma underscores_ok_plain: "CHR ''_'' \<notin> set s \<Longrightarrow> p \<noteq> CHR ''_'' \<Longrightarrow> underscores_ok p s"
  by (induction s arbitrary: p) auto

lemma digit_not_comma: "is_digit c \<Longrightarrow> c \<noteq> CHR '',''"
  by (auto simp: is_digit_def)

lemma digits_plain:
  assumes "\<forall>c\<in>set s. is_digit c"
  shows "CHR ''_'' \<notin> set s" and "CHR '','' \<notin> set s" and "\<forall>c\<in>set s. \<not> is_space c"
    and "drop_underscores s = s"
proof -
  show *: "CHR ''_'' \<notin> set s" "CHR '','' \<notin> set s" "\<forall>c\<in>set s. \<not> is_space c"
    using assms digit_not_sign digit_not_comma by blast+
  then show "drop_underscores s = s" by (auto simp: drop_underscores_def filter_id_conv)
qed

lemma plain_token_show_int: "plain_token (show_int i)"
proof -
  have "\<not> is_space (hd (show_nat n)) \<and> \<not> is_space (last (show_nat n))
      \<and> CHR '','' \<notin> set (show_nat n)" for n
    using digits_plain [OF show_nat_digits [of n]] by simp
  moreover have "\<not> is_space (CHR ''-'')" by (simp add: is_space_def)
  ultimately show ?thesis by (simp add: plain_token_def show_int_def)
qed

lemma split_sign_digits: "\<forall>c\<in>set s. is_digit c \<Longrightarrow> split_sign s = (False, s)"
  using digit_not_sign by (cases s) (auto simp: split_sign_def)

text \<open>Integers of at most 4300 digits, the ones \<^verbatim>\<open>int\<close> converts.\<close>

definition int_in_limit :: "int \<Rightarrow> bool" where
  "int_in_limit i = (length (show_nat (nat \<bar>i\<bar>)) \<le> 4300)"

lemma py_int_show_int:
  assumes "int_in_limit i"
  shows "py_int (show_int i) = Some i"
proof -
  let ?s = "show_nat (nat \<bar>i\<bar>)"
  have d: "\<forall>c\<in>set ?s. is_digit c" by (rule show_nat_digits)
  have strip: "str_strip (show_int i) = show_int i"
    using plain_token_show_int [of i] by (auto simp: plain_token_def intro: str_strip_id)
  have "split_sign (show_int i) = (i < 0, ?s)"
    using split_sign_digits [OF d] by (cases "i < 0") (simp_all add: show_int_def, simp add: split_sign_def)
  moreover have "underscores_ok (CHR 0x00) ?s"
    using digits_plain(1) [OF d] by (rule underscores_ok_plain) simp
  moreover have "all_digits ?s" using d by (auto simp: all_digits_def list_all_iff)
  ultimately show ?thesis
    using assms by (auto simp: py_int_def strip digits_plain(4) [OF d] signed_def int_in_limit_def)
qed

section \<open>The contract of the numeric parsers\<close>

text \<open>
  The five numeric parsers share one contract: split the option, convert every item, stop at
  the first bad one, and refuse an empty list. \<open>printed_option\<close> adds a printer whose output
  the item parser reads back; the whole list then reads back too.
\<close>

locale list_option =
  fixes item :: "string \<Rightarrow> 'a res"
    and parse :: "string \<Rightarrow> 'a list res"
    and msg :: string
    and accepts :: "string \<Rightarrow> 'a \<Rightarrow> bool"
  assumes parse_loop: "parse value = bindR (mapR item (parse_csv_list value)) (nonempty_or msg)"
    and item_accepts: "item i = Inr v \<longleftrightarrow> accepts i v"
begin

lemma parse_Inr:
  "parse value = Inr vs \<longleftrightarrow> parse_csv_list value \<noteq> [] \<and> list_all2 accepts (parse_csv_list value) vs"
  by (auto simp: parse_loop res_iff item_accepts dest: list_all2_lengthD)

lemma parse_values: "parse value = Inr vs \<Longrightarrow> vs \<noteq> [] \<and> (\<forall>v\<in>set vs. \<exists>i\<in>set (parse_csv_list value). accepts i v)"
  by (auto simp: parse_Inr list_all2_conv_all_nth in_set_conv_nth) (metis nth_mem)

end

locale printed_option = list_option +
  fixes show_item :: "'a \<Rightarrow> string"
    and printable :: "'a \<Rightarrow> bool"
  assumes show_plain: "plain_token (show_item v)"
    and show_accepted: "printable v \<Longrightarrow> accepts (show_item v) v"
begin

lemma parse_printed:
  assumes "vs \<noteq> []" and "\<forall>v\<in>set vs. printable v"
  shows "parse (str_join '','' (map show_item vs)) = Inr vs"
proof -
  have "parse_csv_list (str_join '','' (map show_item vs)) = map show_item vs"
    by (intro parse_csv_list_join) (auto simp: show_plain)
  moreover have "list_all2 accepts (map show_item vs) vs"
    using assms(2) by (auto simp: list_all2_conv_all_nth show_accepted)
  ultimately show ?thesis using assms(1) by (simp add: parse_Inr)
qed

end

interpretation seeds_opt: printed_option seed_item parse_seeds "''At least one seed is required''"
    "\<lambda>i v. py_int i = Some v" show_int int_in_limit
  by unfold_locales (simp_all add: parse_seeds_def seed_item_Inr plain_token_show_int py_int_show_int)

interpretation pos_opt: printed_option positive_int_item parse_positive_ints
    "''At least one integer value is required''" "\<lambda>i v. py_int i = Some v \<and> 0 < v" show_int
    "\<lambda>v. int_in_limit v \<and> 0 < v"
  by unfold_locales (simp_all add: parse_positive_ints_def positive_int_item_Inr
    plain_token_show_int py_int_show_int)

interpretation nonneg_opt: printed_option nonnegative_int_item parse_nonnegative_ints
    "''At least one integer value is required''" "\<lambda>i v. py_int i = Some v \<and> 0 \<le> v" show_int
    "\<lambda>v. int_in_limit v \<and> 0 \<le> v"
  by unfold_locales (simp_all add: parse_nonnegative_ints_def nonnegative_int_item_Inr
    plain_token_show_int py_int_show_int)

interpretation pos_float_opt: list_option "positive_float_item label"
    "\<lambda>value. parse_positive_floats value label" "''At least one '' @ label @ '' value is required''"
    "\<lambda>i v. py_float i = Some v \<and> is_finite v \<and> 0 < fval v" for label
  by unfold_locales (simp_all add: parse_positive_floats_def positive_float_item_Inr)

interpretation prob_opt: list_option "probability_item label"
    "\<lambda>value. parse_probabilities value label" "''At least one '' @ label @ '' value is required''"
    "\<lambda>i v. py_float i = Some v \<and> is_finite v \<and> 0 \<le> fval v \<and> fval v \<le> 1" for label
  by unfold_locales (simp_all add: parse_probabilities_def probability_item_Inr)

lemmas numeric_parsers_Inr = seeds_opt.parse_Inr pos_opt.parse_Inr nonneg_opt.parse_Inr
  pos_float_opt.parse_Inr prob_opt.parse_Inr

section \<open>Properties of the option parsers\<close>

lemma int_in_limit_eval [eval_simps]:
  "int_in_limit i \<longleftrightarrow> length (show_nat (nat \<bar>i\<bar>)) \<le> 4300"
  by (simp add: int_in_limit_def)

text \<open>
  A positive-integer option is accepted exactly when it has at least one item and every
  item is an integer greater than zero; the sweep dimension is then the list of those
  integers in the order given.
\<close>

theorem parse_positive_ints_exact:
  "parse_positive_ints value = Inr vs \<longleftrightarrow>
     parse_csv_list value \<noteq> [] \<and>
     list_all2 (\<lambda>item v. py_int item = Some v \<and> 0 < v) (parse_csv_list value) vs"
  by (rule pos_opt.parse_Inr)

text \<open>
  A probability option is accepted exactly when it has at least one item and every item
  is a finite number in the closed interval from 0 to 1; infinities and NaN are refused.
\<close>

theorem parse_probabilities_exact:
  "parse_probabilities value label = Inr vs \<longleftrightarrow>
     parse_csv_list value \<noteq> [] \<and>
     list_all2 (\<lambda>item v. py_float item = Some v \<and> is_finite v \<and> 0 \<le> fval v \<and> fval v \<le> 1)
       (parse_csv_list value) vs"
  by (rule prob_opt.parse_Inr)

text \<open>
  A list of positive integers printed in decimal and joined with commas is read back by
  \<open>parse_positive_ints\<close> as the same list.
\<close>

theorem parse_positive_ints_roundtrip:
  assumes "vs \<noteq> []" and "\<forall>v\<in>set vs. int_in_limit v \<and> 0 < v"
  shows "parse_positive_ints (str_join '','' (map show_int vs)) = Inr vs"
  using assms by (rule pos_opt.parse_printed)

theorem parse_positive_ints_roundtrip_witness:
  "parse_positive_ints ''4,128'' = Inr [4, 128]"
  using parse_positive_ints_roundtrip [of "[4, 128]"] by (simp add: eval_simps)

text \<open>
  The policy option accepts exactly the non-empty lists of known policy labels, and
  returns them unchanged and in order.
\<close>

theorem parse_policies_exact:
  "parse_policies value = Inr ps \<longleftrightarrow>
     ps = parse_csv_list value \<and> ps \<noteq> [] \<and> set ps \<subseteq> set POLICIES"
  by (rule parse_policies_Inr)

end
