(* ===== verification/Sha1.thy ===== *)
theory Sha1
  imports Prelude "HOL-Library.Word"
begin

text \<open>
  \<open>hashlib.sha1(text.encode("utf-8")).hexdigest()\<close> of the Python standard library, as used by
  \<^verbatim>\<open>bounded_run_name\<close>: the padding, message schedule and compression function of FIPS 180-4
  over 32-bit words.
\<close>

unbundle bit_operations_syntax

type_synonym u32 = "32 word"

definition utf8_char :: "char \<Rightarrow> nat list" where
  "utf8_char c = (let n = of_char c in if n < 128 then [n] else [192 + n div 64, 128 + n mod 64])"

definition utf8 :: "string \<Rightarrow> nat list" where
  "utf8 s = concat (map utf8_char s)"

text \<open>Big-endian bytes and words.\<close>

fun be_bytes :: "nat \<Rightarrow> nat \<Rightarrow> nat list" where
  "be_bytes 0 n = []"
| "be_bytes (Suc k) n = be_bytes k (n div 256) @ [n mod 256]"

definition sha1_pad :: "nat list \<Rightarrow> nat list" where
  "sha1_pad bs =
     (let n = length bs
      in bs @ [128] @ replicate ((119 - n mod 64) mod 64) 0 @ be_bytes 8 (8 * n))"

definition be_word :: "nat list \<Rightarrow> u32" where
  "be_word bs = of_nat (foldl (\<lambda>a b. 256 * a + b) 0 bs)"

fun chunks :: "nat \<Rightarrow> nat \<Rightarrow> 'a list \<Rightarrow> 'a list list" where
  "chunks 0 k xs = []"
| "chunks (Suc n) k xs = take k xs # chunks n k (drop k xs)"

text \<open>The 80 words of the schedule, newest first.\<close>

fun sha1_schedule :: "nat \<Rightarrow> u32 list \<Rightarrow> u32 list" where
  "sha1_schedule 0 ws = ws"
| "sha1_schedule (Suc n) ws =
     sha1_schedule n (word_rotl 1 (ws ! 2 XOR ws ! 7 XOR ws ! 13 XOR ws ! 15) # ws)"

definition sha1_f :: "nat \<Rightarrow> u32 \<Rightarrow> u32 \<Rightarrow> u32 \<Rightarrow> u32 \<times> u32" where
  "sha1_f t b c d =
     (if t < 20 then ((b AND c) OR (NOT b AND d), 0x5A827999)
      else if t < 40 then (b XOR c XOR d, 0x6ED9EBA1)
      else if t < 60 then ((b AND c) OR (b AND d) OR (c AND d), 0x8F1BBCDC)
      else (b XOR c XOR d, 0xCA62C1D6))"

type_synonym sha1_state = "u32 \<times> u32 \<times> u32 \<times> u32 \<times> u32"

fun sha1_rounds :: "nat \<Rightarrow> u32 list \<Rightarrow> sha1_state \<Rightarrow> sha1_state" where
  "sha1_rounds t [] st = st"
| "sha1_rounds t (w # ws) (a, b, c, d, e) =
     (let (f, k) = sha1_f t b c d
      in sha1_rounds (Suc t) ws (word_rotl 5 a + f + e + k + w, a, word_rotl 30 b, c, d))"

definition sha1_block :: "sha1_state \<Rightarrow> nat list \<Rightarrow> sha1_state" where
  "sha1_block st block =
     (let ws = rev (sha1_schedule 64 (rev (map be_word (chunks 16 4 block))));
          (a, b, c, d, e) = st;
          (a', b', c', d', e') = sha1_rounds 0 ws st
      in (a + a', b + b', c + c', d + d', e + e'))"

definition hex_char :: "nat \<Rightarrow> char" where
  "hex_char d = ''0123456789abcdef'' ! d"

fun hex_nat :: "nat \<Rightarrow> nat \<Rightarrow> string" where
  "hex_nat 0 n = []"
| "hex_nat (Suc k) n = hex_nat k (n div 16) @ [hex_char (n mod 16)]"

definition hex_word :: "u32 \<Rightarrow> string" where
  "hex_word w = hex_nat 8 (unat w)"

definition sha1_hexdigest :: "string \<Rightarrow> string" where
  "sha1_hexdigest text =
     (let bytes = sha1_pad (utf8 text);
          init = (0x67452301, 0xEFCDAB89, 0x98BADCFE, 0x10325476, 0xC3D2E1F0);
          (a, b, c, d, e) = foldl sha1_block init (chunks (length bytes div 64) 64 bytes)
      in hex_word a @ hex_word b @ hex_word c @ hex_word d @ hex_word e)"

text \<open>The digest has forty hexadecimal digits.\<close>

lemma length_hex_nat [simp]: "length (hex_nat k n) = k"
  by (induction k arbitrary: n) simp_all

lemma length_sha1 [simp]: "length (sha1_hexdigest text) = 40"
  by (simp add: sha1_hexdigest_def hex_word_def Let_def split: prod.splits)

lemma hex_char_chars: "d < 16 \<Longrightarrow> hex_char d \<in> set ''0123456789abcdef''"
  unfolding hex_char_def by (rule nth_mem) simp

lemma hex_nat_chars: "set (hex_nat k n) \<subseteq> set ''0123456789abcdef''"
  using hex_char_chars by (induction k arbitrary: n) auto

lemma sha1_chars: "set (sha1_hexdigest text) \<subseteq> set ''0123456789abcdef''"
  using hex_nat_chars by (auto simp: sha1_hexdigest_def hex_word_def Let_def split: prod.splits simp del: list.set)

text \<open>Padding fills whole blocks, so no byte of the message is dropped.\<close>

lemma length_be_bytes [simp]: "length (be_bytes k n) = k"
  by (induction k arbitrary: n) simp_all

lemma sha1_pad_blocks: "length (sha1_pad bs) mod 64 = 0"
proof -
  define r q where "r = length bs mod 64" and "q = length bs div 64"
  have r: "r < 64" and n: "length bs = 64 * q + r" by (simp_all add: r_def q_def)
  have "(119 - r) mod 64 = (if r \<le> 55 then 55 - r else 119 - r)"
  proof (cases "r \<le> 55")
    case True
    then have "119 - r = (55 - r) + 64" by simp
    then have "(119 - r) mod 64 = (55 - r) mod 64" by (simp only: mod_add_self2)
    with True show ?thesis by simp
  next
    case False
    then show ?thesis by simp
  qed
  then have "length (sha1_pad bs) = 64 * q + (if r \<le> 55 then 64 else 128)"
    using r n by (simp add: sha1_pad_def Let_def r_def [symmetric])
  then show ?thesis by simp
qed

end
