(* ===== verification/RunMatrixBuild.thy ===== *)
theory RunMatrixBuild
  imports RunMatrixCli Sha1
begin

text \<open>
  Expansion of a sweep into runs (\<^verbatim>\<open>scripts/run_matrix.py\<close>, lines 1496 to 1856 and 1912 to
  1924): run names and their length bound, the derived values of a run, the feasibility
  check on hot sets, and \<^verbatim>\<open>build_runs\<close> with its Cartesian product, its \<^verbatim>\<open>continue\<close> and its
  two ways to stop. \<open>sweep\<close> holds the list arguments of \<^verbatim>\<open>build_runs\<close> and \<open>combo\<close> one tuple
  of its loop variables.
\<close>

section \<open>Names and derived values\<close>

definition slug_float :: "pyfloat \<Rightarrow> string" where
  "slug_float value = str_replace (CHR ''.'') ''p'' (fmt_g value)"

definition run_name_token :: "string \<Rightarrow> string" where
  "run_name_token value = (case map_of RUN_NAME_ALIASES value of None \<Rightarrow> value | Some a \<Rightarrow> a)"

definition hot_set_churn_label :: "string \<Rightarrow> pyfloat \<Rightarrow> string" where
  "hot_set_churn_label mode churn_fraction =
     (if mode = ''static'' \<or> feq churn_fraction fzero then ''none''
      else if feq churn_fraction fone then ''full'' else ''partial'')"

text \<open>The slice \<open>xs[:i]\<close>; a negative bound counts from the end.\<close>

definition py_take :: "int \<Rightarrow> 'a list \<Rightarrow> 'a list" where
  "py_take i xs = (if 0 \<le> i then take (nat i) xs else take (length xs - nat (- i)) xs)"

definition node_ids_for_run :: "MatrixRun \<Rightarrow> int list res" where
  "node_ids_for_run run =
     (let ids = compute_node_ids (run_preset run)
      in if int (length ids) < run_compute_node_count run
         then Inl (SystemExit (''Preset '' @ preset_name (run_preset run) @ '' only defines ''
           @ show_nat (length ids) @ '' compute node IDs''))
         else Inr (py_take (run_compute_node_count run) ids))"

definition memory_bandwidth_bytes_per_time :: "MatrixRun \<Rightarrow> int res" where
  "memory_bandwidth_bytes_per_time run =
     dict_get MEMORY_BANDWIDTH_BYTES_PER_TIME_BY_LEVEL (run_memory_bandwidth_level run)"

definition memory_base_latency :: "MatrixRun \<Rightarrow> int res" where
  "memory_base_latency run = dict_get MEMORY_BASE_LATENCY_BY_LEVEL (run_memory_base_latency_level run)"

definition one_way_link_latency :: "MatrixRun \<Rightarrow> int res" where
  "one_way_link_latency run = dict_get LINK_LATENCY_BY_LEVEL (run_link_latency_level run)"

definition cache_capacity_bytes :: "MatrixRun \<Rightarrow> int res" where
  "cache_capacity_bytes run =
     (let hot_set_bytes = run_hot_set_size run * object_size_bytes (run_preset run)
      in bindR (py_round (fmul (float_of_int hot_set_bytes) (run_cache_capacity_hotset_multiplier run)))
           (\<lambda>n. Inr (max 1 n)))"

definition bounded_run_name :: "string \<Rightarrow> int \<Rightarrow> string" where
  "bounded_run_name name max_length =
     (if int (length name) \<le> max_length then name
      else let digest = take 10 (sha1_hexdigest name)
           in py_take (max_length - int (length digest) - 2) name @ ''__'' @ digest)"

section \<open>Sweeps and combinations\<close>

record sweep =
  sw_seeds :: "int list"
  sw_policies :: "string list"
  sw_node_counts :: "int list"
  sw_object_counts :: "int list"
  sw_epoch_counts :: "int list"
  sw_epoch_lengths :: "int list"
  sw_workload_issue_modes :: "string list"
  sw_burst_sizes :: "int list"
  sw_burst_intervals :: "int list"
  sw_intra_burst_gaps :: "int list"
  sw_node_phase_jitters :: "int list"
  sw_hot_set_sizes :: "int list"
  sw_hot_access_probabilities :: "pyfloat list"
  sw_churn_fractions :: "pyfloat list"
  sw_overlaps :: "string list"
  sw_object_size_modes :: "string list"
  sw_large_object_probabilities :: "pyfloat list"
  sw_cache_multipliers :: "pyfloat list"
  sw_memory_channel_counts :: "int list"
  sw_hot_object_channel_counts :: "int list"
  sw_memory_bandwidth_levels :: "string list"
  sw_memory_base_latency_levels :: "string list"
  sw_link_latency_levels :: "string list"

record combo =
  c_seed :: int
  c_policy :: string
  c_node_count :: int
  c_object_count :: int
  c_epoch_count :: int
  c_epoch_length :: int
  c_workload_issue_mode :: string
  c_burst_size :: int
  c_burst_interval :: int
  c_intra_burst_gap :: int
  c_node_phase_jitter :: int
  c_hot_set_size :: int
  c_hot_access_probability :: pyfloat
  c_churn_fraction :: pyfloat
  c_overlap :: string
  c_object_size_mode :: string
  c_large_probability :: pyfloat
  c_cache_multiplier :: pyfloat
  c_memory_channel_count :: int
  c_hot_object_channel_count :: int
  c_bandwidth_level :: string
  c_base_level :: string
  c_link_level :: string

text \<open>\<open>itertools.product\<close> of the 23 dimensions: the last one varies fastest.\<close>

definition cartesian :: "sweep \<Rightarrow> combo list" where
  "cartesian s =
     [\<lparr>c_seed = seed, c_policy = pol, c_node_count = nc, c_object_count = oc, c_epoch_count = ec,
       c_epoch_length = el, c_workload_issue_mode = im, c_burst_size = bs, c_burst_interval = bi,
       c_intra_burst_gap = ig, c_node_phase_jitter = pj, c_hot_set_size = hs,
       c_hot_access_probability = hp, c_churn_fraction = cf, c_overlap = ov,
       c_object_size_mode = om, c_large_probability = lp, c_cache_multiplier = cm,
       c_memory_channel_count = mc, c_hot_object_channel_count = hc, c_bandwidth_level = bw,
       c_base_level = bl, c_link_level = ll\<rparr>.
      seed \<leftarrow> sw_seeds s, pol \<leftarrow> sw_policies s, nc \<leftarrow> sw_node_counts s, oc \<leftarrow> sw_object_counts s,
      ec \<leftarrow> sw_epoch_counts s, el \<leftarrow> sw_epoch_lengths s, im \<leftarrow> sw_workload_issue_modes s,
      bs \<leftarrow> sw_burst_sizes s, bi \<leftarrow> sw_burst_intervals s, ig \<leftarrow> sw_intra_burst_gaps s,
      pj \<leftarrow> sw_node_phase_jitters s, hs \<leftarrow> sw_hot_set_sizes s, hp \<leftarrow> sw_hot_access_probabilities s,
      cf \<leftarrow> sw_churn_fractions s, ov \<leftarrow> sw_overlaps s, om \<leftarrow> sw_object_size_modes s,
      lp \<leftarrow> sw_large_object_probabilities s, cm \<leftarrow> sw_cache_multipliers s,
      mc \<leftarrow> sw_memory_channel_counts s, hc \<leftarrow> sw_hot_object_channel_counts s,
      bw \<leftarrow> sw_memory_bandwidth_levels s, bl \<leftarrow> sw_memory_base_latency_levels s,
      ll \<leftarrow> sw_link_latency_levels s]"

definition run_slug_full :: "MatrixPreset \<Rightarrow> ContentionWeightProfile \<Rightarrow> combo \<Rightarrow> string" where
  "run_slug_full preset prof c =
     run_name_token (preset_name preset)
     @ ''__policy-'' @ run_name_token (c_policy c)
     @ (if profile prof \<noteq> [] then ''__weight-'' @ run_name_token (profile prof) else [])
     @ ''__seed-'' @ show_int (c_seed c)
     @ ''__nodes-'' @ show_int (c_node_count c)
     @ ''__objects-'' @ show_int (c_object_count c)
     @ ''__epochs-'' @ show_int (c_epoch_count c)
     @ ''__rpe-'' @ show_int (c_epoch_length c)
     @ ''__issue-'' @ run_name_token (c_workload_issue_mode c)
     @ ''__burst-'' @ show_int (c_burst_size c) @ ''-'' @ show_int (c_burst_interval c)
       @ ''-'' @ show_int (c_intra_burst_gap c) @ ''-'' @ show_int (c_node_phase_jitter c)
     @ ''__hotset-'' @ show_int (c_hot_set_size c)
     @ ''__hotp-'' @ slug_float (c_hot_access_probability c)
     @ ''__mode-'' @ hot_set_mode preset
     @ ''__churn-'' @ slug_float (c_churn_fraction c)
     @ ''__overlap-'' @ c_overlap c
     @ ''__size-'' @ c_object_size_mode c
     @ ''__largep-'' @ slug_float (c_large_probability c)
     @ ''__cachex-'' @ slug_float (c_cache_multiplier c)
     @ ''__memch-'' @ show_int (c_memory_channel_count c)
     @ ''__hotch-'' @ show_int (c_hot_object_channel_count c)
     @ ''__bw-'' @ c_bandwidth_level c
     @ ''__base-'' @ c_base_level c
     @ ''__link-'' @ c_link_level c"

definition run_slug :: "MatrixPreset \<Rightarrow> ContentionWeightProfile \<Rightarrow> combo \<Rightarrow> string" where
  "run_slug preset prof c = bounded_run_name (run_slug_full preset prof c) 180"

section \<open>Feasibility\<close>

definition eligible_count :: "int \<Rightarrow> int \<Rightarrow> int \<Rightarrow> int res" where
  "eligible_count object_count memory_channel_count hot_object_channel_count =
     (let channel_limit = (if hot_object_channel_count = 0 then memory_channel_count
                           else hot_object_channel_count)
      in if memory_channel_count = 0 then Inl ZeroDivisionError
         else Inr ((object_count div memory_channel_count) * channel_limit
                   + min (object_count mod memory_channel_count) channel_limit))"

definition shared_hot_count :: "string \<Rightarrow> int \<Rightarrow> int res" where
  "shared_hot_count overlap hot_set_size =
     dict_get [(''low'', 0), (''medium'', hot_set_size div 2), (''high'', hot_set_size)] overlap"

definition churned :: "int \<Rightarrow> pyfloat \<Rightarrow> int res" where
  "churned count churn = py_ceil (fmul (float_of_int count) churn)"

definition required_count :: "int \<Rightarrow> int \<Rightarrow> int \<Rightarrow> pyfloat \<Rightarrow> int res" where
  "required_count node_count shared_count private_count effective_churn =
     (let base = shared_count + private_count * node_count
      in if flt fzero effective_churn \<and> flt effective_churn fone
         then bindR (if 0 < shared_count then churned shared_count effective_churn else Inr 0) (\<lambda>a.
              bindR (if 0 < private_count then churned private_count effective_churn else Inr 0) (\<lambda>b.
              Inr (base + a + b * node_count)))
         else Inr base)"

definition validate_hot_object_capacity ::
    "int \<Rightarrow> int \<Rightarrow> int \<Rightarrow> string \<Rightarrow> string \<Rightarrow> pyfloat \<Rightarrow> int \<Rightarrow> int \<Rightarrow> unit res" where
  "validate_hot_object_capacity object_count node_count hot_set_size overlap mode churn_fraction
      memory_channel_count hot_object_channel_count =
     bindR (eligible_count object_count memory_channel_count hot_object_channel_count) (\<lambda>eligible.
     bindR (shared_hot_count overlap hot_set_size) (\<lambda>shared.
     bindR (required_count node_count shared (hot_set_size - shared)
              (if mode = ''static'' then fzero else churn_fraction)) (\<lambda>required.
     guardR (required \<le> eligible)
       (SystemExit (''Invalid matrix workload: requested hot-set overlap and churn need ''
          @ show_int required @ '' hot-object candidates, but object_count='' @ show_int object_count
          @ '', memory_channel_count='' @ show_int memory_channel_count
          @ '', and hot_object_channel_count='' @ show_int hot_object_channel_count
          @ '' provide only '' @ show_int eligible)))))"

section \<open>Expansion\<close>

definition contention_weight_profiles_for_policy ::
    "MatrixPreset \<Rightarrow> string \<Rightarrow> ContentionWeightProfile list" where
  "contention_weight_profiles_for_policy preset policy =
     (if preset_name preset = ''eval_contention_weight_sensitivity''
      then (if policy = ''contention_aware_smoothed'' then CONTENTION_WEIGHT_PROFILES
            else [NO_CONTENTION_WEIGHT_PROFILE])
      else [NO_CONTENTION_WEIGHT_PROFILE])"

definition make_run :: "MatrixPreset \<Rightarrow> string \<Rightarrow> combo \<Rightarrow> ContentionWeightProfile \<Rightarrow> MatrixRun" where
  "make_run preset results_dir c prof =
     (let name = run_slug preset prof c
      in \<lparr>run_preset = preset, run_policy = c_policy c, run_contention_weight_profile = prof,
          run_seed = c_seed c, run_compute_node_count = c_node_count c,
          run_object_count = c_object_count c, run_epoch_count = c_epoch_count c,
          run_requests_per_node_per_epoch = c_epoch_length c,
          run_workload_issue_mode = c_workload_issue_mode c, run_burst_size = c_burst_size c,
          run_burst_interval = c_burst_interval c, run_intra_burst_gap = c_intra_burst_gap c,
          run_node_phase_jitter = c_node_phase_jitter c, run_hot_set_size = c_hot_set_size c,
          run_hot_access_probability = c_hot_access_probability c,
          run_hot_set_churn_fraction = c_churn_fraction c,
          run_cross_node_overlap = c_overlap c, run_object_size_mode = c_object_size_mode c,
          run_large_object_probability = c_large_probability c,
          run_cache_capacity_hotset_multiplier = c_cache_multiplier c,
          run_memory_channel_count = c_memory_channel_count c,
          run_hot_object_channel_count = c_hot_object_channel_count c,
          run_memory_bandwidth_level = c_bandwidth_level c,
          run_memory_base_latency_level = c_base_level c, run_link_latency_level = c_link_level c,
          run_run_name = name,
          run_config_path = path_join (path_join results_dir ''generated_configs'') (name @ ''.yaml''),
          run_output_dir = path_join (path_join results_dir ''runs'') name\<rparr>)"

text \<open>The body of the loop: skip, two checks that stop the program, one run per profile.\<close>

definition burst_too_tight :: "combo \<Rightarrow> bool" where
  "burst_too_tight c =
     (c_workload_issue_mode c = ''scheduled_bursty'' \<and> 1 < c_burst_size c
      \<and> c_burst_interval c < (c_burst_size c - 1) * c_intra_burst_gap c)"

definition combo_runs :: "MatrixPreset \<Rightarrow> string \<Rightarrow> combo \<Rightarrow> MatrixRun list res" where
  "combo_runs preset results_dir c =
     (if c_memory_channel_count c < c_hot_object_channel_count c then Inr []
      else bindR (validate_hot_object_capacity (c_object_count c) (c_node_count c) (c_hot_set_size c)
                    (c_overlap c) (hot_set_mode preset) (c_churn_fraction c)
                    (c_memory_channel_count c) (c_hot_object_channel_count c)) (\<lambda>_.
           bindR (guardR (\<not> burst_too_tight c)
                    (SystemExit (''Invalid scheduled_bursty timing: burst_interval must be at ''
                       @ ''least (burst_size - 1) * intra_burst_gap''))) (\<lambda>_.
           Inr (map (make_run preset results_dir c)
                  (contention_weight_profiles_for_policy preset (c_policy c))))))"

definition build_runs :: "MatrixPreset \<Rightarrow> sweep \<Rightarrow> string \<Rightarrow> MatrixRun list res" where
  "build_runs preset s results_dir =
     bindR (mapR (combo_runs preset results_dir) (cartesian s)) (\<lambda>rss. Inr (concat rss))"

section \<open>The product\<close>

lemma cartesian_iff:
  "c \<in> set (cartesian s) \<longleftrightarrow>
     c_seed c \<in> set (sw_seeds s) \<and> c_policy c \<in> set (sw_policies s) \<and>
     c_node_count c \<in> set (sw_node_counts s) \<and> c_object_count c \<in> set (sw_object_counts s) \<and>
     c_epoch_count c \<in> set (sw_epoch_counts s) \<and> c_epoch_length c \<in> set (sw_epoch_lengths s) \<and>
     c_workload_issue_mode c \<in> set (sw_workload_issue_modes s) \<and>
     c_burst_size c \<in> set (sw_burst_sizes s) \<and> c_burst_interval c \<in> set (sw_burst_intervals s) \<and>
     c_intra_burst_gap c \<in> set (sw_intra_burst_gaps s) \<and>
     c_node_phase_jitter c \<in> set (sw_node_phase_jitters s) \<and>
     c_hot_set_size c \<in> set (sw_hot_set_sizes s) \<and>
     c_hot_access_probability c \<in> set (sw_hot_access_probabilities s) \<and>
     c_churn_fraction c \<in> set (sw_churn_fractions s) \<and> c_overlap c \<in> set (sw_overlaps s) \<and>
     c_object_size_mode c \<in> set (sw_object_size_modes s) \<and>
     c_large_probability c \<in> set (sw_large_object_probabilities s) \<and>
     c_cache_multiplier c \<in> set (sw_cache_multipliers s) \<and>
     c_memory_channel_count c \<in> set (sw_memory_channel_counts s) \<and>
     c_hot_object_channel_count c \<in> set (sw_hot_object_channel_counts s) \<and>
     c_bandwidth_level c \<in> set (sw_memory_bandwidth_levels s) \<and>
     c_base_level c \<in> set (sw_memory_base_latency_levels s) \<and>
     c_link_level c \<in> set (sw_link_latency_levels s)"
proof (cases c)
  case (fields seed pol nc oc ec el im bs bi ig pj hs hp cf ov om lp cm mc hc bw bl ll)
  show ?thesis
    unfolding fields cartesian_def
    by (simp only: set_concat set_map UN_iff image_iff combo.simps bex_simps
        combo.ext_inject set_simps singleton_iff) blast
qed

text \<open>How many conditions a sweep has for one policy, and how many combinations in all.\<close>

definition condition_count :: "sweep \<Rightarrow> nat" where
  "condition_count s =
     length (sw_node_counts s) * length (sw_object_counts s) * length (sw_epoch_counts s)
     * length (sw_epoch_lengths s) * length (sw_workload_issue_modes s) * length (sw_burst_sizes s)
     * length (sw_burst_intervals s) * length (sw_intra_burst_gaps s)
     * length (sw_node_phase_jitters s) * length (sw_hot_set_sizes s)
     * length (sw_hot_access_probabilities s) * length (sw_churn_fractions s)
     * length (sw_overlaps s) * length (sw_object_size_modes s)
     * length (sw_large_object_probabilities s) * length (sw_cache_multipliers s)
     * length (sw_memory_channel_counts s) * length (sw_hot_object_channel_counts s)
     * length (sw_memory_bandwidth_levels s) * length (sw_memory_base_latency_levels s)
     * length (sw_link_latency_levels s)"

lemma sum_list_concat_map:
  fixes f :: "'b \<Rightarrow> nat"
  shows "sum_list (map f (concat (map g xs))) = sum_list (map (\<lambda>x. sum_list (map f (g x))) xs)"
  by (induction xs) simp_all

lemma sum_list_const: "sum_list (map (\<lambda>x. c) xs) = length xs * (c :: nat)"
  by (induction xs) simp_all

text \<open>A quantity that depends on the policy only sums up policy by policy.\<close>

lemma sum_over_cartesian:
  fixes f :: "string \<Rightarrow> nat"
  shows "sum_list (map (\<lambda>c. f (c_policy c)) (cartesian s)) =
     length (sw_seeds s) * (sum_list (map f (sw_policies s)) * condition_count s)"
  unfolding cartesian_def
  by (simp add: sum_list_concat_map sum_list_const o_def condition_count_def
      sum_list_const_mult mult.assoc)

section \<open>What build_runs returns\<close>

definition combo_skipped :: "combo \<Rightarrow> bool" where
  "combo_skipped c = (c_memory_channel_count c < c_hot_object_channel_count c)"

text \<open>
  How many combinations per policy survive the \<^verbatim>\<open>continue\<close> of the loop, and the sum over them of
  a quantity that depends on the policy only.
\<close>

definition unskipped_count :: "sweep \<Rightarrow> nat" where
  "unskipped_count s =
     length (sw_seeds s) * (length (sw_node_counts s) * (length (sw_object_counts s)
     * (length (sw_epoch_counts s) * (length (sw_epoch_lengths s)
     * (length (sw_workload_issue_modes s) * (length (sw_burst_sizes s)
     * (length (sw_burst_intervals s) * (length (sw_intra_burst_gaps s)
     * (length (sw_node_phase_jitters s) * (length (sw_hot_set_sizes s)
     * (length (sw_hot_access_probabilities s) * (length (sw_churn_fractions s)
     * (length (sw_overlaps s) * (length (sw_object_size_modes s)
     * (length (sw_large_object_probabilities s) * (length (sw_cache_multipliers s)
     * (sum_list (map (\<lambda>mc. sum_list (map (\<lambda>hc. if mc < hc then 0 else 1)
          (sw_hot_object_channel_counts s))) (sw_memory_channel_counts s))
     * (length (sw_memory_bandwidth_levels s) * (length (sw_memory_base_latency_levels s)
     * length (sw_link_latency_levels s))))))))))))))))))))"

lemma if_zero_mult: "(if b then 0 else x) = (if b then 0 else 1) * (x::nat)" by simp

lemma sum_over_unskipped:
  fixes f :: "string \<Rightarrow> nat"
  shows "sum_list (map (\<lambda>c. if combo_skipped c then 0 else f (c_policy c)) (cartesian s)) =
     unskipped_count s * sum_list (map f (sw_policies s))"
  unfolding cartesian_def combo_skipped_def
  apply (simp only: sum_list_concat_map map_map o_def combo.simps sum_list_const list.map
      sum_list.Cons sum_list.Nil concat.simps add_0_right if_zero_mult [of _ "f _"])
  apply (simp only: mult.assoc [symmetric] mult.commute [of "length _"] sum_list_const
      sum_list_mult_const sum_list_const_mult mult.commute [of _ "f _"])
  apply (simp add: unskipped_count_def)
  done

definition combo_feasible :: "MatrixPreset \<Rightarrow> combo \<Rightarrow> bool" where
  "combo_feasible preset c =
     (validate_hot_object_capacity (c_object_count c) (c_node_count c) (c_hot_set_size c)
        (c_overlap c) (hot_set_mode preset) (c_churn_fraction c)
        (c_memory_channel_count c) (c_hot_object_channel_count c) = Inr ()
      \<and> \<not> burst_too_tight c)"

definition profiles_of :: "MatrixPreset \<Rightarrow> combo \<Rightarrow> ContentionWeightProfile list" where
  "profiles_of preset c = contention_weight_profiles_for_policy preset (c_policy c)"

lemma profiles_ne [simp]: "contention_weight_profiles_for_policy preset policy \<noteq> []"
  using length_weight_profiles by (auto simp: contention_weight_profiles_for_policy_def)

lemma combo_runs_Inr:
  "combo_runs preset d c = Inr rs \<longleftrightarrow>
     (if combo_skipped c then rs = []
      else combo_feasible preset c \<and> rs = map (make_run preset d c) (profiles_of preset c))"
  by (auto simp: combo_runs_def combo_skipped_def combo_feasible_def profiles_of_def res_iff)

lemma build_runs_Inr:
  "build_runs preset s d = Inr runs \<longleftrightarrow>
     (\<forall>c\<in>set (cartesian s). combo_skipped c \<or> combo_feasible preset c) \<and>
     runs = concat (map (\<lambda>c. map (make_run preset d c) (profiles_of preset c))
                     (filter (\<lambda>c. \<not> combo_skipped c) (cartesian s)))"
proof -
  have loop: "mapR (combo_runs preset d) cs = Inr rss \<longleftrightarrow>
      (\<forall>c\<in>set cs. combo_skipped c \<or> combo_feasible preset c) \<and>
      rss = map (\<lambda>c. if combo_skipped c then []
                     else map (make_run preset d c) (profiles_of preset c)) cs" for cs rss
    by (induction cs arbitrary: rss) (auto simp: bindR_Inr_iff combo_runs_Inr split: if_splits)
  have flat: "concat (map (\<lambda>c. if combo_skipped c then [] else g c) cs)
      = concat (map g (filter (\<lambda>c. \<not> combo_skipped c) cs))" for g :: "combo \<Rightarrow> MatrixRun list" and cs
    by (induction cs) auto
  show ?thesis by (auto simp: build_runs_def bindR_Inr_iff loop flat)
qed

lemma build_runs_member:
  assumes "build_runs preset s d = Inr runs"
  shows "r \<in> set runs \<longleftrightarrow>
     (\<exists>c\<in>set (cartesian s). \<not> combo_skipped c \<and> combo_feasible preset c \<and>
        (\<exists>prof\<in>set (profiles_of preset c). r = make_run preset d c prof))"
  using assms by (auto simp: build_runs_Inr)

lemma make_run_fields [simp]:
  "run_preset (make_run p d c w) = p" "run_policy (make_run p d c w) = c_policy c"
  "run_contention_weight_profile (make_run p d c w) = w"
  "run_seed (make_run p d c w) = c_seed c"
  "run_compute_node_count (make_run p d c w) = c_node_count c"
  "run_object_count (make_run p d c w) = c_object_count c"
  "run_hot_set_size (make_run p d c w) = c_hot_set_size c"
  "run_memory_channel_count (make_run p d c w) = c_memory_channel_count c"
  "run_hot_object_channel_count (make_run p d c w) = c_hot_object_channel_count c"
  "run_memory_bandwidth_level (make_run p d c w) = c_bandwidth_level c"
  "run_memory_base_latency_level (make_run p d c w) = c_base_level c"
  "run_link_latency_level (make_run p d c w) = c_link_level c"
  "run_cache_capacity_hotset_multiplier (make_run p d c w) = c_cache_multiplier c"
  "run_run_name (make_run p d c w) = run_slug p w c"
  by (simp_all add: make_run_def Let_def)

text \<open>
  The condition of a run is everything about it but the policy, the weight profile and the
  names derived from them.
\<close>

definition run_condition :: "MatrixRun \<Rightarrow> MatrixRun" where
  "run_condition r = r\<lparr>run_policy := [],
     run_contention_weight_profile := NO_CONTENTION_WEIGHT_PROFILE,
     run_run_name := [], run_config_path := [], run_output_dir := []\<rparr>"

lemma run_condition_make_run:
  "run_condition (make_run p d (c\<lparr>c_policy := q\<rparr>) w) = run_condition (make_run p d c w')"
  by (simp add: run_condition_def make_run_def Let_def)

lemma combo_policy_irrelevant [simp]:
  "combo_skipped (c\<lparr>c_policy := q\<rparr>) = combo_skipped c"
  "combo_feasible p (c\<lparr>c_policy := q\<rparr>) = combo_feasible p c"
  by (simp_all add: combo_skipped_def combo_feasible_def burst_too_tight_def)

lemma cartesian_change_policy:
  "c \<in> set (cartesian s) \<Longrightarrow> q \<in> set (sw_policies s) \<Longrightarrow> c\<lparr>c_policy := q\<rparr> \<in> set (cartesian s)"
  by (simp add: cartesian_iff)

lemma build_runs_length:
  assumes "build_runs preset s d = Inr runs"
    and "\<forall>mc\<in>set (sw_memory_channel_counts s). \<forall>hc\<in>set (sw_hot_object_channel_counts s). hc \<le> mc"
  shows "length runs = length (sw_seeds s)
    * (sum_list (map (\<lambda>q. length (contention_weight_profiles_for_policy preset q)) (sw_policies s))
       * condition_count s)"
proof -
  have "filter (\<lambda>c. \<not> combo_skipped c) (cartesian s) = cartesian s"
    using assms(2) by (auto simp: filter_id_conv combo_skipped_def cartesian_iff not_less)
  then have "length runs = sum_list (map (\<lambda>c. length (profiles_of preset c)) (cartesian s))"
    using assms(1) by (simp add: build_runs_Inr length_concat o_def)
  then show ?thesis
    using sum_over_cartesian [of "\<lambda>q. length (contention_weight_profiles_for_policy preset q)" s]
    by (simp add: profiles_of_def)
qed

text \<open>Any count over the runs that looks at policy and profile only.\<close>

lemma build_runs_count:
  assumes "build_runs preset s d = Inr runs"
  shows "length (filter (\<lambda>r. P (run_policy r) (run_contention_weight_profile r)) runs) =
    unskipped_count s * sum_list (map (\<lambda>q. length (filter (P q)
      (contention_weight_profiles_for_policy preset q))) (sw_policies s))"
proof -
  have "length (filter (\<lambda>r. P (run_policy r) (run_contention_weight_profile r))
      (concat (map (\<lambda>c. map (make_run preset d c) (profiles_of preset c)) (filter (\<lambda>c. \<not> combo_skipped c) cs)))) =
    sum_list (map (\<lambda>c. if combo_skipped c then 0
      else length (filter (P (c_policy c)) (profiles_of preset c))) cs)" for cs
    by (induction cs) (simp_all add: filter_map o_def)
  moreover have "runs = concat (map (\<lambda>c. map (make_run preset d c) (profiles_of preset c))
      (filter (\<lambda>c. \<not> combo_skipped c) (cartesian s)))"
    using assms unfolding build_runs_Inr by blast
  ultimately show ?thesis
    using sum_over_unskipped [of "\<lambda>q. length (filter (P q) (contention_weight_profiles_for_policy preset q))" s]
    by (simp only: profiles_of_def)
qed

section \<open>Which objects may be hot\<close>

text \<open>The closed formula counts the objects whose channel lies below the limit.\<close>

lemma eligible_formula:
  assumes "0 < m" and "l \<le> m"
  shows "card {n. n < k \<and> n mod m < l} = (k div m) * l + min (k mod m) (l :: nat)"
proof (induction k)
  case (Suc k)
  have split: "{n. n < Suc k \<and> n mod m < l} =
      {n. n < k \<and> n mod m < l} \<union> (if k mod m < l then {k} else {})"
    by (auto simp: less_Suc_eq)
  have fin: "finite {n. n < k \<and> n mod m < l}" by simp
  have "card {n. n < Suc k \<and> n mod m < l} =
      card {n. n < k \<and> n mod m < l} + (if k mod m < l then 1 else 0)"
    unfolding split using fin by (auto simp: card_insert_if)
  moreover have "k mod m < m" using assms(1) by simp
  ultimately show ?case
    using Suc assms(2) by (auto simp: mod_Suc div_Suc min_def algebra_simps)
qed simp

lemma eligible_count_card:
  assumes "0 < mc" and "0 \<le> hc" and "hc \<le> mc" and "0 \<le> oc"
  shows "eligible_count oc mc hc =
    Inr (int (card {n. n < nat oc \<and> n mod nat mc < nat (if hc = 0 then mc else hc)}))"
proof -
  define l where "l = (if hc = 0 then mc else hc)"
  have l: "0 \<le> l" "l \<le> mc" using assms by (simp_all add: l_def)
  have "card {n. n < nat oc \<and> n mod nat mc < nat l} = nat oc div nat mc * nat l + min (nat oc mod nat mc) (nat l)"
    using assms(1) l by (intro eligible_formula) auto
  then have "int (card {n. n < nat oc \<and> n mod nat mc < nat l}) = (oc div mc) * l + min (oc mod mc) l"
    using assms l by (simp add: of_nat_min zdiv_int zmod_int)
  then show ?thesis
    using assms(1) unfolding l_def [symmetric] by (simp add: eligible_count_def Let_def l_def)
qed

text \<open>
  The sweep of a preset without overrides: every list argument is the preset's own. The pair
  of runs below is a small closed instance.
\<close>

definition preset_sweep :: "MatrixPreset \<Rightarrow> int list \<Rightarrow> string list \<Rightarrow> sweep" where
  "preset_sweep p seeds policies = \<lparr>
     sw_seeds = seeds, sw_policies = policies,
     sw_node_counts = compute_node_count_values p, sw_object_counts = object_count_values p,
     sw_epoch_counts = epoch_count_values p, sw_epoch_lengths = requests_per_node_per_epoch_values p,
     sw_workload_issue_modes = workload_issue_modes p, sw_burst_sizes = burst_sizes p,
     sw_burst_intervals = burst_intervals p, sw_intra_burst_gaps = intra_burst_gaps p,
     sw_node_phase_jitters = node_phase_jitters p, sw_hot_set_sizes = hot_set_size_values p,
     sw_hot_access_probabilities = hot_access_probabilities p,
     sw_churn_fractions = hot_set_churn_fractions p, sw_overlaps = cross_node_overlaps p,
     sw_object_size_modes = object_size_modes p,
     sw_large_object_probabilities = large_object_probabilities p,
     sw_cache_multipliers = cache_capacity_hotset_multipliers p,
     sw_memory_channel_counts = memory_channel_counts p,
     sw_hot_object_channel_counts = hot_object_channel_counts p,
     sw_memory_bandwidth_levels = memory_bandwidth_levels p,
     sw_memory_base_latency_levels = memory_base_latency_levels p,
     sw_link_latency_levels = link_latency_levels p\<rparr>"

definition quick_pair :: sweep where
  "quick_pair = preset_sweep preset_quick [8888] [''lru'', ''hotness_only'']"

definition quick_combo :: "string \<Rightarrow> combo" where
  "quick_combo q = \<lparr>c_seed = 8888, c_policy = q, c_node_count = 4, c_object_count = 128,
     c_epoch_count = 3, c_epoch_length = 16, c_workload_issue_mode = ''completion_driven'',
     c_burst_size = 4, c_burst_interval = 100, c_intra_burst_gap = 1, c_node_phase_jitter = 0,
     c_hot_set_size = 8, c_hot_access_probability = flit 8 1, c_churn_fraction = flit 1 0,
     c_overlap = ''medium'', c_object_size_mode = ''fixed'', c_large_probability = flit 1 1,
     c_cache_multiplier = flit 5 1, c_memory_channel_count = 1, c_hot_object_channel_count = 0,
     c_bandwidth_level = ''moderate'', c_base_level = ''medium'', c_link_level = ''medium''\<rparr>"

lemma quick_pair_product: "cartesian quick_pair = [quick_combo ''lru'', quick_combo ''hotness_only'']"
  by (simp add: quick_pair_def preset_sweep_def preset_quick_def cartesian_def quick_combo_def)

lemma quick_combo_policy [simp]: "c_policy (quick_combo q) = q"
  by (simp add: quick_combo_def)

lemma quick_combo_feasible: "combo_feasible preset_quick (quick_combo q)"
  by (simp add: combo_feasible_def quick_combo_def preset_quick_def validate_hot_object_capacity_def
      eligible_count_def shared_hot_count_def dict_get_def required_count_def burst_too_tight_def eval_simps
      cong: eval_congs)

lemma quick_pair_feasible: "\<forall>c\<in>set (cartesian quick_pair). combo_skipped c \<or> combo_feasible preset_quick c"
  by (simp add: quick_pair_product quick_combo_feasible)

lemma quick_pair_skipped: "\<not> combo_skipped (quick_combo q)"
  by (simp add: combo_skipped_def quick_combo_def)

section \<open>Properties of run generation\<close>

text \<open>
  C10. Matched design: in a generated matrix every selected policy is run under exactly the
  same conditions, so whatever condition a run has, each policy of the sweep has a run with
  that condition too.
\<close>

theorem build_runs_matched:
  assumes "build_runs preset s d = Inr runs" and "r \<in> set runs" and "q \<in> set (sw_policies s)"
  shows "\<exists>r'\<in>set runs. run_policy r' = q \<and> run_condition r' = run_condition r"
proof -
  from assms(1,2) obtain c prof where c: "c \<in> set (cartesian s)" "\<not> combo_skipped c"
    "combo_feasible preset c" and r: "r = make_run preset d c prof"
    by (auto simp: build_runs_member)
  let ?c = "c\<lparr>c_policy := q\<rparr>"
  let ?w = "hd (profiles_of preset ?c)"
  have w: "?w \<in> set (profiles_of preset ?c)" by (simp add: profiles_of_def)
  have "make_run preset d ?c ?w \<in> set runs"
    unfolding build_runs_member [OF assms(1)]
    using c w cartesian_change_policy [OF c(1) assms(3)]
    by (intro bexI [of _ ?c] conjI bexI [of _ ?w] refl) simp_all
  moreover have "run_condition (make_run preset d ?c ?w) = run_condition r"
    unfolding r by (rule run_condition_make_run)
  ultimately show ?thesis by (intro bexI conjI) auto
qed

theorem build_runs_matched_witness:
  "\<exists>runs r. build_runs preset_quick quick_pair ''out'' = Inr runs \<and> r \<in> set runs \<and> run_policy r = ''lru'' \<and>
     (\<exists>r'\<in>set runs. run_policy r' = ''hotness_only'' \<and> run_condition r' = run_condition r)"
proof -
  obtain runs where runs: "build_runs preset_quick quick_pair ''out'' = Inr runs"
    using quick_pair_feasible by (auto simp: build_runs_Inr)
  let ?c = "hd (cartesian quick_pair)"
  have r: "make_run preset_quick ''out'' ?c NO_CONTENTION_WEIGHT_PROFILE \<in> set runs"
    unfolding build_runs_member [OF runs]
    using quick_pair_feasible quick_pair_skipped
    by (intro bexI [of _ ?c] conjI bexI [of _ NO_CONTENTION_WEIGHT_PROFILE] refl)
      (auto simp: quick_pair_product profiles_of_def contention_weight_profiles_for_policy_def preset_quick_def)
  have "''hotness_only'' \<in> set (sw_policies quick_pair)"
    by (simp add: quick_pair_def preset_sweep_def)
  from build_runs_matched [OF runs r this] show ?thesis
    using runs r by (intro exI [of _ runs] exI conjI) (auto simp: quick_pair_product)
qed

text \<open>
  C24. The generator stops with an error exactly when some combination it does not skip cannot
  build its hot sets or has a burst interval too short for the burst.
\<close>

theorem build_runs_error_iff:
  "(\<exists>e. build_runs preset s d = Inl e) \<longleftrightarrow>
     (\<exists>c\<in>set (cartesian s). \<not> combo_skipped c \<and> \<not> combo_feasible preset c)"
proof -
  have "(\<exists>e. build_runs preset s d = Inl e) \<longleftrightarrow> \<not> (\<exists>runs. build_runs preset s d = Inr runs)"
    by (cases "build_runs preset s d") auto
  then show ?thesis by (auto simp: build_runs_Inr)
qed

text \<open>
  C28. The feasibility check accepts a workload exactly when the number of hot objects it needs
  is at most the number of objects of the universe whose memory channel (object id modulo
  channel count) lies below the hot-object channel limit.
\<close>

theorem validate_hot_object_capacity_exact:
  assumes "0 < mc" and "0 \<le> hc" and "hc \<le> mc" and "0 \<le> oc"
  shows "validate_hot_object_capacity oc nc hs ov mode churn mc hc = Inr () \<longleftrightarrow>
    (\<exists>shared required. shared_hot_count ov hs = Inr shared \<and>
       required_count nc shared (hs - shared) (if mode = ''static'' then fzero else churn) = Inr required \<and>
       required \<le> int (card {n. n < nat oc \<and> n mod nat mc < nat (if hc = 0 then mc else hc)}))"
  by (auto simp: validate_hot_object_capacity_def eligible_count_card [OF assms] res_iff)

theorem validate_hot_object_capacity_exact_witness:
  "validate_hot_object_capacity 10 2 2 ''low'' ''static'' fzero 4 2 = Inr () \<longleftrightarrow>
    (\<exists>shared required. shared_hot_count ''low'' 2 = Inr shared \<and>
       required_count 2 shared (2 - shared) (if ''static'' = ''static'' then fzero else fzero) = Inr required \<and>
       required \<le> int (card {n. n < nat 10 \<and> n mod nat 4 < nat (if (2::int) = 0 then 4 else 2)}))"
  by (rule validate_hot_object_capacity_exact) simp_all

text \<open>
  Enlarging the object universe never turns a feasible workload into an infeasible one.
\<close>

theorem validate_hot_object_capacity_mono:
  assumes "validate_hot_object_capacity oc nc hs ov mode churn mc hc = Inr ()"
    and "0 < mc" and "0 \<le> hc" and "hc \<le> mc" and "0 \<le> oc" and "oc \<le> oc'"
  shows "validate_hot_object_capacity oc' nc hs ov mode churn mc hc = Inr ()"
proof -
  let ?E = "\<lambda>k. {n. n < nat k \<and> n mod nat mc < nat (if hc = 0 then mc else hc)}"
  have "?E oc \<subseteq> ?E oc'" using assms(5,6) by auto
  then have "card (?E oc) \<le> card (?E oc')" by (intro card_mono) auto
  then have le: "x \<le> int (card (?E oc)) \<Longrightarrow> x \<le> int (card (?E oc'))" for x
    by linarith
  have oc': "0 \<le> oc'" using assms(5,6) by linarith
  show ?thesis
    using assms(1) le
    by (auto simp: validate_hot_object_capacity_def eligible_count_card [OF assms(2-5)]
        eligible_count_card [OF assms(2-4) oc'] res_iff)
qed

theorem validate_hot_object_capacity_mono_witness:
  "validate_hot_object_capacity 20 2 4 ''medium'' ''epoch_shift'' (flit 5 1) 4 2 = Inr () \<and>
   validate_hot_object_capacity 24 2 4 ''medium'' ''epoch_shift'' (flit 5 1) 4 2 = Inr ()"
proof -
  note defs = validate_hot_object_capacity_def eligible_count_def shared_hot_count_def dict_get_def
    required_count_def churned_def
  have small: "validate_hot_object_capacity 20 2 4 ''medium'' ''epoch_shift'' (flit 5 1) 4 2 = Inr ()"
    by (simp add: defs eval_simps cong: eval_congs)
  show ?thesis
    using small validate_hot_object_capacity_mono [OF small, of 24] by simp
qed

text \<open>
  A run name never exceeds 180 characters: a short name is used as it is, a long one
  keeps its first 168 characters and ends in ten hexadecimal digits of its SHA-1 digest.
\<close>

theorem run_slug_bounded:
  "length (run_slug preset prof c) \<le> 180 \<and>
   run_slug preset prof c =
     (if length (run_slug_full preset prof c) \<le> 180 then run_slug_full preset prof c
      else take 168 (run_slug_full preset prof c) @ ''__''
           @ take 10 (sha1_hexdigest (run_slug_full preset prof c)))"
  by (simp add: run_slug_def bounded_run_name_def py_take_def Let_def)



end
