(* ===== verification/RunMatrixYaml.thy ===== *)
theory RunMatrixYaml
  imports RunMatrixBuild
begin

text \<open>
  The simulator configuration of a run (\<^verbatim>\<open>scripts/run_matrix.py\<close>, lines 1859 to 1909 and 1927
  to 2101): scalar rendering, the policy aliases, the weight override, and the text
  \<^verbatim>\<open>write_yaml_config\<close> writes, as the list of its lines. A file system is a map from paths to
  file texts; directories are not part of it.
\<close>

section \<open>Scalars and aliases\<close>

definition yaml_string :: "string \<Rightarrow> string" where
  "yaml_string value =
     [CHR 0x27] @ str_replace (CHR 0x27) [CHR 0x27, CHR 0x27] value @ [CHR 0x27]"

definition yaml_bool :: "bool \<Rightarrow> string" where
  "yaml_bool value = (if value then ''true'' else ''false'')"

definition yaml_policy_name :: "string \<Rightarrow> string" where
  "yaml_policy_name policy =
     (if policy = ''hotness_only_cumulative'' \<or> policy = ''hotness_only_windowed'' then ''hotness_only''
      else if prefix ''contention_aware_'' policy then ''contention_aware''
      else policy)"

definition contention_variants :: "(string \<times> string) list" where
  "contention_variants = [
     (''contention_aware'', ''v1''),
     (''contention_aware_v1'', ''v1''),
     (''contention_aware_smoothed'', ''smoothed''),
     (''contention_aware_size_value'', ''smoothed''),
     (''contention_aware_reuse_gated'', ''reuse_gated''),
     (''contention_aware_hysteresis'', ''hysteresis''),
     (''contention_aware_smoothed_reuse_gated'', ''smoothed_reuse_gated''),
     (''contention_aware_smoothed_reuse_gated_hysteresis'', ''smoothed_reuse_gated'')]"

definition contention_variant_for_policy :: "string \<Rightarrow> string option" where
  "contention_variant_for_policy policy = map_of contention_variants policy"

definition hotness_history_mode :: "string \<Rightarrow> string" where
  "hotness_history_mode policy =
     (if policy = ''hotness_only_cumulative'' then ''cumulative''
      else if policy = ''hotness_only_windowed'' then ''windowed''
      else ''epoch'')"

definition contention_weights_for_profile :: "ContentionWeightProfile \<Rightarrow> (string \<times> pyfloat) list res" where
  "contention_weights_for_profile prof =
     (if weight_name prof \<noteq> []
      then (case weight_value prof of
              None \<Rightarrow> Inl TypeError
            | Some v \<Rightarrow> Inr (AList.update (weight_name prof) v DEFAULT_CONTENTION_WEIGHTS))
      else Inr DEFAULT_CONTENTION_WEIGHTS)"

section \<open>The lines of a configuration\<close>

definition node_id_list :: "int list \<Rightarrow> string" where
  "node_id_list ids = str_join '', '' (map show_int ids)"

definition head_lines :: "MatrixRun \<Rightarrow> int \<Rightarrow> int \<Rightarrow> int \<Rightarrow> int \<Rightarrow> string list" where
  "head_lines run base bw link cap = [
     ''experiment:'',
     ''  name: '' @ yaml_string (run_run_name run),
     ''  output_dir: '' @ yaml_string (run_output_dir run),
     '''',
     ''memory:'',
     ''  node_id: '' @ show_int (memory_node_id (run_preset run)),
     ''  base_latency: '' @ show_int base,
     ''  bandwidth_bytes_per_time: '' @ show_int bw,
     ''  # Each channel is an independent FIFO service resource; bandwidth'',
     ''  # is interpreted per channel when channel_count is greater than one.'',
     ''  channel_count: '' @ show_int (run_memory_channel_count run),
     '''',
     ''link:'',
     ''  one_way_latency: '' @ show_int link,
     '''',
     ''local_cache:'',
     ''  capacity_bytes: '' @ show_int cap,
     ''  hit_latency: '' @ show_int (cache_hit_latency (run_preset run)),
     ''  policy: '' @ yaml_policy_name (run_policy run)]"

definition hotness_lines :: "MatrixRun \<Rightarrow> string list" where
  "hotness_lines run =
     [''  hotness:'',
      ''    min_admit_count: 2'',
      ''    # Hotness baselines use explicit history modes so bounded'',
      ''    # memory can be compared against epoch and cumulative modes.'',
      ''    history_mode: '' @ hotness_history_mode (run_policy run)]
     @ (if hotness_history_mode (run_policy run) = ''windowed'' then [''    history_window_epochs: 4''] else [])"

text \<open>\<open>weights[name]\<close> printed with six significant digits.\<close>

definition weight_line :: "(string \<times> pyfloat) list \<Rightarrow> string \<Rightarrow> string res" where
  "weight_line weights key = bindR (dict_get weights key) (\<lambda>v. Inr (''    '' @ key @ '': '' @ fmt_g v))"

definition weight_lines :: "(string \<times> pyfloat) list \<Rightarrow> string list res" where
  "weight_lines weights = mapR (weight_line weights)
     [''local_hotness_weight'', ''remote_access_weight'', ''distinct_requester_weight'',
      ''queue_wait_weight'', ''remote_service_time_weight'', ''size_penalty_weight'',
      ''cost_density_weight'']"

definition variant_lines :: "MatrixRun \<Rightarrow> string option \<Rightarrow> string list" where
  "variant_lines run variant =
     (if variant = Some ''smoothed'' then
        [''    # Smoothed telemetry blends the last few prior epochs'',
         ''    # so one unlucky epoch does not dominate admissions.'',
         ''    telemetry_history_epochs: 4'',
         ''    telemetry_decay: 0.25'']
      else if variant = Some ''reuse_gated'' then
        [''    # Reuse gating requires local evidence before a'',
         ''    # globally contended object can occupy a private cache.'',
         ''    local_reuse_gate_threshold: 2'']
      else if variant = Some ''hysteresis'' then
        [''    # Hysteresis avoids evicting a resident for a nearly'',
         ''    # equal-scored incoming object.'',
         ''    eviction_score_margin: 0.25'']
      else if variant = Some ''smoothed_reuse_gated'' then
        [''    # Composite policy smooths global telemetry while'',
         ''    # retaining bounded local confirmation across epochs.'',
         ''    telemetry_history_epochs: 4'',
         ''    telemetry_decay: 0.5'',
         ''    local_reuse_gate_threshold: 2'',
         ''    local_confirmation_window_epochs: 2'',
         ''    # Strong remote-pressure scores may bypass pending'',
         ''    # confirmation to avoid repeating hard-gate under-admission.'',
         ''    local_confirmation_bypass_score_margin: 1.0'',
         (if run_policy run = ''contention_aware_smoothed_reuse_gated_hysteresis''
          then ''    eviction_score_margin: 0.1'' else ''    eviction_score_margin: 0.0'')]
      else [])"

text \<open>The f-string prints a missing variant as Python prints \<open>None\<close>.\<close>

definition variant_text :: "string option \<Rightarrow> string" where
  "variant_text variant = (case variant of None \<Rightarrow> ''None'' | Some v \<Rightarrow> v)"

definition effective_weights :: "MatrixRun \<Rightarrow> (string \<times> pyfloat) list res" where
  "effective_weights run =
     bindR (contention_weights_for_profile (run_contention_weight_profile run)) (\<lambda>weights.
     Inr (if run_policy run = ''contention_aware_size_value''
          then AList.update ''cost_density_weight'' (flit 1 0) weights else weights))"

definition comment_lines :: "MatrixRun \<Rightarrow> string list" where
  "comment_lines run =
     (if run_policy run = ''contention_aware_size_value'' then
        [''    # Size-value uses smoothed telemetry plus cost density'',
         ''    # to reward high remote pain per cache byte.''] else [])
     @ (if weight_name (run_contention_weight_profile run) \<noteq> [] then
        [''    # Weight-sensitivity profiles override exactly one'',
         ''    # scoring weight while preserving all other defaults.''] else [])"

definition threshold_lines :: "string list" where
  "threshold_lines =
     [''    min_admit_score: 1.0'',
      ''    local_hotness_threshold: 2'',
      ''    reset_on_epoch_change: '' @ yaml_bool False]"

definition contention_lines :: "MatrixRun \<Rightarrow> string list res" where
  "contention_lines run =
     bindR (effective_weights run) (\<lambda>weights.
     bindR (weight_lines weights) (\<lambda>wls.
     let variant = contention_variant_for_policy (run_policy run) in
     Inr ([''  contention:'', ''    variant: '' @ variant_text variant]
       @ comment_lines run @ wls @ threshold_lines @ variant_lines run variant)))"

definition policy_lines :: "MatrixRun \<Rightarrow> string list res" where
  "policy_lines run =
     (if yaml_policy_name (run_policy run) = ''hotness_only'' then Inr (hotness_lines run)
      else if yaml_policy_name (run_policy run) = ''contention_aware'' then contention_lines run
      else Inr [])"

definition workload_lines :: "MatrixRun \<Rightarrow> int list \<Rightarrow> string list" where
  "workload_lines run ids = [
     '''',
     ''workload:'',
     ''  seed: '' @ show_int (run_seed run),
     ''  compute_node_ids: ['' @ node_id_list ids @ '']'',
     ''  object_count: '' @ show_int (run_object_count run),
     ''  object_size_bytes: '' @ show_int (object_size_bytes (run_preset run)),
     ''  hot_set_churn_fraction: '' @ fmt_g (run_hot_set_churn_fraction run),
     ''  # Zero leaves hot objects unrestricted. Positive values create'',
     ''  # controlled channel-local hot spots for memory-channel studies.'',
     ''  hot_object_channel_count: '' @ show_int (run_hot_object_channel_count run),
     ''  object_size_mode: '' @ run_object_size_mode run,
     ''  object_size_small_bytes: '' @ show_int (object_size_small_bytes (run_preset run)),
     ''  object_size_large_bytes: '' @ show_int (object_size_large_bytes (run_preset run)),
     ''  large_object_probability: '' @ fmt_g (run_large_object_probability run),
     ''  requests_per_node_per_epoch: '' @ show_int (run_requests_per_node_per_epoch run),
     ''  # completion_driven preserves response-paced issue. scheduled_bursty'',
     ''  # lets compute nodes issue by planned arrival time within an epoch.'',
     ''  issue_mode: '' @ run_workload_issue_mode run,
     ''  burst_size: '' @ show_int (run_burst_size run),
     ''  burst_interval: '' @ show_int (run_burst_interval run),
     ''  intra_burst_gap: '' @ show_int (run_intra_burst_gap run),
     ''  node_phase_jitter: '' @ show_int (run_node_phase_jitter run),
     ''  epoch_count: '' @ show_int (run_epoch_count run),
     ''  hot_set_size: '' @ show_int (run_hot_set_size run),
     ''  hot_access_probability: '' @ fmt_g (run_hot_access_probability run),
     ''  hot_set_mode: '' @ hot_set_mode (run_preset run),
     ''  cross_node_overlap: '' @ run_cross_node_overlap run,
     '''']"

definition yaml_config_lines :: "MatrixRun \<Rightarrow> string list res" where
  "yaml_config_lines run =
     bindR (node_ids_for_run run) (\<lambda>ids.
     bindR (memory_base_latency run) (\<lambda>base.
     bindR (memory_bandwidth_bytes_per_time run) (\<lambda>bw.
     bindR (one_way_link_latency run) (\<lambda>link.
     bindR (cache_capacity_bytes run) (\<lambda>cap.
     bindR (policy_lines run) (\<lambda>pls.
     Inr (head_lines run base bw link cap @ pls @ workload_lines run ids)))))))"

definition yaml_config_text :: "MatrixRun \<Rightarrow> string res" where
  "yaml_config_text run = bindR (yaml_config_lines run) (\<lambda>ls. Inr (str_join [CHR 0x0A] ls))"

type_synonym files = "string \<Rightarrow> string option"

definition write_yaml_config :: "MatrixRun \<Rightarrow> files \<Rightarrow> files res" where
  "write_yaml_config run fs =
     bindR (yaml_config_text run) (\<lambda>text. Inr (fs(run_config_path run \<mapsto> text)))"

section \<open>Characters of a rendered number\<close>

definition number_char :: "char \<Rightarrow> bool" where
  "number_char c = (c \<in> set ''0123456789+-.einfa'')"

lemma number_char_digit [simp]: "is_digit c \<Longrightarrow> number_char c"
  by (auto simp: is_digit_def number_char_def)

lemma number_char_line: "number_char c \<Longrightarrow> c \<noteq> CHR 0x0A \<and> c \<noteq> CHR 0x27 \<and> c \<noteq> CHR '','' \<and> c \<noteq> CHR '' ''"
  by (auto simp: number_char_def)

lemma number_char_lits [simp]:
  "number_char (CHR ''0'')" "number_char (CHR ''+'')" "number_char (CHR ''-'')"
  "number_char (CHR ''.'')" "number_char (CHR ''e'')" "number_char (CHR ''i'')"
  "number_char (CHR ''n'')" "number_char (CHR ''f'')" "number_char (CHR ''a'')"
  by (simp_all add: number_char_def)

lemma show_nat_number: "c \<in> set (show_nat n) \<Longrightarrow> number_char c"
  using show_nat_digits by simp

lemma show_int_number: "c \<in> set (show_int i) \<Longrightarrow> number_char c"
  using show_int_chars [of c i] by auto

lemma strip_zeros_set: "c \<in> set (strip_zeros s) \<Longrightarrow> c \<in> set s"
  by (auto simp: strip_zeros_def dest: set_dropWhileD)

lemma sig_digits_number: "sig_digits k p q = (ds, x) \<Longrightarrow> c \<in> set ds \<Longrightarrow> number_char c"
  by (auto simp: sig_digits_def Let_def show_nat_number split: if_splits)

lemma with_fraction_number:
  assumes "c \<in> set (with_fraction ip fp)" and "\<And>c. c \<in> set ip \<union> set fp \<Longrightarrow> number_char c"
  shows "number_char c"
proof -
  have "c = CHR ''.'' \<or> c \<in> set ip \<union> set fp"
    using assms(1) by (simp add: with_fraction_def split: if_splits)
  then show ?thesis using assms(2) number_char_lits(4) by blast
qed

lemma exp_str_number: "c \<in> set (exp_str x) \<Longrightarrow> number_char c"
proof -
  assume "c \<in> set (exp_str x)"
  then have "c = CHR ''e'' \<or> c = CHR ''+'' \<or> c = CHR ''-'' \<or> c = CHR ''0'' \<or> c \<in> set (show_nat (nat \<bar>x\<bar>))"
    by (simp add: exp_str_def Let_def split: if_splits) blast+
  then show ?thesis using show_nat_number number_char_lits by blast
qed

lemma fixed_digits_number:
  assumes "fixed_digits ds x = (ip, fp)" and ds: "\<And>c. c \<in> set ds \<Longrightarrow> number_char c"
    and "c \<in> set ip \<union> set fp"
  shows "number_char c"
proof -
  have "c = CHR ''0'' \<or> c \<in> set ds"
    using assms(1,3) by (auto simp: fixed_digits_def split: if_splits dest: in_set_takeD in_set_dropD)
  then show ?thesis using ds number_char_lits(1) by blast
qed

lemma fmt_g_number: "c \<in> set (fmt_g v) \<Longrightarrow> number_char c"
proof (cases v)
  case (Fin s m e)
  assume c: "c \<in> set (fmt_g v)"
  have sign: "c \<in> set (sign_str s) \<Longrightarrow> number_char c"
    by (simp add: sign_str_def split: if_splits)
  obtain p q where pq: "ratio_of m e = (p, q)" by fastforce
  obtain ds x where dsx: "sig_digits 6 p q = (ds, x)" by fastforce
  obtain ip fp where fd: "fixed_digits ds x = (ip, fp)" by fastforce
  note ds = sig_digits_number [OF dsx]
  note parts = fixed_digits_number [OF fd ds]
  have fixed: "c \<in> set (with_fraction ip (strip_zeros fp)) \<Longrightarrow> number_char c"
    by (erule with_fraction_number) (auto intro: parts dest: strip_zeros_set)
  have sci: "c \<in> set (with_fraction (take 1 ds) (strip_zeros (drop 1 ds))) \<Longrightarrow> number_char c"
    by (erule with_fraction_number) (auto intro: ds dest: strip_zeros_set in_set_takeD in_set_dropD)
  have "c \<in> set (sign_str s) \<union> {CHR ''0''} \<union> set (with_fraction ip (strip_zeros fp))
      \<union> set (with_fraction (take 1 ds) (strip_zeros (drop 1 ds))) \<union> set (exp_str x)"
    using c unfolding Fin fmt_g_def by (auto simp: pq dsx fd Let_def split: if_splits)
  then show ?thesis using sign fixed sci exp_str_number by auto
qed (auto simp: fmt_g_def sign_str_def split: if_splits)

section \<open>Reading a configuration back\<close>

text \<open>
  A reader of single-quoted scalars, and of \<open>key: value\<close> entries indented by two spaces below
  an unindented \<open>section:\<close> line, the shape the simulator's loader relies on.
\<close>

fun quoted_body :: "string \<Rightarrow> (string \<times> string) option" where
  "quoted_body [] = None"
| "quoted_body (c # cs) =
     (if c \<noteq> CHR 0x27 then map_option (\<lambda>(v, rest). (c # v, rest)) (quoted_body cs)
      else (case cs of
              [] \<Rightarrow> Some ([], [])
            | d # ds \<Rightarrow> if d = CHR 0x27 then map_option (\<lambda>(v, rest). (d # v, rest)) (quoted_body ds)
                       else Some ([], cs)))"

definition yaml_unquote :: "string \<Rightarrow> string option" where
  "yaml_unquote s = (case s of [] \<Rightarrow> None
     | c # cs \<Rightarrow> if c = CHR 0x27 then (case quoted_body cs of Some (v, []) \<Rightarrow> Some v | _ \<Rightarrow> None) else None)"

lemma quoted_body_escaped:
  "quoted_body (str_replace (CHR 0x27) [CHR 0x27, CHR 0x27] v @ [CHR 0x27]) = Some (v, [])"
  by (induction v) auto

definition section_lines :: "string \<Rightarrow> string list \<Rightarrow> string list" where
  "section_lines sec ls =
     takeWhile (\<lambda>l. prefix ''  '' l) (drop 1 (dropWhile (\<lambda>l. l \<noteq> sec @ '':'') ls))"

fun entry_value :: "string \<Rightarrow> string list \<Rightarrow> string option" where
  "entry_value key [] = None"
| "entry_value key (l # ls) =
     (let p = ''  '' @ key @ '': '' in if prefix p l then Some (drop (length p) l) else entry_value key ls)"

definition yaml_get :: "string \<Rightarrow> string \<Rightarrow> string \<Rightarrow> string option" where
  "yaml_get text sec key = entry_value key (section_lines sec (str_split (CHR 0x0A) text))"

definition one_line :: "string \<Rightarrow> bool" where
  "one_line s = (CHR 0x0A \<notin> set s)"

lemma one_line_simps [simp]:
  "one_line []" "one_line (c # s) \<longleftrightarrow> c \<noteq> CHR 0x0A \<and> one_line s"
  "one_line (s @ t) \<longleftrightarrow> one_line s \<and> one_line t"
  by (auto simp: one_line_def)

lemma one_line_numbers [simp]: "one_line (show_int i)" "one_line (fmt_g v)"
  using show_int_number fmt_g_number number_char_line unfolding one_line_def by blast+

lemma one_line_node_ids [simp]: "one_line (node_id_list ids)"
proof -
  have "one_line (str_join '', '' (map show_int is))" for "is"
    by (induction "is" rule: induct_list012) simp_all
  then show ?thesis by (simp add: node_id_list_def)
qed

lemma one_line_yaml_string [simp]: "one_line (yaml_string v) \<longleftrightarrow> one_line v"
proof -
  have "one_line (str_replace (CHR 0x27) [CHR 0x27, CHR 0x27] v) \<longleftrightarrow> one_line v"
    by (induction v) auto
  then show ?thesis by (simp add: yaml_string_def)
qed

definition one_line_run :: "MatrixRun \<Rightarrow> bool" where
  "one_line_run run = list_all one_line
     [run_run_name run, run_output_dir run, run_policy run, run_object_size_mode run,
      run_workload_issue_mode run, hot_set_mode (run_preset run), run_cross_node_overlap run]"

lemma variant_values: "contention_variant_for_policy p = Some v \<Longrightarrow>
    v \<in> {''v1'', ''smoothed'', ''reuse_gated'', ''hysteresis'', ''smoothed_reuse_gated''}"
  by (auto simp: contention_variant_for_policy_def contention_variants_def split: if_splits)

text \<open>Every policy line is one line indented below \<open>local_cache\<close>.\<close>

definition indented :: "string \<Rightarrow> bool" where
  "indented l = (prefix ''  '' l \<and> one_line l)"

lemma weight_lines_indented: "weight_lines weights = Inr ls \<Longrightarrow> list_all indented ls"
  by (auto simp: weight_lines_def weight_line_def indented_def bindR_Inr_iff)

lemma variant_text_one_line: "one_line (variant_text (contention_variant_for_policy p))"
  using variant_values by (fastforce simp: variant_text_def split: option.split)

lemma variant_lines_indented: "list_all indented (variant_lines run v)"
  by (simp add: variant_lines_def indented_def)

lemma hotness_lines_indented: "list_all indented (hotness_lines run)"
  by (simp add: hotness_lines_def hotness_history_mode_def indented_def)

lemma contention_lines_Inr:
  "contention_lines run = Inr ls \<longleftrightarrow>
     (\<exists>ws wls. effective_weights run = Inr ws \<and> weight_lines ws = Inr wls \<and>
        ls = [''  contention:'', ''    variant: '' @ variant_text (contention_variant_for_policy (run_policy run))]
          @ comment_lines run @ wls @ threshold_lines
          @ variant_lines run (contention_variant_for_policy (run_policy run)))"
  unfolding contention_lines_def Let_def bindR_Inr_iff sum.inject by blast

lemma comment_lines_shape: "list_all indented (comment_lines run)" "list_all (prefix ''    #'') (comment_lines run)"
  by (simp_all add: comment_lines_def indented_def)

lemma contention_lines_indented: "contention_lines run = Inr ls \<Longrightarrow> list_all indented ls"
  using variant_text_one_line [of "run_policy run"]
  by (auto simp: contention_lines_Inr weight_lines_indented comment_lines_shape variant_lines_indented
      threshold_lines_def yaml_bool_def)
    (simp_all add: indented_def)

lemma policy_lines_indented: "policy_lines run = Inr ls \<Longrightarrow> list_all indented ls"
  by (auto simp: policy_lines_def hotness_lines_indented contention_lines_indented split: if_splits)

text \<open>The entries a reader finds, section by section.\<close>

definition config_entries ::
    "MatrixRun \<Rightarrow> int list \<Rightarrow> int \<Rightarrow> int \<Rightarrow> int \<Rightarrow> int \<Rightarrow> (string \<times> string \<times> string) list" where
  "config_entries run ids base bw link cap = [
     (''experiment'', ''name'', yaml_string (run_run_name run)),
     (''experiment'', ''output_dir'', yaml_string (run_output_dir run)),
     (''memory'', ''node_id'', show_int (memory_node_id (run_preset run))),
     (''memory'', ''base_latency'', show_int base),
     (''memory'', ''bandwidth_bytes_per_time'', show_int bw),
     (''memory'', ''channel_count'', show_int (run_memory_channel_count run)),
     (''link'', ''one_way_latency'', show_int link),
     (''local_cache'', ''capacity_bytes'', show_int cap),
     (''local_cache'', ''hit_latency'', show_int (cache_hit_latency (run_preset run))),
     (''local_cache'', ''policy'', yaml_policy_name (run_policy run)),
     (''workload'', ''seed'', show_int (run_seed run)),
     (''workload'', ''compute_node_ids'', ''['' @ node_id_list ids @ '']''),
     (''workload'', ''object_count'', show_int (run_object_count run)),
     (''workload'', ''object_size_bytes'', show_int (object_size_bytes (run_preset run))),
     (''workload'', ''hot_set_churn_fraction'', fmt_g (run_hot_set_churn_fraction run)),
     (''workload'', ''hot_object_channel_count'', show_int (run_hot_object_channel_count run)),
     (''workload'', ''object_size_mode'', run_object_size_mode run),
     (''workload'', ''object_size_small_bytes'', show_int (object_size_small_bytes (run_preset run))),
     (''workload'', ''object_size_large_bytes'', show_int (object_size_large_bytes (run_preset run))),
     (''workload'', ''large_object_probability'', fmt_g (run_large_object_probability run)),
     (''workload'', ''requests_per_node_per_epoch'', show_int (run_requests_per_node_per_epoch run)),
     (''workload'', ''issue_mode'', run_workload_issue_mode run),
     (''workload'', ''burst_size'', show_int (run_burst_size run)),
     (''workload'', ''burst_interval'', show_int (run_burst_interval run)),
     (''workload'', ''intra_burst_gap'', show_int (run_intra_burst_gap run)),
     (''workload'', ''node_phase_jitter'', show_int (run_node_phase_jitter run)),
     (''workload'', ''epoch_count'', show_int (run_epoch_count run)),
     (''workload'', ''hot_set_size'', show_int (run_hot_set_size run)),
     (''workload'', ''hot_access_probability'', fmt_g (run_hot_access_probability run)),
     (''workload'', ''hot_set_mode'', hot_set_mode (run_preset run)),
     (''workload'', ''cross_node_overlap'', run_cross_node_overlap run)]"

lemma yaml_config_lines_Inr:
  "yaml_config_lines run = Inr ls \<longleftrightarrow>
     (\<exists>ids base bw link cap pls. node_ids_for_run run = Inr ids \<and> memory_base_latency run = Inr base
        \<and> memory_bandwidth_bytes_per_time run = Inr bw \<and> one_way_link_latency run = Inr link
        \<and> cache_capacity_bytes run = Inr cap \<and> policy_lines run = Inr pls
        \<and> ls = head_lines run base bw link cap @ pls @ workload_lines run ids)"
  by (auto simp: yaml_config_lines_def bindR_Inr_iff)

lemma yaml_policy_name_one_line: "one_line p \<Longrightarrow> one_line (yaml_policy_name p)"
  by (simp add: yaml_policy_name_def)

lemma head_lines_one_line: "one_line_run run \<Longrightarrow> list_all one_line (head_lines run base bw link cap)"
  by (simp add: head_lines_def one_line_run_def yaml_policy_name_one_line)

lemma workload_lines_one_line: "one_line_run run \<Longrightarrow> list_all one_line (workload_lines run ids)"
  by (simp add: workload_lines_def one_line_run_def)

lemma split_config_lines:
  assumes "one_line_run run" and "policy_lines run = Inr pls"
  shows "str_split (CHR 0x0A) (str_join [CHR 0x0A]
      (head_lines run base bw link cap @ pls @ workload_lines run ids)) =
    head_lines run base bw link cap @ pls @ workload_lines run ids"
proof (rule str_split_join)
  have "list_all one_line pls"
    using policy_lines_indented [OF assms(2)] by (auto simp: list_all_iff indented_def)
  then show "\<forall>x\<in>set (head_lines run base bw link cap @ pls @ workload_lines run ids). CHR 0x0A \<notin> set x"
    using head_lines_one_line [OF assms(1), of base bw link cap] workload_lines_one_line [OF assms(1), of ids]
    by (auto simp: list_all_iff one_line_def)
qed (simp add: head_lines_def)

text \<open>The lines below each of the five section headers.\<close>

lemma section_lines_head:
  "section_lines ''experiment'' (head_lines run base bw link cap @ rest) = take 2 (drop 1 (head_lines run base bw link cap))"
  "section_lines ''memory'' (head_lines run base bw link cap @ rest) = take 6 (drop 5 (head_lines run base bw link cap))"
  "section_lines ''link'' (head_lines run base bw link cap @ rest) = take 1 (drop 13 (head_lines run base bw link cap))"
  by (simp_all add: section_lines_def head_lines_def)

lemma section_lines_cache:
  assumes "list_all indented pls"
  shows "section_lines ''local_cache'' (head_lines run base bw link cap @ pls @ workload_lines run ids) =
    drop 16 (head_lines run base bw link cap) @ pls"
proof -
  have "takeWhile (\<lambda>l. prefix ''  '' l) (pls @ workload_lines run ids) = pls"
    using assms by (subst takeWhile_append2) (auto simp: list_all_iff indented_def workload_lines_def)
  then show ?thesis by (simp add: section_lines_def head_lines_def)
qed

lemma section_lines_workload:
  assumes "list_all indented pls"
  shows "section_lines ''workload'' (head_lines run base bw link cap @ pls @ workload_lines run ids) =
    take 25 (drop 2 (workload_lines run ids))"
proof -
  have "dropWhile (\<lambda>l. l \<noteq> ''workload:'') (pls @ workload_lines run ids) = drop 1 (workload_lines run ids)"
    using assms by (subst dropWhile_append2) (auto simp: list_all_iff indented_def workload_lines_def)
  then show ?thesis by (simp add: section_lines_def head_lines_def) (simp add: workload_lines_def)
qed

lemma config_entry_found:
  assumes "yaml_config_lines run = Inr (head_lines run base bw link cap @ pls @ workload_lines run ids)"
    and "one_line_run run" and pls: "policy_lines run = Inr pls"
    and "(sec, key, v) \<in> set (config_entries run ids base bw link cap)"
  shows "entry_value key (section_lines sec
      (head_lines run base bw link cap @ pls @ workload_lines run ids)) = Some v"
proof -
  let ?S = "\<lambda>sec. section_lines sec (head_lines run base bw link cap @ pls @ workload_lines run ids)"
  note ind = policy_lines_indented [OF pls]
  have "list_all (\<lambda>(sec, key, v). entry_value key (?S sec) = Some v) (config_entries run ids base bw link cap)"
    unfolding config_entries_def list.pred_inject prod.case section_lines_head
      section_lines_cache [OF ind] section_lines_workload [OF ind]
    by (intro conjI TrueI; simp add: head_lines_def workload_lines_def Let_def)
  then show ?thesis using assms(4) by (auto simp: list_all_iff)
qed

section \<open>When a configuration can be written\<close>

lemma contention_weights_Inr:
  "contention_weights_for_profile prof = Inr ws \<longleftrightarrow>
     (if weight_name prof = [] then ws = DEFAULT_CONTENTION_WEIGHTS
      else \<exists>v. weight_value prof = Some v \<and> ws = AList.update (weight_name prof) v DEFAULT_CONTENTION_WEIGHTS)"
  by (auto simp: contention_weights_for_profile_def split: option.splits)

lemma update_keys_mono: "fst ` set d \<subseteq> fst ` set (AList.update k v d)"
  by (subst dom_update) blast

lemma effective_weights_keys:
  assumes "effective_weights run = Inr ws"
  shows "fst ` set DEFAULT_CONTENTION_WEIGHTS \<subseteq> fst ` set ws"
proof -
  obtain ws0 where ws0: "contention_weights_for_profile (run_contention_weight_profile run) = Inr ws0"
    and ws: "ws = ws0 \<or> ws = AList.update ''cost_density_weight'' (flit 1 0) ws0"
    using assms unfolding effective_weights_def bindR_Inr_iff by (auto split: if_splits)
  have "ws0 = DEFAULT_CONTENTION_WEIGHTS \<or> (\<exists>k v. ws0 = AList.update k v DEFAULT_CONTENTION_WEIGHTS)"
    using ws0 by (cases "weight_name (run_contention_weight_profile run) = []")
      (auto simp only: contention_weights_Inr if_True if_False)
  then have "fst ` set DEFAULT_CONTENTION_WEIGHTS \<subseteq> fst ` set ws0"
    by (elim disjE exE) (simp_all only: update_keys_mono order_refl)
  then show ?thesis
    using ws update_keys_mono [of ws0 "''cost_density_weight''" "flit 1 0"] by (elim disjE) auto
qed

lemma default_weight_keys:
  "map fst DEFAULT_CONTENTION_WEIGHTS =
     [''local_hotness_weight'', ''remote_access_weight'', ''distinct_requester_weight'',
      ''queue_wait_weight'', ''remote_service_time_weight'', ''size_penalty_weight'',
      ''cost_density_weight'']"
  by (simp add: DEFAULT_CONTENTION_WEIGHTS_def)

text \<open>One line per default weight, in the table's order.\<close>

lemma weight_lines_Inr:
  "weight_lines ws = Inr ls \<longleftrightarrow>
     list_all2 (\<lambda>k l. \<exists>v. map_of ws k = Some v \<and> ''    '' @ k @ '': '' @ fmt_g v = l)
       (map fst DEFAULT_CONTENTION_WEIGHTS) ls"
  unfolding weight_lines_def weight_line_def mapR_Inr_iff bindR_Inr_iff dict_get_Inr sum.inject
    default_weight_keys by (rule refl)

lemma weight_lines_total:
  assumes "fst ` set DEFAULT_CONTENTION_WEIGHTS \<subseteq> fst ` set ws"
  shows "weight_lines ws = Inr (map (\<lambda>k. ''    '' @ k @ '': '' @ fmt_g (the (map_of ws k)))
      (map fst DEFAULT_CONTENTION_WEIGHTS))"
proof -
  have "\<exists>v. map_of ws k = Some v" if "k \<in> set (map fst DEFAULT_CONTENTION_WEIGHTS)" for k
    using assms that by (cases "map_of ws k") (auto simp: map_of_eq_None_iff)
  then show ?thesis
    unfolding weight_lines_Inr list_all2_map2 list.rel_map by (intro list.rel_refl_strong) force
qed

definition weights_given :: "MatrixRun \<Rightarrow> bool" where
  "weights_given run = (yaml_policy_name (run_policy run) = ''contention_aware'' \<longrightarrow>
     weight_name (run_contention_weight_profile run) \<noteq> [] \<longrightarrow>
     weight_value (run_contention_weight_profile run) \<noteq> None)"

lemma effective_weights_total:
  "(\<exists>ws. effective_weights run = Inr ws) \<longleftrightarrow>
     (weight_name (run_contention_weight_profile run) \<noteq> [] \<longrightarrow>
      weight_value (run_contention_weight_profile run) \<noteq> None)"
  by (auto simp: effective_weights_def res_iff contention_weights_Inr)

lemma contention_lines_total: "(\<exists>ls. contention_lines run = Inr ls) \<longleftrightarrow> (\<exists>ws. effective_weights run = Inr ws)"
  using weight_lines_total [OF effective_weights_keys]
  by (auto simp: contention_lines_Inr)

lemma policy_lines_total: "(\<exists>ls. policy_lines run = Inr ls) \<longleftrightarrow> weights_given run"
  using contention_lines_total [of run] effective_weights_total [of run]
  by (auto simp: policy_lines_def weights_given_def)

lemma node_ids_total:
  "(\<exists>ids. node_ids_for_run run = Inr ids) \<longleftrightarrow>
     run_compute_node_count run \<le> int (length (compute_node_ids (run_preset run)))"
  by (auto simp: node_ids_for_run_def Let_def)

lemma dict_get_total: "(\<exists>v. dict_get d k = Inr v) \<longleftrightarrow> k \<in> fst ` set d"
  by (simp add: res_iff) (metis domD domI dom_map_of_conv_image_fst)

definition derivable :: "MatrixRun \<Rightarrow> bool" where
  "derivable run =
     (run_memory_base_latency_level run \<in> fst ` set MEMORY_BASE_LATENCY_BY_LEVEL \<and>
      run_memory_bandwidth_level run \<in> fst ` set MEMORY_BANDWIDTH_BYTES_PER_TIME_BY_LEVEL \<and>
      run_link_latency_level run \<in> fst ` set LINK_LATENCY_BY_LEVEL \<and>
      (\<exists>cap. cache_capacity_bytes run = Inr cap))"

lemma yaml_config_text_total:
  "(\<exists>text. yaml_config_text run = Inr text) \<longleftrightarrow>
     run_compute_node_count run \<le> int (length (compute_node_ids (run_preset run))) \<and>
     derivable run \<and> weights_given run"
  unfolding yaml_config_text_def bindR_Inr_iff yaml_config_lines_Inr derivable_def
  using node_ids_total [of run] policy_lines_total [of run]
    dict_get_total [of MEMORY_BASE_LATENCY_BY_LEVEL "run_memory_base_latency_level run"]
    dict_get_total [of MEMORY_BANDWIDTH_BYTES_PER_TIME_BY_LEVEL "run_memory_bandwidth_level run"]
    dict_get_total [of LINK_LATENCY_BY_LEVEL "run_link_latency_level run"]
  unfolding memory_base_latency_def memory_bandwidth_bytes_per_time_def one_way_link_latency_def
  by blast

section \<open>Properties of the configuration\<close>


definition demo_run :: "string \<Rightarrow> MatrixRun" where
  "demo_run q = (make_run preset_quick ''out'' (quick_combo q) NO_CONTENTION_WEIGHT_PROFILE)
     \<lparr>run_run_name := ''demo'', run_config_path := ''demo.yaml'', run_output_dir := ''runs/demo''\<rparr>"

lemma demo_run_fields:
  "run_compute_node_count (demo_run q) = 4" "run_policy (demo_run q) = q"
  "run_preset (demo_run q) = preset_quick" "run_memory_channel_count (demo_run q) = 1"
  "run_memory_base_latency_level (demo_run q) = ''medium''"
  "run_memory_bandwidth_level (demo_run q) = ''moderate''"
  "run_link_latency_level (demo_run q) = ''medium''"
  "run_contention_weight_profile (demo_run q) = NO_CONTENTION_WEIGHT_PROFILE"
  "run_hot_set_size (demo_run q) = 8" "run_cache_capacity_hotset_multiplier (demo_run q) = flit 5 1"
  by (simp_all add: demo_run_def quick_combo_def)

lemma demo_run_capacity: "cache_capacity_bytes (demo_run q) = Inr 256"
  by (simp add: cache_capacity_bytes_def demo_run_fields preset_quick_def eval_simps cong: eval_congs)

lemma demo_run_text: "\<exists>text. yaml_config_text (demo_run q) = Inr text"
  by (simp add: yaml_config_text_total derivable_def weights_given_def demo_run_fields
      demo_run_capacity MEMORY_BASE_LATENCY_BY_LEVEL_def MEMORY_BANDWIDTH_BYTES_PER_TIME_BY_LEVEL_def
      LINK_LATENCY_BY_LEVEL_def NO_CONTENTION_WEIGHT_PROFILE_def preset_quick_def)

lemma demo_run_one_line: "one_line q \<Longrightarrow> one_line_run (demo_run q)"
  by (simp add: one_line_run_def demo_run_def make_run_def quick_combo_def preset_quick_def Let_def)


text \<open>
  A weight-sensitivity profile changes exactly one of the seven score weights: the named one
  takes the profile's value and every other keeps its default.
\<close>

theorem contention_weights_one_override:
  assumes "p \<in> set CONTENTION_WEIGHT_PROFILES"
  shows "\<exists>ws v. contention_weights_for_profile p = Inr ws \<and> weight_value p = Some v \<and>
    map fst ws = map fst DEFAULT_CONTENTION_WEIGHTS \<and>
    (\<forall>k. map_of ws k = (if k = weight_name p then Some v else map_of DEFAULT_CONTENTION_WEIGHTS k))"
proof -
  obtain v where v: "weight_value p = Some v"
    using weight_profile_fields(4) [OF assms] by blast
  let ?ws = "AList.update (weight_name p) v DEFAULT_CONTENTION_WEIGHTS"
  have "contention_weights_for_profile p = Inr ?ws"
    using v weight_profile_fields(2) [OF assms] by (simp add: contention_weights_Inr)
  moreover have "map fst ?ws = map fst DEFAULT_CONTENTION_WEIGHTS"
    using weight_profile_fields(1) [OF assms] by (simp add: update_keys)
  ultimately show ?thesis using v by (auto simp: update_conv')
qed

theorem contention_weights_one_override_witness:
  "\<exists>ws v. contention_weights_for_profile (hd CONTENTION_WEIGHT_PROFILES) = Inr ws \<and>
    weight_value (hd CONTENTION_WEIGHT_PROFILES) = Some v \<and>
    map_of ws ''local_hotness_weight'' = Some v"
proof -
  have ne: "CONTENTION_WEIGHT_PROFILES \<noteq> []" using length_weight_profiles by auto
  have name: "weight_name (hd CONTENTION_WEIGHT_PROFILES) = ''local_hotness_weight''"
    by (simp add: CONTENTION_WEIGHT_PROFILES_def CONTENTION_WEIGHT_SWEEPS_def)
  from contention_weights_one_override [OF hd_in_set [OF ne]] show ?thesis
    by (auto simp: name)
qed

text \<open>
  A text put between single quotes by \<open>yaml_string\<close>, whatever quotes it contains, is read
  back as the same text.
\<close>

theorem yaml_string_roundtrip: "yaml_unquote (yaml_string v) = Some v"
  by (simp add: yaml_unquote_def yaml_string_def quoted_body_escaped)

lemma weight_entries:
  assumes "weight_lines ws = Inr wls"
  shows "list_all (\<lambda>k. entry_value (''  '' @ k) (wls @ rest) = map_option fmt_g (map_of ws k))
    (map fst DEFAULT_CONTENTION_WEIGHTS)"
proof -
  from assms obtain v1 v2 v3 v4 v5 v6 v7 where vs:
    "map_of ws ''local_hotness_weight'' = Some v1" "map_of ws ''remote_access_weight'' = Some v2"
    "map_of ws ''distinct_requester_weight'' = Some v3" "map_of ws ''queue_wait_weight'' = Some v4"
    "map_of ws ''remote_service_time_weight'' = Some v5" "map_of ws ''size_penalty_weight'' = Some v6"
    "map_of ws ''cost_density_weight'' = Some v7"
    and wls: "wls = [''    local_hotness_weight: '' @ fmt_g v1, ''    remote_access_weight: '' @ fmt_g v2,
      ''    distinct_requester_weight: '' @ fmt_g v3, ''    queue_wait_weight: '' @ fmt_g v4,
      ''    remote_service_time_weight: '' @ fmt_g v5, ''    size_penalty_weight: '' @ fmt_g v6,
      ''    cost_density_weight: '' @ fmt_g v7]"
    unfolding weight_lines_Inr default_weight_keys list_all2_Cons1 list_all2_Nil by auto
  show ?thesis
    unfolding default_weight_keys wls list.pred_inject vs
    by (intro conjI TrueI; simp add: Let_def)
qed

lemma comment_lines_skipped:
  assumes "k \<in> set (map fst DEFAULT_CONTENTION_WEIGHTS)"
  shows "entry_value (''  '' @ k) (comment_lines run @ rest) = entry_value (''  '' @ k) rest"
proof -
  have "k \<noteq> []" "hd k \<noteq> CHR ''#''" using assms by (auto simp: default_weight_keys)
  then have "\<not> prefix (''    '' @ k @ '': '') l" if "prefix ''    #'' l" for l
    using that by (cases k) (auto simp: prefix_def)
  then have none: "list_all (\<lambda>l. \<not> prefix (''    '' @ k @ '': '') l) (comment_lines run)"
    using comment_lines_shape(2) by (auto simp: list_all_iff)
  have "entry_value (''  '' @ k) (ls @ rest) = entry_value (''  '' @ k) rest"
    if "list_all (\<lambda>l. \<not> prefix (''    '' @ k @ '': '') l) ls" for ls
    using that by (induction ls) (simp_all add: Let_def)
  then show ?thesis using none by blast
qed

text \<open>
  C20. A run whose policy belongs to the contention-aware family tells the simulator its variant and
  all seven score weights, each with the value the weight profile leaves in force.
\<close>

theorem yaml_contention_settings:
  assumes "yaml_config_text run = Inr text" and "one_line_run run"
    and "yaml_policy_name (run_policy run) = ''contention_aware''"
  shows "yaml_get text ''local_cache'' ''  variant'' =
      Some (variant_text (contention_variant_for_policy (run_policy run))) \<and>
    (\<exists>ws. effective_weights run = Inr ws \<and>
      list_all (\<lambda>k. yaml_get text ''local_cache'' (''  '' @ k) = map_option fmt_g (map_of ws k))
        (map fst DEFAULT_CONTENTION_WEIGHTS))"
proof -
  let ?v = "contention_variant_for_policy (run_policy run)"
  from assms(1) obtain ids base bw link cap pls where pls: "policy_lines run = Inr pls"
    and tx: "text = str_join [CHR 0x0A] (head_lines run base bw link cap @ pls @ workload_lines run ids)"
    unfolding yaml_config_text_def bindR_Inr_iff yaml_config_lines_Inr sum.inject by blast
  have "contention_lines run = Inr pls" using pls assms(3) by (simp add: policy_lines_def)
  then obtain ws wls post where ws: "effective_weights run = Inr ws" "weight_lines ws = Inr wls"
    and eq: "pls = [''  contention:'', ''    variant: '' @ variant_text ?v] @ comment_lines run @ wls @ post"
    by (auto simp: contention_lines_Inr)
  have get: "yaml_get text ''local_cache'' key =
      entry_value key (drop 16 (head_lines run base bw link cap) @ pls)" for key
    unfolding yaml_get_def tx split_config_lines [OF assms(2) pls]
      section_lines_cache [OF policy_lines_indented [OF pls]] by (rule refl)
  have variant: "yaml_get text ''local_cache'' ''  variant'' = Some (variant_text ?v)"
    unfolding get by (simp add: eq head_lines_def)
  have past: "entry_value (''  '' @ k) (drop 16 (head_lines run base bw link cap) @ pls) =
      entry_value (''  '' @ k) (comment_lines run @ wls @ post)"
    if "k \<in> set (map fst DEFAULT_CONTENTION_WEIGHTS)" for k
  proof -
    obtain c cs where "k = c # cs" "c \<noteq> CHR '' ''" "c \<noteq> CHR ''v''"
      using \<open>k \<in> set _\<close> by (auto simp: default_weight_keys)
    then show ?thesis by (simp add: eq head_lines_def Let_def)
  qed
  have "yaml_get text ''local_cache'' (''  '' @ k) = entry_value (''  '' @ k) (wls @ post)"
    if "k \<in> set (map fst DEFAULT_CONTENTION_WEIGHTS)" for k
    using past comment_lines_skipped [OF that] that by (simp add: get)
  then have "list_all (\<lambda>k. yaml_get text ''local_cache'' (''  '' @ k) = map_option fmt_g (map_of ws k))
      (map fst DEFAULT_CONTENTION_WEIGHTS)"
    using weight_entries [OF ws(2), of post] unfolding list_all_iff by (metis (no_types))
  with variant ws(1) show ?thesis by blast
qed

theorem yaml_contention_settings_witness:
  "\<exists>text. yaml_config_text (demo_run ''contention_aware_smoothed'') = Inr text \<and>
     yaml_get text ''local_cache'' ''  variant'' = Some ''smoothed''"
proof -
  let ?r = "demo_run ''contention_aware_smoothed''"
  obtain text' where t: "yaml_config_text ?r = Inr text'" using demo_run_text by blast
  have one: "one_line_run ?r" by (rule demo_run_one_line) simp
  have "yaml_policy_name (run_policy ?r) = ''contention_aware''"
    by (simp add: demo_run_fields yaml_policy_name_def)
  from yaml_contention_settings [OF t one this] t show ?thesis
    by (simp add: demo_run_fields contention_variant_for_policy_def contention_variants_def variant_text_def)
qed

end
