(* ===== verification/PyRepr.thy ===== *)
theory PyRepr
  imports PyText
begin

text \<open>
  \<open>repr\<close> of a float reads back: for every finite float in normal form, \<open>float(repr(x))\<close> is
  \<open>x\<close>, sign of zero included. This is what lets one script write a number into a table and
  another one read the same number.
\<close>

section \<open>Rounding depends on the ratio only\<close>

lemma div_half_even_scale:
  assumes "0 < c"
  shows "div_half_even (a * c) (b * c) = div_half_even a b"
proof -
  have "a * c div (b * c) = a div b" "a * c mod (b * c) = (a mod b) * c"
    using assms by (simp_all add: mult_mod_left)
  moreover have "2 * (a mod b * c) < b * c \<longleftrightarrow> 2 * (a mod b) < b"
    "b * c < 2 * (a mod b * c) \<longleftrightarrow> b < 2 * (a mod b)"
    using assms by (simp_all flip: mult.assoc)
  ultimately show ?thesis by (simp add: div_half_even_def Let_def)
qed

lemma floor_log2_scale:
  assumes "0 < p" and "0 < q" and "0 < c"
  shows "floor_log2 (p * c) (q * c) = floor_log2 p q"
proof -
  have c: "(0 :: rat) < of_nat c" using assms(3) by simp
  have "2 powi floor_log2 p q * of_nat q * of_nat c \<le> (of_nat p * of_nat c :: rat)"
    "(of_nat p * of_nat c :: rat) < 2 powi (floor_log2 p q + 1) * of_nat q * of_nat c"
    using floor_log2_bounds [OF assms(1,2)] c by (simp_all only: mult_le_cancel_right_pos mult_less_cancel_right_pos)
  then show ?thesis
    using assms by (intro floor_log2_unique) (simp_all add: mult.assoc)
qed

lemma round_ratio_scale:
  assumes "0 < q" and "0 < c"
  shows "round_ratio s (p * c) (q * c) = round_ratio s p q"
proof (cases "p = 0")
  case False
  then have e: "ratio_exp (p * c) (q * c) = ratio_exp p q"
    using assms by (simp add: ratio_exp_def floor_log2_scale)
  have "ratio_mant (p * c) (q * c) = ratio_mant p q"
    unfolding ratio_mant_def e using div_half_even_scale [OF assms(2)] by (metis mult.assoc mult.commute)
  then show ?thesis using False assms(2) by (simp add: round_ratio_eq e)
qed (simp add: round_ratio_eq)

lemma round_ratio_cong:
  assumes "0 < q" and "0 < q'" and "p * q' = p' * q"
  shows "round_ratio s p q = round_ratio s p' q'"
  using round_ratio_scale [OF assms(1,2), of s p] round_ratio_scale [OF assms(2,1), of s p'] assms(3)
  by (simp add: mult.commute)

text \<open>A decimal number may carry trailing zeros.\<close>

lemma decimal_float_shift: "decimal_float s (n * 10 ^ k) x = decimal_float s n (x + int k)"
proof -
  have "n * 10 ^ k * 10 ^ nat x * 10 ^ nat (- (x + int k)) = n * 10 ^ nat (x + int k) * (10 ^ nat (- x) :: nat)"
  proof -
    have "k + nat x + nat (- (x + int k)) = nat (x + int k) + nat (- x)" by linarith
    then have "(10::nat) ^ k * 10 ^ nat x * 10 ^ nat (- (x + int k)) = 10 ^ nat (x + int k) * 10 ^ nat (- x)"
      by (simp flip: power_add)
    then show ?thesis by (metis mult.assoc)
  qed
  then show ?thesis unfolding decimal_float_def by (intro round_ratio_cong) simp_all
qed

section \<open>The digits of repr\<close>

lemma decimal_float_sign:
  "decimal_float False n x = Fin False m e \<Longrightarrow> decimal_float s n x = Fin s m e"
  by (auto simp: decimal_float_def round_ratio_eq split: if_splits)

lemma shortest_repr_correct:
  assumes "canonical (Fin False m e)" and "shortest_repr ks m e = (n, x)"
  shows "decimal_float False n x = Fin False m e"
  using assms(2)
proof (induction ks)
  case Nil
  have "decimal_float False n x = of_dyadic False m e"
    using Nil unfolding decimal_float_def of_dyadic_def
    by (intro round_ratio_cong) (auto simp: min_def power_mult_distrib [symmetric] mult.assoc mult.left_commute split: if_splits)
  then show ?case using of_dyadic_canonical [OF assms(1)] by simp
next
  case (Cons k ks)
  obtain p q where pq: "ratio_of m e = (p, q)" by fastforce
  show ?case
  proof (cases "filter (\<lambda>(n, x). decimal_float False n x = Fin False m e) (repr_candidates k p q)")
    case Nil
    then show ?thesis using Cons by (simp add: pq)
  next
    case (Cons c cs)
    then have "c \<in> set (filter (\<lambda>(n, x). decimal_float False n x = Fin False m e) (repr_candidates k p q))"
      by simp
    moreover have "c = (n, x)" using Cons.prems \<open>filter _ _ = c # cs\<close> by (simp add: pq)
    ultimately show ?thesis by simp
  qed
qed

section \<open>Reading digits\<close>

lemma underscores_plain: "CHR ''_'' \<notin> set s \<Longrightarrow> p \<noteq> CHR ''_'' \<Longrightarrow> underscores_ok p s"
  by (induction s arbitrary: p) auto

lemma digits_val_foldl: "foldl (\<lambda>a c. 10 * a + digit_val c) a s = a * 10 ^ length s + digits_val s"
proof (induction s arbitrary: a)
  case (Cons c s)
  show ?case
    using Cons.IH [of "10 * a + digit_val c"] Cons.IH [of "digit_val c"]
    by (simp add: digits_val_def algebra_simps)
qed (simp add: digits_val_def)

lemma digits_val_append: "digits_val (s @ t) = digits_val s * 10 ^ length t + digits_val t"
  using digits_val_foldl [of "digits_val s" t] by (simp add: digits_val_def)

lemma digits_val_zeros [simp]: "digits_val (replicate k (CHR ''0'')) = 0"
  by (induction k) (simp_all add: digits_val_def digit_val_def)

lemma digit_zero [simp]: "is_digit (CHR ''0'')" "digit_val (CHR ''0'') = 0"
  by (simp_all add: is_digit_def digit_val_def)

lemma strip_zeros_split: "\<exists>k. s = strip_zeros s @ replicate k (CHR ''0'')"
proof (induction s rule: rev_induct)
  case (snoc c s)
  show ?case
  proof (cases "c = CHR ''0''")
    case True
    with snoc obtain k where "s = strip_zeros s @ replicate k (CHR ''0'')" by blast
    then have eq: "s @ [c] = strip_zeros s @ replicate (Suc k) (CHR ''0'')"
      using True by (metis append.assoc replicate_append_same replicate_Suc)
    have "strip_zeros (s @ [c]) = strip_zeros s" using True by (simp add: strip_zeros_def)
    then show ?thesis using eq by metis
  next
    case False
    then show ?thesis by (intro exI [of _ 0]) (simp add: strip_zeros_def)
  qed
qed (simp add: strip_zeros_def)

lemma strip_zeros_digits:
  assumes "0 < n"
  shows "\<exists>k. n = digits_val (strip_zeros (show_nat n)) * 10 ^ k \<and>
      length (show_nat n) = length (strip_zeros (show_nat n)) + k"
    and "strip_zeros (show_nat n) \<noteq> []" and "\<forall>c\<in>set (strip_zeros (show_nat n)). is_digit c"
proof -
  obtain k where k: "show_nat n = strip_zeros (show_nat n) @ replicate k (CHR ''0'')"
    using strip_zeros_split by blast
  have "n = digits_val (strip_zeros (show_nat n) @ replicate k (CHR ''0''))"
    using k by (metis digits_val_show_nat)
  then have "n = digits_val (strip_zeros (show_nat n)) * 10 ^ k"
    by (simp add: digits_val_append)
  moreover have "length (show_nat n) = length (strip_zeros (show_nat n)) + k"
    using k by (metis length_append length_replicate)
  ultimately show "\<exists>k. n = digits_val (strip_zeros (show_nat n)) * 10 ^ k \<and>
      length (show_nat n) = length (strip_zeros (show_nat n)) + k" by blast
  then show "strip_zeros (show_nat n) \<noteq> []"
    using assms by (auto simp: digits_val_def)
  show "\<forall>c\<in>set (strip_zeros (show_nat n)). is_digit c"
    using show_nat_digits [of n] by (auto simp: strip_zeros_def dest: set_dropWhileD)
qed

lemma takeWhile_digits: "\<forall>c\<in>set ds. is_digit c \<Longrightarrow> \<not> is_digit c' \<Longrightarrow> takeWhile is_digit (ds @ c' # r) = ds"
  "\<forall>c\<in>set ds. is_digit c \<Longrightarrow> takeWhile is_digit ds = ds"
  "\<forall>c\<in>set ds. is_digit c \<Longrightarrow> \<not> is_digit c' \<Longrightarrow> dropWhile is_digit (ds @ c' # r) = c' # r"
  "\<forall>c\<in>set ds. is_digit c \<Longrightarrow> dropWhile is_digit ds = []"
  by (induction ds) auto

lemma not_digits [simp]: "\<not> is_digit (CHR ''.'')" "\<not> is_digit (CHR ''e'')" "\<not> is_digit (CHR ''-'')"
  "\<not> is_digit (CHR ''+'')"
  by (simp_all add: is_digit_def)

text \<open>An exponent part is empty or starts with \<open>e\<close>.\<close>

definition exponent_part :: "string \<Rightarrow> bool" where
  "exponent_part r = (r = [] \<or> (\<exists>r'. r = CHR ''e'' # r'))"

lemma parse_decimal_point:
  assumes "\<forall>c\<in>set ip. is_digit c" and "\<forall>c\<in>set fp. is_digit c" and "ip \<noteq> []" and "exponent_part r"
  shows "parse_decimal neg (ip @ CHR ''.'' # fp @ r) =
    map_option (\<lambda>x. decimal_float neg (digits_val (ip @ fp)) (x - int (length fp))) (parse_exponent r)"
  using assms unfolding parse_decimal_def exponent_part_def by (auto simp: takeWhile_digits Let_def)

lemma parse_decimal_plain:
  assumes "\<forall>c\<in>set ip. is_digit c" and "ip \<noteq> []" and "exponent_part r"
  shows "parse_decimal neg (ip @ r) = map_option (decimal_float neg (digits_val ip)) (parse_exponent r)"
  using assms unfolding parse_decimal_def exponent_part_def
  by (auto simp: takeWhile_digits Let_def option.map_ident)

lemma parse_exp_str: "parse_exponent (exp_str x) = Some x" "exponent_part (exp_str x)"
proof -
  let ?ds = "show_nat (nat \<bar>x\<bar>)"
  define p where "p = (if length ?ds < 2 then ''0'' @ ?ds else ?ds)"
  have "all_digits p"
    using show_nat_digits [of "nat \<bar>x\<bar>"] by (simp add: all_digits_def list_all_iff p_def)
  moreover have "digits_val p = nat \<bar>x\<bar>"
    using digits_val_append [of "''0''" ?ds] by (simp add: p_def digits_val_def [of "''0''"])
  moreover have "split_sign ((if x < 0 then ''-'' else ''+'') @ p) = (x < 0, p)"
    by (cases "x < 0") (simp_all only: if_True if_False append_Cons append_Nil split_sign_def list.case, simp_all)
  moreover have "exp_str x = CHR ''e'' # (if x < 0 then ''-'' else ''+'') @ p"
    by (simp add: exp_str_def Let_def p_def)
  ultimately show "parse_exponent (exp_str x) = Some x"
    by (simp add: parse_exponent_def signed_def)
  show "exponent_part (exp_str x)" by (simp add: exp_str_def exponent_part_def Let_def)
qed

lemma parse_exponent_Nil [simp]: "parse_exponent [] = Some 0" "exponent_part []"
  by (simp_all add: parse_exponent_def exponent_part_def)

text \<open>A sign, a digit and then characters of a number: \<open>float\<close> goes straight to the digits.\<close>

definition float_char :: "char \<Rightarrow> bool" where
  "float_char c = (is_digit c \<or> c = CHR ''.'' \<or> c = CHR ''e'' \<or> c = CHR ''+'' \<or> c = CHR ''-'')"

lemma float_char_plain: "float_char c \<Longrightarrow> \<not> is_space c \<and> c \<noteq> CHR ''_''"
proof -
  have "\<not> is_space (CHR ''.'')" "\<not> is_space (CHR ''e'')" "\<not> is_space (CHR ''+'')" "\<not> is_space (CHR ''-'')"
    by (simp_all add: is_space_def)
  then show "float_char c \<Longrightarrow> \<not> is_space c \<and> c \<noteq> CHR ''_''"
    using digit_not_sign by (auto simp: float_char_def)
qed

lemma lower_digit: "is_digit c \<Longrightarrow> lower_char c = c"
  by (auto simp: is_digit_def lower_char_def Let_def)

lemma py_float_number:
  assumes "body = d # rest" and "is_digit d" and "\<forall>c\<in>set rest. float_char c"
  shows "py_float (sign_str s @ body) = parse_decimal s body"
proof -
  let ?t = "sign_str s @ body"
  have chars: "\<forall>c\<in>set ?t. float_char c"
    using assms by (auto simp: sign_str_def float_char_def)
  have ne: "?t \<noteq> []" using assms(1) by simp
  have "\<not> is_space (hd ?t)" "\<not> is_space (last ?t)"
    using bspec [OF chars hd_in_set [OF ne]] bspec [OF chars last_in_set [OF ne]] float_char_plain by blast+
  then have strip: "str_strip ?t = ?t" by (rule str_strip_id [OF ne])
  have no: "CHR ''_'' \<notin> set ?t" using chars float_char_plain by blast
  have under: "underscores_ok (CHR 0x00) ?t" by (rule underscores_plain [OF no]) simp
  have under2: "drop_underscores ?t = ?t"
    unfolding drop_underscores_def by (rule filter_True) (use no in metis)
  have "d \<noteq> CHR ''-''" "d \<noteq> CHR ''+''" using digit_not_sign [OF assms(2)] by simp_all
  then have split: "split_sign ?t = (s, body)"
    using assms(1) by (cases s) (simp_all add: split_sign_def sign_str_def)
  have low: "hd (str_lower body) = d" using assms(1,2) by (simp add: str_lower_def lower_digit)
  have "d \<noteq> CHR ''i''" "d \<noteq> CHR ''n''" using assms(2) by (auto simp: is_digit_def)
  then have "str_lower body \<noteq> ''inf''" "str_lower body \<noteq> ''infinity''" "str_lower body \<noteq> ''nan''"
    using low by (metis list.sel(1))+
  then show ?thesis by (simp add: py_float_def Let_def strip under under2 split)
qed

section \<open>Round trip\<close>

lemma digits_val_leading: "digits_val (replicate k (CHR ''0'') @ ds) = digits_val ds"
  by (simp add: digits_val_append)

lemma fixed_digits_value:
  assumes "fixed_digits ds x = (ip, fp)"
  shows "decimal_float s (digits_val (ip @ (if fp = [] then ''0'' else fp))) (- int (length (if fp = [] then ''0'' else fp))) =
    decimal_float s (digits_val ds) (x - int (length ds) + 1)"
proof -
  define fp' where "fp' = (if fp = [] then ''0'' else fp)"
  consider (small) "x < 0" | (padded) "0 \<le> x" "length ds \<le> nat x + 1" | (long) "0 \<le> x" "nat x + 1 < length ds" by linarith
  then have "decimal_float s (digits_val (ip @ fp')) (- int (length fp')) = decimal_float s (digits_val ds) (x - int (length ds) + 1)"
  proof cases
    case small
    show ?thesis
    proof (cases "ds = [] \<and> nat (- x) = 1")
      case True
      then have "ip = ''0''" "fp' = ''0''" "x = - 1" "ds = []"
        using assms small by (auto simp: fixed_digits_def fp'_def)
      then show ?thesis by (simp add: digits_val_def decimal_float_def round_ratio_def)
    next
      case False
      then have eq: "ip = ''0''" "fp' = replicate (nat (- x) - 1) (CHR ''0'') @ ds"
        using assms small by (auto simp: fixed_digits_def fp'_def)
      have "digits_val (ip @ fp') = digits_val ds"
        using digits_val_leading [of "Suc (nat (- x) - 1)" ds] by (simp add: eq)
      moreover have "- int (length fp') = x - int (length ds) + 1" using small by (simp add: eq)
      ultimately show ?thesis by simp
    qed
  next
    case padded
    define k where "k = nat x + 1 - length ds"
    have "fp' = ''0''" "ip @ fp' = ds @ replicate (Suc k) (CHR ''0'')"
      using assms padded by (auto simp: fixed_digits_def fp'_def k_def replicate_append_same)
    then have "decimal_float s (digits_val (ip @ fp')) (- int (length fp')) =
        decimal_float s (digits_val ds * 10 ^ Suc k) (- 1)"
      by (simp only: digits_val_append digits_val_zeros length_replicate) simp
    also have "\<dots> = decimal_float s (digits_val ds) (int k)"
      by (simp only: decimal_float_shift) simp
    also have "int k = x - int (length ds) + 1" using padded by (simp add: k_def of_nat_diff)
    finally show ?thesis .
  next
    case long
    then have "ip @ fp' = ds" "fp' = drop (nat x + 1) ds"
      using assms by (auto simp: fixed_digits_def fp'_def)
    then show ?thesis using long by (simp add: of_nat_diff algebra_simps)
  qed
  then show ?thesis by (simp add: fp'_def)
qed

lemma fixed_digits_parse:
  assumes "\<forall>c\<in>set ds. is_digit c" and "ds \<noteq> []" and "fixed_digits ds x = (ip, fp)"
  shows "parse_decimal s (ip @ CHR ''.'' # (if fp = [] then ''0'' else fp)) =
      Some (decimal_float s (digits_val ds) (x - int (length ds) + 1))"
    and "ip \<noteq> []" and "\<forall>c\<in>set ip. is_digit c" and "\<forall>c\<in>set fp. is_digit c"
proof -
  show ip: "ip \<noteq> []" and d: "\<forall>c\<in>set ip. is_digit c" "\<forall>c\<in>set fp. is_digit c"
    using assms by (auto simp: fixed_digits_def split: if_splits dest!: in_set_takeD in_set_dropD)
  have "\<forall>c\<in>set (if fp = [] then ''0'' else fp). is_digit c" using d by simp
  from parse_decimal_point [OF d(1) this ip, of "[]" s]
  show "parse_decimal s (ip @ CHR ''.'' # (if fp = [] then ''0'' else fp)) =
      Some (decimal_float s (digits_val ds) (x - int (length ds) + 1))"
    using fixed_digits_value [OF assms(3), of s] by simp
qed

lemma scientific_parse:
  assumes "\<forall>c\<in>set ds. is_digit c" and "ds \<noteq> []"
  shows "parse_decimal s (with_fraction (take 1 ds) (drop 1 ds) @ exp_str x) =
      Some (decimal_float s (digits_val ds) (x - int (length ds) + 1))"
proof -
  obtain d r where ds: "ds = d # r" using assms(2) by (cases ds) auto
  have r: "\<forall>c\<in>set [d]. is_digit c" "\<forall>c\<in>set r. is_digit c" using assms(1) ds by simp_all
  show ?thesis
  proof (cases "r = []")
    case True
    then show ?thesis
      using parse_decimal_plain [OF r(1), of "exp_str x" s] by (simp add: ds with_fraction_def parse_exp_str)
  next
    case False
    then show ?thesis
      using parse_decimal_point [OF r, of "exp_str x" s]
      by (simp add: ds with_fraction_def parse_exp_str algebra_simps)
  qed
qed

lemma exp_str_chars: "\<forall>c\<in>set (exp_str x). float_char c"
  using show_nat_digits [of "nat \<bar>x\<bar>"] by (simp add: exp_str_def Let_def float_char_def)

text \<open>The digits of a number as \<open>repr\<close> lays them out, with or without an exponent.\<close>

lemma repr_body:
  assumes "\<forall>c\<in>set ds. is_digit c" and "ds \<noteq> []" and "fixed_digits ds y = (ip, fp)"
  defines "body \<equiv> if - 4 \<le> y \<and> y < 16 then ip @ CHR ''.'' # (if fp = [] then ''0'' else fp)
    else with_fraction (take 1 ds) (drop 1 ds) @ exp_str y"
  shows "py_float (sign_str s @ body) = Some (decimal_float s (digits_val ds) (y - int (length ds) + 1))"
proof -
  note fixed = fixed_digits_parse [OF assms(1-3)]
  have parse: "parse_decimal s body = Some (decimal_float s (digits_val ds) (y - int (length ds) + 1))"
    using fixed(1) [of s] scientific_parse [OF assms(1,2), of s y] by (simp add: body_def)
  define sci where "sci = with_fraction (take 1 ds) (drop 1 ds)"
  have "\<forall>c\<in>set sci. float_char c" "sci \<noteq> []" "is_digit (hd sci)"
    using assms(1,2) by (cases ds; simp add: sci_def with_fraction_def float_char_def)+
  then have S: "sci @ exp_str y \<noteq> []" "is_digit (hd (sci @ exp_str y))" "\<forall>c\<in>set (sci @ exp_str y). float_char c"
    using exp_str_chars [of y] by auto
  have digit: "is_digit c \<Longrightarrow> float_char c" for c by (simp add: float_char_def)
  have "\<forall>c\<in>set ip. float_char c" "\<forall>c\<in>set (if fp = [] then ''0'' else fp). float_char c" "float_char (CHR ''.'')"
    using fixed(3,4) digit by (auto simp: float_char_def [of "CHR ''.''"] digit)
  then have "body \<noteq> []" "is_digit (hd body)" "\<forall>c\<in>set body. float_char c"
    using S fixed(2,3) unfolding body_def sci_def [symmetric] by auto
  then obtain d r where "body = d # r" "is_digit d" "\<forall>c\<in>set r. float_char c"
    by (cases body) auto
  from py_float_number [OF this] show ?thesis by (simp add: parse)
qed

theorem py_float_py_repr:
  assumes "canonical x" and "is_finite x"
  shows "py_float (py_repr x) = Some x"
proof (cases x)
  case (Fin s m e)
  show ?thesis
  proof (cases "m = 0")
    case True
    then have x: "x = Fin s 0 (- 1074)" using assms(1) Fin by (simp add: canonical_def)
    have "py_float (sign_str s @ ''0.0'') = parse_decimal s ''0.0''"
      by (rule py_float_number [of _ "CHR ''0''" "''.0''"]) (simp_all add: float_char_def)
    also have "\<dots> = Some (decimal_float s 0 (- 1))"
      using parse_decimal_point [of "''0''" "''0''" "[]" s] by (simp add: digits_val_def)
    also have "decimal_float s 0 (- 1) = x" by (simp add: x decimal_float_def round_ratio_def)
    finally show ?thesis using x by (simp add: py_repr_def)
  next
    case False
    obtain n sh where sr: "shortest_repr [1..<18] m e = (n, sh)" by fastforce
    have fin: "canonical (Fin False m e)" using assms(1) Fin by (simp add: canonical_def)
    have val: "decimal_float s n sh = x"
      using decimal_float_sign [OF shortest_repr_correct [OF fin sr]] Fin by simp
    then have n: "0 < n"
      using False Fin by (cases "n = 0") (auto simp: decimal_float_def round_ratio_def)
    define ds where "ds = strip_zeros (show_nat n)"
    define y where "y = sh + int (length (show_nat n)) - 1"
    obtain k where k: "n = digits_val ds * 10 ^ k" "length (show_nat n) = length ds + k"
      using strip_zeros_digits(1) [OF n] by (auto simp: ds_def)
    have ds: "ds \<noteq> []" "\<forall>c\<in>set ds. is_digit c"
      using strip_zeros_digits(2,3) [OF n] by (simp_all add: ds_def)
    have num: "decimal_float s (digits_val ds) (y - int (length ds) + 1) = x"
      using val k by (simp add: y_def decimal_float_shift)
    obtain ip fp where fd: "fixed_digits ds y = (ip, fp)" by fastforce
    define body where "body = (if - 4 \<le> y \<and> y < 16 then ip @ CHR ''.'' # (if fp = [] then ''0'' else fp)
        else with_fraction (take 1 ds) (drop 1 ds) @ exp_str y)"
    have "py_repr x = sign_str s @ body"
      using False unfolding Fin py_repr_def pyfloat.case Let_def sr prod.case ds_def [symmetric]
        y_def [symmetric] fd body_def by simp
    then show ?thesis
      using repr_body [OF ds(2,1) fd, of s] num by (simp add: body_def [symmetric])
  qed
qed (use assms in simp_all)

text \<open>Plain decimal literals, for reading concrete tables.\<close>

lemma py_float_digits:
  assumes "s \<noteq> []" and "list_all is_digit s"
  shows "py_float s = Some (decimal_float False (digits_val s) 0)"
proof -
  have d: "\<forall>c\<in>set s. is_digit c" using assms(2) by (simp add: list_all_iff)
  have "py_float (sign_str False @ s) = parse_decimal False s"
    using assms(1) d by (intro py_float_number [of s "hd s" "tl s"]) (simp_all add: float_char_def list.set_sel(2))
  then show ?thesis
    using parse_decimal_plain [OF d assms(1), of "[]" False] by (simp add: sign_str_def)
qed

lemma py_float_point:
  assumes "ip \<noteq> []" and "list_all is_digit ip" and "list_all is_digit fp"
  shows "py_float (ip @ CHR ''.'' # fp) = Some (decimal_float False (digits_val (ip @ fp)) (- int (length fp)))"
proof -
  have d: "\<forall>c\<in>set ip. is_digit c" "\<forall>c\<in>set fp. is_digit c" using assms by (simp_all add: list_all_iff)
  have "py_float (sign_str False @ ip @ CHR ''.'' # fp) = parse_decimal False (ip @ CHR ''.'' # fp)"
    using assms(1) d
    by (intro py_float_number [of _ "hd ip" "tl ip @ CHR ''.'' # fp"]) (auto simp: float_char_def list.set_sel(2))
  then show ?thesis
    using parse_decimal_point [OF d assms(1), of "[]" False] by (simp add: sign_str_def)
qed

lemmas literal_defs = decimal_float_def digits_val_def digit_val_def is_digit_def float_defs bit_len_eval

end
