(* ===== verification/PyValue.thy ===== *)
theory PyValue
  imports PyRepr
begin

text \<open>
  Python values as the scripts pass them around in dictionaries of mixed content: the rows of
  a table and the documents \<open>json.load\<close> returns. The operations are the ones the sources apply
  to such values: \<open>str\<close>, \<open>float\<close>, \<open>int\<close>, truth, \<open>in\<close>, \<open>.get\<close>, indexing and iteration.
\<close>

datatype pyval =
    PNone
  | PBool bool
  | PInt int
  | PFloat pyfloat
  | PStr string
  | PList "pyval list"
  | PDict "(string \<times> pyval) list"

section \<open>Text of a value\<close>

definition hex_char :: "nat \<Rightarrow> char" where
  "hex_char d = ''0123456789abcdef'' ! d"

text \<open>\<open>repr\<close> of a text: single quotes unless it holds one and no double quote.\<close>

definition repr_char :: "char \<Rightarrow> char \<Rightarrow> string" where
  "repr_char q c =
     (let n = of_char c :: nat in
      if c = q \<or> c = CHR 0x5C then [CHR 0x5C, c]
      else if c = CHR 0x0A then [CHR 0x5C, CHR ''n'']
      else if c = CHR 0x0D then [CHR 0x5C, CHR ''r'']
      else if c = CHR 0x09 then [CHR 0x5C, CHR ''t'']
      else if n < 32 \<or> (127 \<le> n \<and> n \<le> 160) \<or> n = 173
        then [CHR 0x5C, CHR ''x'', hex_char (n div 16), hex_char (n mod 16)]
      else [c])"

definition repr_str :: "string \<Rightarrow> string" where
  "repr_str s =
     (let q = (if CHR 0x27 \<in> set s \<and> CHR 0x22 \<notin> set s then CHR 0x22 else CHR 0x27)
      in [q] @ concat (map (repr_char q) s) @ [q])"

fun value_repr :: "pyval \<Rightarrow> string" where
  "value_repr PNone = ''None''"
| "value_repr (PBool b) = (if b then ''True'' else ''False'')"
| "value_repr (PInt i) = show_int i"
| "value_repr (PFloat x) = py_repr x"
| "value_repr (PStr s) = repr_str s"
| "value_repr (PList vs) = ''['' @ str_join '', '' (map value_repr vs) @ '']''"
| "value_repr (PDict kvs) =
     ''{'' @ str_join '', '' (map (\<lambda>(k, v). repr_str k @ '': '' @ value_repr v) kvs) @ ''}''"

definition value_str :: "pyval \<Rightarrow> string" where
  "value_str v = (case v of PStr s \<Rightarrow> s | _ \<Rightarrow> value_repr v)"

section \<open>Conversions\<close>

text \<open>\<open>float(v)\<close>.\<close>

definition value_float :: "pyval \<Rightarrow> pyfloat res" where
  "value_float v =
     (case v of
        PFloat x \<Rightarrow> Inr x
      | PBool b \<Rightarrow> Inr (if b then fone else fzero)
      | PInt i \<Rightarrow> (let x = float_of_int i in if is_finite x then Inr x else Inl OverflowError)
      | PStr s \<Rightarrow> (case py_float s of None \<Rightarrow> Inl ValueError | Some x \<Rightarrow> Inr x)
      | _ \<Rightarrow> Inl TypeError)"

text \<open>\<open>int(v)\<close> for a table cell, which is a text or missing.\<close>

definition cell_int :: "string option \<Rightarrow> int res" where
  "cell_int cell = (case cell of None \<Rightarrow> Inl TypeError
     | Some s \<Rightarrow> (case py_int s of None \<Rightarrow> Inl ValueError | Some i \<Rightarrow> Inr i))"

definition cell_float :: "string option \<Rightarrow> pyfloat res" where
  "cell_float cell = (case cell of None \<Rightarrow> Inl TypeError | Some s \<Rightarrow> value_float (PStr s))"

section \<open>Documents\<close>

text \<open>\<open>obj.get(key, dflt)\<close>: only a dictionary has the attribute.\<close>

definition value_get :: "pyval \<Rightarrow> string \<Rightarrow> pyval \<Rightarrow> pyval res" where
  "value_get obj key dflt =
     (case obj of PDict kvs \<Rightarrow> Inr (case map_of kvs key of None \<Rightarrow> dflt | Some v \<Rightarrow> v)
      | _ \<Rightarrow> Inl AttributeError)"

text \<open>\<open>key in obj\<close> for a text key.\<close>

definition value_has :: "pyval \<Rightarrow> string \<Rightarrow> bool res" where
  "value_has obj key =
     (case obj of
        PDict kvs \<Rightarrow> Inr (key \<in> fst ` set kvs)
      | PList vs \<Rightarrow> Inr (PStr key \<in> set vs)
      | PStr s \<Rightarrow> Inr (sublist key s)
      | _ \<Rightarrow> Inl TypeError)"

text \<open>\<open>obj[key]\<close> for a text key.\<close>

definition value_at :: "pyval \<Rightarrow> string \<Rightarrow> pyval res" where
  "value_at obj key = (case obj of PDict kvs \<Rightarrow> dict_get kvs key | _ \<Rightarrow> Inl TypeError)"

text \<open>\<open>for x in obj\<close>.\<close>

definition value_iter :: "pyval \<Rightarrow> pyval list res" where
  "value_iter obj =
     (case obj of
        PList vs \<Rightarrow> Inr vs
      | PDict kvs \<Rightarrow> Inr (map (\<lambda>(k, v). PStr k) kvs)
      | PStr s \<Rightarrow> Inr (map (\<lambda>c. PStr [c]) s)
      | _ \<Rightarrow> Inl TypeError)"

lemma value_get_dict [simp]:
  "value_get (PDict kvs) key dflt = Inr (case map_of kvs key of None \<Rightarrow> dflt | Some v \<Rightarrow> v)"
  by (simp add: value_get_def)

end
