(* ===== verification/PyCsv.thy ===== *)
theory PyCsv
  imports PyValue
begin

text \<open>
  The \<open>csv\<close> module in its default dialect, as the scripts use it: fields separated by commas,
  records ended by carriage return and line feed, a field quoted only where it has to be,
  quotes doubled inside a quoted field. The reader is the module's character automaton; the
  main fact is that it reads back what the writer wrote.
\<close>

section \<open>Writer\<close>

abbreviation (input) QUOTE :: char where "QUOTE \<equiv> CHR 0x22"
abbreviation (input) CR :: char where "CR \<equiv> CHR 0x0D"
abbreviation (input) LF :: char where "LF \<equiv> CHR 0x0A"

definition needs_quotes :: "string \<Rightarrow> bool" where
  "needs_quotes f = list_ex (\<lambda>c. c = CHR '','' \<or> c = QUOTE \<or> c = CR \<or> c = LF) f"

definition csv_field :: "string \<Rightarrow> string" where
  "csv_field f = (if needs_quotes f then QUOTE # str_replace QUOTE [QUOTE, QUOTE] f @ [QUOTE] else f)"

definition csv_row :: "string list \<Rightarrow> string" where
  "csv_row fs = (if fs = [[]] then [QUOTE, QUOTE] else str_join '','' (map csv_field fs)) @ [CR, LF]"

definition csv_write :: "string list list \<Rightarrow> string" where
  "csv_write rows = concat (map csv_row rows)"

section \<open>Reader\<close>

datatype csv_state = StartRecord | AfterCR | StartField | InField | InQuoted | QuoteInQuoted

definition at_start :: "csv_state \<Rightarrow> bool" where
  "at_start st = (st = StartRecord \<or> st = AfterCR)"

text \<open>
  \<open>f\<close> is the current field and \<open>r\<close> the finished fields of the record, both reversed. A line
  end closes a record, a blank line is an empty record, and the end of the text closes
  whatever is open.
\<close>

fun csv_go :: "csv_state \<Rightarrow> string \<Rightarrow> string list \<Rightarrow> string \<Rightarrow> string list list" where
  "csv_go st f r [] = (if at_start st then [] else [rev (rev f # r)])"
| "csv_go st f r (c # cs) =
     (if st = InQuoted then
        (if c = QUOTE then csv_go QuoteInQuoted f r cs else csv_go InQuoted (c # f) r cs)
      else if st = QuoteInQuoted \<and> c = QUOTE then csv_go InQuoted (c # f) r cs
      else if st = AfterCR \<and> c = LF then csv_go StartRecord [] [] cs
      else if c = LF \<or> c = CR then
        (if at_start st then [] else rev (rev f # r))
          # csv_go (if c = CR then AfterCR else StartRecord) [] [] cs
      else if c = CHR '','' then csv_go StartField [] (rev f # r) cs
      else if c = QUOTE \<and> st \<noteq> InField \<and> st \<noteq> QuoteInQuoted then csv_go InQuoted f r cs
      else csv_go InField (c # f) r cs)"

definition csv_read :: "string \<Rightarrow> string list list" where
  "csv_read text = csv_go StartRecord [] [] text"

section \<open>Reading back\<close>

lemma csv_go_quoted:
  "csv_go InQuoted f r (str_replace QUOTE [QUOTE, QUOTE] s @ QUOTE # t) = csv_go QuoteInQuoted (rev s @ f) r t"
  by (induction s arbitrary: f) simp_all

lemma csv_go_plain:
  "\<not> needs_quotes s \<Longrightarrow> csv_go InField f r (s @ t) = csv_go InField (rev s @ f) r t"
  by (induction s arbitrary: f) (auto simp: needs_quotes_def)

text \<open>A written field followed by a comma, and by the end of the record.\<close>

lemma csv_field_start:
  assumes "st = StartField \<or> st = StartRecord"
  shows "\<exists>st'. csv_go st [] r (csv_field s @ t) = csv_go st' (rev s) r t
    \<and> (st' = InField \<or> st' = QuoteInQuoted \<or> st' = st \<and> s = [])"
proof (cases "needs_quotes s")
  case True
  then show ?thesis
    using assms csv_go_quoted [of "[]" r s t]
    by (intro exI [of _ QuoteInQuoted]) (auto simp: csv_field_def at_start_def)
next
  case plain: False
  show ?thesis
  proof (cases s)
    case Nil
    then show ?thesis by (intro exI [of _ st]) (simp add: csv_field_def needs_quotes_def)
  next
    case (Cons c cs)
    then have "\<not> needs_quotes cs" using plain by (simp add: needs_quotes_def)
    from csv_go_plain [OF this, of "[c]" r t] show ?thesis
      using plain Cons assms
      by (intro exI [of _ InField]) (auto simp: csv_field_def needs_quotes_def)
  qed
qed

lemma csv_field_comma:
  assumes "st = StartField \<or> st = StartRecord"
  shows "csv_go st [] r (csv_field s @ CHR '','' # t) = csv_go StartField [] (s # r) t"
  using csv_field_start [OF assms, of r s "CHR '','' # t"] assms by (auto simp: at_start_def)

lemma csv_field_end:
  assumes "st = StartField \<or> st = StartRecord \<and> s \<noteq> []"
  shows "csv_go st [] r (csv_field s @ CR # LF # t) = rev (s # r) # csv_go StartRecord [] [] t"
proof -
  have "st = StartField \<or> st = StartRecord" using assms by blast
  from csv_field_start [OF this, of r s "CR # LF # t"] show ?thesis
    using assms by (auto simp: at_start_def)
qed

lemma csv_go_fields:
  "fs \<noteq> [] \<Longrightarrow> csv_go StartField [] r (str_join '','' (map csv_field fs) @ CR # LF # t) =
     (rev r @ fs) # csv_go StartRecord [] [] t"
proof (induction fs arbitrary: r)
  case (Cons f fs)
  then show ?case
    by (cases "fs = []") (simp_all add: csv_field_end csv_field_comma str_join_Cons)
qed simp

lemma csv_go_row: "csv_go StartRecord [] [] (csv_row fs @ t) = fs # csv_go StartRecord [] [] t"
proof (cases fs)
  case Nil
  then show ?thesis by (simp add: csv_row_def at_start_def)
next
  case (Cons f gs)
  show ?thesis
  proof (cases "gs = []")
    case True
    then show ?thesis
      using Cons by (cases "f = []") (simp_all add: csv_row_def at_start_def csv_field_end)
  next
    case False
    then show ?thesis
      using Cons by (simp add: csv_row_def str_join_Cons csv_field_comma csv_go_fields)
  qed
qed

lemma csv_read_write: "csv_read (csv_write rows) = rows"
proof -
  have "csv_go StartRecord [] [] (concat (map csv_row rows)) = rows"
    by (induction rows) (simp_all add: csv_go_row at_start_def)
  then show ?thesis by (simp add: csv_read_def csv_write_def)
qed

section \<open>Dictionary rows\<close>

text \<open>
  \<open>csv.DictReader\<close>: the first record names the columns, blank records are skipped, a column
  a short record does not reach holds \<open>None\<close>. Fields beyond the header, which the module
  keeps under the key \<open>None\<close>, are not part of a row here: no code reads them.
\<close>

type_synonym csv_dict = "(string \<times> string option) list"

definition row_dict :: "string list \<Rightarrow> string list \<Rightarrow> csv_dict" where
  "row_dict header row =
     foldl (\<lambda>d (k, v). AList.update k v d) []
       (zip header (map Some row @ replicate (length header - length row) None))"

definition dict_rows :: "string \<Rightarrow> csv_dict list" where
  "dict_rows text =
     (case csv_read text of [] \<Rightarrow> []
      | header # body \<Rightarrow> map (row_dict header) (filter (\<lambda>row. row \<noteq> []) body))"

lemma row_dict_lookup:
  assumes "distinct header" and "length row = length header"
  shows "map_of (row_dict header row) = map_of (zip header (map Some row))"
proof -
  have *: "map_of (foldl (\<lambda>d (k, v). AList.update k v d) d0 (zip ks vs)) k =
      (case map_of (zip ks vs) k of None \<Rightarrow> map_of d0 k | Some v \<Rightarrow> Some v)"
    if "distinct ks" for ks :: "string list" and vs :: "string option list" and d0 k
    using that
  proof (induction ks arbitrary: vs d0)
    case (Cons k' ks)
    show ?case
    proof (cases vs)
      case (Cons v' vs')
      have "map_of (zip ks vs') k' = None"
        using Cons.prems by (auto simp: map_of_eq_None_iff dest: set_zip_leftD)
      then show ?thesis
        using Cons Cons.IH Cons.prems by (auto simp: update_conv' split: option.split)
    qed simp
  qed simp
  show ?thesis
  proof (rule ext)
    fix k
    show "map_of (row_dict header row) k = map_of (zip header (map Some row)) k"
      using * [OF assms(1), of "[]" "map Some row" k] assms(2)
      by (cases "map_of (zip header (map Some row)) k")
        (simp_all add: row_dict_def del: map_of_zip_is_None)
  qed
qed

section \<open>Tables\<close>

text \<open>
  What a client needs of a table format: a written table reads back. The clients are the
  aggregate file and its checks.
\<close>

locale table_format =
  fixes encode :: "string list list \<Rightarrow> string"
    and decode :: "string \<Rightarrow> string list list"
  assumes decode_encode: "decode (encode rows) = rows"
begin

lemma encode_inject: "encode rows = encode rows' \<longleftrightarrow> rows = rows'"
  by (metis decode_encode)

lemma header_and_body:
  "hd (decode (encode (header # body))) = header" "tl (decode (encode (header # body))) = body"
  by (simp_all add: decode_encode)

end

interpretation csv: table_format csv_write csv_read
  by unfold_locales (rule csv_read_write)

lemma dict_rows_write:
  assumes "\<forall>row\<in>set body. row \<noteq> []"
  shows "dict_rows (csv_write (header # body)) = map (row_dict header) body"
  using assms by (simp add: dict_rows_def csv.decode_encode filter_id_conv)

end
