(* ===== verification/RunMatrixSummary.thy ===== *)
theory RunMatrixSummary
  imports RunMatrixYaml PyCsv
begin

text \<open>
  The aggregate rows of a matrix (\<^verbatim>\<open>scripts/run_matrix.py\<close>, lines 2104 to 2368): the columns
  known before a run, the summary of what the simulator left in the run's output directory,
  and the aggregate CSV file. \<open>sim_output\<close> is that directory: the document of \<^verbatim>\<open>summary.json\<close>
  as \<^verbatim>\<open>json.load\<close> returns it, and the texts of the two contention tables.
\<close>

section \<open>Columns known before a run\<close>

type_synonym row = "(string \<times> pyval) list"

definition base_row :: "MatrixRun \<Rightarrow> string \<Rightarrow> string \<Rightarrow> row res" where
  "base_row run status error =
     (let preset = run_preset run; prof = run_contention_weight_profile run in
      bindR (cache_capacity_bytes run) (\<lambda>cap.
      bindR (memory_bandwidth_bytes_per_time run) (\<lambda>bw.
      bindR (memory_base_latency run) (\<lambda>base.
      bindR (one_way_link_latency run) (\<lambda>link.
      Inr [
        (''status'', PStr status),
        (''error'', PStr error),
        (''preset'', PStr (preset_name preset)),
        (''experiment_name'', PStr (run_run_name run)),
        (''policy'', PStr (run_policy run)),
        (''contention_weight_profile'', PStr (profile prof)),
        (''contention_weight_name'', PStr (weight_name prof)),
        (''contention_weight_value'',
          (case weight_value prof of None \<Rightarrow> PStr [] | Some v \<Rightarrow> PFloat v)),
        (''seed'', PInt (run_seed run)),
        (''node_count'', PInt (run_compute_node_count run)),
        (''compute_node_count'', PInt (run_compute_node_count run)),
        (''epoch_count'', PInt (run_epoch_count run)),
        (''requests_per_node_per_epoch'', PInt (run_requests_per_node_per_epoch run)),
        (''workload_issue_mode'', PStr (run_workload_issue_mode run)),
        (''burst_size'', PInt (run_burst_size run)),
        (''burst_interval'', PInt (run_burst_interval run)),
        (''intra_burst_gap'', PInt (run_intra_burst_gap run)),
        (''node_phase_jitter'', PInt (run_node_phase_jitter run)),
        (''hot_set_mode'', PStr (hot_set_mode preset)),
        (''hot_set_churn_label'',
          PStr (hot_set_churn_label (hot_set_mode preset) (run_hot_set_churn_fraction run))),
        (''hot_set_churn_fraction'', PFloat (run_hot_set_churn_fraction run)),
        (''cross_node_overlap'', PStr (run_cross_node_overlap run)),
        (''object_count'', PInt (run_object_count run)),
        (''hot_set_size'', PInt (run_hot_set_size run)),
        (''hot_access_probability'', PFloat (run_hot_access_probability run)),
        (''object_size_mode'', PStr (run_object_size_mode run)),
        (''object_size_bytes'', PInt (object_size_bytes preset)),
        (''object_size_small_bytes'', PInt (object_size_small_bytes preset)),
        (''object_size_large_bytes'', PInt (object_size_large_bytes preset)),
        (''large_object_probability'', PFloat (run_large_object_probability run)),
        (''cache_capacity_hotset_multiplier'', PFloat (run_cache_capacity_hotset_multiplier run)),
        (''cache_capacity_bytes'', PInt cap),
        (''memory_channel_count'', PInt (run_memory_channel_count run)),
        (''hot_object_channel_count'', PInt (run_hot_object_channel_count run)),
        (''memory_bandwidth_level'', PStr (run_memory_bandwidth_level run)),
        (''memory_bandwidth_bytes_per_time'', PInt bw),
        (''memory_base_latency_level'', PStr (run_memory_base_latency_level run)),
        (''memory_base_latency'', PInt base),
        (''link_latency_level'', PStr (run_link_latency_level run)),
        (''one_way_link_latency'', PInt link),
        (''config_path'', PStr (run_config_path run)),
        (''output_dir'', PStr (run_output_dir run))])))))"

section \<open>What the simulator leaves behind\<close>

record sim_output =
  so_summary :: "pyval option"
  so_objects :: "string option"
  so_channels :: "string option"

definition read_json :: "string \<Rightarrow> pyval option \<Rightarrow> pyval res" where
  "read_json path doc = (case doc of None \<Rightarrow> Inl (FileNotFoundError path) | Some v \<Rightarrow> Inr v)"

definition number_or_blank :: "pyval \<Rightarrow> pyval" where
  "number_or_blank value = (if value = PNone then PStr [] else value)"

definition max_or_blank :: "pyfloat list \<Rightarrow> pyval" where
  "max_or_blank values = (case values of [] \<Rightarrow> PStr [] | x # xs \<Rightarrow> PFloat (fmaximum x xs))"

definition min_or_blank :: "pyfloat list \<Rightarrow> pyval" where
  "min_or_blank values = (case values of [] \<Rightarrow> PStr [] | x # xs \<Rightarrow> PFloat (fminimum x xs))"

definition spread :: "pyfloat list \<Rightarrow> pyval" where
  "spread values = (case values of [] \<Rightarrow> PStr []
     | x # xs \<Rightarrow> PFloat (fsub (fmaximum x xs) (fminimum x xs)))"

record contention_totals =
  ct_accesses :: int
  ct_wait :: int
  ct_service :: int
  ct_depth :: int

text \<open>\<open>int(row[column])\<close>.\<close>

definition row_int :: "csv_dict \<Rightarrow> string \<Rightarrow> int res" where
  "row_int r column = bindR (dict_get r column) cell_int"

definition add_contention_row :: "contention_totals \<Rightarrow> csv_dict \<Rightarrow> contention_totals res" where
  "add_contention_row t r =
     bindR (row_int r ''remote_accesses'') (\<lambda>a.
     bindR (row_int r ''total_queue_wait'') (\<lambda>w.
     bindR (row_int r ''total_remote_service_time'') (\<lambda>s.
     bindR (row_int r ''max_observed_queue_depth'') (\<lambda>d.
     Inr \<lparr>ct_accesses = ct_accesses t + a, ct_wait = ct_wait t + w,
          ct_service = ct_service t + s, ct_depth = max (ct_depth t) d\<rparr>))))"

definition aggregate_contention :: "string option \<Rightarrow> row res" where
  "aggregate_contention file =
     (case file of
        None \<Rightarrow> Inr (map (\<lambda>key. (key, PStr []))
          [''total_remote_accesses'', ''total_queue_wait'', ''total_remote_service_time'',
           ''max_observed_queue_depth''])
      | Some text \<Rightarrow>
          bindR (foldR add_contention_row
                   \<lparr>ct_accesses = 0, ct_wait = 0, ct_service = 0, ct_depth = 0\<rparr> (dict_rows text)) (\<lambda>t.
          Inr [(''total_remote_accesses'', PInt (ct_accesses t)),
               (''total_queue_wait'', PInt (ct_wait t)),
               (''total_remote_service_time'', PInt (ct_service t)),
               (''max_observed_queue_depth'', PInt (ct_depth t))]))"

record channel_totals =
  ch_depth :: int
  ch_max_wait :: pyval
  ch_waits :: "pyfloat list"

text \<open>\<open>max(current, x)\<close> where \<open>current\<close> is the initial integer 0 or a float.\<close>

definition max_wait :: "pyval \<Rightarrow> pyfloat \<Rightarrow> pyval" where
  "max_wait current x =
     (let c = (case current of PFloat y \<Rightarrow> y | _ \<Rightarrow> fzero)
      in if flt c x then PFloat x else current)"

definition add_channel_row :: "channel_totals \<Rightarrow> csv_dict \<Rightarrow> channel_totals res" where
  "add_channel_row t r =
     bindR (bindR (dict_get r ''total_queue_wait'') cell_float) (\<lambda>w.
     bindR (row_int r ''max_queue_depth'') (\<lambda>d.
     Inr \<lparr>ch_depth = max (ch_depth t) d, ch_max_wait = max_wait (ch_max_wait t) w,
          ch_waits = ch_waits t @ [w]\<rparr>))"

definition queue_imbalance :: "pyfloat list \<Rightarrow> pyfloat res" where
  "queue_imbalance waits =
     (case waits of
        [] \<Rightarrow> Inr fzero
      | x # xs \<Rightarrow>
          if flt fzero (fsum waits)
          then bindR (py_div (fsum waits) (float_of_int (int (length waits)))) (\<lambda>average.
               py_div (fmaximum x xs) average)
          else Inr fzero)"

definition aggregate_channel_contention :: "string option \<Rightarrow> row res" where
  "aggregate_channel_contention file =
     (case file of
        None \<Rightarrow> Inr (map (\<lambda>key. (key, PStr []))
          [''peak_memory_channel_queue_depth'', ''max_channel_total_queue_wait'',
           ''channel_queue_imbalance''])
      | Some text \<Rightarrow>
          bindR (foldR add_channel_row \<lparr>ch_depth = 0, ch_max_wait = PInt 0, ch_waits = []\<rparr>
                   (dict_rows text)) (\<lambda>t.
          bindR (queue_imbalance (ch_waits t)) (\<lambda>imbalance.
          Inr [(''peak_memory_channel_queue_depth'', PInt (ch_depth t)),
               (''max_channel_total_queue_wait'', ch_max_wait t),
               (''channel_queue_imbalance'', PFloat imbalance)])))"

section \<open>One aggregate row\<close>

text \<open>\<open>[float(node[key]) for node in per_node if key in node]\<close>.\<close>

definition node_float :: "string \<Rightarrow> pyval \<Rightarrow> pyfloat list res" where
  "node_float key node =
     bindR (value_has node key) (\<lambda>present.
     if present
     then bindR (value_at node key) (\<lambda>v. bindR (value_float v) (\<lambda>x. Inr [x]))
     else Inr [])"

definition node_floats :: "string \<Rightarrow> pyval \<Rightarrow> pyfloat list res" where
  "node_floats key per_node =
     bindR (value_iter per_node) (\<lambda>nodes.
     bindR (mapR (node_float key) nodes) (\<lambda>xss. Inr (concat xss)))"

text \<open>\<open>number_or_blank(section.get(key))\<close> as the entry of a column.\<close>

definition entry :: "pyval \<Rightarrow> string \<times> string \<Rightarrow> (string \<times> pyval) res" where
  "entry sec ck = bindR (value_get sec (snd ck) PNone) (\<lambda>v. Inr (fst ck, number_or_blank v))"

definition latency_columns :: "(string \<times> string) list" where
  "latency_columns = [(''mean_latency'', ''mean''), (''median_latency'', ''median''),
     (''p95_latency'', ''p95''), (''p99_latency'', ''p99'')]"

definition cache_columns :: "(string \<times> string) list" where
  "cache_columns = [(''local_hit_rate'', ''local_hit_rate''), (''local_hits'', ''local_hits''),
     (''local_misses'', ''local_misses'')]"

definition memory_columns :: "(string \<times> string) list" where
  "memory_columns = [(''average_memory_wait'', ''average_wait''), (''max_memory_wait'', ''max_wait''),
     (''peak_memory_queue_depth'', ''peak_queue_depth'')]"

definition policy_columns :: "(string \<times> string) list" where
  "policy_columns = [(''policy_admitted'', ''admitted''), (''policy_rejected'', ''rejected'')]"

definition viability_columns :: "(string \<times> string) list" where
  "viability_columns = map (\<lambda>k. (k, k))
     [''admission_yield'', ''reuse_after_admit_rate'', ''stale_telemetry_rate'',
      ''average_top_object_overlap'', ''estimated_avoided_remote_accesses'',
      ''estimated_avoided_queue_wait'', ''estimated_avoided_remote_service_time'',
      ''eviction_regret_count'', ''remote_eviction_regret_count'',
      ''jain_inverse_latency_fairness'']"

definition channel_columns :: "(string \<times> string) list" where
  "channel_columns = [(''peak_memory_channel_queue_depth'', ''peak_queue_depth''),
     (''max_channel_total_queue_wait'', ''max_total_queue_wait''),
     (''channel_queue_imbalance'', ''queue_imbalance'')]"

definition node_columns :: "pyfloat list \<Rightarrow> pyfloat list \<Rightarrow> pyfloat list \<Rightarrow> row" where
  "node_columns mean_latencies p99_latencies hit_rates = [
     (''per_node_mean_latency_min'', min_or_blank mean_latencies),
     (''per_node_mean_latency_max'', max_or_blank mean_latencies),
     (''per_node_mean_latency_spread'', spread mean_latencies),
     (''per_node_p99_latency_max'', max_or_blank p99_latencies),
     (''per_node_hit_rate_min'', min_or_blank hit_rates),
     (''per_node_hit_rate_max'', max_or_blank hit_rates)]"

text \<open>The columns taken from the document itself.\<close>

definition document_columns :: "pyval \<Rightarrow> row res" where
  "document_columns summary =
     bindR (value_get summary ''latency'' (PDict [])) (\<lambda>latency.
     bindR (value_get summary ''cache'' (PDict [])) (\<lambda>cache.
     bindR (value_get summary ''memory'' (PDict [])) (\<lambda>memory.
     bindR (value_get summary ''policy'' (PDict [])) (\<lambda>policy.
     bindR (value_get summary ''viability'' (PDict [])) (\<lambda>viability.
     bindR (value_get summary ''per_node'' (PList [])) (\<lambda>per_node.
     bindR (node_floats ''mean_latency'' per_node) (\<lambda>means.
     bindR (node_floats ''p99_latency'' per_node) (\<lambda>p99s.
     bindR (node_floats ''local_cache_hit_rate'' per_node) (\<lambda>rates.
     bindR (value_get summary ''completed_requests'' (PStr [])) (\<lambda>completed.
     bindR (mapR (entry latency) latency_columns) (\<lambda>ls.
     bindR (mapR (entry cache) cache_columns) (\<lambda>cs.
     bindR (mapR (entry memory) memory_columns) (\<lambda>ms.
     bindR (mapR (entry policy) policy_columns) (\<lambda>ps.
     bindR (mapR (entry viability) viability_columns) (\<lambda>vs.
     Inr ((''completed_requests'', completed) # ls @ cs @ ms
          @ node_columns means p99s rates @ ps @ vs))))))))))))))))"

definition channel_entries :: "pyval \<Rightarrow> row res" where
  "channel_entries summary =
     bindR (value_get summary ''memory'' (PDict [])) (\<lambda>memory.
     bindR (value_get memory ''channels'' (PDict [])) (\<lambda>channels.
     mapR (entry channels) channel_columns))"

text \<open>The loop over the channel table: only a blank column takes the table's value.\<close>

definition fill_blank :: "row \<Rightarrow> string \<times> pyval \<Rightarrow> row" where
  "fill_blank r kv =
     (if (case map_of r (fst kv) of None \<Rightarrow> PStr [] | Some v \<Rightarrow> v) = PStr []
      then AList.update (fst kv) (snd kv) r else r)"

definition summarize_run :: "MatrixRun \<Rightarrow> sim_output \<Rightarrow> string \<Rightarrow> string \<Rightarrow> row res" where
  "summarize_run run out status error =
     bindR (base_row run status error) (\<lambda>r0.
     if status \<noteq> ''success'' then Inr r0
     else
       bindR (read_json (path_join (run_output_dir run) ''summary.json'') (so_summary out)) (\<lambda>summary.
       bindR (document_columns summary) (\<lambda>doc.
       bindR (aggregate_contention (so_objects out)) (\<lambda>contention.
       bindR (channel_entries summary) (\<lambda>channels.
       bindR (aggregate_channel_contention (so_channels out)) (\<lambda>table.
       Inr (foldl fill_blank (dict_update (dict_update (dict_update r0 doc) contention) channels) table)))))))"

section \<open>The aggregate file\<close>

text \<open>\<open>csv\<close> writes \<open>None\<close> as an empty field and any other value as its text.\<close>

definition csv_value :: "pyval \<Rightarrow> string" where
  "csv_value v = (if v = PNone then [] else value_str v)"

definition aggregate_fields :: "row \<Rightarrow> string list" where
  "aggregate_fields r = map (\<lambda>column. csv_value (case map_of r column of None \<Rightarrow> PStr [] | Some v \<Rightarrow> v))
     AGGREGATE_COLUMNS"

definition aggregate_text :: "row list \<Rightarrow> string" where
  "aggregate_text rows = csv_write (AGGREGATE_COLUMNS # map aggregate_fields rows)"

definition write_aggregate_csv :: "string \<Rightarrow> row list \<Rightarrow> files \<Rightarrow> files" where
  "write_aggregate_csv path rows fs = fs(path \<mapsto> aggregate_text rows)"

section \<open>Which columns each part fills\<close>

named_theorems column_keys \<open>the keys of the parts of a row\<close>

definition base_keys :: "string list" where
  "base_keys = take 42 [''status'', ''error'', ''preset'', ''experiment_name'', ''policy'',
     ''contention_weight_profile'', ''contention_weight_name'', ''contention_weight_value'', ''seed'',
     ''node_count'', ''compute_node_count'', ''epoch_count'', ''requests_per_node_per_epoch'',
     ''workload_issue_mode'', ''burst_size'', ''burst_interval'', ''intra_burst_gap'',
     ''node_phase_jitter'', ''hot_set_mode'', ''hot_set_churn_label'', ''hot_set_churn_fraction'',
     ''cross_node_overlap'', ''object_count'', ''hot_set_size'', ''hot_access_probability'',
     ''object_size_mode'', ''object_size_bytes'', ''object_size_small_bytes'',
     ''object_size_large_bytes'', ''large_object_probability'', ''cache_capacity_hotset_multiplier'',
     ''cache_capacity_bytes'', ''memory_channel_count'', ''hot_object_channel_count'',
     ''memory_bandwidth_level'', ''memory_bandwidth_bytes_per_time'', ''memory_base_latency_level'',
     ''memory_base_latency'', ''link_latency_level'', ''one_way_link_latency'', ''config_path'',
     ''output_dir'']"

lemma base_row_keys [column_keys]: "base_row run status error = Inr r \<Longrightarrow> map fst r = base_keys"
  by (auto simp: base_row_def Let_def bindR_Inr_iff base_keys_def)

lemma mapR_entry_keys [column_keys]: "mapR (entry sec) cols = Inr es \<Longrightarrow> map fst es = map fst cols"
  by (induction cols arbitrary: es) (auto simp: bindR_Inr_iff entry_def)

lemma node_columns_keys [column_keys]:
  "map fst (node_columns means p99s rates) =
     [''per_node_mean_latency_min'', ''per_node_mean_latency_max'', ''per_node_mean_latency_spread'',
      ''per_node_p99_latency_max'', ''per_node_hit_rate_min'', ''per_node_hit_rate_max'']"
  by (simp add: node_columns_def)

lemma aggregate_contention_keys [column_keys]:
  "aggregate_contention file = Inr t \<Longrightarrow>
     map fst t = [''total_remote_accesses'', ''total_queue_wait'', ''total_remote_service_time'',
       ''max_observed_queue_depth'']"
  by (auto simp: aggregate_contention_def bindR_Inr_iff split: option.splits)

lemma channel_table_keys [column_keys]:
  "aggregate_channel_contention file = Inr t \<Longrightarrow> map fst t = map fst channel_columns"
  by (auto simp: aggregate_channel_contention_def bindR_Inr_iff channel_columns_def split: option.splits)

lemma channel_entries_keys [column_keys]:
  "channel_entries summary = Inr t \<Longrightarrow> map fst t = map fst channel_columns"
  by (auto simp: channel_entries_def bindR_Inr_iff intro: mapR_entry_keys)

definition document_keys :: "string list" where
  "document_keys = ''completed_requests'' # map fst latency_columns @ map fst cache_columns
     @ map fst memory_columns
     @ [''per_node_mean_latency_min'', ''per_node_mean_latency_max'', ''per_node_mean_latency_spread'',
        ''per_node_p99_latency_max'', ''per_node_hit_rate_min'', ''per_node_hit_rate_max'']
     @ map fst policy_columns @ map fst viability_columns"

lemma document_columns_keys [column_keys]: "document_columns summary = Inr t \<Longrightarrow> map fst t = document_keys"
  unfolding document_columns_def document_keys_def bindR_Inr_iff
  by (auto simp: mapR_entry_keys node_columns_keys)

lemmas column_lists = base_keys_def document_keys_def latency_columns_def cache_columns_def
  memory_columns_def policy_columns_def viability_columns_def channel_columns_def

lemma schema_covers:
  "set base_keys \<union> set document_keys \<union> set (map fst channel_columns)
     \<union> {''total_remote_accesses'', ''total_queue_wait'', ''total_remote_service_time'',
        ''max_observed_queue_depth''} = set AGGREGATE_COLUMNS"
  by (simp add: column_lists AGGREGATE_COLUMNS_def insert_commute)

lemma distinct_aggregate_columns: "distinct AGGREGATE_COLUMNS"
  by (simp add: AGGREGATE_COLUMNS_def)

lemma distinct_base_keys: "distinct base_keys"
  by (simp add: base_keys_def)

lemma distinct_channel_keys: "distinct (map fst channel_columns)"
  by (simp add: channel_columns_def)

section \<open>Shape of a row\<close>

lemma summarize_run_Inr:
  "summarize_run run out status error = Inr row \<longleftrightarrow>
     (\<exists>r0. base_row run status error = Inr r0 \<and>
       (if status \<noteq> ''success'' then row = r0
        else \<exists>summary doc cont chan table.
          read_json (path_join (run_output_dir run) ''summary.json'') (so_summary out) = Inr summary \<and>
          document_columns summary = Inr doc \<and> aggregate_contention (so_objects out) = Inr cont \<and>
          channel_entries summary = Inr chan \<and>
          aggregate_channel_contention (so_channels out) = Inr table \<and>
          row = foldl fill_blank (dict_update (dict_update (dict_update r0 doc) cont) chan) table))"
proof (cases "status = ''success''")
  case True
  then show ?thesis
    by (simp only: summarize_run_def bindR_Inr_iff not_True_eq_False if_False simp_thms sum.inject) blast
qed (simp add: summarize_run_def bindR_Inr_iff conj_commute)

lemma fill_blank_lookup:
  "map_of (fill_blank r kv) k =
     (if k = fst kv \<and> (map_of r k = None \<or> map_of r k = Some (PStr [])) then Some (snd kv) else map_of r k)"
  by (auto simp: fill_blank_def update_conv' split: option.splits)

lemma fill_blanks_lookup:
  "distinct (map fst t) \<Longrightarrow> map_of (foldl fill_blank r t) k =
     (if map_of r k = None \<or> map_of r k = Some (PStr [])
      then (case map_of t k of None \<Rightarrow> map_of r k | Some v \<Rightarrow> Some v) else map_of r k)"
proof (induction t arbitrary: r)
  case (Cons kv t)
  have none: "map_of t (fst kv) = None" using Cons.prems by (simp add: map_of_eq_None_iff)
  show ?case
  proof (cases "k = fst kv")
    case True
    then show ?thesis using Cons none by (simp add: fill_blank_lookup)
  next
    case False
    then show ?thesis
      using Cons by (cases "map_of t k") (simp_all add: fill_blank_lookup [of r kv k])
  qed
qed simp

lemma fill_blanks_distinct: "distinct (map fst r) \<Longrightarrow> distinct (map fst (foldl fill_blank r t))"
  by (induction t arbitrary: r) (auto simp: fill_blank_def distinct_update)

lemma fill_blanks_keys: "fst ` set (foldl fill_blank r t) \<union> fst ` set t = fst ` set r \<union> fst ` set t"
proof (induction t arbitrary: r)
  case (Cons kv t)
  have "fst ` set (fill_blank r kv) \<union> {fst kv} = fst ` set r \<union> {fst kv}"
  proof (cases "fill_blank r kv = r")
    case False
    then show ?thesis by (simp only: fill_blank_def dom_update split: if_splits) auto
  qed simp
  moreover have "fst ` set (foldl fill_blank r (kv # t)) \<union> fst ` set (kv # t) =
      (fst ` set (fill_blank r kv) \<union> fst ` set t) \<union> {fst kv}"
    using Cons.IH [of "fill_blank r kv"] by (auto simp only: foldl_Cons list.set image_insert)
  ultimately show ?case by (auto simp only: list.set image_insert)
qed simp

text \<open>The merged row before the channel table is consulted.\<close>

lemma merged_keys:
  assumes "base_row run status error = Inr r0" and "document_columns summary = Inr doc"
    and "aggregate_contention file = Inr cont" and "channel_entries summary = Inr chan"
  shows "fst ` set (dict_update (dict_update (dict_update r0 doc) cont) chan) = set AGGREGATE_COLUMNS"
    and "distinct (map fst (dict_update (dict_update (dict_update r0 doc) cont) chan))"
proof -
  have set: "map fst d = ks \<Longrightarrow> fst ` set d = set ks" for d :: row and ks
    by (drule arg_cong [of _ _ set]) (simp only: set_map)
  note sets = set [OF base_row_keys [OF assms(1)]] set [OF document_columns_keys [OF assms(2)]]
    set [OF aggregate_contention_keys [OF assms(3)], unfolded list.set]
    set [OF channel_entries_keys [OF assms(4)]]
  show "fst ` set (dict_update (dict_update (dict_update r0 doc) cont) chan) = set AGGREGATE_COLUMNS"
    unfolding keys_dict_update sets schema_covers [symmetric] by (simp only: Un_ac)
  show "distinct (map fst (dict_update (dict_update (dict_update r0 doc) cont) chan))"
    using base_row_keys [OF assms(1)] distinct_base_keys by (simp add: distinct_dict_update)
qed

lemma successful_row:
  assumes "summarize_run run out ''success'' error = Inr row"
  obtains r0 summary doc cont chan table where
    "base_row run ''success'' error = Inr r0" "so_summary out = Some summary"
    "document_columns summary = Inr doc" "aggregate_contention (so_objects out) = Inr cont"
    "channel_entries summary = Inr chan" "aggregate_channel_contention (so_channels out) = Inr table"
    "row = foldl fill_blank (dict_update (dict_update (dict_update r0 doc) cont) chan) table"
  using assms by (auto simp: summarize_run_Inr read_json_def split: option.splits)

lemma successful_row_keys:
  assumes "summarize_run run out ''success'' error = Inr row"
  shows "fst ` set row = set AGGREGATE_COLUMNS" and "distinct (map fst row)"
proof -
  from assms obtain r0 summary doc cont chan table where
    *: "base_row run ''success'' error = Inr r0" "document_columns summary = Inr doc"
      "aggregate_contention (so_objects out) = Inr cont" "channel_entries summary = Inr chan"
    and table: "aggregate_channel_contention (so_channels out) = Inr table"
    and row: "row = foldl fill_blank (dict_update (dict_update (dict_update r0 doc) cont) chan) table"
    by (rule successful_row)
  note merged = merged_keys [OF *]
  have "set (map fst table) = set (map fst chan)"
    using channel_table_keys [OF table] channel_entries_keys [OF *(4)] by simp
  then have sub: "fst ` set table \<subseteq> set AGGREGATE_COLUMNS"
    unfolding merged(1) [symmetric] keys_dict_update set_map by blast
  have "map_of (foldl fill_blank r table) k = None \<Longrightarrow> map_of r k = None" for r k
    using channel_table_keys [OF table] distinct_channel_keys
    by (auto simp: fill_blanks_lookup split: if_splits option.splits)
  then have "set AGGREGATE_COLUMNS \<subseteq> fst ` set row"
    unfolding row merged(1) [symmetric] by (metis map_of_eq_None_iff subsetI)
  moreover have "fst ` set row \<union> fst ` set table = set AGGREGATE_COLUMNS \<union> fst ` set table"
    unfolding row fill_blanks_keys merged(1) by (rule refl)
  ultimately show "fst ` set row = set AGGREGATE_COLUMNS"
    using sub by (metis sup.absorb1 sup.absorb_iff1 sup.bounded_iff sup_ge1 subset_antisym)
  show "distinct (map fst row)"
    unfolding row using merged(2) by (rule fill_blanks_distinct)
qed

section \<open>Totals of the object table\<close>

text \<open>One parsed row of the table: accesses, queue wait, service time, queue depth.\<close>

definition contention_row :: "csv_dict \<Rightarrow> int \<times> int \<times> int \<times> int \<Rightarrow> bool" where
  "contention_row r = (\<lambda>(a, w, s, d).
     row_int r ''remote_accesses'' = Inr a \<and> row_int r ''total_queue_wait'' = Inr w \<and>
     row_int r ''total_remote_service_time'' = Inr s \<and> row_int r ''max_observed_queue_depth'' = Inr d)"

lemma contention_fold:
  "foldR add_contention_row t rs = Inr t' \<longleftrightarrow>
     (\<exists>qs. list_all2 contention_row rs qs \<and>
       t' = \<lparr>ct_accesses = ct_accesses t + sum_list (map fst qs),
             ct_wait = ct_wait t + sum_list (map (fst \<circ> snd) qs),
             ct_service = ct_service t + sum_list (map (fst \<circ> snd \<circ> snd) qs),
             ct_depth = foldl max (ct_depth t) (map (snd \<circ> snd \<circ> snd) qs)\<rparr>)"
proof (induction rs arbitrary: t)
  case (Cons r rs)
  have step: "add_contention_row t r = Inr u \<longleftrightarrow>
      (\<exists>a w s d. contention_row r (a, w, s, d) \<and>
         u = \<lparr>ct_accesses = ct_accesses t + a, ct_wait = ct_wait t + w,
              ct_service = ct_service t + s, ct_depth = max (ct_depth t) d\<rparr>)" for u
    by (auto simp: add_contention_row_def contention_row_def bindR_Inr_iff)
  show ?case (is "?L \<longleftrightarrow> (\<exists>qs. ?R qs)")
  proof
    assume ?L
    then obtain a w s d qs where "contention_row r (a, w, s, d)" "list_all2 contention_row rs qs"
      and "t' = \<lparr>ct_accesses = ct_accesses t + a + sum_list (map fst qs),
             ct_wait = ct_wait t + w + sum_list (map (fst \<circ> snd) qs),
             ct_service = ct_service t + s + sum_list (map (fst \<circ> snd \<circ> snd) qs),
             ct_depth = foldl max (max (ct_depth t) d) (map (snd \<circ> snd \<circ> snd) qs)\<rparr>"
      unfolding foldR.simps bindR_Inr_iff step Cons.IH by auto
    then have "?R ((a, w, s, d) # qs)" by (simp add: add.assoc o_def)
    then show "\<exists>qs. ?R qs" by blast
  next
    assume "\<exists>qs. ?R qs"
    then obtain a w s d qs where "contention_row r (a, w, s, d)" "list_all2 contention_row rs qs"
      and "?R ((a, w, s, d) # qs)"
      unfolding list_all2_Cons1 by (metis list.rel_inject(2) prod_cases4)
    then show ?L
      unfolding foldR.simps bindR_Inr_iff step Cons.IH
      by (intro exI [of _ "\<lparr>ct_accesses = ct_accesses t + a, ct_wait = ct_wait t + w,
            ct_service = ct_service t + s, ct_depth = max (ct_depth t) d\<rparr>"] conjI exI [of _ a]
          exI [of _ w] exI [of _ s] exI [of _ d] exI [of _ qs]) (auto simp: add.assoc o_def)
  qed
qed auto

section \<open>An example\<close>

definition demo_output :: sim_output where
  "demo_output = \<lparr>so_summary = Some (PDict [(''latency'', PDict [(''mean'', PInt 7)]),
       (''memory'', PDict [(''channels'', PDict [(''peak_queue_depth'', PInt 5)])])]),
     so_objects = None,
     so_channels = Some (csv_write [[''total_queue_wait'', ''max_queue_depth'']])\<rparr>"

lemma demo_base_row: "\<exists>r. base_row (demo_run q) status error = Inr r"
  by (simp add: base_row_def Let_def bindR_Inr_iff demo_run_capacity memory_bandwidth_bytes_per_time_def
      memory_base_latency_def one_way_link_latency_def demo_run_fields dict_get_def
      MEMORY_BASE_LATENCY_BY_LEVEL_def MEMORY_BANDWIDTH_BYTES_PER_TIME_BY_LEVEL_def
      LINK_LATENCY_BY_LEVEL_def)

lemma demo_channels: "\<exists>t. aggregate_channel_contention (so_channels demo_output) = Inr t"
  by (simp add: demo_output_def aggregate_channel_contention_def dict_rows_write queue_imbalance_def)

lemma demo_output_summary:
  assumes "base_row r ''success'' [] = Inr r0"
  shows "\<exists>row. summarize_run r demo_output ''success'' [] = Inr row"
proof -
  obtain t where "aggregate_channel_contention (so_channels demo_output) = Inr t"
    using demo_channels by blast
  moreover have "so_summary demo_output = Some (PDict [(''latency'', PDict [(''mean'', PInt 7)]),
       (''memory'', PDict [(''channels'', PDict [(''peak_queue_depth'', PInt 5)])])])"
    "so_objects demo_output = None"
    by (simp_all add: demo_output_def)
  ultimately show ?thesis
    using assms by (simp add: summarize_run_def read_json_def document_columns_def channel_entries_def
        aggregate_contention_def node_floats_def value_iter_def entry_def column_lists)
qed

lemma demo_summary: "\<exists>row. summarize_run (demo_run q) demo_output ''success'' [] = Inr row"
  using demo_base_row demo_output_summary by blast

lemma base_keys_disjoint:
  "set base_keys \<inter> (set document_keys \<union> set (map fst channel_columns)
     \<union> {''total_remote_accesses'', ''total_queue_wait'', ''total_remote_service_time'',
        ''max_observed_queue_depth''}) = {}"
  by (simp add: column_lists)

lemma base_column_kept:
  assumes "base_row run status error = Inr r0" and "summarize_run run out status error = Inr row"
    and "k \<in> fst ` set r0"
  shows "map_of row k = map_of r0 k"
proof (cases "status = ''success''")
  case True
  from assms(2) [unfolded True] obtain summary doc cont chan table where
    *: "document_columns summary = Inr doc" "aggregate_contention (so_objects out) = Inr cont"
      "channel_entries summary = Inr chan"
    and table: "aggregate_channel_contention (so_channels out) = Inr table"
    and row: "row = foldl fill_blank (dict_update (dict_update (dict_update r0 doc) cont) chan) table"
    using assms(1) [unfolded True] by (auto elim: successful_row)
  have k: "k \<in> set base_keys" using assms(3) base_row_keys [OF assms(1)] by (metis set_map)
  have "k \<notin> set (map fst doc)" "k \<notin> set (map fst cont)" "k \<notin> set (map fst chan)" "k \<notin> set (map fst table)"
    using k base_keys_disjoint
    unfolding document_columns_keys [OF *(1)] aggregate_contention_keys [OF *(2)]
      channel_entries_keys [OF *(3)] channel_table_keys [OF table] by auto
  moreover have "map_of table k = None" using calculation(4) by (simp add: map_of_eq_None_iff)
  ultimately show ?thesis
    unfolding row using channel_table_keys [OF table] distinct_channel_keys
    by (simp add: fill_blanks_lookup dict_update_other)
next
  case False
  then show ?thesis using assms by (simp add: summarize_run_Inr)
qed

section \<open>Properties of the aggregate rows\<close>

text \<open>
  C33. Every row of the aggregate holds only columns of the schema, none twice, and the row of a
  successful run holds all of them: the file writer drops nothing and pads nothing.
\<close>

theorem summarize_run_columns:
  assumes "summarize_run run out status error = Inr row"
  shows "distinct (map fst row) \<and> fst ` set row \<subseteq> set AGGREGATE_COLUMNS \<and>
    (status = ''success'' \<longrightarrow> fst ` set row = set AGGREGATE_COLUMNS)"
proof (cases "status = ''success''")
  case True
  then show ?thesis using successful_row_keys assms by blast
next
  case False
  then have "map fst row = base_keys"
    using assms by (auto simp: summarize_run_Inr base_row_keys)
  then have "distinct (map fst row)" and "fst ` set row = set base_keys"
    using distinct_base_keys by (simp, metis set_map)
  then show ?thesis using False schema_covers by blast
qed

text \<open>
  C34. Nothing the simulator leaves behind changes a column that identifies the run or its
  parameters: each base column of a finished row has the value it had before the run.
\<close>

theorem summarize_run_keeps_base:
  assumes "base_row run status error = Inr r0" and "summarize_run run out status error = Inr row"
    and "k \<in> fst ` set r0"
  shows "map_of row k = map_of r0 k"
  using assms by (rule base_column_kept)

theorem summarize_run_columns_witness:
  "\<exists>row. summarize_run (demo_run ''lru'') demo_output ''success'' [] = Inr row \<and>
     fst ` set row = set AGGREGATE_COLUMNS"
proof -
  obtain row where row: "summarize_run (demo_run ''lru'') demo_output ''success'' [] = Inr row"
    using demo_summary by blast
  from summarize_run_columns [OF this] row show ?thesis by simp
qed

theorem summarize_run_keeps_base_witness:
  "\<exists>row. summarize_run (demo_run ''lru'') demo_output ''success'' [] = Inr row \<and>
     map_of row ''policy'' = Some (PStr ''lru'')"
proof -
  obtain row r0 where row: "summarize_run (demo_run ''lru'') demo_output ''success'' [] = Inr row"
    and r0: "base_row (demo_run ''lru'') ''success'' [] = Inr r0"
    using demo_summary demo_base_row by blast
  have "map_of r0 ''policy'' = Some (PStr ''lru'')"
    using r0 unfolding base_row_def Let_def bindR_Inr_iff by (auto simp only:) (simp add: demo_run_fields)
  moreover have "''policy'' \<in> fst ` set r0" using calculation by (metis domI dom_map_of_conv_image_fst)
  ultimately show ?thesis using row summarize_run_keeps_base [OF r0 row] by metis
qed

text \<open>
  C35. The object-contention totals of a run are the sums of the table's columns and the largest
  queue depth in it (0 for an empty table), and the table is refused exactly when one of its
  rows has a missing or malformed count.
\<close>

theorem aggregate_contention_exact:
  "aggregate_contention (Some text) = Inr totals \<longleftrightarrow>
     (\<exists>qs. list_all2 contention_row (dict_rows text) qs \<and>
       totals = [(''total_remote_accesses'', PInt (sum_list (map fst qs))),
                 (''total_queue_wait'', PInt (sum_list (map (fst \<circ> snd) qs))),
                 (''total_remote_service_time'', PInt (sum_list (map (fst \<circ> snd \<circ> snd) qs))),
                 (''max_observed_queue_depth'', PInt (foldl max 0 (map (snd \<circ> snd \<circ> snd) qs)))])"
  by (auto simp: aggregate_contention_def bindR_Inr_iff contention_fold)

text \<open>
  A channel column of a successful run holds the value of the summary document, and only where
  the document leaves it blank the value computed from the channel table.
\<close>

theorem channel_columns_fallback:
  assumes "summarize_run run out ''success'' error = Inr row" and "column \<in> set (map fst channel_columns)"
  shows "\<exists>summary doc table. so_summary out = Some summary \<and> channel_entries summary = Inr doc \<and>
    aggregate_channel_contention (so_channels out) = Inr table \<and>
    map_of row column = (if map_of doc column = Some (PStr []) then map_of table column else map_of doc column)"
proof -
  from assms(1) obtain r0 summary doc cont chan table where
    summary: "so_summary out = Some summary" and chan: "channel_entries summary = Inr chan"
    and table: "aggregate_channel_contention (so_channels out) = Inr table"
    and row: "row = foldl fill_blank (dict_update (dict_update (dict_update r0 doc) cont) chan) table"
    by (rule successful_row)
  have keys: "map fst chan = map fst channel_columns" "map fst table = map fst channel_columns"
    using chan table by (simp_all add: column_keys)
  then have "\<exists>v. map_of chan column = Some v" "\<exists>v. map_of table column = Some v"
    using assms(2) by (metis map_of_eq_None_iff not_None_eq set_map)+
  then have "map_of row column =
      (if map_of chan column = Some (PStr []) then map_of table column else map_of chan column)"
    unfolding row using keys distinct_channel_keys
    by (auto simp: fill_blanks_lookup dict_update_lookup)
  then show ?thesis using summary chan table by blast
qed

theorem channel_columns_fallback_witness:
  "\<exists>row. summarize_run (demo_run ''lru'') demo_output ''success'' [] = Inr row \<and>
     map_of row ''peak_memory_channel_queue_depth'' = Some (PInt 5)"
proof -
  obtain row where row: "summarize_run (demo_run ''lru'') demo_output ''success'' [] = Inr row"
    using demo_summary by blast
  have "''peak_memory_channel_queue_depth'' \<in> set (map fst channel_columns)"
    by (simp add: channel_columns_def)
  from channel_columns_fallback [OF row this] show ?thesis
    using row by (auto simp: demo_output_def channel_entries_def entry_def channel_columns_def
        number_or_blank_def)
qed

lemma dict_rows_aggregate:
  "dict_rows (aggregate_text rows) = map (\<lambda>r. row_dict AGGREGATE_COLUMNS (aggregate_fields r)) rows"
proof -
  have "aggregate_fields r \<noteq> []" for r by (simp add: aggregate_fields_def AGGREGATE_COLUMNS_def)
  then show ?thesis by (simp add: aggregate_text_def dict_rows_write o_def)
qed

lemma aggregate_cell:
  "map_of (row_dict AGGREGATE_COLUMNS (aggregate_fields r)) column =
     (if column \<in> set AGGREGATE_COLUMNS
      then Some (Some (csv_value (case map_of r column of None \<Rightarrow> PStr [] | Some v \<Rightarrow> v))) else None)"
  using distinct_aggregate_columns
  by (simp add: row_dict_lookup aggregate_fields_def o_def map_of_zip_map)

text \<open>
  C21. The aggregate file reads back: a CSV reader sees the schema as header and, for every row and
  every column, the text of the value the row had, blank where it had none.
\<close>

theorem aggregate_file_roundtrip:
  "\<exists>rs. dict_rows (aggregate_text rows) = rs \<and> length rs = length rows \<and>
     (\<forall>i < length rows. \<forall>column \<in> set AGGREGATE_COLUMNS.
        map_of (rs ! i) column = Some (Some (csv_value
          (case map_of (rows ! i) column of None \<Rightarrow> PStr [] | Some v \<Rightarrow> v))))"
  by (intro exI [of _ "dict_rows (aggregate_text rows)"]) (simp add: dict_rows_aggregate aggregate_cell)

theorem aggregate_file_roundtrip_witness:
  "map_of (dict_rows (aggregate_text [[(''status'', PStr ''a,b'')]]) ! 0) ''status'' = Some (Some ''a,b'')"
proof -
  have "''status'' \<in> set AGGREGATE_COLUMNS" by (simp add: AGGREGATE_COLUMNS_def)
  then show ?thesis
    using aggregate_file_roundtrip [of "[[(''status'', PStr ''a,b'')]]"]
    by (auto simp: csv_value_def value_str_def)
qed

end
