(* ===== verification/RunMatrixDriver.thy ===== *)
theory RunMatrixDriver
  imports RunMatrixSummary
begin

text \<open>
  The driver of a matrix (\<^verbatim>\<open>scripts/run_matrix.py\<close>, lines 2371 to 2768): default policies and
  option resolution, the loop over the runs, the dry-run checks and \<^verbatim>\<open>main\<close>. The state is a
  \<open>world\<close>: the files the script writes and what the simulator left per output directory. The
  simulator is another program, so launching a command is a parameter of the model; it may
  change the world in any way and either succeeds or raises. Directory creation and progress
  messages have no effect on this state.
\<close>

section \<open>Programs over the world\<close>

record world =
  w_files :: files
  w_outputs :: "string \<Rightarrow> sim_output"

type_synonym 'a prog = "world \<Rightarrow> world \<times> 'a res"
type_synonym launcher = "string list \<Rightarrow> unit prog"

definition returnP :: "'a res \<Rightarrow> 'a prog" where
  "returnP r w = (w, r)"

definition bindP :: "'a prog \<Rightarrow> ('a \<Rightarrow> 'b prog) \<Rightarrow> 'b prog" where
  "bindP m f w = (case m w of (w', Inl e) \<Rightarrow> (w', Inl e) | (w', Inr x) \<Rightarrow> f x w')"

definition stateP :: "(world \<Rightarrow> world) \<Rightarrow> unit prog" where
  "stateP f w = (f w, Inr ())"

lemma bindP_Inr: "bindP m f w = (w2, Inr y) \<longleftrightarrow> (\<exists>w1 x. m w = (w1, Inr x) \<and> f x w1 = (w2, Inr y))"
  by (auto simp: bindP_def split: prod.splits sum.splits)

lemma bindP_simps [simp]:
  "bindP (returnP (Inr x)) f = f x"
  "bindP (returnP (Inl e)) f = returnP (Inl e)"
  "bindP (stateP g) f w = f () (g w)"
  by (simp_all add: bindP_def returnP_def stateP_def fun_eq_iff)

lemma returnP_apply [simp]: "returnP r w = (w, r)"
  by (simp add: returnP_def)

section \<open>From options to a sweep\<close>

definition default_policies :: "MatrixPreset \<Rightarrow> string list" where
  "default_policies preset =
     (let name = preset_name preset in
      if name = ''phase_e'' then PHASE_E_DEFAULT_POLICIES
      else if name = ''eval_contention_calibration'' then EVAL_CONTENTION_CALIBRATION_POLICIES
      else if name = ''eval_channel_calibration'' then EVAL_CHANNEL_CALIBRATION_POLICIES
      else if name = ''eval_channel_hotspots'' then EVAL_CHANNEL_HOTSPOT_POLICIES
      else if name = ''eval_bursty_calibration'' then EVAL_BURSTY_CALIBRATION_POLICIES
      else if name = ''eval_policy_viability'' then EVAL_POLICY_VIABILITY_POLICIES
      else if name = ''eval_policy_iteration'' \<or> name = ''eval_final_policy_iteration''
        then EVAL_POLICY_ITERATION_POLICIES
      else if name = ''eval_final_node_bandwidth'' then EVAL_FINAL_NODE_BANDWIDTH_POLICIES
      else if name = ''eval_final_contention_scaling'' then EVAL_CONTENTION_CALIBRATION_POLICIES
      else if prefix ''eval_interactions_'' name then EVAL_INTERACTION_POLICIES
      else if prefix ''eval_knob_'' name then EVAL_KNOB_POLICIES
      else if name = ''eval_contention_weight_sensitivity'' then EVAL_CONTENTION_WEIGHT_POLICIES
      else BASE_POLICIES)"

definition option_or :: "string option \<Rightarrow> (string \<Rightarrow> 'a list res) \<Rightarrow> 'a list \<Rightarrow> 'a list res" where
  "option_or opt parse values = (case opt of None \<Rightarrow> Inr values | Some text \<Rightarrow> parse text)"

definition resolve_sweep :: "cli_args \<Rightarrow> MatrixPreset \<Rightarrow> sweep res" where
  "resolve_sweep args preset =
     bindR (parse_seeds (arg_seeds args)) (\<lambda>seeds.
     bindR (option_or (arg_policies args) parse_policies (default_policies preset)) (\<lambda>policies.
     bindR (option_or (arg_node_counts args) parse_positive_ints (compute_node_count_values preset)) (\<lambda>node_counts.
     bindR (option_or (arg_epoch_lengths args) parse_positive_ints
              (requests_per_node_per_epoch_values preset)) (\<lambda>epoch_lengths.
     bindR (option_or (arg_object_counts args) parse_positive_ints (object_count_values preset)) (\<lambda>object_counts.
     bindR (option_or (arg_epoch_counts args) parse_positive_ints (epoch_count_values preset)) (\<lambda>epoch_counts.
     bindR (case arg_workload_issue_modes args of
              Some text \<Rightarrow> parse_workload_issue_modes text
            | None \<Rightarrow> parse_workload_issue_modes (str_join '','' (workload_issue_modes preset))) (\<lambda>issue_modes.
     bindR (option_or (arg_burst_sizes args) parse_positive_ints (burst_sizes preset)) (\<lambda>bsizes.
     bindR (option_or (arg_burst_intervals args) parse_positive_ints (burst_intervals preset)) (\<lambda>bintervals.
     bindR (option_or (arg_intra_burst_gaps args) parse_nonnegative_ints (intra_burst_gaps preset)) (\<lambda>gaps.
     bindR (option_or (arg_node_phase_jitters args) parse_nonnegative_ints (node_phase_jitters preset)) (\<lambda>jitters.
     bindR (option_or (arg_hot_set_sizes args) parse_positive_ints (hot_set_size_values preset)) (\<lambda>hot_sizes.
     bindR (option_or (arg_hot_access_probabilities args)
              (\<lambda>t. parse_probabilities t ''hot-access probability'') (hot_access_probabilities preset)) (\<lambda>hot_probs.
     bindR (option_or (arg_churn_fractions args)
              (\<lambda>t. parse_probabilities t ''churn fraction'') (hot_set_churn_fractions preset)) (\<lambda>churns.
     bindR (option_or (arg_overlaps args) parse_overlaps (cross_node_overlaps preset)) (\<lambda>overlaps.
     bindR (option_or (arg_object_size_modes args) parse_object_size_modes (object_size_modes preset)) (\<lambda>size_modes.
     bindR (option_or (arg_large_object_probabilities args)
              (\<lambda>t. parse_probabilities t ''large-object probability'') (large_object_probabilities preset)) (\<lambda>large_probs.
     bindR (option_or (arg_memory_channel_counts args) parse_positive_ints (memory_channel_counts preset)) (\<lambda>channels.
     bindR (option_or (arg_hot_object_channel_counts args) parse_nonnegative_ints
              (hot_object_channel_counts preset)) (\<lambda>hot_channels.
     bindR (option_or (arg_cache_hotset_multipliers args)
              (\<lambda>t. parse_positive_floats t ''cache hot-set multiplier'')
              (cache_capacity_hotset_multipliers preset)) (\<lambda>multipliers.
     bindR (option_or (arg_memory_bandwidth_levels args)
              (\<lambda>t. parse_levels t MEMORY_BANDWIDTH_BYTES_PER_TIME_BY_LEVEL ''memory bandwidth level'')
              (memory_bandwidth_levels preset)) (\<lambda>bandwidths.
     bindR (option_or (arg_memory_base_latency_levels args)
              (\<lambda>t. parse_levels t MEMORY_BASE_LATENCY_BY_LEVEL ''memory base-latency level'')
              (memory_base_latency_levels preset)) (\<lambda>bases.
     bindR (option_or (arg_link_latency_levels args)
              (\<lambda>t. parse_levels t LINK_LATENCY_BY_LEVEL ''link latency level'')
              (link_latency_levels preset)) (\<lambda>links.
     Inr \<lparr>sw_seeds = seeds, sw_policies = policies, sw_node_counts = node_counts,
       sw_object_counts = object_counts, sw_epoch_counts = epoch_counts,
       sw_epoch_lengths = epoch_lengths, sw_workload_issue_modes = issue_modes,
       sw_burst_sizes = bsizes, sw_burst_intervals = bintervals, sw_intra_burst_gaps = gaps,
       sw_node_phase_jitters = jitters, sw_hot_set_sizes = hot_sizes,
       sw_hot_access_probabilities = hot_probs, sw_churn_fractions = churns, sw_overlaps = overlaps,
       sw_object_size_modes = size_modes, sw_large_object_probabilities = large_probs,
       sw_cache_multipliers = multipliers, sw_memory_channel_counts = channels,
       sw_hot_object_channel_counts = hot_channels, sw_memory_bandwidth_levels = bandwidths,
       sw_memory_base_latency_levels = bases, sw_link_latency_levels = links\<rparr>)))))))))))))))))))))))"

definition check_node_counts :: "MatrixPreset \<Rightarrow> int list \<Rightarrow> unit res" where
  "check_node_counts preset node_counts =
     (let limit = length (compute_node_ids preset);
          oversized = filter (\<lambda>n. int limit < n) node_counts
      in guardR (oversized = [])
           (SystemExit (''Preset '' @ preset_name preset @ '' supports at most '' @ show_nat limit
              @ '' compute nodes; invalid counts: '' @ str_join '', '' (map show_int oversized))))"

definition results_dir_of :: "string \<Rightarrow> cli_args \<Rightarrow> MatrixPreset \<Rightarrow> string" where
  "results_dir_of repo args preset =
     (case arg_results_dir args of
        Some d \<Rightarrow> d
      | None \<Rightarrow> path_join (path_join repo ''results'') (''matrix_'' @ preset_name preset))"

section \<open>Dry-run checks\<close>

definition required_fields :: "MatrixRun \<Rightarrow> string list res" where
  "required_fields run =
     bindR (node_ids_for_run run) (\<lambda>ids.
     bindR (memory_base_latency run) (\<lambda>base.
     bindR (memory_bandwidth_bytes_per_time run) (\<lambda>bw.
     bindR (one_way_link_latency run) (\<lambda>link.
     bindR (cache_capacity_bytes run) (\<lambda>cap.
     Inr [
       ''compute_node_ids: ['' @ node_id_list ids @ '']'',
       ''base_latency: '' @ show_int base,
       ''bandwidth_bytes_per_time: '' @ show_int bw,
       ''channel_count: '' @ show_int (run_memory_channel_count run),
       ''one_way_latency: '' @ show_int link,
       ''capacity_bytes: '' @ show_int cap,
       ''object_count: '' @ show_int (run_object_count run),
       ''epoch_count: '' @ show_int (run_epoch_count run),
       ''issue_mode: '' @ run_workload_issue_mode run,
       ''burst_size: '' @ show_int (run_burst_size run),
       ''burst_interval: '' @ show_int (run_burst_interval run),
       ''intra_burst_gap: '' @ show_int (run_intra_burst_gap run),
       ''node_phase_jitter: '' @ show_int (run_node_phase_jitter run),
       ''hot_set_size: '' @ show_int (run_hot_set_size run),
       ''hot_access_probability: '' @ fmt_g (run_hot_access_probability run),
       ''hot_object_channel_count: '' @ show_int (run_hot_object_channel_count run),
       ''hot_set_churn_fraction:'',
       ''object_size_mode:'',
       ''object_size_small_bytes:'',
       ''object_size_large_bytes:'',
       ''large_object_probability: '' @ fmt_g (run_large_object_probability run)])))))"

definition check_fields :: "string \<Rightarrow> string \<Rightarrow> string list \<Rightarrow> unit res" where
  "check_fields path text wanted =
     (case filter (\<lambda>field. \<not> sublist field text) wanted of
        [] \<Rightarrow> Inr ()
      | field # _ \<Rightarrow> Inl (RuntimeError (''Dry run config '' @ path @ '' is missing '' @ field)))"

definition composite_fields :: "MatrixRun \<Rightarrow> string list" where
  "composite_fields run =
     [''telemetry_history_epochs: 4'',
      ''telemetry_decay: 0.5'',
      ''local_reuse_gate_threshold: 2'',
      ''local_confirmation_window_epochs: 2'',
      ''local_confirmation_bypass_score_margin: 1.0'',
      (if run_policy run = ''contention_aware_smoothed_reuse_gated_hysteresis''
       then ''eviction_score_margin: 0.1'' else ''eviction_score_margin: 0.0'')]"

definition history_fields :: "MatrixRun \<Rightarrow> string list" where
  "history_fields run =
     (if run_policy run = ''hotness_only_cumulative'' \<or> run_policy run = ''hotness_only_windowed''
      then [''policy: hotness_only'', ''history_mode: '' @ hotness_history_mode (run_policy run)]
        @ (if run_policy run = ''hotness_only_windowed'' then [''history_window_epochs: 4''] else [])
      else [])"

definition check_variant :: "MatrixRun \<Rightarrow> string \<Rightarrow> unit res" where
  "check_variant run text =
     (case contention_variant_for_policy (run_policy run) of
        None \<Rightarrow> Inr ()
      | Some variant \<Rightarrow>
          bindR (check_fields (run_config_path run) text
                   [''policy: contention_aware'', ''variant: '' @ variant]) (\<lambda>_.
          bindR (effective_weights run) (\<lambda>weights.
          bindR (check_fields (run_config_path run) text
                   (map (\<lambda>(name, v). name @ '': '' @ fmt_g v) weights)) (\<lambda>_.
          if variant = ''smoothed_reuse_gated''
          then check_fields (run_config_path run) text (composite_fields run)
          else Inr ()))))"

definition verify_config :: "MatrixRun \<Rightarrow> files \<Rightarrow> unit res" where
  "verify_config run fs =
     (case fs (run_config_path run) of
        None \<Rightarrow> Inl (FileNotFoundError (run_config_path run))
      | Some text \<Rightarrow>
          bindR (required_fields run) (\<lambda>wanted.
          bindR (check_fields (run_config_path run) text wanted) (\<lambda>_.
          bindR (guardR (sublist (''policy: '' @ yaml_policy_name (run_policy run)) text)
                   (RuntimeError (''Dry run config '' @ run_config_path run @ '' has wrong YAML policy''))) (\<lambda>_.
          bindR (check_variant run text) (\<lambda>_.
          check_fields (run_config_path run) text (history_fields run))))))"

definition verify_aggregate :: "MatrixRun list \<Rightarrow> string \<Rightarrow> files \<Rightarrow> unit res" where
  "verify_aggregate runs aggregate_path fs =
     (case fs aggregate_path of
        None \<Rightarrow> Inl (FileNotFoundError aggregate_path)
      | Some text \<Rightarrow>
          (case csv_read text of
             [] \<Rightarrow> Inl StopIteration
           | header # body \<Rightarrow>
               bindR (guardR (header = AGGREGATE_COLUMNS)
                        (RuntimeError ''Dry run aggregate header does not match schema'')) (\<lambda>_.
               guardR (length body = length runs)
                 (RuntimeError ''Dry run aggregate row count does not match runs''))))"

definition verify_weights :: "MatrixRun list \<Rightarrow> string list \<Rightarrow> unit res" where
  "verify_weights runs selected_policies =
     (if runs \<noteq> [] \<and> preset_name (run_preset (hd runs)) = ''eval_contention_weight_sensitivity''
      then
        let lru_runs = filter (\<lambda>r. run_policy r = ''lru'') runs;
            profiled_runs = filter (\<lambda>r. run_policy r = ''contention_aware_smoothed'') runs
        in bindR (guardR (list_all (\<lambda>r. profile (run_contention_weight_profile r) = []) lru_runs)
                    (RuntimeError ''LRU baseline should not receive a weight profile'')) (\<lambda>_.
           bindR (guardR (list_all (\<lambda>r. profile (run_contention_weight_profile r) \<noteq> []) profiled_runs)
                    (RuntimeError ''Contention weight runs must all carry profiles'')) (\<lambda>_.
           guardR (\<not> (set selected_policies = set EVAL_CONTENTION_WEIGHT_POLICIES \<and> length runs = 25
                      \<and> (length lru_runs \<noteq> 1 \<or> length profiled_runs \<noteq> length CONTENTION_WEIGHT_PROFILES)))
             (RuntimeError (''Weight sensitivity dry run should produce one LRU baseline and ''
                @ show_nat (length CONTENTION_WEIGHT_PROFILES) @ '' profiled contention runs''))))
      else Inr ())"

definition verify_dry_run :: "MatrixRun list \<Rightarrow> row list \<Rightarrow> string list \<Rightarrow> string \<Rightarrow> files \<Rightarrow> unit res" where
  "verify_dry_run runs rows selected_policies aggregate_path fs =
     bindR (guardR (distinct (map run_run_name runs))
              (RuntimeError ''Dry run generated duplicate run names'')) (\<lambda>_.
     bindR (mapR (\<lambda>r. dict_get r ''policy'') rows) (\<lambda>generated.
     bindR (guardR (set generated = PStr ` set selected_policies)
              (RuntimeError (''Dry run policy coverage mismatch: expected ''
                 @ value_str (PList (map PStr selected_policies)) @ '', got ''
                 @ value_str (PList (map PStr (sort (remdups (map value_str generated)))))))) (\<lambda>_.
     let missing = filter (\<lambda>r. fs (run_config_path r) = None) runs in
     bindR (guardR (missing = [])
              (RuntimeError (''Dry run did not generate config files: ''
                 @ str_join '', '' (map run_config_path missing)))) (\<lambda>_.
     bindR (mapR (\<lambda>r. verify_config r fs) runs) (\<lambda>_.
     bindR (verify_aggregate runs aggregate_path fs) (\<lambda>_.
     verify_weights runs selected_policies))))))"

section \<open>The loop and main\<close>

definition simulator_command :: "string \<Rightarrow> MatrixRun \<Rightarrow> string list" where
  "simulator_command binary run =
     [binary, ''--config'', run_config_path run, ''--output-dir'', run_output_dir run]"

definition run_simulator :: "launcher \<Rightarrow> string \<Rightarrow> MatrixRun \<Rightarrow> unit prog" where
  "run_simulator launch binary run = launch (simulator_command binary run)"

definition write_config :: "MatrixRun \<Rightarrow> unit prog" where
  "write_config run w =
     (case write_yaml_config run (w_files w) of
        Inl e \<Rightarrow> (w, Inl e) | Inr fs \<Rightarrow> (w\<lparr>w_files := fs\<rparr>, Inr ()))"

definition summarize :: "MatrixRun \<Rightarrow> string \<Rightarrow> string \<Rightarrow> row prog" where
  "summarize run status error w =
     (w, summarize_run run (w_outputs w (run_output_dir run)) status error)"

definition save_aggregate :: "string \<Rightarrow> row list \<Rightarrow> unit prog" where
  "save_aggregate path rows = stateP (\<lambda>w. w\<lparr>w_files := write_aggregate_csv path rows (w_files w)\<rparr>)"

definition aggregate_path_of :: "string \<Rightarrow> string" where
  "aggregate_path_of results_dir = path_join results_dir ''aggregate_summary.csv''"

text \<open>
  The loop over the runs. A failing simulator (\<open>CalledProcessError\<close>) still gets a row; unless
  the caller keeps going, the rows so far are saved and the exception is raised again. Any
  other exception passes through at once.
\<close>

fun run_loop :: "launcher \<Rightarrow> cli_args \<Rightarrow> string \<Rightarrow> MatrixRun list \<Rightarrow> row list \<Rightarrow> row list prog" where
  "run_loop launch args results_dir [] rows = returnP (Inr rows)"
| "run_loop launch args results_dir (run # runs) rows =
     bindP (write_config run) (\<lambda>_.
     if arg_dry_run args
     then bindP (summarize run ''dry_run'' []) (\<lambda>r.
          run_loop launch args results_dir runs (rows @ [r]))
     else (\<lambda>w.
       case run_simulator launch (arg_binary args) run w of
         (w', Inl (CalledProcessError msg)) \<Rightarrow>
           bindP (summarize run ''failed'' msg) (\<lambda>r.
             if arg_keep_going args then run_loop launch args results_dir runs (rows @ [r])
             else bindP (save_aggregate (aggregate_path_of results_dir) (rows @ [r])) (\<lambda>_.
                  returnP (Inl (CalledProcessError msg)))) w'
       | (w', Inl e) \<Rightarrow> (w', Inl e)
       | (w', Inr _) \<Rightarrow>
           bindP (summarize run ''success'' []) (\<lambda>r.
             run_loop launch args results_dir runs (rows @ [r])) w'))"

definition read_files :: "(files \<Rightarrow> unit res) \<Rightarrow> unit prog" where
  "read_files f w = (w, f (w_files w))"

definition execute :: "launcher \<Rightarrow> cli_args \<Rightarrow> string \<Rightarrow> string list \<Rightarrow> MatrixRun list \<Rightarrow> int prog" where
  "execute launch args results_dir policies runs =
     bindP (run_loop launch args results_dir runs []) (\<lambda>rows.
     bindP (save_aggregate (aggregate_path_of results_dir) rows) (\<lambda>_.
     if arg_dry_run args
     then bindP (read_files (verify_dry_run runs rows policies (aggregate_path_of results_dir))) (\<lambda>_.
          returnP (Inr 0))
     else returnP (Inr 0)))"

definition plan_runs :: "string \<Rightarrow> cli_args \<Rightarrow> (string \<times> string list \<times> MatrixRun list) res" where
  "plan_runs repo args =
     bindR (dict_get PRESETS (arg_preset args)) (\<lambda>preset.
     bindR (resolve_sweep args preset) (\<lambda>s.
     bindR (check_node_counts preset (sw_node_counts s)) (\<lambda>_.
     bindR (build_runs preset s (results_dir_of repo args preset)) (\<lambda>runs.
     bindR (guardR (case arg_expect_runs args of None \<Rightarrow> True | Some n \<Rightarrow> int (length runs) = n)
              (SystemExit (''Expected ''
                 @ (case arg_expect_runs args of None \<Rightarrow> [] | Some n \<Rightarrow> show_int n)
                 @ '' generated runs, got '' @ show_nat (length runs)))) (\<lambda>_.
     Inr (results_dir_of repo args preset, sw_policies s, runs))))))"

definition main :: "launcher \<Rightarrow> string \<Rightarrow> cli_args \<Rightarrow> int prog" where
  "main launch repo args =
     bindP (returnP (plan_runs repo args)) (\<lambda>(results_dir, policies, runs).
     execute launch args results_dir policies runs)"

section \<open>A generated configuration passes the checks\<close>

lemma in_text: "p @ f @ q \<in> set ls \<Longrightarrow> sublist f (str_join sep ls)"
  using sublist_str_join [of "p @ f @ q" ls sep] by (meson sublist_appendI sublist_order.order_trans)

lemma check_fields_Inr [res_iff]:
  "check_fields path text wanted = Inr u \<longleftrightarrow> list_all (\<lambda>f. sublist f text) wanted"
  by (auto simp: check_fields_def list_all_iff filter_empty_conv split: list.splits)
    (metis filter_empty_conv list.distinct(1))

lemma entry_in_text:
  assumes "ls = head_lines run base bw link cap @ pls @ workload_lines run ids"
    and "(sec, key, v) \<in> set (config_entries run ids base bw link cap)" and "prefix f (key @ '': '' @ v)"
  shows "sublist f (str_join sep ls)"
proof -
  have "list_all (\<lambda>(sec, key, v). ''  '' @ key @ '': '' @ v \<in> set ls) (config_entries run ids base bw link cap)"
    unfolding config_entries_def list.pred_inject prod.case assms(1)
    by (intro conjI TrueI; simp add: head_lines_def workload_lines_def)
  then have "''  '' @ key @ '': '' @ v \<in> set ls" using assms(2) by (auto simp: list_all_iff)
  then show ?thesis using assms(3) in_text [of "''  ''" f _ ls sep] by (auto simp: prefix_def)
qed

lemma required_fields_present:
  assumes "yaml_config_text run = Inr text"
  shows "\<exists>wanted. required_fields run = Inr wanted \<and> list_all (\<lambda>f. sublist f text) wanted"
proof -
  from assms obtain ids base bw link cap pls where
    derived: "node_ids_for_run run = Inr ids" "memory_base_latency run = Inr base"
      "memory_bandwidth_bytes_per_time run = Inr bw" "one_way_link_latency run = Inr link"
      "cache_capacity_bytes run = Inr cap"
    and tx: "text = str_join [CHR 0x0A] (head_lines run base bw link cap @ pls @ workload_lines run ids)"
    unfolding yaml_config_text_def bindR_Inr_iff yaml_config_lines_Inr sum.inject by blast
  note found = entry_in_text [OF refl, of _ _ _ run ids base bw link cap _ "[CHR 0x0A]" pls, folded tx]
  have by_key: "list_all (\<lambda>(sec, key, v). sublist (key @ '': '' @ v) text \<and> sublist (key @ '':'') text)
      (config_entries run ids base bw link cap)"
    using found by (fastforce simp: list_all_iff)
  show ?thesis
    using by_key unfolding config_entries_def list.pred_inject prod.case required_fields_def derived bindR_simps
    by simp
qed

text \<open>The profiles the generator hands out name a weight of the default table, if any.\<close>

definition profile_known :: "MatrixRun \<Rightarrow> bool" where
  "profile_known run =
     (weight_name (run_contention_weight_profile run) \<in> insert [] (fst ` set DEFAULT_CONTENTION_WEIGHTS))"

lemma effective_weights_shape:
  assumes "effective_weights run = Inr ws" and "profile_known run"
  shows "map fst ws = map fst DEFAULT_CONTENTION_WEIGHTS"
proof -
  have upd: "map fst (AList.update k v d) = map fst d" if "k \<in> fst ` set d" for k v and d :: "(string \<times> pyfloat) list"
    using that by (simp add: update_keys)
  have known: "''cost_density_weight'' \<in> fst ` set DEFAULT_CONTENTION_WEIGHTS"
    by (simp add: DEFAULT_CONTENTION_WEIGHTS_def)
  obtain ws0 where ws0: "contention_weights_for_profile (run_contention_weight_profile run) = Inr ws0"
    and ws: "ws = ws0 \<or> ws = AList.update ''cost_density_weight'' (flit 1 0) ws0"
    using assms(1) unfolding effective_weights_def bindR_Inr_iff by (auto split: if_splits)
  have m: "map fst ws0 = map fst DEFAULT_CONTENTION_WEIGHTS"
    using ws0 assms(2) upd [of _ DEFAULT_CONTENTION_WEIGHTS]
    by (cases "weight_name (run_contention_weight_profile run) = []")
      (auto simp only: contention_weights_Inr profile_known_def if_True if_False insert_iff)
  then have "''cost_density_weight'' \<in> fst ` set ws0" using known by (metis set_map)
  then show ?thesis using ws m upd [of "''cost_density_weight''" ws0] by metis
qed

lemma policy_line_in_text:
  assumes "yaml_config_text run = Inr text" and "policy_lines run = Inr pls" and "p @ f @ q \<in> set pls"
  shows "sublist f text"
  using assms unfolding yaml_config_text_def bindR_Inr_iff yaml_config_lines_Inr sum.inject
  by (auto intro!: in_text [of p f q])

lemma weight_line_present:
  assumes "weight_lines ws = Inr ls" and "(k, v) \<in> set ws" and "map fst ws = map fst DEFAULT_CONTENTION_WEIGHTS"
  shows "''    '' @ (k @ '': '' @ fmt_g v) @ [] \<in> set ls"
proof -
  have d: "distinct (map fst ws)" by (simp only: assms(3) default_weight_keys) simp
  have "map_of ws k = Some v" using assms(2) d by (simp add: map_of_eq_Some_iff)
  moreover have "k \<in> set (map fst DEFAULT_CONTENTION_WEIGHTS)"
    using assms(2) unfolding assms(3) [symmetric] by force
  moreover have "\<exists>y\<in>set ys. P x y" if "list_all2 P xs ys" "x \<in> set xs"
    for P :: "string \<Rightarrow> string \<Rightarrow> bool" and x xs ys
    using that by (induction xs ys rule: list_all2_induct) auto
  from this [OF assms(1) [unfolded weight_lines_Inr] calculation(2)] calculation(1)
  show ?thesis by auto
qed

lemma variant_policy: "contention_variant_for_policy p = Some v \<Longrightarrow> yaml_policy_name p = ''contention_aware''"
  by (auto simp: contention_variant_for_policy_def contention_variants_def yaml_policy_name_def split: if_splits)

lemma check_variant_ok:
  assumes cfg: "yaml_config_text run = Inr text" and "profile_known run"
    and pol: "sublist (''policy: '' @ yaml_policy_name (run_policy run)) text"
  shows "check_variant run text = Inr ()"
proof (cases "contention_variant_for_policy (run_policy run)")
  case (Some v)
  note name = variant_policy [OF Some]
  obtain pls where pls: "policy_lines run = Inr pls"
    using cfg unfolding yaml_config_text_def bindR_Inr_iff yaml_config_lines_Inr sum.inject by blast
  then have "contention_lines run = Inr pls" by (simp add: policy_lines_def name)
  then obtain ws wls where ws: "effective_weights run = Inr ws" "weight_lines ws = Inr wls"
    and eq: "pls = [''  contention:'', ''    variant: '' @ v] @ comment_lines run @ wls
      @ threshold_lines @ variant_lines run (Some v)"
    by (auto simp: contention_lines_Inr Some variant_text_def)
  note line = policy_line_in_text [OF cfg pls]
  have "sublist (''variant: '' @ v) text"
    by (rule line [of "''    ''" _ "[]"]) (simp add: eq)
  moreover have "sublist (k @ '': '' @ fmt_g x) text" if "(k, x) \<in> set ws" for k x
    using weight_line_present [OF ws(2) that effective_weights_shape [OF ws(1) assms(2)]]
    by (intro line [of "''    ''" _ "[]"]) (simp add: eq)
  moreover have "list_all (\<lambda>f. sublist f text) (composite_fields run)" if "v = ''smoothed_reuse_gated''"
  proof -
    have "list_all (\<lambda>f. ''    '' @ f @ [] \<in> set pls) (composite_fields run)"
      by (simp add: composite_fields_def eq variant_lines_def that)
    then show ?thesis using line by (auto simp only: list_all_iff)
  qed
  ultimately show ?thesis
    using pol by (auto simp: check_variant_def Some ws(1) bindR_Inr_iff check_fields_Inr name list_all_iff)
qed (simp add: check_variant_def)

lemma history_fields_present:
  assumes cfg: "yaml_config_text run = Inr text"
    and pol: "sublist (''policy: '' @ yaml_policy_name (run_policy run)) text"
  shows "list_all (\<lambda>f. sublist f text) (history_fields run)"
proof (cases "run_policy run = ''hotness_only_cumulative'' \<or> run_policy run = ''hotness_only_windowed''")
  case True
  then have name: "yaml_policy_name (run_policy run) = ''hotness_only''" by (auto simp: yaml_policy_name_def)
  then have pls: "policy_lines run = Inr (hotness_lines run)" by (simp add: policy_lines_def)
  note line = policy_line_in_text [OF cfg pls, of "''    ''" _ "[]"]
  have "sublist (''history_mode: '' @ hotness_history_mode (run_policy run)) text"
    by (rule line) (simp add: hotness_lines_def)
  moreover have "sublist ''history_window_epochs: 4'' text" if "run_policy run = ''hotness_only_windowed''"
    by (rule line) (simp add: hotness_lines_def hotness_history_mode_def that)
  ultimately show ?thesis using pol by (simp add: history_fields_def name)
qed (simp add: history_fields_def)

lemma verify_config_ok:
  assumes cfg: "yaml_config_text run = Inr text" and "fs (run_config_path run) = Some text" and "profile_known run"
  shows "verify_config run fs = Inr ()"
proof -
  obtain ids base bw link cap pls where
    ls: "text = str_join [CHR 0x0A] (head_lines run base bw link cap @ pls @ workload_lines run ids)"
    using cfg unfolding yaml_config_text_def bindR_Inr_iff yaml_config_lines_Inr sum.inject by blast
  have pol: "sublist (''policy: '' @ yaml_policy_name (run_policy run)) text"
    unfolding ls by (rule entry_in_text [OF refl, of "''local_cache''" "''policy''"
          "yaml_policy_name (run_policy run)"])
      (simp_all add: config_entries_def prefix_def)
  obtain wanted where "required_fields run = Inr wanted" "list_all (\<lambda>f. sublist f text) wanted"
    using required_fields_present [OF cfg] by blast
  then show ?thesis
    using assms(2) pol check_variant_ok [OF cfg assms(3) pol] history_fields_present [OF cfg pol]
    by (auto simp: verify_config_def bindR_Inr_iff check_fields_Inr guardR_Inr_iff)
qed

section \<open>The checks on weight profiles\<close>

lemma sum_two_values:
  fixes g :: "'a \<Rightarrow> nat"
  shows "set ps \<subseteq> {x, y} \<Longrightarrow> x \<noteq> y \<Longrightarrow>
    sum_list (map g ps) = count_list ps x * g x + count_list ps y * g y"
  by (induction ps) auto

lemma one_each:
  assumes "u * (a + 24 * b) = (25 :: nat)" and "0 < a" and "0 < b"
  shows "u = 1 \<and> a = 1 \<and> b = 1"
proof -
  have "u \<noteq> 0" using assms(1) by (cases u) auto
  moreover have "u < 2"
  proof (rule ccontr)
    assume "\<not> u < 2"
    then have "2 * (a + 24 * b) \<le> u * (a + 24 * b)" by (intro mult_le_mono1) simp
    then have "2 * (a + 24 * b) \<le> 25" unfolding assms(1) .
    then show False using assms(2,3) by presburger
  qed
  ultimately have "u = 1" by linarith
  then show ?thesis using assms by simp
qed

lemma verify_weights_ok:
  assumes "build_runs preset s d = Inr runs"
  shows "verify_weights runs (sw_policies s) = Inr ()"
proof (cases "runs \<noteq> [] \<and> preset_name (run_preset (hd runs)) = ''eval_contention_weight_sensitivity''")
  case True
  note member = build_runs_member [OF assms]
  have "run_preset (hd runs) = preset"
    using True member hd_in_set [of runs] by auto
  then have name: "preset_name preset = ''eval_contention_weight_sensitivity''" using True by simp
  have lru: "contention_weight_profiles_for_policy preset ''lru'' = [NO_CONTENTION_WEIGHT_PROFILE]"
    and smoothed: "contention_weight_profiles_for_policy preset ''contention_aware_smoothed'' = CONTENTION_WEIGHT_PROFILES"
    by (simp_all add: contention_weight_profiles_for_policy_def name)
  have "list_all (\<lambda>r. profile (run_contention_weight_profile r) = []) (filter (\<lambda>r. run_policy r = ''lru'') runs)"
    by (auto simp: list_all_iff member profiles_of_def lru NO_CONTENTION_WEIGHT_PROFILE_def)
  moreover have "list_all (\<lambda>r. profile (run_contention_weight_profile r) \<noteq> [])
      (filter (\<lambda>r. run_policy r = ''contention_aware_smoothed'') runs)"
    by (auto simp: list_all_iff member profiles_of_def smoothed dest: weight_profile_fields(3))
  moreover have "length (filter (\<lambda>r. run_policy r = ''lru'') runs) = 1 \<and>
      length (filter (\<lambda>r. run_policy r = ''contention_aware_smoothed'') runs) = 24"
    if pol: "set (sw_policies s) = {''lru'', ''contention_aware_smoothed''}" and len: "length runs = 25"
  proof -
    let ?a = "count_list (sw_policies s) ''lru''" and ?b = "count_list (sw_policies s) ''contention_aware_smoothed''"
    have count: "length (filter (\<lambda>r. P (run_policy r)) runs) =
        unskipped_count s * (?a * (if P ''lru'' then 1 else 0) + ?b * (if P ''contention_aware_smoothed'' then 24 else 0))"
      for P
      using build_runs_count [OF assms, of "\<lambda>q w. P q"] pol
      by (subst (asm) sum_two_values [of _ "''lru''" "''contention_aware_smoothed''"])
        (simp_all add: lru smoothed length_weight_profiles)
    have "unskipped_count s * (?a + 24 * ?b) = 25"
      using count [of "\<lambda>_. True"] len by (simp add: mult.commute)
    moreover have "0 < ?a" "0 < ?b" using pol by (auto simp: count_list_0_iff neq0_conv [symmetric] simp del: neq0_conv)
    ultimately have one: "unskipped_count s = 1" "?a = 1" "?b = 1" using one_each by blast+
    show ?thesis
      using count [of "\<lambda>q. q = ''lru''"] count [of "\<lambda>q. q = ''contention_aware_smoothed''"] by (simp add: one)
  qed
  ultimately show ?thesis
    using True by (auto simp: verify_weights_def Let_def bindR_Inr_iff guardR_Inr_iff length_weight_profiles
        EVAL_CONTENTION_WEIGHT_POLICIES_def)
qed (auto simp: verify_weights_def)

section \<open>The dry-run loop\<close>

definition config_of :: "MatrixRun \<Rightarrow> string" where
  "config_of run = (case yaml_config_text run of Inr text \<Rightarrow> text | Inl _ \<Rightarrow> [])"

definition put_configs :: "MatrixRun list \<Rightarrow> files \<Rightarrow> files" where
  "put_configs runs fs = foldl (\<lambda>fs r. fs(run_config_path r \<mapsto> config_of r)) fs runs"

lemma put_configs_other: "path \<notin> run_config_path ` set runs \<Longrightarrow> put_configs runs fs path = fs path"
  by (induction runs arbitrary: fs) (simp_all add: put_configs_def)

lemma put_configs_own:
  "distinct (map run_config_path runs) \<Longrightarrow> r \<in> set runs \<Longrightarrow>
     put_configs runs fs (run_config_path r) = Some (config_of r)"
proof (induction runs arbitrary: fs)
  case (Cons r' runs)
  show ?case
  proof (cases "r = r'")
    case True
    have "put_configs (r' # runs) fs = put_configs runs (fs(run_config_path r' \<mapsto> config_of r'))"
      by (simp add: put_configs_def)
    then show ?thesis using Cons.prems(1) True put_configs_other [of "run_config_path r'" runs] by simp
  next
    case False
    then show ?thesis using Cons by (simp add: put_configs_def)
  qed
qed simp

lemma write_config_Inr:
  "write_config r w = (w', Inr u) \<longleftrightarrow>
     (\<exists>t. yaml_config_text r = Inr t) \<and> w' = w\<lparr>w_files := (w_files w)(run_config_path r \<mapsto> config_of r)\<rparr>"
  by (auto simp: write_config_def write_yaml_config_def bindR_Inr_iff config_of_def bindR_def split: sum.splits)

lemma dry_loop:
  assumes "arg_dry_run args"
  shows "run_loop launch args d runs rows w = (w', Inr rows') \<longleftrightarrow>
    (\<forall>r\<in>set runs. \<exists>t. yaml_config_text r = Inr t) \<and>
    (\<exists>new. rows' = rows @ new \<and> list_all2 (\<lambda>r row. base_row r ''dry_run'' [] = Inr row) runs new) \<and>
    w' = w\<lparr>w_files := put_configs runs (w_files w)\<rparr>"
proof (induction runs arbitrary: rows w)
  case (Cons r runs)
  have summ: "summarize r ''dry_run'' [] w1 = (w2, Inr row) \<longleftrightarrow> w2 = w1 \<and> base_row r ''dry_run'' [] = Inr row"
    for w1 w2 row
    by (auto simp: summarize_def summarize_run_Inr)
  show ?case
    using assms
    by (auto simp: bindP_Inr write_config_Inr summ Cons.IH put_configs_def list_all2_Cons1 append_eq_append_conv2)
qed (auto simp: put_configs_def)

section \<open>Planned runs\<close>

lemma plan_runs_Inr:
  "plan_runs repo args = Inr (d, policies, runs) \<longleftrightarrow>
     (\<exists>preset s. map_of PRESETS (arg_preset args) = Some preset \<and> resolve_sweep args preset = Inr s \<and>
        check_node_counts preset (sw_node_counts s) = Inr () \<and> d = results_dir_of repo args preset \<and>
        policies = sw_policies s \<and> build_runs preset s d = Inr runs \<and>
        (case arg_expect_runs args of None \<Rightarrow> True | Some n \<Rightarrow> int (length runs) = n))"
  by (auto simp: plan_runs_def bindR_Inr_iff guardR_Inr_iff dict_get_Inr)

text \<open>What every preset guarantees about its own levels and policies.\<close>

definition preset_ok :: "MatrixPreset \<Rightarrow> bool" where
  "preset_ok p =
     (set (memory_bandwidth_levels p) \<subseteq> fst ` set MEMORY_BANDWIDTH_BYTES_PER_TIME_BY_LEVEL \<and>
      set (memory_base_latency_levels p) \<subseteq> fst ` set MEMORY_BASE_LATENCY_BY_LEVEL \<and>
      set (link_latency_levels p) \<subseteq> fst ` set LINK_LATENCY_BY_LEVEL)"

lemma presets_ok: "map_of PRESETS name = Some p \<Longrightarrow> preset_ok p"
proof -
  have "list_all (\<lambda>(n, p). preset_ok p) PRESETS"
    unfolding PRESETS_def list.pred_inject prod.case
    by (intro conjI TrueI; simp add: preset_ok_def preset_defs MEMORY_BANDWIDTH_BYTES_PER_TIME_BY_LEVEL_def
        MEMORY_BASE_LATENCY_BY_LEVEL_def LINK_LATENCY_BY_LEVEL_def)
  then show "map_of PRESETS name = Some p \<Longrightarrow> preset_ok p"
    by (auto simp: list_all_iff dest!: map_of_SomeD)
qed

lemma default_policies_known: "default_policies p \<noteq> [] \<and> set (default_policies p) \<subseteq> set POLICIES"
  by (simp add: default_policies_def Let_def policy_defs)

lemma bindR_E:
  assumes "bindR m f = Inr y"
  obtains x where "m = Inr x" and "f x = Inr y"
  using assms by (auto simp: bindR_Inr_iff)

lemma option_or_Inr: "option_or opt parse values = Inr vs \<longleftrightarrow>
    (case opt of None \<Rightarrow> vs = values | Some t \<Rightarrow> parse t = Inr vs)"
  by (auto simp: option_or_def split: option.splits)

lemma resolved_sweep:
  assumes "resolve_sweep args preset = Inr s" and "preset_ok preset"
  shows "sw_policies s \<noteq> [] \<and> set (sw_policies s) \<subseteq> set POLICIES"
    and "set (sw_memory_bandwidth_levels s) \<subseteq> fst ` set MEMORY_BANDWIDTH_BYTES_PER_TIME_BY_LEVEL"
    and "set (sw_memory_base_latency_levels s) \<subseteq> fst ` set MEMORY_BASE_LATENCY_BY_LEVEL"
    and "set (sw_link_latency_levels s) \<subseteq> fst ` set LINK_LATENCY_BY_LEVEL"
proof -
  from assms(1) have
    "option_or (arg_policies args) parse_policies (default_policies preset) = Inr (sw_policies s) \<and>
     option_or (arg_memory_bandwidth_levels args)
       (\<lambda>t. parse_levels t MEMORY_BANDWIDTH_BYTES_PER_TIME_BY_LEVEL ''memory bandwidth level'')
       (memory_bandwidth_levels preset) = Inr (sw_memory_bandwidth_levels s) \<and>
     option_or (arg_memory_base_latency_levels args)
       (\<lambda>t. parse_levels t MEMORY_BASE_LATENCY_BY_LEVEL ''memory base-latency level'')
       (memory_base_latency_levels preset) = Inr (sw_memory_base_latency_levels s) \<and>
     option_or (arg_link_latency_levels args)
       (\<lambda>t. parse_levels t LINK_LATENCY_BY_LEVEL ''link latency level'')
       (link_latency_levels preset) = Inr (sw_link_latency_levels s)"
    unfolding resolve_sweep_def
    by - (elim bindR_E, unfold sum.inject, hypsubst, unfold sweep.simps, intro conjI, assumption+)
  then show "sw_policies s \<noteq> [] \<and> set (sw_policies s) \<subseteq> set POLICIES"
    and "set (sw_memory_bandwidth_levels s) \<subseteq> fst ` set MEMORY_BANDWIDTH_BYTES_PER_TIME_BY_LEVEL"
    and "set (sw_memory_base_latency_levels s) \<subseteq> fst ` set MEMORY_BASE_LATENCY_BY_LEVEL"
    and "set (sw_link_latency_levels s) \<subseteq> fst ` set LINK_LATENCY_BY_LEVEL"
    using default_policies_known [of preset] assms(2)
    by (auto simp: option_or_Inr parse_policies_Inr parse_levels_Inr preset_ok_def split: option.splits)
qed

section \<open>Runs of a plan\<close>

lemma profile_cases:
  assumes "w \<in> set (contention_weight_profiles_for_policy preset q)"
  shows "w = NO_CONTENTION_WEIGHT_PROFILE \<or> w \<in> set CONTENTION_WEIGHT_PROFILES"
  using assms by (auto simp: contention_weight_profiles_for_policy_def split: if_splits)

lemma built_run:
  assumes "build_runs preset s d = Inr runs" and "r \<in> set runs"
  shows "run_preset r = preset" and "run_policy r \<in> set (sw_policies s)"
    and "run_compute_node_count r \<in> set (sw_node_counts s)"
    and "run_memory_bandwidth_level r \<in> set (sw_memory_bandwidth_levels s)"
    and "run_memory_base_latency_level r \<in> set (sw_memory_base_latency_levels s)"
    and "run_link_latency_level r \<in> set (sw_link_latency_levels s)"
    and "profile_known r" and "weights_given r"
    and "run_config_path r = path_join (path_join d ''generated_configs'') (run_run_name r @ ''.yaml'')"
proof -
  from assms obtain c w where c: "c \<in> set (cartesian s)" and w: "w \<in> set (profiles_of preset c)"
    and r: "r = make_run preset d c w"
    by (auto simp: build_runs_member)
  from c show "run_policy r \<in> set (sw_policies s)" "run_compute_node_count r \<in> set (sw_node_counts s)"
    "run_memory_bandwidth_level r \<in> set (sw_memory_bandwidth_levels s)"
    "run_memory_base_latency_level r \<in> set (sw_memory_base_latency_levels s)"
    "run_link_latency_level r \<in> set (sw_link_latency_levels s)"
    unfolding r cartesian_iff by simp_all
  show "run_preset r = preset" by (simp add: r)
  show "run_config_path r = path_join (path_join d ''generated_configs'') (run_run_name r @ ''.yaml'')"
    by (simp add: r make_run_def Let_def)
  have "w = NO_CONTENTION_WEIGHT_PROFILE \<or> w \<in> set CONTENTION_WEIGHT_PROFILES"
    using w profile_cases by (simp add: profiles_of_def)
  then show "profile_known r" "weights_given r"
    using weight_profile_fields [of w]
    by (auto simp: r profile_known_def weights_given_def NO_CONTENTION_WEIGHT_PROFILE_def)
qed

lemma last_path_join: "q \<noteq> [] \<Longrightarrow> last (path_join p q) = last q"
  by (simp add: path_join_def)

lemma aggregate_not_config:
  "aggregate_path_of d \<noteq> path_join (path_join d ''generated_configs'') (name @ ''.yaml'')"
proof
  assume "aggregate_path_of d = path_join (path_join d ''generated_configs'') (name @ ''.yaml'')"
  then have "last (aggregate_path_of d) = last (path_join (path_join d ''generated_configs'') (name @ ''.yaml''))"
    by simp
  then show False by (simp add: aggregate_path_of_def last_path_join)
qed

lemma distinct_config_paths:
  assumes "build_runs preset s d = Inr runs"
  shows "distinct (map run_config_path runs) \<longleftrightarrow> distinct (map run_run_name runs)"
proof -
  have "map run_config_path runs =
      map (\<lambda>n. path_join (path_join d ''generated_configs'') (n @ ''.yaml'')) (map run_run_name runs)"
    using built_run(9) [OF assms] by simp
  then show ?thesis by (simp add: distinct_map inj_on_def comp_def)
qed

lemma covered_policies:
  assumes "build_runs preset s d = Inr runs" and "runs \<noteq> []"
  shows "run_policy ` set runs = set (sw_policies s)"
proof
  show "run_policy ` set runs \<subseteq> set (sw_policies s)" using built_run(2) [OF assms(1)] by blast
  obtain c where c: "c \<in> set (cartesian s)" "\<not> combo_skipped c" "combo_feasible preset c"
    using assms(2) build_runs_member [OF assms(1), of "hd runs"] by auto
  show "set (sw_policies s) \<subseteq> run_policy ` set runs"
  proof
    fix q assume q: "q \<in> set (sw_policies s)"
    let ?c = "c\<lparr>c_policy := q\<rparr>"
    obtain w where "w \<in> set (profiles_of preset ?c)"
      using profiles_ne hd_in_set unfolding profiles_of_def by blast
    then have "make_run preset d ?c w \<in> set runs"
      unfolding build_runs_member [OF assms(1)]
      using c cartesian_change_policy [OF c(1) q] by (intro bexI [of _ ?c]) auto
    then show "q \<in> run_policy ` set runs" by (rule rev_image_eqI) simp
  qed
qed

lemma planned_config:
  assumes "plan_runs repo args = Inr (d, policies, runs)" and "r \<in> set runs"
    and "\<exists>cap. cache_capacity_bytes r = Inr cap"
  shows "\<exists>t. yaml_config_text r = Inr t"
proof -
  from assms(1) obtain preset s where p: "map_of PRESETS (arg_preset args) = Some preset"
    and s: "resolve_sweep args preset = Inr s" and n: "check_node_counts preset (sw_node_counts s) = Inr ()"
    and runs: "build_runs preset s d = Inr runs"
    by (auto simp: plan_runs_Inr)
  note r = built_run [OF runs assms(2)]
  have "run_compute_node_count r \<le> int (length (compute_node_ids (run_preset r)))"
    using n r(1,3) by (auto simp: check_node_counts_def Let_def guardR_Inr_iff filter_empty_conv not_less)
  moreover have "derivable r"
    using resolved_sweep(2-4) [OF s presets_ok [OF p]] r(4-6) assms(3) unfolding derivable_def by blast
  ultimately show ?thesis using r(8) by (simp add: yaml_config_text_total)
qed

lemma base_row_total: "(\<exists>row. base_row r status error = Inr row) \<longleftrightarrow> derivable r"
  using dict_get_total [of MEMORY_BASE_LATENCY_BY_LEVEL "run_memory_base_latency_level r"]
    dict_get_total [of MEMORY_BANDWIDTH_BYTES_PER_TIME_BY_LEVEL "run_memory_bandwidth_level r"]
    dict_get_total [of LINK_LATENCY_BY_LEVEL "run_link_latency_level r"]
  unfolding base_row_def Let_def bindR_Inr_iff derivable_def memory_base_latency_def
    memory_bandwidth_bytes_per_time_def one_way_link_latency_def by blast

lemma base_row_identity:
  assumes "base_row r status error = Inr row"
  shows "dict_get row ''policy'' = Inr (PStr (run_policy r))"
    and "map_of row ''experiment_name'' = Some (PStr (run_run_name r))"
    and "map_of row ''status'' = Some (PStr status)" and "map_of row ''error'' = Some (PStr error)"
  using assms unfolding base_row_def Let_def bindR_Inr_iff dict_get_Inr sum.inject by auto

end
