(* ===== verification/RunMatrixMain.thy ===== *)
theory RunMatrixMain
  imports RunMatrixDriver
begin

text \<open>
  What a whole invocation of \<^verbatim>\<open>scripts/run_matrix.py\<close> does: the exact outcome of a dry run,
  the rows and files of a finished matrix, and the two ways to stop early.
\<close>

section \<open>The outcome of a dry run\<close>

lemma mapR_policies:
  "list_all2 (\<lambda>r row. base_row r status error = Inr row) runs rows \<Longrightarrow>
     mapR (\<lambda>row. dict_get row ''policy'') rows = Inr (map (\<lambda>r. PStr (run_policy r)) runs)"
  by (induction runs rows rule: list_all2_induct) (simp_all add: base_row_identity(1))

lemma verify_aggregate_ok:
  "fs path = Some (aggregate_text rows) \<Longrightarrow> length rows = length runs \<Longrightarrow> verify_aggregate runs path fs = Inr ()"
  by (simp add: verify_aggregate_def aggregate_text_def csv.decode_encode)

lemma mapR_unit: "(\<exists>us. mapR f xs = Inr us) \<longleftrightarrow> (\<forall>x\<in>set xs. f x = Inr ())"
  by (induction xs) (auto simp: bindR_Inr_iff)

lemma verify_dry_run_exact:
  assumes runs: "build_runs preset s d = Inr runs" and "sw_policies s \<noteq> []"
    and cfgs: "\<forall>r\<in>set runs. \<exists>t. yaml_config_text r = Inr t"
    and rows: "list_all2 (\<lambda>r row. base_row r ''dry_run'' [] = Inr row) runs rows"
    and fs: "fs = write_aggregate_csv (aggregate_path_of d) rows (put_configs runs fs0)"
  shows "verify_dry_run runs rows (sw_policies s) (aggregate_path_of d) fs = Inr () \<longleftrightarrow>
    runs \<noteq> [] \<and> distinct (map run_run_name runs)"
proof -
  have cover: "PStr ` (run_policy ` set runs) = PStr ` set (sw_policies s) \<longleftrightarrow> runs \<noteq> []"
    using covered_policies [OF runs] assms(2) by (cases "runs = []") auto
  have own: "fs (run_config_path r) = Some (config_of r)"
    if "distinct (map run_run_name runs)" "r \<in> set runs" for r
    using that put_configs_own [of runs r fs0] aggregate_not_config [of d "run_run_name r"]
      built_run(9) [OF runs that(2)] distinct_config_paths [OF runs]
    unfolding fs write_aggregate_csv_def by (auto simp: eq_commute [of _ "aggregate_path_of d"])
  have verified: "verify_config r fs = Inr ()"
    if dn: "distinct (map run_run_name runs)" and r: "r \<in> set runs" for r
  proof -
    obtain t where t: "yaml_config_text r = Inr t" using cfgs r by blast
    then have "fs (run_config_path r) = Some t" using own [OF dn r] by (simp add: config_of_def)
    then show ?thesis using t built_run(7) [OF runs r] by (intro verify_config_ok)
  qed
  have "verify_aggregate runs (aggregate_path_of d) fs = Inr ()"
    using list_all2_lengthD [OF rows]
    by (intro verify_aggregate_ok [of _ _ rows]) (simp_all add: fs write_aggregate_csv_def)
  moreover have "filter (\<lambda>r. fs (run_config_path r) = None) runs = []" if "distinct (map run_run_name runs)"
    using own that by (auto simp: filter_empty_conv)
  moreover have "\<exists>us. mapR (\<lambda>r. verify_config r fs) runs = Inr us" if "distinct (map run_run_name runs)"
    using verified that unfolding mapR_unit by blast
  ultimately show ?thesis
    unfolding verify_dry_run_def Let_def bindR_Inr_iff guardR_Inr_iff mapR_policies [OF rows]
      verify_weights_ok [OF runs]
    using cover by (auto simp: image_image)
qed

lemma main_dry:
  assumes plan: "plan_runs repo args = Inr (d, policies, runs)" and dry: "arg_dry_run args"
    and caps: "\<forall>r\<in>set runs. \<exists>cap. cache_capacity_bytes r = Inr cap"
  shows "(\<exists>w'. main launch repo args w = (w', Inr 0)) \<longleftrightarrow> runs \<noteq> [] \<and> distinct (map run_run_name runs)"
proof -
  from plan obtain preset s where p: "map_of PRESETS (arg_preset args) = Some preset"
    and s: "resolve_sweep args preset = Inr s" and pol: "policies = sw_policies s"
    and runs: "build_runs preset s d = Inr runs"
    by (auto simp: plan_runs_Inr)
  have cfgs: "\<forall>r\<in>set runs. \<exists>t. yaml_config_text r = Inr t"
    using planned_config [OF plan] caps by blast
  then have "\<forall>r\<in>set runs. \<exists>row. base_row r ''dry_run'' [] = Inr row"
    by (simp add: base_row_total yaml_config_text_total)
  then obtain f where "\<forall>r\<in>set runs. base_row r ''dry_run'' [] = Inr (f r)" by metis
  then have rows: "list_all2 (\<lambda>r row. base_row r ''dry_run'' [] = Inr row) runs (map f runs)"
    by (auto simp: list_all2_conv_all_nth)
  let ?w1 = "w\<lparr>w_files := put_configs runs (w_files w)\<rparr>"
  have loop: "run_loop launch args d runs [] w = (?w1, Inr (map f runs))"
    unfolding dry_loop [OF dry] using cfgs rows by blast
  have "sw_policies s \<noteq> []" using resolved_sweep(1) [OF s presets_ok [OF p]] by blast
  note verified = verify_dry_run_exact [OF runs this cfgs rows refl, of "w_files w"]
  let ?fs = "write_aggregate_csv (aggregate_path_of d) (map f runs) (put_configs runs (w_files w))"
  have "main launch repo args w = (w\<lparr>w_files := ?fs\<rparr>,
      bindR (verify_dry_run runs (map f runs) policies (aggregate_path_of d) ?fs) (\<lambda>_. Inr 0))"
    by (simp add: main_def plan execute_def bindP_def loop save_aggregate_def stateP_def read_files_def
        dry bindR_def returnP_def split: sum.split)
  then show ?thesis using verified by (auto simp: pol bindR_Inr_iff)
qed

section \<open>Properties of the driver\<close>

text \<open>
  C1. A dry run of planned runs whose cache capacities can be computed succeeds exactly when there
  is at least one run and no two runs share a name: the configurations and the aggregate the
  script writes always pass its own checks, for every preset and every combination of options.
\<close>

theorem dry_run_outcome:
  assumes "plan_runs repo args = Inr (d, policies, runs)" and "arg_dry_run args"
    and "\<forall>r\<in>set runs. \<exists>cap. cache_capacity_bytes r = Inr cap"
  shows "(\<exists>w'. main launch repo args w = (w', Inr 0)) \<longleftrightarrow> runs \<noteq> [] \<and> distinct (map run_run_name runs)"
  using assms by (rule main_dry)

text \<open>
  C36. A dry run never starts the simulator: its outcome does not depend on what launching does.
\<close>

theorem dry_run_never_launches:
  assumes "arg_dry_run args"
  shows "main launch repo args w = main launch' repo args w"
proof -
  have "run_loop launch args d runs rows = run_loop launch' args d runs rows" for d runs rows
    using assms by (induction runs arbitrary: rows) simp_all
  then show ?thesis by (simp add: main_def execute_def)
qed

theorem dry_run_never_launches_witness:
  "\<forall>w. main (\<lambda>_ w. (w, Inr ())) ''.'' ((default_args ''.'')\<lparr>arg_dry_run := True\<rparr>) w =
   main (\<lambda>_ w. (w, Inl ValueError)) ''.'' ((default_args ''.'')\<lparr>arg_dry_run := True\<rparr>) w"
  by (intro allI dry_run_never_launches) simp

subsection \<open>A small plan\<close>

definition demo_args :: cli_args where
  "demo_args = (default_args ''.'')\<lparr>arg_policies := Some ''lru'', arg_dry_run := True\<rparr>"

lemma demo_parsers:
  "parse_seeds ''8888'' = Inr [8888]" "parse_policies ''lru'' = Inr [''lru'']"
  "parse_workload_issue_modes ''completion_driven'' = Inr [''completion_driven'']"
proof -
  show "parse_seeds ''8888'' = Inr [8888]"
    using seeds_opt.parse_printed [of "[8888]"] by (simp add: eval_simps)
  have one: "parse_csv_list s = [s]" if "plain_token s" for s
    using parse_csv_list_join [of "[s]"] that by simp
  have "plain_token ''lru''" "plain_token ''completion_driven''"
    by (simp_all add: plain_token_def is_space_def)
  then show "parse_policies ''lru'' = Inr [''lru'']"
    "parse_workload_issue_modes ''completion_driven'' = Inr [''completion_driven'']"
    by (simp_all add: parse_policies_Inr parse_workload_issue_modes_Inr one policy_defs)
qed

lemma demo_sweep: "resolve_sweep demo_args preset_quick = Inr (preset_sweep preset_quick [8888] [''lru''])"
  by (simp add: resolve_sweep_def demo_args_def default_args_def option_or_def demo_parsers
      preset_sweep_def preset_quick_def)

lemma demo_product: "cartesian (preset_sweep preset_quick [8888] [''lru'']) = [quick_combo ''lru'']"
  by (simp add: preset_sweep_def preset_quick_def cartesian_def quick_combo_def)

lemma demo_plan:
  "plan_runs ''.'' demo_args = Inr (''results/matrix_quick'', [''lru''],
     [make_run preset_quick ''results/matrix_quick'' (quick_combo ''lru'') NO_CONTENTION_WEIGHT_PROFILE])"
proof -
  have dir: "results_dir_of ''.'' demo_args preset_quick = ''results/matrix_quick''"
    by (simp add: results_dir_of_def demo_args_def default_args_def path_join_def preset_quick_def
        suffix_to_prefix)
  have preset: "map_of PRESETS (arg_preset demo_args) = Some preset_quick"
    by (simp add: PRESETS_def demo_args_def default_args_def)
  have name: "preset_name preset_quick = ''quick''" by (simp add: preset_quick_def)
  have runs: "build_runs preset_quick (preset_sweep preset_quick [8888] [''lru'']) ''results/matrix_quick'' =
      Inr [make_run preset_quick ''results/matrix_quick'' (quick_combo ''lru'') NO_CONTENTION_WEIGHT_PROFILE]"
    using name by (simp add: build_runs_Inr demo_product quick_combo_feasible quick_pair_skipped
        profiles_of_def contention_weight_profiles_for_policy_def)
  show ?thesis
    unfolding plan_runs_Inr
    using preset demo_sweep dir runs
    by (intro exI [of _ preset_quick] exI [of _ "preset_sweep preset_quick [8888] [''lru'']"])
      (simp add: check_node_counts_def preset_sweep_def demo_args_def default_args_def preset_quick_def)
qed

lemma demo_plan_capacity:
  "cache_capacity_bytes (make_run preset_quick d (quick_combo q) prof) = Inr 256"
  by (simp add: cache_capacity_bytes_def quick_combo_def preset_quick_def eval_simps cong: eval_congs)

theorem dry_run_outcome_witness: "\<forall>launch w. \<exists>w'. main launch ''.'' demo_args w = (w', Inr 0)"
proof (intro allI)
  fix launch w
  show "\<exists>w'. main launch ''.'' demo_args w = (w', Inr 0)"
    using dry_run_outcome [OF demo_plan, of launch w] demo_plan_capacity
    by (simp add: demo_args_def)
qed

section \<open>Failing and finished matrices\<close>

lemma bindP_assoc: "bindP (bindP m f) g = bindP m (\<lambda>x. bindP (f x) g)"
  by (auto simp: bindP_def fun_eq_iff split: prod.splits sum.splits)

lemma run_loop_append:
  "run_loop launch args d (xs @ ys) rows w =
     bindP (run_loop launch args d xs rows) (\<lambda>rows'. run_loop launch args d ys rows') w"
proof (induction xs arbitrary: rows w)
  case (Cons x xs)
  have step: "run_loop launch args d (xs @ ys) rows =
      bindP (run_loop launch args d xs rows) (\<lambda>rows'. run_loop launch args d ys rows')" for rows
    using Cons.IH by (simp add: fun_eq_iff)
  show ?case
    by (auto simp: step bindP_assoc bindP_def split: prod.splits sum.splits py_error.splits)
qed (simp add: bindP_def)

text \<open>
  C4. Fail fast: when the simulator fails on a run and the user did not ask to keep going, the
  script saves the rows of the runs before it and one failed row with the error, raises the
  simulator's exception, and does nothing for the runs after it.
\<close>

theorem fail_fast:
  assumes "\<not> arg_dry_run args" and "\<not> arg_keep_going args"
    and "run_loop launch args d before [] w = (w1, Inr rows)"
    and "write_config r w1 = (w2, Inr ())"
    and "run_simulator launch (arg_binary args) r w2 = (w3, Inl (CalledProcessError msg))"
    and "summarize_run r (w_outputs w3 (run_output_dir r)) ''failed'' msg = Inr row"
  shows "execute launch args d policies (before @ r # later) w =
    (w3\<lparr>w_files := (w_files w3)(aggregate_path_of d \<mapsto> aggregate_text (rows @ [row]))\<rparr>,
     Inl (CalledProcessError msg))"
  using assms
  by (simp add: execute_def run_loop_append bindP_def summarize_def save_aggregate_def stateP_def
      write_aggregate_csv_def)

theorem fail_fast_witness:
  "\<forall>w later. \<exists>w' row. execute (\<lambda>_ w. (w, Inl (CalledProcessError ''exit 1''))) (default_args ''.'') ''out'' [''lru'']
     ([] @ demo_run ''lru'' # later) w = (w', Inl (CalledProcessError ''exit 1'')) \<and>
   w_files w' (aggregate_path_of ''out'') = Some (aggregate_text [row]) \<and>
   map_of row ''error'' = Some (PStr ''exit 1'')"
proof (intro allI)
  fix w :: world and later :: "MatrixRun list"
  let ?launch = "\<lambda>_ w. (w, Inl (CalledProcessError ''exit 1''))" and ?r = "demo_run ''lru''"
  let ?w2 = "w\<lparr>w_files := (w_files w)(run_config_path ?r \<mapsto> config_of ?r)\<rparr>"
  obtain row where row: "base_row ?r ''failed'' ''exit 1'' = Inr row" using demo_base_row by blast
  have "write_config ?r w = (?w2, Inr ())" using demo_run_text by (simp add: write_config_Inr)
  moreover have "run_loop ?launch (default_args ''.'') ''out'' [] [] w = (w, Inr [])" by simp
  moreover have "run_simulator ?launch (arg_binary (default_args ''.'')) ?r ?w2 =
      (?w2, Inl (CalledProcessError ''exit 1''))" by (simp add: run_simulator_def)
  moreover have "summarize_run ?r (w_outputs ?w2 (run_output_dir ?r)) ''failed'' ''exit 1'' = Inr row"
    using row by (simp add: summarize_run_Inr)
  moreover have "\<not> arg_dry_run (default_args ''.'')" "\<not> arg_keep_going (default_args ''.'')"
    by (simp_all add: default_args_def)
  ultimately have "execute ?launch (default_args ''.'') ''out'' [''lru''] ([] @ ?r # later) w =
      (?w2\<lparr>w_files := (w_files ?w2)(aggregate_path_of ''out'' \<mapsto> aggregate_text ([] @ [row]))\<rparr>,
       Inl (CalledProcessError ''exit 1''))"
    by (intro fail_fast)
  then show "\<exists>w' row. execute ?launch (default_args ''.'') ''out'' [''lru''] ([] @ ?r # later) w =
      (w', Inl (CalledProcessError ''exit 1'')) \<and>
    w_files w' (aggregate_path_of ''out'') = Some (aggregate_text [row]) \<and>
    map_of row ''error'' = Some (PStr ''exit 1'')"
    using base_row_identity(4) [OF row] by (intro exI conjI) (assumption, simp_all)
qed

text \<open>A row describes a run when it carries the run's name and a final status.\<close>

definition describes :: "string set \<Rightarrow> MatrixRun \<Rightarrow> row \<Rightarrow> bool" where
  "describes statuses r row =
     (map_of row ''experiment_name'' = Some (PStr (run_run_name r)) \<and>
      (\<exists>st\<in>statuses. map_of row ''status'' = Some (PStr st)))"

lemma summarize_run_describes:
  assumes "summarize_run r out status error = Inr row" and "status \<in> statuses"
  shows "describes statuses r row"
proof -
  obtain r0 where r0: "base_row r status error = Inr r0"
    using assms(1) by (auto simp: summarize_run_Inr)
  have "map_of row k = map_of r0 k" if "k = ''experiment_name'' \<or> k = ''status''" for k
  proof -
    have "k \<in> fst ` set r0" using that base_row_identity(2,3) [OF r0] by (metis map_of_eq_None_iff option.distinct(1))
    then show ?thesis by (rule base_column_kept [OF r0 assms(1)])
  qed
  then show ?thesis using base_row_identity(2,3) [OF r0] assms(2) by (auto simp: describes_def)
qed

definition loop_statuses :: "cli_args \<Rightarrow> string set" where
  "loop_statuses args =
     (if arg_dry_run args then {''dry_run''}
      else if arg_keep_going args then {''success'', ''failed''} else {''success''})"

text \<open>What holds of every summary the loop may ask for holds of every row, run by run.\<close>

lemma run_loop_each:
  assumes each: "\<And>r out status error row. summarize_run r out status error = Inr row \<Longrightarrow>
      status \<in> loop_statuses args \<Longrightarrow> P r row"
  shows "run_loop launch args d runs rows w = (w', Inr rows') \<Longrightarrow>
     \<exists>new. rows' = rows @ new \<and> list_all2 P runs new"
proof (induction runs arbitrary: rows w)
  case (Cons r runs)
  have kinds:
    "arg_dry_run args \<Longrightarrow> summarize_run r out ''dry_run'' error = Inr row \<Longrightarrow> P r row"
    "\<not> arg_dry_run args \<Longrightarrow> summarize_run r out ''success'' error = Inr row \<Longrightarrow> P r row"
    "\<not> arg_dry_run args \<Longrightarrow> arg_keep_going args \<Longrightarrow> summarize_run r out ''failed'' error = Inr row \<Longrightarrow> P r row"
    for out error row using each by (auto simp: loop_statuses_def)
  have "\<exists>w1 row. run_loop launch args d runs (rows @ [row]) w1 = (w', Inr rows') \<and> P r row"
    using Cons.prems
    by (auto simp: bindP_Inr summarize_def save_aggregate_def bindP_def stateP_def
        split: if_splits prod.splits sum.splits py_error.splits) (blast dest: kinds)+
  then obtain w1 row where "run_loop launch args d runs (rows @ [row]) w1 = (w', Inr rows')"
    and row: "P r row" by blast
  from Cons.IH [OF this(1)] obtain new where "rows' = (rows @ [row]) @ new" "list_all2 P runs new" by blast
  then show ?case using row by (intro exI [of _ "row # new"]) simp
qed auto

lemma finished_rows:
  assumes each: "\<And>r out status error row. summarize_run r out status error = Inr row \<Longrightarrow>
      status \<in> loop_statuses args \<Longrightarrow> P r row"
    and plan: "plan_runs repo args = Inr (d, policies, runs)"
    and run: "main launch repo args w = (w', Inr code)"
  shows "\<exists>rows. w_files w' (aggregate_path_of d) = Some (aggregate_text rows) \<and> list_all2 P runs rows"
proof -
  have "execute launch args d policies runs w = (w', Inr code)"
    using run by (simp add: main_def plan bindP_def)
  then obtain w1 rows where loop: "run_loop launch args d runs [] w = (w1, Inr rows)"
    and files: "w_files w' (aggregate_path_of d) = Some (aggregate_text rows)"
    by (auto simp: execute_def bindP_Inr save_aggregate_def stateP_def read_files_def write_aggregate_csv_def
        split: if_splits)
  from run_loop_each [OF each loop] files show ?thesis by auto
qed

text \<open>
  When the script returns normally, the aggregate file has exactly one row per planned run, in
  the order of the runs, each with the run's name; without the option to keep going every row
  of a real matrix is a success.
\<close>

theorem finished_aggregate:
  assumes plan: "plan_runs repo args = Inr (d, policies, runs)"
    and "main launch repo args w = (w', Inr code)"
  shows "\<exists>rows. w_files w' (aggregate_path_of d) = Some (aggregate_text rows) \<and>
    list_all2 (describes (loop_statuses args)) runs rows"
  by (rule finished_rows [OF summarize_run_describes assms])

theorem finished_aggregate_witness:
  "\<forall>launch w. \<exists>w' rows. main launch ''.'' demo_args w = (w', Inr 0) \<and>
     w_files w' (aggregate_path_of ''results/matrix_quick'') = Some (aggregate_text rows) \<and> length rows = 1"
proof (intro allI)
  fix launch w
  have "\<exists>w'. main launch ''.'' demo_args w = (w', Inr 0)"
    using main_dry [OF demo_plan, of launch w] demo_plan_capacity by (simp add: demo_args_def)
  then obtain w' where w': "main launch ''.'' demo_args w = (w', Inr 0)" by blast
  from finished_aggregate [OF demo_plan this] obtain rows where
    "w_files w' (aggregate_path_of ''results/matrix_quick'') = Some (aggregate_text rows)" "length rows = 1"
    by (auto dest: list_all2_lengthD)
  then show "\<exists>w' rows. main launch ''.'' demo_args w = (w', Inr 0) \<and>
      w_files w' (aggregate_path_of ''results/matrix_quick'') = Some (aggregate_text rows) \<and> length rows = 1"
    using w' by blast
qed

text \<open>
  A node count above what the preset defines stops the program before it writes or launches
  anything, with a message naming the preset.
\<close>

theorem oversized_nodes_refused:
  assumes "map_of PRESETS (arg_preset args) = Some preset" and "resolve_sweep args preset = Inr s"
    and "n \<in> set (sw_node_counts s)" and "int (length (compute_node_ids preset)) < n"
  shows "\<exists>msg. main launch repo args w = (w, Inl (SystemExit msg)) \<and> sublist (preset_name preset) msg"
proof -
  let ?limit = "length (compute_node_ids preset)"
  let ?over = "filter (\<lambda>n. int ?limit < n) (sw_node_counts s)"
  have "?over \<noteq> []" using assms(3,4) by (auto simp: filter_empty_conv)
  moreover define rest where "rest = '' supports at most '' @ show_nat ?limit
      @ '' compute nodes; invalid counts: '' @ str_join '', '' (map show_int ?over)"
  ultimately have "plan_runs repo args = Inl (SystemExit (''Preset '' @ preset_name preset @ rest))"
    by (simp add: plan_runs_def dict_get_def assms(1,2) check_node_counts_def Let_def)
  then have "main launch repo args w = (w, Inl (SystemExit (''Preset '' @ preset_name preset @ rest)))"
    by (simp add: main_def bindP_def)
  then show ?thesis using sublist_appendI by blast
qed

lemma demo_five_nodes:
  "resolve_sweep ((default_args ''.'')\<lparr>arg_policies := Some ''lru'', arg_node_counts := Some ''5''\<rparr>) preset_quick =
     Inr ((preset_sweep preset_quick [8888] [''lru''])\<lparr>sw_node_counts := [5]\<rparr>)"
proof -
  have "parse_positive_ints ''5'' = Inr [5]"
    using pos_opt.parse_printed [of "[5]"] by (simp add: eval_simps)
  then show ?thesis
    by (simp add: resolve_sweep_def default_args_def option_or_def demo_parsers preset_sweep_def preset_quick_def)
qed

theorem oversized_nodes_refused_witness:
  "\<forall>launch w. \<exists>msg. main launch ''.''
      ((default_args ''.'')\<lparr>arg_policies := Some ''lru'', arg_node_counts := Some ''5''\<rparr>) w =
     (w, Inl (SystemExit msg)) \<and> sublist ''quick'' msg"
proof (intro allI)
  fix launch w
  let ?args = "(default_args ''.'')\<lparr>arg_policies := Some ''lru'', arg_node_counts := Some ''5''\<rparr>"
  have "map_of PRESETS (arg_preset ?args) = Some preset_quick" by (simp add: default_args_def PRESETS_def)
  from oversized_nodes_refused [OF this demo_five_nodes, of 5 launch "''.''" w]
  show "\<exists>msg. main launch ''.'' ?args w = (w, Inl (SystemExit msg)) \<and> sublist ''quick'' msg"
    by (simp add: preset_quick_def)
qed

end
