(* ===== verification/RunMatrixSpec.thy ===== *)
theory RunMatrixSpec
  imports RunMatrixMain
begin

text \<open>
  What a matrix run promises, apart from files and rows: a state machine over the names of
  the planned runs. Runs are taken in order; each gets one status; without the option to
  keep going the first failure stops the matrix and its status is kept; any other exception
  ends it at once. The loop of \<^verbatim>\<open>run_matrix.py\<close> refines this machine, for every behaviour
  of the simulator.
\<close>

section \<open>The machine\<close>

datatype phase = Going | Stopped | Crashed

record sweep_state =
  pending :: "string list"
  finished :: "(string \<times> string) list"
  phase :: phase

inductive sweep_step :: "cli_args \<Rightarrow> sweep_state \<Rightarrow> sweep_state \<Rightarrow> bool" for args where
  dry: "arg_dry_run args \<Longrightarrow>
    sweep_step args \<lparr>pending = n # ns, finished = ds, phase = Going\<rparr>
      \<lparr>pending = ns, finished = ds @ [(n, ''dry_run'')], phase = Going\<rparr>"
| success: "\<not> arg_dry_run args \<Longrightarrow>
    sweep_step args \<lparr>pending = n # ns, finished = ds, phase = Going\<rparr>
      \<lparr>pending = ns, finished = ds @ [(n, ''success'')], phase = Going\<rparr>"
| failure_kept: "\<not> arg_dry_run args \<Longrightarrow> arg_keep_going args \<Longrightarrow>
    sweep_step args \<lparr>pending = n # ns, finished = ds, phase = Going\<rparr>
      \<lparr>pending = ns, finished = ds @ [(n, ''failed'')], phase = Going\<rparr>"
| failure_stops: "\<not> arg_dry_run args \<Longrightarrow> \<not> arg_keep_going args \<Longrightarrow>
    sweep_step args \<lparr>pending = n # ns, finished = ds, phase = Going\<rparr>
      \<lparr>pending = ns, finished = ds @ [(n, ''failed'')], phase = Stopped\<rparr>"
| crash: "sweep_step args \<lparr>pending = n # ns, finished = ds, phase = Going\<rparr>
      \<lparr>pending = n # ns, finished = ds, phase = Crashed\<rparr>"

inductive_cases sweep_stepE: "sweep_step args s s'"
inductive_simps sweep_step_stopped: "sweep_step args \<lparr>pending = ns, finished = ds, phase = Stopped\<rparr> s'"

definition sweep_start :: "string list \<Rightarrow> sweep_state" where
  "sweep_start names = \<lparr>pending = names, finished = [], phase = Going\<rparr>"

abbreviation sweep_reaches :: "cli_args \<Rightarrow> sweep_state \<Rightarrow> sweep_state \<Rightarrow> bool" where
  "sweep_reaches args \<equiv> (sweep_step args)\<^sup>*\<^sup>*"

section \<open>Invariants of the machine\<close>

definition failures_allowed :: "cli_args \<Rightarrow> sweep_state \<Rightarrow> bool" where
  "failures_allowed args s =
     (case phase s of
        Stopped \<Rightarrow> \<not> arg_keep_going args \<and> finished s \<noteq> [] \<and> snd (last (finished s)) = ''failed''
          \<and> ''failed'' \<notin> snd ` set (butlast (finished s))
      | _ \<Rightarrow> arg_keep_going args \<or> ''failed'' \<notin> snd ` set (finished s))"

text \<open>
  Every run is in exactly one place and the order never changes; a stopped matrix has its only
  failure at the end, and one that is still going has none unless it keeps going.
\<close>

lemma sweep_invariant:
  assumes "sweep_reaches args (sweep_start names) s"
  shows "map fst (finished s) @ pending s = names" and "failures_allowed args s"
  using assms
proof (induction rule: rtranclp_induct)
  case base
  { case 1 show ?case by (simp add: sweep_start_def) }
  { case 2 show ?case by (simp add: sweep_start_def failures_allowed_def) }
next
  case (step s s')
  { case 1 from step(2,3) show ?case by (auto elim: sweep_stepE) }
  { case 2 from step(2,4) show ?case by (auto elim!: sweep_stepE simp: failures_allowed_def split: phase.splits) }
qed

section \<open>The loop refines the machine\<close>

definition row_label :: "row \<Rightarrow> string \<times> string" where
  "row_label r =
     (let cell = (\<lambda>column. case map_of r column of Some (PStr s) \<Rightarrow> s | _ \<Rightarrow> [])
      in (cell ''experiment_name'', cell ''status''))"

lemma described_label: "describes {st} r row \<Longrightarrow> row_label row = (run_run_name r, st)"
  by (simp add: describes_def row_label_def Let_def)

lemma summarize_label:
  assumes "summarize_run r out st error = Inr row"
  shows "row_label row = (run_run_name r, st)"
  by (rule described_label, rule summarize_run_describes [OF assms]) simp

definition outcome_matches :: "string \<Rightarrow> world \<times> row list res \<Rightarrow> sweep_state \<Rightarrow> bool" where
  "outcome_matches path outcome s =
     (case outcome of
        (w', Inr rows) \<Rightarrow> pending s = [] \<and> phase s = Going \<and> finished s = map row_label rows
      | (w', Inl e) \<Rightarrow> phase s = Crashed \<or>
          (phase s = Stopped \<and> (\<exists>msg rows. e = CalledProcessError msg \<and>
             w_files w' path = Some (aggregate_text rows) \<and> finished s = map row_label rows)))"

lemma sweep_go:
  assumes "sweep_step args \<lparr>pending = n # ns, finished = ds, phase = Going\<rparr>
      \<lparr>pending = ns, finished = ds @ [x], phase = Going\<rparr>"
    and "\<exists>s. sweep_reaches args \<lparr>pending = ns, finished = ds @ [x], phase = Going\<rparr> s \<and> P s"
  shows "\<exists>s. sweep_reaches args \<lparr>pending = n # ns, finished = ds, phase = Going\<rparr> s \<and> P s"
  using assms by (meson converse_rtranclp_into_rtranclp)

lemma sweep_end:
  assumes "sweep_step args s s'" and "P s'"
  shows "\<exists>s'. sweep_reaches args s s' \<and> P s'"
  using assms by (meson r_into_rtranclp)

text \<open>One pass of the loop: it ends with an exception, goes on with one more row, or stops at a failure.\<close>

lemma run_loop_one:
  obtains (crashes) w' e where "run_loop launch args d (r # runs) rows w = (w', Inl e)"
  | (goes) w' out st error row where
      "run_loop launch args d (r # runs) rows w = run_loop launch args d runs (rows @ [row]) w'"
      "summarize_run r out st error = Inr row"
      "st \<in> (if arg_dry_run args then {''dry_run''} else if arg_keep_going args then {''success'', ''failed''} else {''success''})"
  | (stops) w' out msg row where
      "run_loop launch args d (r # runs) rows w = (w', Inl (CalledProcessError msg))"
      "summarize_run r out ''failed'' msg = Inr row" "\<not> arg_dry_run args" "\<not> arg_keep_going args"
      "w_files w' (aggregate_path_of d) = Some (aggregate_text (rows @ [row]))"
proof -
  obtain w1 c where config: "write_config r w = (w1, c)" by fastforce
  obtain w2 x where sim: "run_simulator launch (arg_binary args) r w1 = (w2, x)" by fastforce
  let ?sum = "\<lambda>w. summarize_run r (w_outputs w (run_output_dir r))"
  consider (bad) e where "c = Inl e" | (dry) u where "c = Inr u" "arg_dry_run args"
    | (ok) u v where "c = Inr u" "\<not> arg_dry_run args" "x = Inr v"
    | (failed) u msg where "c = Inr u" "\<not> arg_dry_run args" "x = Inl (CalledProcessError msg)"
    | (other) u e where "c = Inr u" "\<not> arg_dry_run args" "x = Inl e" "\<And>msg. e \<noteq> CalledProcessError msg"
    by (metis sum.exhaust)
  then show thesis
  proof cases
    case bad
    then show ?thesis using crashes config by (simp add: bindP_def)
  next
    case dry
    then show ?thesis
      using config crashes goes by (cases "?sum w1 ''dry_run'' []") (auto simp: bindP_def summarize_def)
  next
    case ok
    then show ?thesis
      using config sim crashes goes by (cases "?sum w2 ''success'' []") (auto simp: bindP_def summarize_def)
  next
    case failed
    show ?thesis
    proof (cases "?sum w2 ''failed'' msg")
      case (Inl e)
      then show ?thesis using config sim failed crashes by (simp add: bindP_def summarize_def)
    next
      case (Inr row)
      then show ?thesis
        using config sim failed goes [OF _ Inr] stops [OF _ Inr]
        by (cases "arg_keep_going args")
          (simp_all add: bindP_def summarize_def save_aggregate_def stateP_def write_aggregate_csv_def)
    qed
  next
    case other
    then show ?thesis using config sim crashes by (cases e) (auto simp: bindP_def)
  qed
qed

lemma loop_refines:
  "\<exists>s. sweep_reaches args \<lparr>pending = map run_run_name runs, finished = map row_label rows, phase = Going\<rparr> s \<and>
     outcome_matches (aggregate_path_of d) (run_loop launch args d runs rows w) s"
proof (induction runs arbitrary: rows w)
  case Nil
  show ?case by (intro exI conjI) (rule rtranclp.rtrancl_refl, simp add: outcome_matches_def)
next
  case (Cons r runs)
  show ?case
  proof (cases rule: run_loop_one [of launch args d r runs rows w])
    case crashes
    show ?thesis
      unfolding crashes list.map by (rule sweep_end [OF sweep_step.crash]) (simp add: outcome_matches_def)
  next
    case (goes w' out st error row)
    have "sweep_step args \<lparr>pending = n # ns, finished = ds, phase = Going\<rparr> \<lparr>pending = ns, finished = ds @ [(n, st)], phase = Going\<rparr>"
      for n ns ds using goes(3) by (auto intro: sweep_step.intros split: if_splits)
    then show ?thesis
      unfolding goes(1) list.map
      using Cons.IH [of "rows @ [row]" w'] summarize_label [OF goes(2)]
      by (auto intro: sweep_go simp only: list.map map_append append.simps)
  next
    case (stops w' out msg row)
    show ?thesis
      unfolding stops(1) list.map
      by (rule sweep_end [OF sweep_step.failure_stops [OF stops(3,4)]])
        (use summarize_label [OF stops(2)] stops(5) in \<open>simp add: outcome_matches_def, intro exI [of _ "rows @ [row]"], simp\<close>)
  qed
qed


text \<open>Each step settles one run, except for a last step that crashes.\<close>

lemma sweep_steps_used:
  assumes "(sweep_step args ^^ k) s0 s"
  shows "k + length (pending s) \<le> length (pending s0) + (if phase s = Crashed then 1 else 0)"
  using assms
proof (induction k arbitrary: s)
  case (Suc k)
  then obtain s1 where s1: "(sweep_step args ^^ k) s0 s1" "sweep_step args s1 s" by auto
  from Suc.IH [OF s1(1)] s1(2) show ?case by (auto elim!: sweep_stepE)
qed simp


end
