(* ===== verification/PlotData.thy ===== *)
theory PlotData
  imports PyValue
begin

text \<open>
  The constants of \<^verbatim>\<open>scripts/plot_results.py\<close> (lines 22 to 344): the column lists of the
  tables the report writes, the policies and presets it knows, the dimensions it reports on
  and the presentation order of named levels. Python sets of texts are lists here and are
  used through membership only.
\<close>

section \<open>Columns of the derived tables\<close>

definition PREFERRED_POLICY_ORDER :: "string list" where
  "PREFERRED_POLICY_ORDER =
    [''always_remote'', ''lru'', ''hotness_only'', ''hotness_only_cumulative'',
     ''hotness_only_windowed'', ''global_hottest_replication'', ''contention_aware'',
     ''contention_aware_v1'', ''contention_aware_smoothed'',
     ''contention_aware_smoothed_reuse_gated'',
     ''contention_aware_smoothed_reuse_gated_hysteresis'', ''contention_aware_size_value'',
     ''contention_aware_reuse_gated'', ''contention_aware_hysteresis'']"

definition GROUP_COLUMNS :: "string list" where
  "GROUP_COLUMNS =
    [''preset'', ''seed'', ''node_count'', ''epoch_count'', ''requests_per_node_per_epoch'',
     ''workload_issue_mode'', ''burst_size'', ''burst_interval'', ''intra_burst_gap'',
     ''node_phase_jitter'', ''hot_set_mode'', ''hot_set_churn_fraction'',
     ''cross_node_overlap'', ''object_count'', ''hot_set_size'', ''hot_access_probability'',
     ''object_size_mode'', ''object_size_bytes'', ''object_size_small_bytes'',
     ''object_size_large_bytes'', ''large_object_probability'',
     ''cache_capacity_hotset_multiplier'', ''cache_capacity_bytes'',
     ''memory_channel_count'', ''hot_object_channel_count'', ''memory_bandwidth_level'',
     ''memory_bandwidth_bytes_per_time'', ''memory_base_latency_level'',
     ''memory_base_latency'', ''link_latency_level'', ''one_way_link_latency'']"

definition COMPARISON_COLUMNS :: "string list" where
  "COMPARISON_COLUMNS =
    GROUP_COLUMNS @
    [''contention_weight_profile'', ''contention_weight_name'', ''contention_weight_value'',
     ''policy'', ''baseline_policy'', ''baseline_available'', ''classification'',
     ''mean_latency'', ''baseline_mean_latency'', ''mean_latency_delta'',
     ''mean_latency_delta_pct'', ''p99_latency'', ''baseline_p99_latency'',
     ''p99_latency_delta'', ''p99_latency_delta_pct'', ''local_hit_rate'',
     ''baseline_local_hit_rate'', ''local_hit_rate_delta'', ''average_memory_wait'',
     ''baseline_average_memory_wait'', ''average_memory_wait_delta'',
     ''average_memory_wait_delta_pct'', ''max_memory_wait'', ''peak_memory_queue_depth'',
     ''peak_memory_channel_queue_depth'', ''max_channel_total_queue_wait'',
     ''channel_queue_imbalance'', ''total_remote_accesses'',
     ''baseline_total_remote_accesses'', ''total_remote_accesses_delta'',
     ''total_remote_accesses_delta_pct'', ''total_queue_wait'',
     ''total_remote_service_time'', ''max_observed_queue_depth'',
     ''estimated_avoided_remote_accesses'', ''estimated_avoided_queue_wait'',
     ''estimated_avoided_remote_service_time'', ''estimated_avoided_contention_cost'',
     ''admission_yield'', ''reuse_after_admit_rate'', ''stale_telemetry_rate'',
     ''average_top_object_overlap'', ''eviction_regret_count'',
     ''remote_eviction_regret_count'', ''jain_inverse_latency_fairness'',
     ''baseline_jain_inverse_latency_fairness'', ''jain_inverse_latency_fairness_delta'',
     ''per_node_mean_latency_spread'', ''per_node_p99_latency_max'', ''source_aggregate'',
     ''experiment_name'', ''output_dir'']"

definition POLICY_SUMMARY_COLUMNS :: "string list" where
  "POLICY_SUMMARY_COLUMNS =
    [''policy'', ''run_count'', ''comparable_run_count'', ''win_count'', ''tie_count'',
     ''loss_count'', ''avg_mean_latency'', ''avg_p99_latency'', ''avg_local_hit_rate'',
     ''avg_average_memory_wait'', ''avg_total_remote_accesses'',
     ''avg_mean_latency_delta_pct'', ''best_mean_latency_delta_pct'',
     ''worst_mean_latency_delta_pct'', ''avg_p99_latency_delta_pct'',
     ''avg_local_hit_rate_delta'', ''avg_average_memory_wait_delta_pct'',
     ''avg_total_remote_accesses_delta_pct'', ''avg_admission_yield'',
     ''avg_reuse_after_admit_rate'', ''avg_stale_telemetry_rate'',
     ''avg_average_top_object_overlap'', ''avg_estimated_avoided_remote_accesses'',
     ''avg_estimated_avoided_contention_cost'', ''avg_eviction_regret_count'',
     ''avg_jain_inverse_latency_fairness'', ''avg_jain_inverse_latency_fairness_delta'']"

definition FINAL_POLICY_TABLE_COLUMNS :: "string list" where
  "FINAL_POLICY_TABLE_COLUMNS =
    [''policy'', ''seed_count'', ''comparable_run_count'', ''win_rate'',
     ''mean_latency_improvement_pct'', ''seed_std_latency_improvement_pct'',
     ''mean_p99_improvement_pct'', ''seed_std_p99_improvement_pct'',
     ''mean_memory_wait_reduction_pct'', ''seed_std_memory_wait_reduction_pct'',
     ''mean_local_hit_rate'', ''seed_std_local_hit_rate'']"

section \<open>Presets, policies and dimensions\<close>

definition FINAL_REPORT_PRESETS :: "string list" where
  "FINAL_REPORT_PRESETS =
    [''eval_final_contention_scaling'', ''eval_final_node_bandwidth'',
     ''eval_final_policy_iteration'']"

definition FINAL_REPORT_POLICY_PRESETS :: "string list" where
  "FINAL_REPORT_POLICY_PRESETS =
    [''eval_final_policy_iteration'', ''eval_policy_iteration'']"

definition FINAL_REPORT_POLICY_ORDER :: "string list" where
  "FINAL_REPORT_POLICY_ORDER =
    [''lru'', ''hotness_only_windowed'', ''contention_aware_smoothed'',
     ''contention_aware_smoothed_reuse_gated'',
     ''contention_aware_smoothed_reuse_gated_hysteresis'', ''contention_aware_size_value'']"

definition CONDITION_COLUMNS :: "string list" where
  "CONDITION_COLUMNS =
    [''dimension'', ''value'', ''policy'', ''run_count'', ''win_count'', ''tie_count'',
     ''loss_count'', ''avg_mean_latency'', ''avg_mean_latency_delta_pct'',
     ''avg_p99_latency_delta_pct'', ''avg_local_hit_rate'', ''avg_average_memory_wait'',
     ''avg_stale_telemetry_rate'', ''avg_estimated_avoided_contention_cost'']"

definition BEST_RUN_BASELINE_POLICIES :: "string list" where
  "BEST_RUN_BASELINE_POLICIES =
    [''always_remote'', ''lru'', ''global_hottest_replication'']"

definition BEST_RUN_COLUMNS :: "string list" where
  "BEST_RUN_COLUMNS =
    [''target_policy'', ''latency_improvement_pct'', ''mean_latency_delta_pct'',
     ''p99_latency_delta_pct'', ''local_hit_rate'', ''local_hit_rate_delta'',
     ''average_memory_wait_delta_pct'', ''total_remote_accesses_delta_pct'',
     ''admission_yield'', ''reuse_after_admit_rate'', ''stale_telemetry_rate'',
     ''average_top_object_overlap'', ''best_experiment_name'', ''best_output_dir'',
     ''preset'', ''seed'', ''node_count'', ''epoch_count'', ''requests_per_node_per_epoch'',
     ''hot_set_churn_fraction'', ''cache_capacity_hotset_multiplier'',
     ''cache_capacity_bytes'', ''hot_set_size'', ''hot_access_probability'',
     ''cross_node_overlap'', ''object_count'', ''object_size_mode'', ''object_size_bytes'',
     ''object_size_small_bytes'', ''object_size_large_bytes'', ''large_object_probability'',
     ''memory_channel_count'', ''hot_object_channel_count'', ''memory_bandwidth_level'',
     ''memory_bandwidth_bytes_per_time'', ''memory_base_latency_level'',
     ''memory_base_latency'', ''link_latency_level'', ''one_way_link_latency'']"

definition BEST_RUN_CONTEXT_COLUMNS :: "string list" where
  "BEST_RUN_CONTEXT_COLUMNS =
    [''target_policy'', ''comparison_policy'', ''is_target_policy'',
     ''latency_improvement_pct'', ''mean_latency_delta_pct'', ''p99_latency_delta_pct'',
     ''local_hit_rate'', ''local_hit_rate_delta'', ''average_memory_wait'',
     ''average_memory_wait_delta_pct'', ''total_remote_accesses'',
     ''total_remote_accesses_delta_pct'', ''admission_yield'', ''reuse_after_admit_rate'',
     ''stale_telemetry_rate'', ''average_top_object_overlap'', ''experiment_name'',
     ''output_dir''] @
    GROUP_COLUMNS"

definition CONDITION_DIMENSIONS :: "string list" where
  "CONDITION_DIMENSIONS =
    [''hot_set_churn_fraction'', ''requests_per_node_per_epoch'', ''epoch_count'',
     ''cross_node_overlap'', ''object_count'', ''hot_set_size'', ''hot_access_probability'',
     ''large_object_probability'', ''workload_issue_mode'', ''burst_size'',
     ''burst_interval'', ''intra_burst_gap'', ''node_phase_jitter'',
     ''cache_capacity_hotset_multiplier'', ''contention_weight_profile'',
     ''contention_weight_name'', ''contention_weight_value'', ''memory_channel_count'',
     ''hot_object_channel_count'', ''memory_bandwidth_level'', ''node_count'']"

definition REPORT_DIMENSIONS :: "string list" where
  "REPORT_DIMENSIONS =
    CONDITION_DIMENSIONS @
    [''memory_base_latency_level'', ''link_latency_level'', ''object_size_mode'']"

definition REPORT_MODES :: "string list" where
  "REPORT_MODES =
    [''auto'', ''generic'', ''contention_calibration'', ''policy_viability'',
     ''interaction'', ''parameter_demo'', ''weight_sensitivity'', ''final_report'']"

definition CATEGORICAL_ORDER :: "(string \<times> string list) list" where
  "CATEGORICAL_ORDER =
    [(''memory_bandwidth_level'',
      [''mild'', ''moderate'', ''severe'']),
     (''memory_base_latency_level'',
      [''low'', ''medium'', ''high'']),
     (''link_latency_level'',
      [''low'', ''medium'', ''high'']),
     (''cross_node_overlap'',
      [''low'', ''medium'', ''high'']),
     (''workload_issue_mode'',
      [''completion_driven'', ''scheduled_bursty'']),
     (''contention_weight_name'',
      [''local_hotness_weight'', ''remote_access_weight'', ''distinct_requester_weight'',
       ''queue_wait_weight'', ''remote_service_time_weight'', ''size_penalty_weight''])]"

lemmas plot_data_defs [eval_simps] = PREFERRED_POLICY_ORDER_def GROUP_COLUMNS_def
  FINAL_REPORT_PRESETS_def FINAL_REPORT_POLICY_PRESETS_def FINAL_REPORT_POLICY_ORDER_def
  BEST_RUN_BASELINE_POLICIES_def CATEGORICAL_ORDER_def CONDITION_DIMENSIONS_def
  REPORT_DIMENSIONS_def

lemma GROUP_COLUMNS_distinct: "distinct GROUP_COLUMNS"
  by (simp add: GROUP_COLUMNS_def)

text \<open>The columns that describe a row's policy are not part of the baseline key.\<close>

lemma GROUP_COLUMNS_no_policy:
  "''policy'' \<notin> set GROUP_COLUMNS" "''contention_weight_profile'' \<notin> set GROUP_COLUMNS"
  "''contention_weight_name'' \<notin> set GROUP_COLUMNS" "''contention_weight_value'' \<notin> set GROUP_COLUMNS"
  by (simp_all add: GROUP_COLUMNS_def)

end
