(* ===== verification/PlotRows.thy ===== *)
theory PlotRows
  imports PlotData PyCsv "HOL-Library.Product_Lexorder"
begin

text \<open>
  The row level of \<^verbatim>\<open>scripts/plot_results.py\<close>: the plot formats of the command line, the
  tables it reads, the values of a column in presentation order, the report mode, the numeric
  reading of a cell and the comparisons of a value with its baseline. A row is a Python
  dictionary in insertion order.
\<close>

type_synonym table_row = "(string \<times> pyval) list"

section \<open>Rows\<close>

text \<open>\<open>row.get(column, dflt)\<close> and \<open>row.get(column)\<close>.\<close>

definition row_get_or :: "table_row \<Rightarrow> string \<Rightarrow> pyval \<Rightarrow> pyval" where
  "row_get_or row column dflt = (case map_of row column of None \<Rightarrow> dflt | Some v \<Rightarrow> v)"

definition row_get :: "table_row \<Rightarrow> string \<Rightarrow> pyval" where
  "row_get row column = row_get_or row column PNone"

text \<open>\<open>str(row.get(column, ""))\<close>, the form in which the report code reads a label.\<close>

definition row_text :: "table_row \<Rightarrow> string \<Rightarrow> string" where
  "row_text row column = value_str (row_get_or row column (PStr []))"

definition cell_value :: "string option \<Rightarrow> pyval" where
  "cell_value c = (case c of None \<Rightarrow> PNone | Some s \<Rightarrow> PStr s)"

definition table_row_of :: "csv_dict \<Rightarrow> table_row" where
  "table_row_of d = map (\<lambda>(k, c). (k, cell_value c)) d"

lemma row_get_of: "row_get (table_row_of d) k = (case map_of d k of None \<Rightarrow> PNone | Some c \<Rightarrow> cell_value c)"
  by (induction d) (auto simp: row_get_def row_get_or_def table_row_of_def)

lemma row_get_update: "row_get (AList.update k v row) k' = (if k' = k then v else row_get row k')"
  by (simp add: row_get_def row_get_or_def update_conv')

section \<open>Command line\<close>

definition parse_formats :: "string \<Rightarrow> string list res" where
  "parse_formats arg =
     (let formats = map (\<lambda>item. str_lower (str_strip item))
            (filter (\<lambda>item. str_strip item \<noteq> []) (str_split (CHR '','') arg))
      in if formats = [] then Inl (SystemExit ''At least one plot format is required'')
         else let invalid = filter (\<lambda>item. item \<notin> set [''svg'', ''png'', ''pdf'']) formats
           in if invalid \<noteq> []
              then Inl (SystemExit (''Invalid plot format(s): '' @ str_join '', '' invalid @
                     ''. Expected svg, png, or pdf''))
              else Inr formats)"

section \<open>Reading tables\<close>

text \<open>
  The file system is the map of the files the run wrote. A missing aggregate file ends the
  program; rows of failed runs are left out; each kept row remembers its file.
\<close>

definition keep_row :: "csv_dict \<Rightarrow> bool" where
  "keep_row d = (row_get_or (table_row_of d) ''status'' (PStr ''success'') = PStr ''success'')"

definition source_row :: "string \<Rightarrow> csv_dict \<Rightarrow> table_row" where
  "source_row path d = AList.update ''_source_aggregate'' (PStr path) (table_row_of d)"

definition read_aggregate_rows :: "(string \<Rightarrow> string option) \<Rightarrow> string list \<Rightarrow> table_row list res" where
  "read_aggregate_rows fs paths =
     bindR (mapR (\<lambda>path. case fs path of
              None \<Rightarrow> Inl (SystemExit (''Aggregate file does not exist: '' @ path))
            | Some content \<Rightarrow> Inr (map (source_row path) (filter keep_row (dict_rows content)))) paths)
       (\<lambda>parts. let rows = concat parts
          in if rows = [] then Inl (SystemExit ''No successful rows found in aggregate input'')
             else Inr rows)"

text \<open>\<open>Path(output_dir) / "contention_by_object.csv"\<close> is left to the caller's file map.\<close>

definition read_contention_rows :: "(string \<Rightarrow> string option) \<Rightarrow> string \<Rightarrow> table_row list" where
  "read_contention_rows contention_file output_dir =
     (if output_dir = [] then []
      else case contention_file output_dir of None \<Rightarrow> [] | Some content \<Rightarrow> map table_row_of (dict_rows content))"

section \<open>Numbers in cells\<close>

text \<open>Blanks, texts that are no number, infinities and NaN all count as missing.\<close>

definition float_or_none :: "pyval \<Rightarrow> pyfloat option" where
  "float_or_none v =
     (if v = PNone then None
      else let content = str_strip (value_str v)
        in if content = [] then None
           else case py_float content of
               None \<Rightarrow> None
             | Some parsed \<Rightarrow> if is_finite parsed then Some parsed else None)"

definition metric :: "table_row \<Rightarrow> string \<Rightarrow> pyfloat option" where
  "metric row column = float_or_none (row_get row column)"

definition option_value :: "pyfloat option \<Rightarrow> pyval" where
  "option_value x = (case x of None \<Rightarrow> PNone | Some v \<Rightarrow> PFloat v)"

definition ratio_delta :: "pyfloat option \<Rightarrow> pyfloat option \<Rightarrow> pyfloat option" where
  "ratio_delta value baseline = (case (value, baseline) of
     (Some v, Some b) \<Rightarrow> if feq b fzero then None else Some (fdiv (fsub v b) b)
   | _ \<Rightarrow> None)"

definition absolute_delta :: "pyfloat option \<Rightarrow> pyfloat option \<Rightarrow> pyfloat option" where
  "absolute_delta value baseline = (case (value, baseline) of
     (Some v, Some b) \<Rightarrow> Some (fsub v b) | _ \<Rightarrow> None)"

definition classify_delta :: "pyfloat option \<Rightarrow> pyfloat \<Rightarrow> string" where
  "classify_delta delta_pct tie_threshold = (case delta_pct of
     None \<Rightarrow> ''no_baseline''
   | Some d \<Rightarrow> if flt d (fneg tie_threshold) then ''win''
       else if flt tie_threshold d then ''loss'' else ''tie'')"

text \<open>\<open>x or 0.0\<close> also replaces a zero of either sign.\<close>

definition or_zero :: "pyfloat option \<Rightarrow> pyfloat" where
  "or_zero x = (case x of None \<Rightarrow> fzero | Some v \<Rightarrow> if is_fzero v then fzero else v)"

definition sum_optional :: "pyfloat option \<Rightarrow> pyfloat option \<Rightarrow> pyfloat option" where
  "sum_optional lhs rhs =
     (if lhs = None \<and> rhs = None then None else Some (fadd (or_zero lhs) (or_zero rhs)))"

section \<open>Presentation order\<close>

text \<open>
  The sort key of a value: its place in the column's own order, else its number, else its
  text. Python compares the tag of the tuple first, then two keys of one kind; a float is
  compared by its exact value.
\<close>

datatype order_key = Listed nat | Number rat | Label string

fun order_rank :: "order_key \<Rightarrow> nat \<times> nat \<times> rat \<times> string" where
  "order_rank (Listed i) = (0, i, 0, [])"
| "order_rank (Number x) = (1, 0, x, [])"
| "order_rank (Label s) = (2, 0, 0, s)"

lemma order_rank_inject: "order_rank a = order_rank b \<longleftrightarrow> a = b"
  by (cases a; cases b) auto

instantiation order_key :: linorder
begin

definition less_eq_order_key :: "order_key \<Rightarrow> order_key \<Rightarrow> bool" where
  "less_eq_order_key a b = (order_rank a \<le> order_rank b)"

definition less_order_key :: "order_key \<Rightarrow> order_key \<Rightarrow> bool" where
  "less_order_key a b = (order_rank a < order_rank b)"

instance
  by standard (auto simp: less_eq_order_key_def less_order_key_def order.strict_iff_order order_rank_inject)

end

definition index_of :: "string \<Rightarrow> string list \<Rightarrow> nat" where
  "index_of x xs = length (takeWhile (\<lambda>y. y \<noteq> x) xs)"

definition plain_key :: "string \<Rightarrow> order_key" where
  "plain_key label = (case float_or_none (PStr label) of Some x \<Rightarrow> Number (fval x) | None \<Rightarrow> Label label)"

definition sort_value :: "string \<Rightarrow> string \<Rightarrow> order_key" where
  "sort_value column label =
     (case map_of CATEGORICAL_ORDER column of
        None \<Rightarrow> plain_key label
      | Some order \<Rightarrow> if label \<in> set order then Listed (index_of label order) else plain_key label)"

text \<open>
  The values of a column form a Python set, whose iteration order depends on the hash seed
  of the process: \<open>it\<close> lists a set given by a list of its elements, each element once.
  The following sort is stable, so \<open>it\<close> decides between two texts with the same key.
\<close>

definition set_iteration :: "(string list \<Rightarrow> string list) \<Rightarrow> bool" where
  "set_iteration it = (\<forall>xs. distinct (it xs) \<and> set (it xs) = set xs)"

definition column_texts :: "table_row list \<Rightarrow> string \<Rightarrow> string list" where
  "column_texts rows column =
     filter (\<lambda>t. t \<noteq> []) (map (\<lambda>row. str_strip (row_text row column)) rows)"

definition distinct_values :: "(string list \<Rightarrow> string list) \<Rightarrow> table_row list \<Rightarrow> string \<Rightarrow> string list" where
  "distinct_values it rows column = sort_key (sort_value column) (it (column_texts rows column))"

definition detect_report_mode ::
    "(string list \<Rightarrow> string list) \<Rightarrow> table_row list \<Rightarrow> string \<Rightarrow> string" where
  "detect_report_mode it rows requested =
     (if requested \<noteq> ''auto'' then requested
      else let presets = distinct_values it rows ''preset'';
               allowed = set FINAL_REPORT_PRESETS \<union> {''eval_bursty_calibration''}
        in if presets \<noteq> [] \<and> list_ex (\<lambda>p. p \<in> set FINAL_REPORT_PRESETS) presets
              \<and> list_all (\<lambda>p. p \<in> allowed) presets then ''final_report''
           else if length presets \<noteq> 1 then ''generic''
           else let preset = presets ! 0
             in if preset = ''eval_contention_calibration'' \<or> preset = ''eval_bursty_calibration''
                   \<or> prefix ''eval_channel_'' preset then ''contention_calibration''
                else if preset = ''eval_policy_viability'' \<or> preset = ''eval_policy_iteration''
                  then ''policy_viability''
                else if prefix ''eval_interactions_'' preset then ''interaction''
                else if prefix ''eval_knob_'' preset then ''parameter_demo''
                else if preset = ''eval_contention_weight_sensitivity'' then ''weight_sensitivity''
                else ''generic'')"

text \<open>The dimensions present in the input, with their values and whether they vary.\<close>

definition dimension_summary ::
    "(string list \<Rightarrow> string list) \<Rightarrow> table_row list \<Rightarrow> (string \<times> string list \<times> bool) list" where
  "dimension_summary it rows =
     concat (map (\<lambda>column. let values = distinct_values it rows column
        in if values = [] then [] else [(column, values, 1 < length values)]) REPORT_DIMENSIONS)"

definition swept_dimensions :: "(string \<times> string list \<times> bool) list \<Rightarrow> string list" where
  "swept_dimensions summary = map fst (filter (\<lambda>(column, values, swept). swept) summary)"

section \<open>Writing tables\<close>

definition group_key :: "table_row \<Rightarrow> pyval list" where
  "group_key row = map (\<lambda>column. row_get_or row column (PStr [])) GROUP_COLUMNS"

definition format_value :: "pyval \<Rightarrow> string" where
  "format_value v = (case v of
     PNone \<Rightarrow> [] | PFloat x \<Rightarrow> (if is_finite x then fmt_f 6 x else []) | _ \<Rightarrow> value_str v)"

definition table_text :: "string list \<Rightarrow> table_row list \<Rightarrow> string" where
  "table_text fieldnames rows =
     csv_write (fieldnames # map (\<lambda>row. map (\<lambda>column. format_value (row_get row column)) fieldnames) rows)"

definition write_csv ::
    "string \<Rightarrow> string list \<Rightarrow> table_row list \<Rightarrow> (string \<Rightarrow> string option) \<Rightarrow> (string \<Rightarrow> string option)" where
  "write_csv path fieldnames rows fs = fs(path \<mapsto> table_text fieldnames rows)"

lemmas row_defs [eval_simps] = row_get_or_def row_get_def row_text_def cell_value_def
  table_row_of_def keep_row_def source_row_def option_value_def absolute_delta_def
  or_zero_def sum_optional_def index_of_def metric_def

section \<open>Numbers survive the trip through a table\<close>

lemma str_strip_number:
  assumes "py_float s = Some x"
  shows "str_strip s \<noteq> []"
proof
  assume "str_strip s = []"
  then have "py_float s = None"
    by (simp add: py_float_def drop_underscores_def split_sign_def str_lower_def parse_decimal_def)
  with assms show False by simp
qed

lemma str_strip_twice [simp]: "str_strip (str_strip s) = str_strip s"
proof (cases "str_strip s = []")
  case False
  let ?a = "dropWhile is_space s"
  let ?t = "str_strip s"
  have rev: "rev ?t = dropWhile is_space (rev ?a)" by (simp add: str_strip_def)
  have last: "\<not> is_space (last ?t)"
    using hd_dropWhile [of is_space "rev ?a"] False rev by (metis hd_rev rev_is_Nil_conv rev_rev_ident)
  have "suffix (rev ?t) (rev ?a)" unfolding rev by (rule suffix_dropWhile)
  then have "prefix ?t ?a" by (simp add: suffix_to_prefix)
  then have "hd ?t = hd ?a" using False by (auto simp: prefix_def)
  moreover have "?a \<noteq> []" using False unfolding str_strip_def by (metis dropWhile.simps(1) rev.simps(1))
  ultimately have "\<not> is_space (hd ?t)" using hd_dropWhile [of is_space s] by simp
  from str_strip_id [OF False this last] show ?thesis .
qed simp

lemma py_float_strip [simp]: "py_float (str_strip s) = py_float s"
  by (simp add: py_float_def)

lemma float_or_none_text:
  "float_or_none (PStr s) = (case py_float s of None \<Rightarrow> None | Some x \<Rightarrow> if is_finite x then Some x else None)"
  using str_strip_number [of s] by (auto simp: float_or_none_def Let_def value_str_def split: option.splits)

lemma py_float_repr_inf: "\<not> is_finite x \<Longrightarrow> \<exists>y. py_float (py_repr x) = Some y \<and> \<not> is_finite y"
proof (cases x)
  case (Inf s)
  then show ?thesis by (cases s) (simp_all add: eval_simps)
next
  case NaN
  then show ?thesis by (simp add: eval_simps)
qed simp

text \<open>A float cell of a derived table is read as itself, or as missing when it is not finite.\<close>

lemma float_or_none_PFloat:
  assumes "canonical x"
  shows "float_or_none (PFloat x) = (if is_finite x then Some x else None)"
proof -
  have "float_or_none (PFloat x) = float_or_none (PStr (py_repr x))"
    by (simp add: float_or_none_def value_str_def)
  then show ?thesis
    using py_float_py_repr [OF assms] py_float_repr_inf [of x]
    by (auto simp: float_or_none_text)
qed

lemma float_or_none_finite: "float_or_none v = Some x \<Longrightarrow> is_finite x \<and> canonical x"
proof -
  have "canonical y" if "py_float s = Some y" for s y
    using that canonical_round_ratio
    by (auto simp: py_float_def parse_decimal_def decimal_float_def canonical_def Let_def
        split: if_splits prod.splits)
  then show "float_or_none v = Some x \<Longrightarrow> is_finite x \<and> canonical x"
    by (auto simp: float_or_none_def Let_def split: if_splits option.splits)
qed

lemma float_or_none_PNone [simp]: "float_or_none PNone = None"
  by (simp add: float_or_none_def)

section \<open>Values of a column\<close>

lemma distinct_values_props:
  assumes "set_iteration it"
  shows "set (distinct_values it rows column) = set (column_texts rows column)"
    and "distinct (distinct_values it rows column)"
    and "sorted (map (sort_value column) (distinct_values it rows column))"
    and "length (distinct_values it rows column) = card (set (column_texts rows column))"
  using assms by (simp_all add: distinct_values_def set_iteration_def flip: distinct_card)

lemma sorted_key_unique:
  fixes f :: "'a \<Rightarrow> 'b :: linorder"
  assumes "set xs = set ys" and "distinct xs" and "distinct ys" and "inj_on f (set xs)"
    and "sorted (map f xs)" and "sorted (map f ys)"
  shows "xs = ys"
proof -
  have "map f xs = map f ys"
    using assms by (intro sorted_distinct_set_unique) (simp_all add: distinct_map)
  then show ?thesis using assms(1,4) by (metis inj_on_map_eq_map sup.idem)
qed

lemma distinct_rev_id:
  assumes "distinct xs" and "rev xs = xs" and "a \<in> set xs" and "b \<in> set xs"
  shows "a = b"
proof (cases xs)
  case (Cons x ys)
  then have "last xs = x" using assms(2) by (metis hd_rev list.sel(1) rev_rev_ident)
  then have "ys = []" using assms(1) Cons by (cases ys rule: rev_cases) auto
  then show ?thesis using assms(3,4) Cons by simp
qed (use assms in simp)

lemma set_iteration_examples: "set_iteration remdups" "set_iteration (\<lambda>xs. rev (remdups xs))"
  by (simp_all add: set_iteration_def)

text \<open>
  C37. The order in which the values of a column are reported does not depend on the hash
  seed exactly when no two different texts of the column have the same sort key, as for
  instance \<open>1\<close> and \<open>1.0\<close> have.
\<close>

theorem distinct_values_stable_iff:
  "(\<forall>it it'. set_iteration it \<and> set_iteration it' \<longrightarrow>
      distinct_values it rows column = distinct_values it' rows column) \<longleftrightarrow>
   inj_on (sort_value column) (set (column_texts rows column))"
proof
  assume inj: "inj_on (sort_value column) (set (column_texts rows column))"
  show "\<forall>it it'. set_iteration it \<and> set_iteration it' \<longrightarrow>
      distinct_values it rows column = distinct_values it' rows column"
  proof (intro allI impI)
    fix it it'
    assume it: "set_iteration it \<and> set_iteration it'"
    then have it: "set_iteration it" and it': "set_iteration it'" by blast+
    have "set (distinct_values it rows column) = set (distinct_values it' rows column)"
      unfolding distinct_values_props(1) [OF it] distinct_values_props(1) [OF it'] by (rule refl)
    moreover have "inj_on (sort_value column) (set (distinct_values it rows column))"
      unfolding distinct_values_props(1) [OF it] by (rule inj)
    ultimately show "distinct_values it rows column = distinct_values it' rows column"
      using distinct_values_props(2,3) [OF it] distinct_values_props(2,3) [OF it']
      by (intro sorted_key_unique [where f = "sort_value column"])
  qed
next
  let ?f = "sort_value column" and ?xs = "column_texts rows column"
  assume same: "\<forall>it it'. set_iteration it \<and> set_iteration it' \<longrightarrow>
      distinct_values it rows column = distinct_values it' rows column"
  show "inj_on ?f (set ?xs)"
  proof (rule inj_onI)
    fix a b
    assume ab: "a \<in> set ?xs" "b \<in> set ?xs" "?f a = ?f b"
    let ?g = "filter (\<lambda>y. ?f y = ?f a)"
    have "sort_key ?f (remdups ?xs) = sort_key ?f (rev (remdups ?xs))"
      using same set_iteration_examples unfolding distinct_values_def by blast
    from arg_cong [OF this, of ?g] have "?g (remdups ?xs) = ?g (rev (remdups ?xs))"
      by (simp only: sort_key_stable)
    then have "rev (?g (remdups ?xs)) = ?g (remdups ?xs)" by (simp add: rev_filter)
    moreover have "distinct (?g (remdups ?xs))" by simp
    ultimately show "a = b" using ab by (intro distinct_rev_id [of "?g (remdups ?xs)"]) simp_all
  qed
qed

text \<open>
  The report mode depends only on the set of presets in the input: neither the order of
  the rows, nor repeated rows, nor the hash seed can change it.
\<close>

theorem detect_report_mode_determined:
  assumes "set_iteration it" and "set_iteration it'"
    and "set (column_texts rows ''preset'') = set (column_texts rows' ''preset'')"
  shows "detect_report_mode it rows requested = detect_report_mode it' rows' requested"
proof -
  let ?ps = "distinct_values it rows ''preset''" and ?qs = "distinct_values it' rows' ''preset''"
  have set: "set ?ps = set ?qs" and len: "length ?ps = length ?qs"
    using assms by (simp_all add: distinct_values_props)
  have empty: "?ps = [] \<longleftrightarrow> ?qs = []" using len by (metis length_0_conv)
  show ?thesis
  proof (cases "length ?qs = 1")
    case True
    then have first: "?ps ! 0 = ?qs ! 0" using len set by (cases ?ps; cases ?qs) auto
    show ?thesis
      unfolding detect_report_mode_def Let_def list_ex_iff list_all_iff set empty len first by (rule refl)
  next
    case False
    then show ?thesis
      unfolding detect_report_mode_def Let_def list_ex_iff list_all_iff set empty len
      by (simp only: simp_thms if_True)
  qed
qed

section \<open>On a concrete table\<close>

definition spelled_rows :: "table_row list" where
  "spelled_rows =
    [[(''preset'', PStr ''eval_knob_churn''), (''node_count'', PStr ''1'')],
     [(''preset'', PStr '' eval_knob_churn ''), (''node_count'', PStr ''1.0'')]]"

lemma spelled_texts:
  "column_texts spelled_rows ''node_count'' = [''1'', ''1.0'']"
  "column_texts spelled_rows ''preset'' = [''eval_knob_churn'', ''eval_knob_churn'']"
  by (simp_all add: column_texts_def spelled_rows_def row_defs value_str_def eval_simps)

theorem distinct_values_stable_iff_witness:
  "\<exists>it it'. set_iteration it \<and> set_iteration it' \<and>
     distinct_values it spelled_rows ''node_count'' \<noteq> distinct_values it' spelled_rows ''node_count''"
proof -
  have "map_of CATEGORICAL_ORDER ''node_count'' = None" by (simp add: CATEGORICAL_ORDER_def)
  moreover have "py_float ''1'' = Some fone" by (simp add: py_float_digits literal_defs cong: eval_congs)
  moreover have "py_float ''1.0'' = Some fone"
    using py_float_point [of "''1''" "''0''"] by (simp add: literal_defs cong: eval_congs)
  ultimately have "sort_value ''node_count'' ''1'' = sort_value ''node_count'' ''1.0''"
    by (simp add: sort_value_def plain_key_def float_or_none_text)
  then have "\<not> inj_on (sort_value ''node_count'') (set (column_texts spelled_rows ''node_count''))"
    by (auto simp: spelled_texts inj_on_def)
  then show ?thesis using distinct_values_stable_iff [of spelled_rows "''node_count''"] by blast
qed

theorem detect_report_mode_determined_witness:
  "detect_report_mode remdups spelled_rows ''auto'' =
   detect_report_mode (\<lambda>xs. rev (remdups xs)) (rev spelled_rows) ''auto''"
  by (rule detect_report_mode_determined)
    (simp_all add: set_iteration_examples, simp add: column_texts_def flip: rev_map rev_filter)

end
