(* ===== verification/PlotCompare.thy ===== *)
theory PlotCompare
  imports PlotRows
begin

text \<open>
  \<open>build_policy_comparison\<close> of \<^verbatim>\<open>scripts/plot_results.py\<close>: every run is joined with the
  baseline run of its experiment group and compared with it. The dictionary of a comparison
  row is built as the source builds it, by two updates of the group columns.
\<close>

section \<open>The join\<close>

definition baseline_by_group :: "table_row list \<Rightarrow> string \<Rightarrow> (pyval list \<times> table_row) list" where
  "baseline_by_group rows baseline_policy =
     foldl (\<lambda>d row. if row_get row ''policy'' = PStr baseline_policy
            then AList.update (group_key row) row d else d) [] rows"

text \<open>\<open>metric(baseline, column) if baseline else None\<close>: an empty dictionary is false too.\<close>

definition baseline_metric :: "table_row option \<Rightarrow> string \<Rightarrow> pyfloat option" where
  "baseline_metric baseline column = (case baseline of
     None \<Rightarrow> None | Some row \<Rightarrow> if row = [] then None else metric row column)"

definition group_entries :: "table_row \<Rightarrow> table_row" where
  "group_entries row = map (\<lambda>column. (column, row_get_or row column (PStr []))) GROUP_COLUMNS"

definition label_entries :: "table_row \<Rightarrow> string \<Rightarrow> table_row option \<Rightarrow> table_row" where
  "label_entries row baseline_policy baseline =
    (let cell = (\<lambda>column. row_get_or row column (PStr []))
     in [(''contention_weight_profile'', cell ''contention_weight_profile''),
         (''contention_weight_name'', cell ''contention_weight_name''),
         (''contention_weight_value'', cell ''contention_weight_value''),
         (''policy'', cell ''policy''),
         (''baseline_policy'', PStr baseline_policy),
         (''baseline_available'', PBool (baseline \<noteq> None)),
         (''source_aggregate'', cell ''_source_aggregate''),
         (''experiment_name'', cell ''experiment_name''),
         (''output_dir'', cell ''output_dir'')])"

definition latency_entries :: "table_row \<Rightarrow> table_row option \<Rightarrow> pyfloat \<Rightarrow> table_row" where
  "latency_entries row baseline tie_threshold =
    (let num = option_value;
         mean_latency = metric row ''mean_latency'';
         p99_latency = metric row ''p99_latency'';
         hit_rate = metric row ''local_hit_rate'';
         memory_wait = metric row ''average_memory_wait'';
         baseline_mean = baseline_metric baseline ''mean_latency'';
         baseline_p99 = baseline_metric baseline ''p99_latency'';
         baseline_hit = baseline_metric baseline ''local_hit_rate'';
         baseline_wait = baseline_metric baseline ''average_memory_wait'';
         mean_delta_pct = ratio_delta mean_latency baseline_mean
     in [(''classification'', PStr (classify_delta mean_delta_pct tie_threshold)),
         (''mean_latency'', num mean_latency),
         (''baseline_mean_latency'', num baseline_mean),
         (''mean_latency_delta'', num (absolute_delta mean_latency baseline_mean)),
         (''mean_latency_delta_pct'', num mean_delta_pct),
         (''p99_latency'', num p99_latency),
         (''baseline_p99_latency'', num baseline_p99),
         (''p99_latency_delta'', num (absolute_delta p99_latency baseline_p99)),
         (''p99_latency_delta_pct'', num (ratio_delta p99_latency baseline_p99)),
         (''local_hit_rate'', num hit_rate),
         (''baseline_local_hit_rate'', num baseline_hit),
         (''local_hit_rate_delta'', num (absolute_delta hit_rate baseline_hit)),
         (''average_memory_wait'', num memory_wait),
         (''baseline_average_memory_wait'', num baseline_wait),
         (''average_memory_wait_delta'', num (absolute_delta memory_wait baseline_wait)),
         (''average_memory_wait_delta_pct'', num (ratio_delta memory_wait baseline_wait))])"

definition traffic_entries :: "table_row \<Rightarrow> table_row option \<Rightarrow> table_row" where
  "traffic_entries row baseline =
    (let num = option_value; own = (\<lambda>column. (column, option_value (metric row column)));
         remote_accesses = metric row ''total_remote_accesses'';
         baseline_remote = baseline_metric baseline ''total_remote_accesses'';
         avoided_queue = metric row ''estimated_avoided_queue_wait'';
         avoided_service = metric row ''estimated_avoided_remote_service_time'';
         fairness = metric row ''jain_inverse_latency_fairness'';
         baseline_fairness = baseline_metric baseline ''jain_inverse_latency_fairness''
     in [own ''max_memory_wait'', own ''peak_memory_queue_depth'',
         own ''peak_memory_channel_queue_depth'', own ''max_channel_total_queue_wait'',
         own ''channel_queue_imbalance'',
         (''total_remote_accesses'', num remote_accesses),
         (''baseline_total_remote_accesses'', num baseline_remote),
         (''total_remote_accesses_delta'', num (absolute_delta remote_accesses baseline_remote)),
         (''total_remote_accesses_delta_pct'', num (ratio_delta remote_accesses baseline_remote)),
         own ''total_queue_wait'', own ''total_remote_service_time'',
         own ''max_observed_queue_depth'', own ''estimated_avoided_remote_accesses'',
         (''estimated_avoided_queue_wait'', num avoided_queue),
         (''estimated_avoided_remote_service_time'', num avoided_service),
         (''estimated_avoided_contention_cost'', num (sum_optional avoided_queue avoided_service)),
         own ''admission_yield'', own ''reuse_after_admit_rate'', own ''stale_telemetry_rate'',
         own ''average_top_object_overlap'', own ''eviction_regret_count'',
         own ''remote_eviction_regret_count'',
         (''jain_inverse_latency_fairness'', num fairness),
         (''baseline_jain_inverse_latency_fairness'', num baseline_fairness),
         (''jain_inverse_latency_fairness_delta'', num (absolute_delta fairness baseline_fairness)),
         own ''per_node_mean_latency_spread'', own ''per_node_p99_latency_max''])"

definition metric_entries :: "table_row \<Rightarrow> table_row option \<Rightarrow> pyfloat \<Rightarrow> table_row" where
  "metric_entries row baseline tie_threshold = latency_entries row baseline tie_threshold @ traffic_entries row baseline"

definition comparison_row :: "table_row \<Rightarrow> string \<Rightarrow> table_row option \<Rightarrow> pyfloat \<Rightarrow> table_row" where
  "comparison_row row baseline_policy baseline tie_threshold =
     dict_update (dict_update (group_entries row) (label_entries row baseline_policy baseline))
       (metric_entries row baseline tie_threshold)"

definition build_policy_comparison :: "table_row list \<Rightarrow> string \<Rightarrow> pyfloat \<Rightarrow> table_row list" where
  "build_policy_comparison rows baseline_policy tie_threshold =
     (let baselines = baseline_by_group rows baseline_policy
      in map (\<lambda>row. comparison_row row baseline_policy (map_of baselines (group_key row)) tie_threshold) rows)"

section \<open>Which row is the baseline\<close>

definition is_baseline :: "string \<Rightarrow> pyval list \<Rightarrow> table_row \<Rightarrow> bool" where
  "is_baseline baseline_policy key row = (row_get row ''policy'' = PStr baseline_policy \<and> group_key row = key)"

lemma map_of_baseline_by_group:
  "map_of (baseline_by_group rows p) key =
     (let candidates = filter (is_baseline p key) rows in if candidates = [] then None else Some (last candidates))"
proof (induction rows rule: rev_induct)
  case (snoc row rows)
  have step: "baseline_by_group (rows @ [row]) p =
      (if row_get row ''policy'' = PStr p then AList.update (group_key row) row (baseline_by_group rows p)
       else baseline_by_group rows p)"
    by (simp add: baseline_by_group_def)
  show ?case
    unfolding step using snoc by (auto simp: update_conv' is_baseline_def Let_def)
qed (simp add: baseline_by_group_def)

section \<open>Columns of a comparison row\<close>

lemma row_get_dict_update:
  assumes "distinct (map fst kvs)"
  shows "row_get_or (dict_update row kvs) k dflt = (case map_of kvs k of None \<Rightarrow> row_get_or row k dflt | Some v \<Rightarrow> v)"
  using dict_update_lookup [OF assms, of row k] by (simp add: row_get_or_def split: option.splits)

lemmas entry_defs = label_entries_def metric_entries_def latency_entries_def traffic_entries_def Let_def

text \<open>No key is written twice.\<close>

lemma entries_distinct:
  "distinct (GROUP_COLUMNS @ map fst (label_entries row p b) @ map fst (metric_entries row b t))"
  by (simp add: entry_defs GROUP_COLUMNS_def)

lemma entries_distinct':
  "distinct (map fst (label_entries row p b))" "distinct (map fst (metric_entries row b t))"
  using entries_distinct [of row p b t] by simp_all

lemma map_of_group_entries:
  "map_of (group_entries row) k = (if k \<in> set GROUP_COLUMNS then Some (row_get_or row k (PStr [])) else None)"
proof -
  have "map_of (map (\<lambda>c. (c, f c)) cs) k = (if k \<in> set cs then Some (f k) else None)" for f :: "string \<Rightarrow> pyval" and cs
    by (induction cs) auto
  then show ?thesis by (simp add: group_entries_def)
qed

lemma comparison_row_get:
  "row_get_or (comparison_row row p b t) k dflt =
     (case map_of (metric_entries row b t) k of Some v \<Rightarrow> v
      | None \<Rightarrow> (case map_of (label_entries row p b) k of Some v \<Rightarrow> v
         | None \<Rightarrow> if k \<in> set GROUP_COLUMNS then row_get_or row k (PStr []) else dflt))"
  unfolding comparison_row_def row_get_dict_update [OF entries_distinct'(2)] row_get_dict_update [OF entries_distinct'(1)]
  by (simp add: row_get_or_def [of "group_entries row"] map_of_group_entries split: option.split)

lemma comparison_row_entry:
  "map_of (metric_entries row b t) k = Some v \<Longrightarrow> row_get_or (comparison_row row p b t) k dflt = v"
  "map_of (metric_entries row b t) k = None \<Longrightarrow> map_of (label_entries row p b) k = Some v \<Longrightarrow>
     row_get_or (comparison_row row p b t) k dflt = v"
  by (simp_all add: comparison_row_get)

lemma metric_columns:
  "row_get_or (comparison_row row p b t) ''classification'' d =
     PStr (classify_delta (ratio_delta (metric row ''mean_latency'') (baseline_metric b ''mean_latency'')) t)"
  "row_get_or (comparison_row row p b t) ''mean_latency'' d = option_value (metric row ''mean_latency'')"
  "row_get_or (comparison_row row p b t) ''baseline_mean_latency'' d = option_value (baseline_metric b ''mean_latency'')"
  "row_get_or (comparison_row row p b t) ''mean_latency_delta_pct'' d =
     option_value (ratio_delta (metric row ''mean_latency'') (baseline_metric b ''mean_latency''))"
  by (rule comparison_row_entry(1), simp add: metric_entries_def latency_entries_def Let_def)+

lemma label_columns:
  "row_get_or (comparison_row row p b t) ''policy'' d = row_get_or row ''policy'' (PStr [])"
  "row_get_or (comparison_row row p b t) ''baseline_policy'' d = PStr p"
  "row_get_or (comparison_row row p b t) ''baseline_available'' d = PBool (b \<noteq> None)"
  "row_get_or (comparison_row row p b t) ''experiment_name'' d = row_get_or row ''experiment_name'' (PStr [])"
  by (rule comparison_row_entry(2), simp add: entry_defs, simp add: label_entries_def Let_def)+

lemma group_column_kept:
  assumes "k \<in> set GROUP_COLUMNS"
  shows "row_get_or (comparison_row row p b t) k d = row_get_or row k (PStr [])"
proof -
  have "k \<notin> fst ` set (label_entries row p b)" "k \<notin> fst ` set (metric_entries row b t)"
    using assms entries_distinct [of row p b t] unfolding distinct_append set_append set_map by blast+
  then have "map_of (label_entries row p b) k = None" "map_of (metric_entries row b t) k = None"
    by (simp_all only: map_of_eq_None_iff not_False_eq_True)
  then show ?thesis by (simp add: comparison_row_get assms)
qed

lemma group_key_comparison: "group_key (comparison_row row p b t) = group_key row"
  by (simp add: group_key_def group_column_kept)

section \<open>What the comparison says\<close>

lemma comparison_nth:
  assumes "i < length rows"
  shows "build_policy_comparison rows p t ! i =
    comparison_row (rows ! i) p
      (let bs = filter (is_baseline p (group_key (rows ! i))) rows in if bs = [] then None else Some (last bs)) t"
  using assms by (simp add: build_policy_comparison_def map_of_baseline_by_group Let_def)

lemma length_build_policy_comparison [simp]: "length (build_policy_comparison rows p t) = length rows"
  by (simp add: build_policy_comparison_def Let_def)

text \<open>
  C17. Every run yields one comparison row, in order and with its own labels; its baseline is
  the last run of the baseline policy in the same experiment group, and it is missing
  exactly when the group has none.
\<close>

theorem policy_comparison_join:
  assumes "i < length rows"
  shows "row_get (build_policy_comparison rows p t ! i) ''policy'' = row_get_or (rows ! i) ''policy'' (PStr []) \<and>
    group_key (build_policy_comparison rows p t ! i) = group_key (rows ! i) \<and>
    row_get (build_policy_comparison rows p t ! i) ''mean_latency'' = option_value (metric (rows ! i) ''mean_latency'') \<and>
    row_get (build_policy_comparison rows p t ! i) ''baseline_available'' =
      PBool (\<exists>b\<in>set rows. is_baseline p (group_key (rows ! i)) b) \<and>
    row_get (build_policy_comparison rows p t ! i) ''baseline_mean_latency'' =
      (case filter (is_baseline p (group_key (rows ! i))) rows of [] \<Rightarrow> PNone
       | b # bs \<Rightarrow> option_value (metric (last (b # bs)) ''mean_latency''))"
proof -
  define bs where "bs = filter (is_baseline p (group_key (rows ! i))) rows"
  have some: "bs \<noteq> [] \<longleftrightarrow> (\<exists>b\<in>set rows. is_baseline p (group_key (rows ! i)) b)"
    by (auto simp: bs_def filter_empty_conv)
  have "last bs \<noteq> []" if "bs \<noteq> []"
  proof -
    have "is_baseline p (group_key (rows ! i)) (last bs)" using last_in_set [OF that] by (simp add: bs_def)
    then show ?thesis by (auto simp: is_baseline_def row_get_def row_get_or_def)
  qed
  then have mean: "option_value (baseline_metric (if bs = [] then None else Some (last bs)) ''mean_latency'') =
      (case bs of [] \<Rightarrow> PNone | b # bs' \<Rightarrow> option_value (metric (last (b # bs')) ''mean_latency''))"
    by (cases bs) (auto simp: baseline_metric_def option_value_def)
  show ?thesis
    unfolding comparison_nth [OF assms] Let_def bs_def [symmetric] some [symmetric] row_get_def
      metric_columns label_columns group_key_comparison mean [symmetric] by simp
qed

text \<open>A delta of the right sign against a threshold that is not negative.\<close>

lemma threshold_sign:
  assumes "fle fzero t"
  shows "flt d (fneg t) \<Longrightarrow> is_finite (fneg t) \<and> fval (fneg t) \<le> 0"
    and "flt t d \<Longrightarrow> is_finite t \<and> 0 \<le> fval t"
proof -
  have "0 \<le> fval t" if "is_finite t" using assms that by (simp add: cmp_fval)
  moreover have "is_finite t" if "flt d (fneg t) \<or> flt t d"
    using assms that by (cases t; cases d) (auto simp: fle_def fzero_def)
  ultimately show "flt d (fneg t) \<Longrightarrow> is_finite (fneg t) \<and> fval (fneg t) \<le> 0"
    and "flt t d \<Longrightarrow> is_finite t \<and> 0 \<le> fval t" by auto
qed

lemma delta_sign:
  assumes "fle fzero t" and "is_finite b" and "is_finite v"
  shows "flt (fdiv (fsub v b) b) (fneg t) \<Longrightarrow> if fsign b then flt b v else flt v b"
    and "flt t (fdiv (fsub v b) b) \<Longrightarrow> if fsign b then flt v b else flt b v"
proof -
  have order: "flt b v \<longleftrightarrow> \<not> flt v b" if "\<not> feq v b"
    using that assms by (auto simp: cmp_fval)
  show "if fsign b then flt b v else flt v b" if d: "flt (fdiv (fsub v b) b) (fneg t)"
  proof -
    from threshold_sign(1) [OF assms(1) d] flt_sign_neg [OF d] have "fnonzero (fdiv (fsub v b) b)" "fsign (fdiv (fsub v b) b)" by blast+
    with fdiv_sign [OF assms(2) this(1)] fsub_sign [OF assms(3,2)] order show ?thesis by auto
  qed
  show "if fsign b then flt v b else flt b v" if d: "flt t (fdiv (fsub v b) b)"
  proof -
    from threshold_sign(2) [OF assms(1) d] flt_sign_pos [OF d] have "fnonzero (fdiv (fsub v b) b)" "\<not> fsign (fdiv (fsub v b) b)" by blast+
    with fdiv_sign [OF assms(2) this(1)] fsub_sign [OF assms(3,2)] order show ?thesis by auto
  qed
qed

lemma baseline_metric_finite: "baseline_metric b k = Some x \<Longrightarrow> is_finite x \<and> canonical x"
  by (auto simp: baseline_metric_def metric_def float_or_none_finite split: option.splits if_splits)

lemma metric_finite: "metric row k = Some x \<Longrightarrow> is_finite x \<and> canonical x"
  by (simp add: metric_def float_or_none_finite)

lemma classified:
  "classify_delta (ratio_delta v b) t = c \<Longrightarrow> c \<noteq> ''no_baseline'' \<Longrightarrow>
     \<exists>x y. v = Some x \<and> b = Some y \<and> \<not> feq y fzero \<and>
       c = (if flt (fdiv (fsub x y) y) (fneg t) then ''win'' else if flt t (fdiv (fsub x y) y) then ''loss'' else ''tie'')"
  by (auto simp: classify_delta_def ratio_delta_def split: option.splits if_splits)

text \<open>
  C9. A win or a loss is a strict difference of the two latencies read from the tables, in the
  stated direction whenever the baseline latency is positive: rounding in the division and
  the tie threshold never turn a slower run into a win.
\<close>

theorem win_is_faster:
  assumes "fle fzero t" and "out \<in> set (build_policy_comparison rows p t)"
    and "row_get out ''classification'' = PStr c" and "c = ''win'' \<or> c = ''loss''"
  shows "\<exists>v b. row_get out ''mean_latency'' = PFloat v \<and> row_get out ''baseline_mean_latency'' = PFloat b \<and>
    (if (c = ''win'') = flt fzero b then flt v b else flt b v)"
proof -
  obtain row base where out: "out = comparison_row row p base t"
    using assms(2) by (auto simp: build_policy_comparison_def Let_def)
  have c: "classify_delta (ratio_delta (metric row ''mean_latency'') (baseline_metric base ''mean_latency'')) t = c"
    using assms(3) unfolding out row_get_def metric_columns pyval.inject .
  moreover have "c \<noteq> ''no_baseline''" using assms(4) by auto
  ultimately obtain v b where vb: "metric row ''mean_latency'' = Some v"
    "baseline_metric base ''mean_latency'' = Some b" "\<not> feq b fzero"
    "c = (if flt (fdiv (fsub v b) b) (fneg t) then ''win'' else if flt t (fdiv (fsub v b) b) then ''loss'' else ''tie'')"
    using classified by blast
  have fin: "is_finite v" "is_finite b"
    using vb(1,2) metric_finite baseline_metric_finite by blast+
  have pos: "flt fzero b \<longleftrightarrow> \<not> fsign b"
    using fin(2) vb(3) by (cases b) (auto simp: cmp_fval fval_sign)
  have "if (c = ''win'') = flt fzero b then flt v b else flt b v"
    using vb(4) assms(4) delta_sign [OF assms(1) fin(2,1)] unfolding pos by (auto split: if_splits)
  then show ?thesis
    using vb(1,2) unfolding out row_get_def metric_columns by (auto simp: option_value_def)
qed

lemma zero_within:
  assumes "fle fzero t" and "is_finite d" and "fval d = 0"
  shows "\<not> flt d (fneg t) \<and> \<not> flt t d"
  using threshold_sign [OF assms(1), of d] flt_fval [of d "fneg t"] flt_fval [of t d] assms(2,3) by linarith

lemma fsub_self: "is_finite x \<Longrightarrow> fsub x x = fzero"
  by (cases x) (simp_all add: fsub_def fzero_def align_def signed_def Let_def)

lemma zero_delta:
  assumes "is_finite b" and "\<not> feq b fzero"
  shows "is_finite (fdiv fzero b)" and "fval (fdiv fzero b) = 0"
  using assms by (cases b; simp add: fzero_def fval_def signed_def align_def Let_def split: if_splits)+

text \<open>
  Compared with itself, a baseline run is a tie with delta zero, so the baseline policy
  neither wins nor loses as long as each group has one baseline run.
\<close>

theorem baseline_ties_itself:
  assumes "fle fzero t" and "i < length rows"
    and "filter (is_baseline p (group_key (rows ! i))) rows = bs @ [rows ! i]"
    and "metric (rows ! i) ''mean_latency'' = Some v" and "\<not> feq v fzero"
  shows "row_get (build_policy_comparison rows p t ! i) ''classification'' = PStr ''tie'' \<and>
    metric (build_policy_comparison rows p t ! i) ''mean_latency_delta_pct'' = Some (fdiv fzero v) \<and>
    fval (fdiv fzero v) = 0"
proof (intro conjI)
  let ?row = "rows ! i"
  have v: "is_finite v" using metric_finite [OF assms(4)] by simp
  note zero = zero_delta [OF v assms(5)]
  have row: "?row \<noteq> []"
  proof
    assume "?row = []"
    then have "metric ?row ''mean_latency'' = None" by (simp add: row_defs)
    with assms(4) show False by simp
  qed
  then have base: "baseline_metric (Some ?row) ''mean_latency'' = Some v"
    by (simp add: baseline_metric_def assms(4))
  have delta: "ratio_delta (metric ?row ''mean_latency'') (baseline_metric (Some ?row) ''mean_latency'') =
      Some (fdiv fzero v)"
    using base v assms(4,5) by (simp add: ratio_delta_def fsub_self)
  have out: "build_policy_comparison rows p t ! i = comparison_row ?row p (Some ?row) t"
    using comparison_nth [OF assms(2), of p t] by (simp add: assms(3))
  have cmp: "\<not> flt (fdiv fzero v) (fneg t)" "\<not> flt t (fdiv fzero v)"
    using zero_within [OF assms(1) zero] by blast+
  show "row_get (build_policy_comparison rows p t ! i) ''classification'' = PStr ''tie''"
    unfolding out row_get_def metric_columns delta by (simp add: classify_delta_def cmp)
  show "metric (build_policy_comparison rows p t ! i) ''mean_latency_delta_pct'' = Some (fdiv fzero v)"
    unfolding out metric_def [of "comparison_row _ _ _ _"] row_get_def [of "comparison_row _ _ _ _"] metric_columns delta
    by (simp add: option_value_def float_or_none_PFloat zero)
  show "fval (fdiv fzero v) = 0" by (rule zero(2))
qed

section \<open>On a concrete table\<close>

definition demo_table :: "table_row list" where
  "demo_table =
    [[(''policy'', PStr ''lru''), (''mean_latency'', PStr ''100''), (''seed'', PStr ''7'')],
     [(''policy'', PStr ''lru''), (''mean_latency'', PStr ''64.0''), (''seed'', PStr ''8'')],
     [(''policy'', PStr ''contention_aware''), (''mean_latency'', PStr ''48''), (''seed'', PStr ''8'')]]"

lemma demo_group_keys:
  "filter (is_baseline ''lru'' (group_key (demo_table ! 2))) demo_table = [demo_table ! 1]"
  "filter (is_baseline ''lru'' (group_key (demo_table ! 1))) demo_table = [] @ [demo_table ! 1]"
  by (simp_all add: demo_table_def is_baseline_def group_key_def GROUP_COLUMNS_def row_defs)

lemma demo_numbers:
  "py_float ''64.0'' = Some (Fin False (2 ^ 52) (- 46))" "py_float ''48'' = Some (Fin False (3 * 2 ^ 51) (- 47))"
  using py_float_point [of "''64''" "''0''"] by (simp_all add: py_float_digits literal_defs cong: eval_congs)

lemma demo_metrics:
  "metric (demo_table ! 1) ''mean_latency'' = Some (Fin False (2 ^ 52) (- 46))"
  "metric (demo_table ! 2) ''mean_latency'' = Some (Fin False (3 * 2 ^ 51) (- 47))"
  by (simp_all only: demo_table_def nth_Cons_numeral nth_Cons_0 nth_Cons_Suc One_nat_def metric_def row_get_def row_get_or_def)
    (simp_all add: float_or_none_text demo_numbers)

lemma demo_length [simp]: "length demo_table = 3"
  by (simp add: demo_table_def)

theorem policy_comparison_join_witness:
  "row_get (build_policy_comparison demo_table ''lru'' (flit 2 2) ! 2) ''baseline_mean_latency'' =
     PFloat (Fin False (2 ^ 52) (- 46))"
  using policy_comparison_join [of 2 demo_table "''lru''" "flit 2 2"] demo_group_keys(1) demo_metrics(1)
  by (simp add: option_value_def)

lemma demo_out:
  "build_policy_comparison demo_table ''lru'' t ! 2 = comparison_row (demo_table ! 2) ''lru'' (Some (demo_table ! 1)) t"
  using comparison_nth [of 2 demo_table "''lru''" t] by (simp add: demo_group_keys(1))

lemma demo_base: "baseline_metric (Some (demo_table ! 1)) ''mean_latency'' = Some (Fin False (2 ^ 52) (- 46))"
proof -
  have "demo_table ! 1 \<noteq> []" by (simp add: demo_table_def)
  then show ?thesis by (simp only: baseline_metric_def option.case if_False demo_metrics)
qed

lemma demo_classification:
  "row_get (build_policy_comparison demo_table ''lru'' (flit 2 2) ! 2) ''classification'' = PStr ''win''"
  unfolding demo_out row_get_def metric_columns demo_metrics demo_base
  by (simp add: ratio_delta_def classify_delta_def eval_simps cong: eval_congs)

lemma demo_threshold: "fle fzero (flit 2 2)"
  by (simp add: eval_simps cong: eval_congs)

theorem win_is_faster_witness:
  "\<exists>v b. row_get (build_policy_comparison demo_table ''lru'' (flit 2 2) ! 2) ''mean_latency'' = PFloat v \<and>
     row_get (build_policy_comparison demo_table ''lru'' (flit 2 2) ! 2) ''baseline_mean_latency'' = PFloat b \<and>
     (if (''win'' = ''win'') = flt fzero b then flt v b else flt b v)"
  by (rule win_is_faster [OF demo_threshold nth_mem demo_classification]) simp_all

theorem baseline_ties_itself_witness:
  "row_get (build_policy_comparison demo_table ''lru'' (flit 2 2) ! 1) ''classification'' = PStr ''tie''"
proof -
  have "\<not> feq (Fin False (2 ^ 52) (- 46)) fzero" by (simp add: eval_simps)
  from baseline_ties_itself [OF demo_threshold _ demo_group_keys(2) demo_metrics(1) this]
  show ?thesis by simp
qed

end
