(* ===== verification/PlotSummary.thy ===== *)
theory PlotSummary
  imports PlotCompare "HOL-Library.Multiset"
begin

text \<open>
  The tables \<^verbatim>\<open>scripts/plot_results.py\<close> derives from the comparison rows: averages over
  policies and over the values of each experiment dimension, and the final table with the
  variation across seeds. \<open>x ** 2\<close> on floats is the C library's \<open>pow\<close> and \<open>math.sqrt\<close> its
  \<open>sqrt\<close>; they are the parameters \<open>square\<close> and \<open>square_root\<close> below.
\<close>

section \<open>Columns of numbers\<close>

definition numeric_values :: "table_row list \<Rightarrow> string \<Rightarrow> pyfloat list" where
  "numeric_values rows column =
     concat (map (\<lambda>row. case float_or_none (row_get row column) of None \<Rightarrow> [] | Some v \<Rightarrow> [v]) rows)"

definition fmean :: "pyfloat list \<Rightarrow> pyfloat" where
  "fmean values = fdiv (fsum values) (float_of_int (int (length values)))"

definition average :: "table_row list \<Rightarrow> string \<Rightarrow> pyfloat option" where
  "average rows column =
     (let values = numeric_values rows column in if values = [] then None else Some (fmean values))"

definition sample_standard_deviation ::
    "(pyfloat \<Rightarrow> pyfloat res) \<Rightarrow> (pyfloat \<Rightarrow> pyfloat res) \<Rightarrow> pyfloat list \<Rightarrow> pyfloat option res" where
  "sample_standard_deviation square square_root values =
     (if length values < 2 then Inr None
      else let mean = fmean values
        in bindR (mapR (\<lambda>value. square (fsub value mean)) values)
             (\<lambda>squares. let variance = fdiv (fsum squares) (float_of_int (int (length values) - 1))
                in bindR (square_root variance) (\<lambda>r. Inr (Some r))))"

section \<open>Selections\<close>

definition rows_for_preferred_presets ::
    "table_row list \<Rightarrow> string list \<Rightarrow> string list \<Rightarrow> table_row list" where
  "rows_for_preferred_presets rows preferred fallback =
     (let selected = filter (\<lambda>row. row_text row ''preset'' \<in> set preferred) rows
      in if selected \<noteq> [] then selected
         else filter (\<lambda>row. row_text row ''preset'' \<in> set fallback) rows)"

definition count_class :: "table_row list \<Rightarrow> string \<Rightarrow> nat" where
  "count_class rows name = length (filter (\<lambda>row. row_get row ''classification'' = PStr name) rows)"

definition has_baseline :: "table_row \<Rightarrow> bool" where
  "has_baseline row = (row_get row ''classification'' \<noteq> PStr ''no_baseline'')"

text \<open>
  Policy labels are texts or, from a short record, \<open>None\<close>; the false ones are left out. The
  labels outside the preferred order follow it in code point order.
\<close>

definition present_policies :: "table_row list \<Rightarrow> string list" where
  "present_policies rows = concat (map (\<lambda>row. case row_get row ''policy'' of
     PStr s \<Rightarrow> if s = [] then [] else [s] | _ \<Rightarrow> []) rows)"

definition ordered_policies :: "table_row list \<Rightarrow> string list" where
  "ordered_policies rows =
     (let present = present_policies rows;
          ordered = filter (\<lambda>policy. policy \<in> set present) PREFERRED_POLICY_ORDER
      in ordered @ sort (remdups (filter (\<lambda>policy. policy \<notin> set ordered) present)))"

definition policy_order_key :: "string \<Rightarrow> order_key" where
  "policy_order_key policy =
     (if policy \<in> set PREFERRED_POLICY_ORDER then Listed (index_of policy PREFERRED_POLICY_ORDER)
      else Label policy)"

section \<open>The final policy table\<close>

text \<open>A true quotient of two counts is rounded once.\<close>

definition count_ratio :: "nat \<Rightarrow> nat \<Rightarrow> pyfloat" where
  "count_ratio n d = round_ratio False n d"

definition metric_specs :: "(string \<times> string \<times> string \<times> pyfloat) list" where
  "metric_specs =
    [(''mean_latency_delta_pct'', ''mean_latency_improvement_pct'', ''seed_std_latency_improvement_pct'', fneg (flit 100 0)),
     (''p99_latency_delta_pct'', ''mean_p99_improvement_pct'', ''seed_std_p99_improvement_pct'', fneg (flit 100 0)),
     (''average_memory_wait_delta_pct'', ''mean_memory_wait_reduction_pct'', ''seed_std_memory_wait_reduction_pct'', fneg (flit 100 0)),
     (''local_hit_rate'', ''mean_local_hit_rate'', ''seed_std_local_hit_rate'', flit 1 0)]"

definition seed_means :: "(string \<times> table_row list) list \<Rightarrow> string \<Rightarrow> pyfloat \<Rightarrow> pyfloat list" where
  "seed_means by_seed source scale =
     concat (map (\<lambda>(seed, rows). case average rows source of None \<Rightarrow> [] | Some m \<Rightarrow> [fmul scale m]) by_seed)"

definition metric_cells ::
    "(pyfloat \<Rightarrow> pyfloat res) \<Rightarrow> (pyfloat \<Rightarrow> pyfloat res) \<Rightarrow> (string \<times> table_row list) list \<Rightarrow>
     string \<times> string \<times> string \<times> pyfloat \<Rightarrow> table_row res" where
  "metric_cells square square_root by_seed spec =
     (case spec of (source, mean_column, std_column, scale) \<Rightarrow>
        let means = seed_means by_seed source scale
        in bindR (sample_standard_deviation square square_root means)
             (\<lambda>std. Inr [(mean_column, if means = [] then PNone else PFloat (fmean means)),
                         (std_column, option_value std)]))"

definition final_counts :: "string \<Rightarrow> table_row list \<Rightarrow> table_row" where
  "final_counts policy policy_rows =
     (let by_seed = group_by (\<lambda>row. row_text row ''seed'') policy_rows;
          comparable = filter has_baseline policy_rows
      in [(''policy'', PStr policy),
          (''seed_count'', PInt (int (length by_seed))),
          (''comparable_run_count'', PInt (int (length comparable))),
          (''win_rate'', if comparable = [] then PNone
             else PFloat (count_ratio (count_class comparable ''win'') (length comparable)))])"

definition final_policy_row ::
    "(pyfloat \<Rightarrow> pyfloat res) \<Rightarrow> (pyfloat \<Rightarrow> pyfloat res) \<Rightarrow> string \<Rightarrow> table_row list \<Rightarrow> table_row res" where
  "final_policy_row square square_root policy policy_rows =
     (let by_seed = group_by (\<lambda>row. row_text row ''seed'') policy_rows
      in bindR (mapR (metric_cells square square_root by_seed) metric_specs)
           (\<lambda>cells. Inr (final_counts policy policy_rows @ concat cells)))"

definition build_final_policy_table ::
    "(pyfloat \<Rightarrow> pyfloat res) \<Rightarrow> (pyfloat \<Rightarrow> pyfloat res) \<Rightarrow> table_row list \<Rightarrow> table_row list res" where
  "build_final_policy_table square square_root comparison_rows =
     (let rows = rows_for_preferred_presets comparison_rows [''eval_final_policy_iteration''] [''eval_policy_iteration''];
          by_policy = group_by (\<lambda>row. row_text row ''policy'')
            (filter (\<lambda>row. row_text row ''policy'' \<in> set FINAL_REPORT_POLICY_ORDER) rows)
      in bindR (mapR (\<lambda>policy. case map_of by_policy policy of
             None \<Rightarrow> Inr []
           | Some policy_rows \<Rightarrow>
               bindR (final_policy_row square square_root policy policy_rows) (\<lambda>row. Inr [row])) FINAL_REPORT_POLICY_ORDER)
           (\<lambda>parts. Inr (concat parts)))"

section \<open>One row per policy\<close>

definition extreme :: "(pyfloat \<Rightarrow> pyfloat list \<Rightarrow> pyfloat) \<Rightarrow> pyfloat list \<Rightarrow> pyval" where
  "extreme pick values = (case values of [] \<Rightarrow> PNone | v # vs \<Rightarrow> PFloat (pick v vs))"

definition policy_summary_row :: "string \<Rightarrow> table_row list \<Rightarrow> table_row" where
  "policy_summary_row policy rows =
    (let comparable = filter has_baseline rows;
         mean_deltas = numeric_values comparable ''mean_latency_delta_pct'';
         avg = (\<lambda>column rs source. (column, option_value (average rs source)));
         count = (\<lambda>n. PInt (int n))
     in [(''policy'', PStr policy),
         (''run_count'', count (length rows)),
         (''comparable_run_count'', count (length comparable)),
         (''win_count'', count (count_class comparable ''win'')),
         (''tie_count'', count (count_class comparable ''tie'')),
         (''loss_count'', count (count_class comparable ''loss'')),
         avg ''avg_mean_latency'' rows ''mean_latency'',
         avg ''avg_p99_latency'' rows ''p99_latency'',
         avg ''avg_local_hit_rate'' rows ''local_hit_rate'',
         avg ''avg_average_memory_wait'' rows ''average_memory_wait'',
         avg ''avg_total_remote_accesses'' rows ''total_remote_accesses'',
         avg ''avg_mean_latency_delta_pct'' comparable ''mean_latency_delta_pct'',
         (''best_mean_latency_delta_pct'', extreme fminimum mean_deltas),
         (''worst_mean_latency_delta_pct'', extreme fmaximum mean_deltas),
         avg ''avg_p99_latency_delta_pct'' comparable ''p99_latency_delta_pct'',
         avg ''avg_local_hit_rate_delta'' comparable ''local_hit_rate_delta'',
         avg ''avg_average_memory_wait_delta_pct'' comparable ''average_memory_wait_delta_pct'',
         avg ''avg_total_remote_accesses_delta_pct'' comparable ''total_remote_accesses_delta_pct'',
         avg ''avg_admission_yield'' rows ''admission_yield'',
         avg ''avg_reuse_after_admit_rate'' rows ''reuse_after_admit_rate'',
         avg ''avg_stale_telemetry_rate'' rows ''stale_telemetry_rate'',
         avg ''avg_average_top_object_overlap'' rows ''average_top_object_overlap'',
         avg ''avg_estimated_avoided_remote_accesses'' rows ''estimated_avoided_remote_accesses'',
         avg ''avg_estimated_avoided_contention_cost'' rows ''estimated_avoided_contention_cost'',
         avg ''avg_eviction_regret_count'' rows ''eviction_regret_count'',
         avg ''avg_jain_inverse_latency_fairness'' rows ''jain_inverse_latency_fairness'',
         avg ''avg_jain_inverse_latency_fairness_delta'' comparable ''jain_inverse_latency_fairness_delta''])"

lemma policy_summary_row_policy: "''policy'' \<in> fst ` set (policy_summary_row policy rows)"
  unfolding policy_summary_row_def Let_def list.set image_insert fst_conv by (rule insertI1)

definition build_policy_summary :: "table_row list \<Rightarrow> table_row list res" where
  "build_policy_summary comparison_rows =
     bindR (foldR (\<lambda>d row. bindR (dict_get row ''policy'') (\<lambda>policy. Inr (dict_append policy row d))) [] comparison_rows)
       (\<lambda>by_policy. Inr (map (\<lambda>policy. policy_summary_row policy
            (case map_of by_policy (PStr policy) of None \<Rightarrow> [] | Some rows \<Rightarrow> rows))
          (ordered_policies comparison_rows)))"

section \<open>One row per value of a dimension\<close>

text \<open>
  The keys are sorted as pairs. Two keys that first differ where one holds \<open>None\<close> and the
  other a text have no order, and every sort has to compare such a pair at some point.
\<close>

type_synonym condition_key = "pyval \<times> pyval"

definition comparable_values :: "pyval \<Rightarrow> pyval \<Rightarrow> bool" where
  "comparable_values a b = (case (a, b) of (PStr _, PStr _) \<Rightarrow> True | _ \<Rightarrow> False)"

definition comparable_keys :: "condition_key \<Rightarrow> condition_key \<Rightarrow> bool" where
  "comparable_keys a b =
     (if fst a \<noteq> fst b then comparable_values (fst a) (fst b)
      else if snd a \<noteq> snd b then comparable_values (snd a) (snd b) else True)"

definition label_text :: "pyval \<Rightarrow> string" where
  "label_text v = (case v of PStr s \<Rightarrow> s | _ \<Rightarrow> [])"

definition sorted_items :: "(condition_key \<times> 'a) list \<Rightarrow> (condition_key \<times> 'a) list res" where
  "sorted_items items =
     bindR (guardR (list_all (\<lambda>a. list_all (\<lambda>b. comparable_keys (fst a) (fst b)) items) items) TypeError)
       (\<lambda>_. Inr (sort_key (\<lambda>(k, rows). (label_text (fst k), label_text (snd k))) items))"

definition condition_row :: "string \<Rightarrow> pyval \<Rightarrow> pyval \<Rightarrow> table_row list \<Rightarrow> table_row" where
  "condition_row dimension value policy rows =
    (let avg = (\<lambda>column source. (column, option_value (average rows source)));
         count = (\<lambda>column n. (column, PInt (int n)))
     in [(''dimension'', PStr dimension), (''value'', value), (''policy'', policy),
         count ''run_count'' (length rows),
         count ''win_count'' (count_class rows ''win''),
         count ''tie_count'' (count_class rows ''tie''),
         count ''loss_count'' (count_class rows ''loss''),
         avg ''avg_mean_latency'' ''mean_latency'',
         avg ''avg_mean_latency_delta_pct'' ''mean_latency_delta_pct'',
         avg ''avg_p99_latency_delta_pct'' ''p99_latency_delta_pct'',
         avg ''avg_local_hit_rate'' ''local_hit_rate'',
         avg ''avg_average_memory_wait'' ''average_memory_wait'',
         avg ''avg_stale_telemetry_rate'' ''stale_telemetry_rate'',
         avg ''avg_estimated_avoided_contention_cost'' ''estimated_avoided_contention_cost''])"

definition condition_key_of :: "string \<Rightarrow> table_row \<Rightarrow> condition_key" where
  "condition_key_of dimension row =
     (row_get_or row dimension (PStr []), row_get_or row ''policy'' (PStr []))"

definition dimension_rows :: "string \<Rightarrow> table_row list \<Rightarrow> table_row list res" where
  "dimension_rows dimension comparison_rows =
     bindR (sorted_items (group_by (condition_key_of dimension) comparison_rows))
       (\<lambda>items. Inr (map (\<lambda>((value, policy), rows). condition_row dimension value policy rows) items))"

definition build_condition_summary :: "table_row list \<Rightarrow> table_row list res" where
  "build_condition_summary comparison_rows =
     bindR (mapR (\<lambda>dimension. dimension_rows dimension comparison_rows) CONDITION_DIMENSIONS)
       (\<lambda>parts. Inr (concat parts))"

section \<open>Counting\<close>

lemma count_list_map: "count_list (map key xs) k = length (filter (\<lambda>x. key x = k) xs)"
  by (induction xs) auto

lemma group_by_lengths: "(\<Sum>(k, ys)\<leftarrow>group_by key xs. length ys) = length xs"
proof -
  let ?ks = "map fst (group_by key xs)"
  have "(\<Sum>(k, ys)\<leftarrow>group_by key xs. length ys) = (\<Sum>(k, ys)\<leftarrow>group_by key xs. count_list (map key xs) k)"
    by (intro arg_cong [of _ _ sum_list] map_cong refl) (auto simp: count_list_map dest: group_by_entry(1))
  also have "\<dots> = (\<Sum>k\<leftarrow>?ks. count_list (map key xs) k)"
    by (simp add: comp_def case_prod_unfold)
  also have "\<dots> = sum (count_list (map key xs)) (set ?ks)"
    by (rule sum_list_distinct_conv_sum_set [OF distinct_group_by])
  also have "\<dots> = length (map key xs)"
    by (rule sum_count_set) (simp_all add: keys_group_by)
  finally show ?thesis by simp
qed

definition count_of :: "string \<Rightarrow> table_row \<Rightarrow> int" where
  "count_of column row = (case row_get row column of PInt i \<Rightarrow> i | _ \<Rightarrow> - 1)"

text \<open>The classes of compared rows.\<close>

definition classes_known :: "table_row list \<Rightarrow> bool" where
  "classes_known rows = list_all (\<lambda>row. list_ex (\<lambda>c. row_get row ''classification'' = PStr c)
     [''win'', ''tie'', ''loss'', ''no_baseline'']) rows"

lemma comparison_classes: "classes_known (build_policy_comparison rows p t)"
proof -
  have "\<exists>c\<in>{''win'', ''tie'', ''loss'', ''no_baseline''}. classify_delta d t = c" for d
    by (auto simp: classify_delta_def split: option.split)
  then show ?thesis
    by (auto simp: classes_known_def list_all_iff build_policy_comparison_def Let_def row_get_def metric_columns)
qed

lemma classes_known_filter: "classes_known rows \<Longrightarrow> classes_known (filter P rows)"
  by (auto simp: classes_known_def list_all_iff)

lemma class_partition:
  assumes "classes_known rows"
  shows "count_class rows ''win'' + count_class rows ''tie'' + count_class rows ''loss'' =
      length (filter has_baseline rows)"
    and "count_class (filter has_baseline rows) ''win'' = count_class rows ''win''"
    and "count_class (filter has_baseline rows) ''tie'' = count_class rows ''tie''"
    and "count_class (filter has_baseline rows) ''loss'' = count_class rows ''loss''"
  using assms by (induction rows) (auto simp: classes_known_def count_class_def has_baseline_def)

section \<open>The policy summary\<close>

lemma distinct_preferred: "distinct PREFERRED_POLICY_ORDER"
  by (simp add: PREFERRED_POLICY_ORDER_def)

lemma ordered_policies_set:
  "set (ordered_policies rows) = set (present_policies rows)" "distinct (ordered_policies rows)"
  using distinct_preferred by (auto simp: ordered_policies_def Let_def)

lemma present_count:
  assumes "s \<noteq> []"
  shows "count_list (present_policies rows) s = length (filter (\<lambda>row. row_get row ''policy'' = PStr s) rows)"
  using assms by (induction rows) (auto simp: present_policies_def split: pyval.split)

lemma present_policies_ne: "s \<in> set (present_policies rows) \<Longrightarrow> s \<noteq> []"
  by (auto simp: present_policies_def split: pyval.splits if_splits)

lemma by_policy_groups:
  assumes "\<forall>row\<in>set rows. ''policy'' \<in> fst ` set row"
  shows "foldR (\<lambda>d row. bindR (dict_get row ''policy'') (\<lambda>policy. Inr (dict_append policy row d))) [] rows =
    Inr (group_by (\<lambda>row. row_get row ''policy'') rows)"
  using assms
proof (induction rows rule: rev_induct)
  case (snoc row rows)
  then obtain v where "map_of row ''policy'' = Some v" by (auto simp: image_iff dest!: weak_map_of_SomeI)
  then show ?case using snoc by (simp add: foldR_append group_by_snoc dict_get_def row_get_def row_get_or_def)
qed simp

lemma comparison_has_policy: "\<forall>row\<in>set (build_policy_comparison rows p t). ''policy'' \<in> fst ` set row"
proof -
  have "''policy'' \<in> fst ` set (comparison_row row p b t)" for row b
    unfolding comparison_row_def keys_dict_update by (simp add: label_entries_def Let_def)
  then show ?thesis by (auto simp: build_policy_comparison_def Let_def)
qed

lemma summary_counts:
  assumes "classes_known rows" and "r = policy_summary_row policy rows"
  shows "count_of ''run_count'' r = int (length rows)"
    and "count_of ''win_count'' r + count_of ''tie_count'' r + count_of ''loss_count'' r = count_of ''comparable_run_count'' r"
    and "count_of ''comparable_run_count'' r \<le> count_of ''run_count'' r"
    and "row_get r ''policy'' = PStr policy"
  using class_partition [OF assms(1)]
  by (simp_all add: assms(2) policy_summary_row_def count_of_def row_get_def row_get_or_def Let_def flip: of_nat_add)

text \<open>
  C22. The policy summary exists for every input and accounts for every run: one row per
  policy in presentation order; its wins, ties and losses are its comparable runs, which are
  among its runs; and the run counts of all policies add up to the number of runs with a
  policy label.
\<close>

theorem policy_summary_accounts:
  "\<exists>out. build_policy_summary (build_policy_comparison rows p t) = Inr out \<and>
     map (\<lambda>r. row_get r ''policy'') out = map PStr (ordered_policies (build_policy_comparison rows p t)) \<and>
     list_all (\<lambda>r. count_of ''win_count'' r + count_of ''tie_count'' r + count_of ''loss_count'' r =
         count_of ''comparable_run_count'' r \<and> count_of ''comparable_run_count'' r \<le> count_of ''run_count'' r) out \<and>
     (\<Sum>r\<leftarrow>out. count_of ''run_count'' r) = int (length (present_policies (build_policy_comparison rows p t)))"
proof -
  let ?cs = "build_policy_comparison rows p t"
  let ?sel = "\<lambda>policy. filter (\<lambda>row. row_get row ''policy'' = PStr policy) ?cs"
  let ?out = "map (\<lambda>policy. policy_summary_row policy (?sel policy)) (ordered_policies ?cs)"
  have known: "classes_known (?sel policy)" for policy
    by (rule classes_known_filter [OF comparison_classes])
  have sel: "(case map_of (group_by (\<lambda>row. row_get row ''policy'') ?cs) (PStr policy) of None \<Rightarrow> [] | Some rs \<Rightarrow> rs) =
      ?sel policy" for policy
    by (simp add: map_of_group_by, intro impI, rule sym, force simp: filter_empty_conv)
  have built: "build_policy_summary ?cs = Inr ?out"
    unfolding build_policy_summary_def by_policy_groups [OF comparison_has_policy] bindR_simps sel by (rule refl)
  have "(\<Sum>r\<leftarrow>?out. count_of ''run_count'' r) = (\<Sum>policy\<leftarrow>ordered_policies ?cs. int (length (?sel policy)))"
    by (simp add: summary_counts(1) [OF known refl] comp_def)
  also have "\<dots> = (\<Sum>policy\<leftarrow>ordered_policies ?cs. int (count_list (present_policies ?cs) policy))"
    using present_policies_ne [of _ ?cs] ordered_policies_set(1) [of ?cs]
    by (intro arg_cong [of _ _ sum_list] map_cong refl) (simp add: present_count)
  also have "\<dots> = int (sum (count_list (present_policies ?cs)) (set (ordered_policies ?cs)))"
    by (simp add: sum_list_distinct_conv_sum_set ordered_policies_set(2))
  also have "\<dots> = int (length (present_policies ?cs))"
    by (simp only: sum_count_set ordered_policies_set(1) order_refl List.finite_set)
  finally have total: "(\<Sum>r\<leftarrow>?out. count_of ''run_count'' r) = int (length (present_policies ?cs))" .
  show ?thesis
    by (intro exI [of _ ?out] conjI total built)
      (simp_all add: summary_counts(2-4) [OF known refl] comp_def list_all_iff)
qed

section \<open>The condition summary\<close>

lemma condition_items:
  "dimension_rows d rows = Inr out \<longleftrightarrow>
     list_all (\<lambda>a. list_all (\<lambda>b. comparable_keys (fst a) (fst b)) (group_by (condition_key_of d) rows))
       (group_by (condition_key_of d) rows) \<and>
     out = map (\<lambda>((value, policy), rs). condition_row d value policy rs)
       (sort_key (\<lambda>(k, rs). (label_text (fst k), label_text (snd k))) (group_by (condition_key_of d) rows))"
  by (auto simp: dimension_rows_def sorted_items_def bindR_Inr_iff guardR_Inr_iff)

lemma comparable_groups:
  "list_all (\<lambda>a. list_all (\<lambda>b. comparable_keys (fst a) (fst b)) (group_by (condition_key_of d) rows))
       (group_by (condition_key_of d) rows) \<longleftrightarrow>
   (\<forall>r\<in>set rows. \<forall>r'\<in>set rows. comparable_keys (condition_key_of d r) (condition_key_of d r'))"
proof -
  have *: "list_all (\<lambda>a. list_all (\<lambda>b. comparable_keys (fst a) (fst b)) xs) xs \<longleftrightarrow>
      (\<forall>a\<in>fst ` set xs. \<forall>b\<in>fst ` set xs. comparable_keys a b)" for xs :: "(condition_key \<times> table_row list) list"
    by (simp add: list_all_iff)
  show ?thesis unfolding * keys_group_by by blast
qed

lemma mapR_Inr_or_error:
  "(\<exists>ys. mapR f xs = Inr ys) \<longleftrightarrow> (\<forall>x\<in>set xs. \<exists>y. f x = Inr y)"
proof (induction xs)
  case (Cons x xs)
  then show ?case by (cases "f x"; cases "mapR f xs") auto
qed simp

lemma condition_summary_eq:
  "build_condition_summary rows =
     (if list_all (\<lambda>d. list_all (\<lambda>r. list_all (\<lambda>r'. comparable_keys (condition_key_of d r) (condition_key_of d r')) rows) rows)
           CONDITION_DIMENSIONS
      then Inr (concat (map (\<lambda>d. map (\<lambda>((value, policy), rs). condition_row d value policy rs)
          (sort_key (\<lambda>(k, rs). (label_text (fst k), label_text (snd k))) (group_by (condition_key_of d) rows)))
        CONDITION_DIMENSIONS))
      else Inl TypeError)"
proof -
  let ?ok = "\<lambda>d. \<forall>r\<in>set rows. \<forall>r'\<in>set rows. comparable_keys (condition_key_of d r) (condition_key_of d r')"
  let ?val = "\<lambda>d. map (\<lambda>((value, policy), rs). condition_row d value policy rs)
      (sort_key (\<lambda>(k, rs). (label_text (fst k), label_text (snd k))) (group_by (condition_key_of d) rows))"
  have step: "dimension_rows d rows = (if ?ok d then Inr (?val d) else Inl TypeError)" for d
    unfolding comparable_groups [symmetric] by (simp add: dimension_rows_def sorted_items_def guardR_def)
  have "mapR (\<lambda>d. dimension_rows d rows) ds = (if \<forall>d\<in>set ds. ?ok d then Inr (map ?val ds) else Inl TypeError)" for ds
    by (induction ds) (auto simp: step)
  then show ?thesis by (simp add: build_condition_summary_def list_all_iff)
qed


lemma concat_filter_dimension:
  assumes "distinct ds" and "d \<in> set ds" and "\<And>d' x. x \<in> set (f d') \<Longrightarrow> P d x \<longleftrightarrow> d' = d"
  shows "filter (P d) (concat (map f ds)) = f d"
proof -
  have none: "filter (P d) (f d') = (if d' = d then f d else [])" for d'
    using assms(3) [of _ d'] by (auto simp: filter_empty_conv filter_id_conv)
  have "filter (P d) (concat (map f ds)) = (if d \<in> set ds then f d else [])"
    using assms(1) by (induction ds) (auto simp: none)
  then show ?thesis using assms(2) by simp
qed

lemma condition_dimensions_distinct: "distinct CONDITION_DIMENSIONS"
  by (simp add: CONDITION_DIMENSIONS_def)

lemma condition_row_columns:
  "row_get (condition_row d v p rs) ''dimension'' = PStr d"
  "count_of ''run_count'' (condition_row d v p rs) = int (length rs)"
  by (simp_all add: condition_row_def count_of_def row_get_def row_get_or_def Let_def)

text \<open>
  Under every dimension the condition summary counts every run exactly once.\<close>

theorem condition_summary_accounts:
  assumes "build_condition_summary rows = Inr out" and "d \<in> set CONDITION_DIMENSIONS"
  shows "(\<Sum>r\<leftarrow>filter (\<lambda>r. row_get r ''dimension'' = PStr d) out. count_of ''run_count'' r) = int (length rows)"
proof -
  let ?items = "\<lambda>d. sort_key (\<lambda>(k, rs). (label_text (fst k), label_text (snd k))) (group_by (condition_key_of d) rows)"
  let ?val = "\<lambda>d. map (\<lambda>((value, policy), rs). condition_row d value policy rs) (?items d)"
  have "\<exists>parts. mapR (\<lambda>d. dimension_rows d rows) CONDITION_DIMENSIONS = Inr parts \<and> out = concat parts"
    using assms(1) by (auto simp: build_condition_summary_def bindR_Inr_iff)
  then obtain parts where parts: "list_all2 (\<lambda>d part. dimension_rows d rows = Inr part) CONDITION_DIMENSIONS parts"
    "out = concat parts" by (auto simp: mapR_Inr_iff)
  have "parts = map ?val CONDITION_DIMENSIONS"
    using parts(1) by (auto simp: condition_items list_all2_conv_all_nth intro!: nth_equalityI)
  then have "filter (\<lambda>r. row_get r ''dimension'' = PStr d) out = ?val d"
    unfolding parts(2) using assms(2) condition_dimensions_distinct
    by (auto intro!: concat_filter_dimension simp: condition_row_columns)
  then have "(\<Sum>r\<leftarrow>filter (\<lambda>r. row_get r ''dimension'' = PStr d) out. count_of ''run_count'' r) =
      (\<Sum>(k, rs)\<leftarrow>?items d. int (length rs))"
    by (simp add: comp_def case_prod_unfold condition_row_columns)
  also have "\<dots> = (\<Sum>(k, rs)\<leftarrow>group_by (condition_key_of d) rows. int (length rs))"
    by (simp only: mset_map mset_sort flip: sum_mset_sum_list)
  also have "\<dots> = int (length rows)"
  proof -
    have "(\<Sum>(k, rs)\<leftarrow>xs. int (length rs)) = int (\<Sum>(k, rs)\<leftarrow>xs. length rs)" for xs :: "(condition_key \<times> table_row list) list"
      by (induction xs) auto
    then show ?thesis by (simp only: group_by_lengths)
  qed
  finally show ?thesis .
qed

section \<open>The C library\<close>

text \<open>
  What the tables rely on: a square is never negative and can only overflow; a square root
  exists unless the argument is negative, and is not negative. Infinities and NaN pass.
\<close>

definition not_negative :: "pyfloat \<Rightarrow> bool" where
  "not_negative x = (\<not> flt x fzero)"

locale libm =
  fixes square :: "pyfloat \<Rightarrow> pyfloat res" and square_root :: "pyfloat \<Rightarrow> pyfloat res"
  assumes square_value: "square x = Inr y \<Longrightarrow> not_negative y"
    and square_error: "square x = Inl e \<Longrightarrow> e = OverflowError"
    and square_root_value: "not_negative x \<Longrightarrow> \<exists>y. square_root x = Inr y \<and> not_negative y"

lemma not_negative_iff: "not_negative x \<longleftrightarrow> \<not> (fnonzero x \<and> fsign x)"
proof -
  have "flt (Inf s) fzero \<longleftrightarrow> s" "\<not> flt NaN fzero" for s by (simp_all add: fzero_def)
  then show ?thesis by (cases x) (auto simp: not_negative_def flt_fval fval_sign)
qed

lemma not_negative_fadd:
  assumes "not_negative x" and "not_negative y"
  shows "not_negative (fadd x y)"
proof (cases "is_finite x \<and> is_finite y")
  case True
  then have "0 \<le> fval x + fval y" using assms by (simp add: not_negative_def cmp_fval)
  then show ?thesis using fadd_sign(1) [of x y] True by (auto simp: not_negative_iff)
next
  case False
  then show ?thesis using assms by (cases x; cases y) (auto simp: not_negative_iff)
qed

lemma not_negative_fsum: "list_all not_negative xs \<Longrightarrow> not_negative (fsum xs)"
proof -
  have "list_all not_negative xs \<Longrightarrow> not_negative a \<Longrightarrow> not_negative (foldl fadd a xs)" for a
    by (induction xs arbitrary: a) (simp_all add: not_negative_fadd)
  moreover have "not_negative fzero" by (simp add: not_negative_def cmp_fval)
  ultimately show "list_all not_negative xs \<Longrightarrow> not_negative (fsum xs)" by (simp add: fsum_def)
qed

lemma not_negative_fdiv:
  assumes "not_negative x" and "\<not> fsign y"
  shows "not_negative (fdiv x y)"
proof (cases "is_finite y")
  case True
  then show ?thesis using assms fdiv_sign [OF True, of x] by (auto simp: not_negative_iff)
next
  case False
  then show ?thesis using assms by (cases x; cases y) (auto simp: not_negative_iff)
qed

lemma float_of_int_positive: "0 \<le> i \<Longrightarrow> \<not> fsign (float_of_int i)"
  by (simp add: float_of_int_def)

context libm
begin

lemma variance_not_negative:
  assumes "mapR (\<lambda>v. square (fsub v m)) values = Inr squares" and "0 \<le> n"
  shows "not_negative (fdiv (fsum squares) (float_of_int n))"
proof -
  have "list_all not_negative squares"
    using mapR_set [OF assms(1)] square_value by (auto simp: list_all_iff)
  then show ?thesis using assms(2) by (intro not_negative_fdiv not_negative_fsum float_of_int_positive)
qed

lemma mapR_error: "mapR f xs = Inl e \<Longrightarrow> \<exists>x\<in>set xs. f x = Inl e"
proof (induction xs)
  case (Cons x xs)
  then show ?case by (cases "f x"; cases "mapR f xs") auto
qed simp

lemma deviation_cases:
  "sample_standard_deviation square square_root values = Inl OverflowError \<or>
   (\<exists>d. sample_standard_deviation square square_root values = Inr d \<and>
      (case d of None \<Rightarrow> length values < 2 | Some s \<Rightarrow> 2 \<le> length values \<and> not_negative s))"
proof (cases "length values < 2")
  case False
  let ?f = "\<lambda>v. square (fsub v (fmean values))"
  show ?thesis
  proof (cases "mapR ?f values")
    case (Inl e)
    then have "e = OverflowError" using mapR_error [OF Inl] square_error by blast
    then show ?thesis using Inl False by (simp add: sample_standard_deviation_def Let_def)
  next
    case (Inr squares)
    have "0 \<le> int (length values) - 1" using False by linarith
    from square_root_value [OF variance_not_negative [OF Inr this]]
    show ?thesis using Inr False by (auto simp: sample_standard_deviation_def Let_def)
  qed
qed (simp add: sample_standard_deviation_def)

end

text \<open>
  The standard functions themselves: a correctly rounded square that overflows as \<open>pow\<close>
  does, and the correctly rounded square root. The root is taken of the mantissa extended
  by 120 bits; a last bit marks an inexact root, so the final rounding is the only one.
\<close>

definition float_square :: "pyfloat \<Rightarrow> pyfloat res" where
  "float_square x = (let y = fmul x x in if is_finite x \<and> \<not> is_finite y then Inl OverflowError else Inr y)"

function isqrt :: "nat \<Rightarrow> nat" where
  "isqrt n = (if n = 0 then 0 else
     let r = 2 * isqrt (n div 4) in if Suc r * Suc r \<le> n then Suc r else r)"
  by pat_completeness auto
termination by (relation "measure id") auto

declare isqrt.simps [simp del]

lemma isqrt_bounds: "isqrt n * isqrt n \<le> n \<and> n < Suc (isqrt n) * Suc (isqrt n)"
proof (induction n rule: isqrt.induct)
  case (1 n)
  show ?case
  proof (cases "n = 0")
    case False
    define q where "q = isqrt (n div 4)"
    have "q * q \<le> n div 4" "n div 4 < Suc q * Suc q" using "1.IH" [OF False] by (simp_all add: q_def)
    then have "4 * (q * q) \<le> n" "n < 4 * (Suc q * Suc q)" by linarith+
    then show ?thesis using False by (simp add: isqrt.simps [of n] Let_def flip: q_def)
  qed (simp add: isqrt.simps)
qed

definition float_root :: "pyfloat \<Rightarrow> pyfloat res" where
  "float_root x = (case x of
     NaN \<Rightarrow> Inr NaN
   | Inf s \<Rightarrow> if s then Inl ValueError else Inr (Inf False)
   | Fin s m e \<Rightarrow>
       if m = 0 then Inr x
       else if s then Inl ValueError
       else let k = e mod 2; w = m * 2 ^ nat k * 2 ^ 120; r = isqrt w
         in Inr (of_dyadic False (2 * r + (if r * r = w then 0 else 1)) ((e - k) div 2 - 61)))"

interpretation libc: libm float_square float_root
proof
  fix x y e
  have dy: "\<not> fsign (of_dyadic False m e)" for m e by (simp add: of_dyadic_def)
  show "float_square x = Inr y \<Longrightarrow> not_negative y"
    by (cases x) (auto simp: float_square_def not_negative_iff Let_def dy split: if_splits)
  show "float_square x = Inl e \<Longrightarrow> e = OverflowError"
    by (auto simp: float_square_def Let_def split: if_splits)
  show "not_negative x \<Longrightarrow> \<exists>y. float_root x = Inr y \<and> not_negative y"
    by (cases x) (auto simp: float_root_def not_negative_iff Let_def dy)
qed

section \<open>The final table\<close>

definition final_rows :: "table_row list \<Rightarrow> table_row list" where
  "final_rows rows = rows_for_preferred_presets rows [''eval_final_policy_iteration''] [''eval_policy_iteration'']"

lemma final_by_policy:
  assumes "policy \<in> set FINAL_REPORT_POLICY_ORDER"
  shows "map_of (group_by (\<lambda>row. row_text row ''policy'')
      (filter (\<lambda>row. row_text row ''policy'' \<in> set FINAL_REPORT_POLICY_ORDER) rows)) policy =
    (let rs = filter (\<lambda>row. row_text row ''policy'' = policy) rows in if rs = [] then None else Some rs)"
proof -
  have "filter (\<lambda>row. row_text row ''policy'' = policy) (filter (\<lambda>row. row_text row ''policy'' \<in> set FINAL_REPORT_POLICY_ORDER) rows) =
      filter (\<lambda>row. row_text row ''policy'' = policy) rows"
    using assms by (auto intro: filter_cong)
  then show ?thesis
    using assms by (auto simp: map_of_group_by Let_def filter_empty_conv)
qed

lemma mapR_cong [fundef_cong]: "xs = ys \<Longrightarrow> (\<And>x. x \<in> set ys \<Longrightarrow> f x = g x) \<Longrightarrow> mapR f xs = mapR g ys"
  by (induction xs arbitrary: ys) auto

lemma mapR_one_error:
  "\<forall>x\<in>set xs. f x = Inl e \<or> (\<exists>y. f x = Inr y) \<Longrightarrow> mapR f xs = Inl e \<or> (\<exists>ys. mapR f xs = Inr ys)"
proof (induction xs)
  case (Cons x xs)
  then show ?case by (cases "f x"; cases "mapR f xs") auto
qed simp

text \<open>Every row of the final table has its policy and an improvement that is a float or missing.\<close>

lemma metric_cells_mean:
  assumes "metric_cells square square_root by_seed (source, mean, std, scale) = Inr cell"
  shows "\<exists>v rest. cell = (mean, option_value v) # rest"
proof -
  let ?means = "seed_means by_seed source scale"
  obtain d where cell: "cell = [(mean, if ?means = [] then PNone else PFloat (fmean ?means)), (std, option_value d)]"
    using assms by (auto simp: metric_cells_def Let_def bindR_Inr_iff)
  have "(if ?means = [] then PNone else PFloat (fmean ?means)) =
      option_value (if ?means = [] then None else Some (fmean ?means))"
    by (simp add: option_value_def)
  then show ?thesis using cell by blast
qed

lemma final_policy_row_cells:
  assumes "final_policy_row square square_root policy rows = Inr r"
  shows "map_of r ''policy'' = Some (PStr policy)"
    and "\<exists>v. map_of r ''mean_latency_improvement_pct'' = Some (option_value v)"
proof -
  let ?by_seed = "group_by (\<lambda>row. row_text row ''seed'') rows"
  obtain cells where cells: "mapR (metric_cells square square_root ?by_seed) metric_specs = Inr cells"
    and r: "r = final_counts policy rows @ concat cells"
    using assms by (auto simp: final_policy_row_def Let_def bindR_Inr_iff)
  have counts: "map_of (final_counts policy rows) ''policy'' = Some (PStr policy)"
    "map_of (final_counts policy rows) ''mean_latency_improvement_pct'' = None"
    by (simp_all add: final_counts_def Let_def)
  show "map_of r ''policy'' = Some (PStr policy)" by (simp add: r counts map_add_def)
  obtain cell rest where "cells = cell # rest" "metric_cells square square_root ?by_seed (hd metric_specs) = Inr cell"
    using cells by (auto simp: metric_specs_def bindR_Inr_iff)
  moreover from this(2) obtain v more where "cell = (''mean_latency_improvement_pct'', option_value v) # more"
    using metric_cells_mean unfolding metric_specs_def list.sel by blast
  ultimately show "\<exists>v. map_of r ''mean_latency_improvement_pct'' = Some (option_value v)"
    by (simp add: r counts map_add_def) blast
qed

lemma final_table_rows:
  assumes "build_final_policy_table square square_root rows = Inr out" and "r \<in> set out"
  shows "\<exists>policy policy_rows. final_policy_row square square_root policy policy_rows = Inr r"
proof -
  let ?by_policy = "group_by (\<lambda>row. row_text row ''policy'')
      (filter (\<lambda>row. row_text row ''policy'' \<in> set FINAL_REPORT_POLICY_ORDER)
        (rows_for_preferred_presets rows [''eval_final_policy_iteration''] [''eval_policy_iteration'']))"
  let ?g = "\<lambda>policy. case map_of ?by_policy policy of None \<Rightarrow> Inr []
      | Some policy_rows \<Rightarrow> bindR (final_policy_row square square_root policy policy_rows) (\<lambda>row. Inr [row])"
  obtain parts where parts: "mapR ?g FINAL_REPORT_POLICY_ORDER = Inr parts" "out = concat parts"
    using assms(1) by (auto simp: build_final_policy_table_def Let_def bindR_Inr_iff)
  obtain part where part: "part \<in> set parts" "r \<in> set part" using assms(2) parts(2) by auto
  from mapR_set [OF parts(1) part(1)] obtain policy where "?g policy = Inr part" by blast
  then show ?thesis using part(2) by (auto simp: bindR_Inr_iff split: option.splits) blast
qed

lemma final_policy_row_cases:
  assumes "libm square square_root"
  shows "final_policy_row square square_root policy rows = Inl OverflowError \<or>
    (\<exists>r. final_policy_row square square_root policy rows = Inr r \<and> row_get r ''policy'' = PStr policy)"
proof -
  let ?by_seed = "group_by (\<lambda>row. row_text row ''seed'') rows"
  have "metric_cells square square_root ?by_seed spec = Inl OverflowError \<or>
      (\<exists>cs. metric_cells square square_root ?by_seed spec = Inr cs)" for spec
  proof -
    obtain source mean std scale where spec: "spec = (source, mean, std, scale)" by (metis prod_cases4)
    show ?thesis
      using libm.deviation_cases [OF assms, of "seed_means ?by_seed source scale"]
      unfolding spec metric_cells_def prod.case Let_def by (elim disjE exE conjE) simp_all
  qed
  then have "mapR (metric_cells square square_root ?by_seed) metric_specs = Inl OverflowError \<or>
      (\<exists>ys. mapR (metric_cells square square_root ?by_seed) metric_specs = Inr ys)"
    by (intro mapR_one_error) blast
  then show ?thesis by (auto simp: final_policy_row_def final_counts_def Let_def row_get_def row_get_or_def)
qed

lemma final_policy_table_cases:
  assumes "libm square square_root"
  shows "build_final_policy_table square square_root rows = Inl OverflowError \<or>
    (\<exists>out. build_final_policy_table square square_root rows = Inr out \<and>
       map (\<lambda>r. row_get r ''policy'') out =
         map PStr (filter (\<lambda>p. p \<in> (\<lambda>row. row_text row ''policy'') ` set (final_rows rows)) FINAL_REPORT_POLICY_ORDER))"
proof -
  let ?rows = "final_rows rows"
  let ?sel = "\<lambda>p. filter (\<lambda>row. row_text row ''policy'' = p) ?rows"
  let ?g = "\<lambda>p. if ?sel p = [] then Inr [] else bindR (final_policy_row square square_root p (?sel p)) (\<lambda>r. Inr [r])"
  have built: "build_final_policy_table square square_root rows =
      bindR (mapR ?g FINAL_REPORT_POLICY_ORDER) (\<lambda>parts. Inr (concat parts))"
    unfolding build_final_policy_table_def Let_def final_rows_def [symmetric]
    by (intro arg_cong2 [of _ _ _ _ bindR] mapR_cong refl) (simp add: final_by_policy Let_def)
  have g: "?g p = Inl OverflowError \<or> (\<exists>part. ?g p = Inr part)" for p
    using final_policy_row_cases [OF assms, of p "?sel p"] by auto
  have labels: "map (\<lambda>r. row_get r ''policy'') (concat parts) = map PStr (filter (\<lambda>p. ?sel p \<noteq> []) ps)"
    if "mapR ?g ps = Inr parts" for ps parts
    using that
  proof (induction ps arbitrary: parts)
    case (Cons p ps)
    then obtain part rest where "?g p = Inr part" "mapR ?g ps = Inr rest" "parts = part # rest"
      by (auto simp: bindR_Inr_iff)
    then show ?case
      using Cons.IH [of rest] final_policy_row_cases [OF assms, of p "?sel p"]
      by (auto split: if_splits)
  qed simp
  have found: "(\<lambda>p. ?sel p \<noteq> []) = (\<lambda>p. p \<in> (\<lambda>row. row_text row ''policy'') ` set ?rows)"
    by (auto simp: filter_empty_conv)
  consider "mapR ?g FINAL_REPORT_POLICY_ORDER = Inl OverflowError" | parts where "mapR ?g FINAL_REPORT_POLICY_ORDER = Inr parts"
    using mapR_one_error [of FINAL_REPORT_POLICY_ORDER ?g OverflowError] g by blast
  then show ?thesis
  proof cases
    case 1
    then show ?thesis unfolding built by simp
  next
    case 2
    then show ?thesis unfolding built 2 bindR_simps found [symmetric] using labels [OF 2] by blast
  qed
qed


section \<open>On concrete rows\<close>

definition demo_rows :: "table_row list" where
  "demo_rows =
    [[(''preset'', PStr ''eval_policy_iteration''), (''policy'', PStr ''lru''), (''seed'', PStr ''1''),
      (''node_count'', PStr ''4''), (''classification'', PStr ''tie'')],
     [(''preset'', PStr ''eval_policy_iteration''), (''policy'', PStr ''hotness_only_windowed''), (''seed'', PStr ''1''),
      (''node_count'', PStr ''8''), (''classification'', PStr ''win'')]]"

lemma demo_condition_summary: "\<exists>out. build_condition_summary demo_rows = Inr out"
proof -
  have "comparable_keys (condition_key_of d r) (condition_key_of d r')"
    if "r \<in> set demo_rows" "r' \<in> set demo_rows" "d \<in> set CONDITION_DIMENSIONS" for r r' d
    using that(1,2) unfolding demo_rows_def
    by (auto simp: comparable_keys_def condition_key_of_def comparable_values_def row_get_or_def)
  then show ?thesis unfolding condition_summary_eq list_all_iff by simp
qed

theorem condition_summary_accounts_witness:
  "\<exists>out. build_condition_summary demo_rows = Inr out \<and>
     (\<Sum>r\<leftarrow>filter (\<lambda>r. row_get r ''dimension'' = PStr ''node_count'') out. count_of ''run_count'' r) = 2"
proof -
  obtain out where out: "build_condition_summary demo_rows = Inr out" using demo_condition_summary by blast
  have "''node_count'' \<in> set CONDITION_DIMENSIONS" by (simp add: CONDITION_DIMENSIONS_def)
  from condition_summary_accounts [OF out this] out show ?thesis by (simp add: demo_rows_def)
qed


end
