(* ===== verification/PlotBest.thy ===== *)
theory PlotBest
  imports PlotSummary
begin

text \<open>
  The best-run examples of \<^verbatim>\<open>scripts/plot_results.py\<close>: for each policy that is not a
  baseline its run with the largest latency improvement, and every other such policy under
  the same experimental condition.
\<close>

section \<open>Ranking\<close>

definition value_for_plot :: "table_row \<Rightarrow> string \<Rightarrow> pyfloat option" where
  "value_for_plot row column = float_or_none (row_get row column)"

definition latency_improvement_pct :: "table_row \<Rightarrow> pyfloat option" where
  "latency_improvement_pct row =
     map_option (\<lambda>delta. fmul (fneg (flit 100 0)) delta) (value_for_plot row ''mean_latency_delta_pct'')"

definition is_best_run_policy :: "table_row \<Rightarrow> bool" where
  "is_best_run_policy row =
     (row_text row ''policy'' \<notin> set BEST_RUN_BASELINE_POLICIES
      \<and> value_for_plot row ''mean_latency_delta_pct'' \<noteq> None)"

definition or_else :: "pyfloat option \<Rightarrow> pyfloat \<Rightarrow> pyfloat" where
  "or_else x dflt = (case x of None \<Rightarrow> dflt | Some v \<Rightarrow> v)"

definition best_run_sort_key :: "table_row \<Rightarrow> pyfloat \<times> pyfloat \<times> pyfloat \<times> string" where
  "best_run_sort_key row =
     (or_else (value_for_plot row ''mean_latency_delta_pct'') (Inf False),
      or_else (value_for_plot row ''p99_latency_delta_pct'') (Inf False),
      fneg (or_else (value_for_plot row ''local_hit_rate'') (fneg fone)),
      row_text row ''experiment_name'')"

text \<open>Tuples compare at their first unequal position.\<close>

fun rank_less :: "pyfloat \<times> pyfloat \<times> pyfloat \<times> string \<Rightarrow> pyfloat \<times> pyfloat \<times> pyfloat \<times> string \<Rightarrow> bool" where
  "rank_less (a1, a2, a3, s) (b1, b2, b3, t) =
     (if \<not> feq a1 b1 then flt a1 b1 else if \<not> feq a2 b2 then flt a2 b2
      else if \<not> feq a3 b3 then flt a3 b3 else s < t)"

text \<open>\<open>min(rows, key=...)\<close> keeps the first of equal keys.\<close>

fun first_minimum :: "('a \<Rightarrow> 'a \<Rightarrow> bool) \<Rightarrow> 'a \<Rightarrow> 'a list \<Rightarrow> 'a" where
  "first_minimum lt x [] = x"
| "first_minimum lt x (y # ys) = first_minimum lt (if lt y x then y else x) ys"

definition best_row :: "table_row \<Rightarrow> table_row list \<Rightarrow> table_row" where
  "best_row = first_minimum (\<lambda>a b. rank_less (best_run_sort_key a) (best_run_sort_key b))"

section \<open>Rows of the two tables\<close>

definition group_part :: "string list \<Rightarrow> table_row \<Rightarrow> table_row" where
  "group_part columns row =
     map (\<lambda>column. (column, row_get_or row column (PStr []))) (filter (\<lambda>c. c \<in> set GROUP_COLUMNS) columns)"

definition best_run_summary_row :: "table_row \<Rightarrow> table_row" where
  "best_run_summary_row row =
    (let cell = (\<lambda>column. row_get_or row column (PStr []));
         plot = (\<lambda>column. (column, option_value (value_for_plot row column)))
     in dict_update (group_part BEST_RUN_COLUMNS row)
         [(''target_policy'', cell ''policy''),
          (''latency_improvement_pct'', option_value (latency_improvement_pct row)),
          plot ''mean_latency_delta_pct'', plot ''p99_latency_delta_pct'', plot ''local_hit_rate'',
          plot ''local_hit_rate_delta'', plot ''average_memory_wait_delta_pct'',
          plot ''total_remote_accesses_delta_pct'', plot ''admission_yield'',
          plot ''reuse_after_admit_rate'', plot ''stale_telemetry_rate'',
          plot ''average_top_object_overlap'',
          (''best_experiment_name'', cell ''experiment_name''),
          (''best_output_dir'', cell ''output_dir'')])"

definition best_run_context_row :: "string \<Rightarrow> table_row \<Rightarrow> table_row" where
  "best_run_context_row target_policy row =
    (let comparison_policy = row_text row ''policy'';
         cell = (\<lambda>column. row_get_or row column (PStr []));
         plot = (\<lambda>column. (column, option_value (value_for_plot row column)))
     in dict_update (group_part BEST_RUN_CONTEXT_COLUMNS row)
         [(''target_policy'', PStr target_policy),
          (''comparison_policy'', PStr comparison_policy),
          (''is_target_policy'', PBool (comparison_policy = target_policy)),
          (''latency_improvement_pct'', option_value (latency_improvement_pct row)),
          plot ''mean_latency_delta_pct'', plot ''p99_latency_delta_pct'', plot ''local_hit_rate'',
          plot ''local_hit_rate_delta'', plot ''average_memory_wait'',
          plot ''average_memory_wait_delta_pct'', plot ''total_remote_accesses'',
          plot ''total_remote_accesses_delta_pct'', plot ''admission_yield'',
          plot ''reuse_after_admit_rate'', plot ''stale_telemetry_rate'',
          plot ''average_top_object_overlap'',
          (''experiment_name'', cell ''experiment_name''),
          (''output_dir'', cell ''output_dir'')])"

section \<open>The examples\<close>

definition best_of :: "table_row list option \<Rightarrow> table_row list" where
  "best_of candidates = (case candidates of None \<Rightarrow> [] | Some rows \<Rightarrow>
     (case rows of [] \<Rightarrow> [] | row # rest \<Rightarrow> [best_row row rest]))"

lemma best_of_in: "b \<in> set (best_of candidates) \<Longrightarrow> \<exists>row rest. candidates = Some (row # rest) \<and> b = best_row row rest"
  by (cases candidates) (auto simp: best_of_def split: list.splits)

definition best_rows :: "table_row list \<Rightarrow> table_row list" where
  "best_rows comparison_rows =
     (let by_policy = group_by (\<lambda>row. row_text row ''policy'') (filter is_best_run_policy comparison_rows)
      in concat (map (\<lambda>policy. best_of (map_of by_policy policy))
           (ordered_policies (map (\<lambda>(policy, _). [(''policy'', PStr policy)]) by_policy))))"

definition peer_rows :: "table_row list \<Rightarrow> table_row \<Rightarrow> table_row list" where
  "peer_rows comparison_rows row =
     sort_key (\<lambda>item. policy_order_key (row_text item ''policy''))
       (filter is_best_run_policy
         (case map_of (group_by group_key comparison_rows) (group_key row) of None \<Rightarrow> [] | Some rows \<Rightarrow> rows))"

definition build_best_run_examples :: "table_row list \<Rightarrow> table_row list \<times> table_row list" where
  "build_best_run_examples comparison_rows =
     (let best = best_rows comparison_rows
      in (map best_run_summary_row best,
          concat (map (\<lambda>row. map (best_run_context_row (row_text row ''policy'')) (peer_rows comparison_rows row)) best)))"

section \<open>The best run is the best\<close>

lemma first_minimum_in: "first_minimum lt x xs \<in> set (x # xs)"
proof (induction xs arbitrary: x)
  case (Cons y ys)
  then show ?case using Cons [of "if lt y x then y else x"] by (auto split: if_splits)
qed simp

lemma first_minimum_le:
  fixes f :: "'a \<Rightarrow> 'b :: linorder"
  assumes "\<And>a b. a \<in> set (x # xs) \<Longrightarrow> b \<in> set (x # xs) \<Longrightarrow> (lt a b \<longrightarrow> f a \<le> f b) \<and> (\<not> lt a b \<longrightarrow> f b \<le> f a)"
    and "z \<in> set (x # xs)"
  shows "f (first_minimum lt x xs) \<le> f z"
  using assms
proof (induction xs arbitrary: x z)
  case (Cons y ys)
  let ?m = "if lt y x then y else x"
  have step: "f (first_minimum lt ?m ys) \<le> f w" if "w \<in> set (?m # ys)" for w
    using that Cons.prems(1) by (intro Cons.IH) (auto split: if_splits)
  have "f ?m \<le> f x" "f ?m \<le> f y" using Cons.prems(1) [of y x] by auto
  then show ?case
    using step [of ?m] step [of z] Cons.prems(2) by (auto intro: order.trans)
qed simp

definition delta_value :: "table_row \<Rightarrow> rat" where
  "delta_value row = fval (or_else (value_for_plot row ''mean_latency_delta_pct'') (Inf False))"

lemma eligible_delta:
  assumes "is_best_run_policy row"
  obtains d where "value_for_plot row ''mean_latency_delta_pct'' = Some d" "is_finite d" "canonical d"
    "delta_value row = fval d"
  using assms float_or_none_finite
  by (auto simp: is_best_run_policy_def delta_value_def or_else_def value_for_plot_def)

lemma rank_delta:
  assumes "is_best_run_policy a" and "is_best_run_policy b"
  shows "(rank_less (best_run_sort_key a) (best_run_sort_key b) \<longrightarrow> delta_value a \<le> delta_value b) \<and>
    (\<not> rank_less (best_run_sort_key a) (best_run_sort_key b) \<longrightarrow> delta_value b \<le> delta_value a)"
proof -
  obtain d where d: "value_for_plot a ''mean_latency_delta_pct'' = Some d" "is_finite d" "delta_value a = fval d"
    using eligible_delta [OF assms(1)] by blast
  obtain d' where d': "value_for_plot b ''mean_latency_delta_pct'' = Some d'" "is_finite d'" "delta_value b = fval d'"
    using eligible_delta [OF assms(2)] by blast
  have "feq d d' \<longleftrightarrow> fval d = fval d'" "flt d d' \<longleftrightarrow> fval d < fval d'"
    using d(2) d'(2) by (simp_all add: cmp_fval)
  then show ?thesis by (simp add: best_run_sort_key_def d d' or_else_def)
qed

lemma best_row_props:
  assumes "\<And>r. r \<in> set (row # rows) \<Longrightarrow> is_best_run_policy r"
  shows "best_row row rows \<in> set (row # rows)"
    and "z \<in> set (row # rows) \<Longrightarrow> delta_value (best_row row rows) \<le> delta_value z"
proof -
  show "best_row row rows \<in> set (row # rows)"
    unfolding best_row_def by (rule first_minimum_in)
  show "z \<in> set (row # rows) \<Longrightarrow> delta_value (best_row row rows) \<le> delta_value z"
    unfolding best_row_def by (rule first_minimum_le) (rule rank_delta; rule assms)
qed

text \<open>The candidates of one policy and the row chosen among them.\<close>

lemma best_rows_cases:
  assumes "b \<in> set (best_rows rows)"
  shows "b \<in> set rows" and "is_best_run_policy b"
    and "\<And>r. r \<in> set rows \<Longrightarrow> is_best_run_policy r \<Longrightarrow> row_text r ''policy'' = row_text b ''policy'' \<Longrightarrow>
      delta_value b \<le> delta_value r"
proof -
  let ?groups = "group_by (\<lambda>row. row_text row ''policy'') (filter is_best_run_policy rows)"
  have "\<exists>policy. b \<in> set (best_of (map_of ?groups policy))"
    using assms unfolding best_rows_def Let_def set_concat set_map by blast
  then obtain policy row rest where pick: "map_of ?groups policy = Some (row # rest)" "b = best_row row rest"
    using best_of_in by blast
  have sel: "row # rest = filter (\<lambda>r. row_text r ''policy'' = policy) (filter is_best_run_policy rows)"
    using pick(1) by (auto simp: map_of_group_by split: if_splits)
  have elem: "r \<in> set (row # rest) \<longleftrightarrow> r \<in> set rows \<and> is_best_run_policy r \<and> row_text r ''policy'' = policy" for r
    unfolding sel by auto
  note props = best_row_props [of row rest]
  have b: "b \<in> set (row # rest)" unfolding pick(2) by (rule props(1)) (simp only: elem)
  then show "b \<in> set rows" and "is_best_run_policy b" using elem by blast+
  fix r
  assume "r \<in> set rows" "is_best_run_policy r" "row_text r ''policy'' = row_text b ''policy''"
  then have "r \<in> set (row # rest)" using b elem by metis
  then show "delta_value b \<le> delta_value r"
    unfolding pick(2) by (intro props(2)) (simp_all only: elem)
qed

lemma summary_row_columns:
  "row_get (best_run_summary_row row) ''target_policy'' = row_get_or row ''policy'' (PStr [])"
  "row_get (best_run_summary_row row) ''mean_latency_delta_pct'' = option_value (value_for_plot row ''mean_latency_delta_pct'')"
  "row_get (best_run_summary_row row) ''best_experiment_name'' = row_get_or row ''experiment_name'' (PStr [])"
  unfolding best_run_summary_row_def Let_def row_get_def
  by (subst row_get_dict_update; simp)+

text \<open>
  C23. The run shown for a policy is its best one: no run of that policy that has a baseline
  and a latency has a smaller latency delta than the row of the best-run table.
\<close>

theorem best_run_is_best:
  assumes "s \<in> set (fst (build_best_run_examples rows))"
    and "r \<in> set rows" and "is_best_run_policy r"
    and "row_text r ''policy'' = value_str (row_get s ''target_policy'')"
    and "value_for_plot r ''mean_latency_delta_pct'' = Some d"
  shows "\<exists>b. row_get s ''mean_latency_delta_pct'' = PFloat b \<and> is_finite b \<and> fle b d"
proof -
  obtain row where row: "row \<in> set (best_rows rows)" "s = best_run_summary_row row"
    using assms(1) by (auto simp: build_best_run_examples_def Let_def)
  note best = best_rows_cases [OF row(1)]
  have "row_text r ''policy'' = row_text row ''policy''"
    using assms(4) by (simp add: row(2) summary_row_columns row_text_def)
  from best(3) [OF assms(2,3) this] have le: "delta_value row \<le> delta_value r" .
  obtain b where b: "value_for_plot row ''mean_latency_delta_pct'' = Some b" "is_finite b" "delta_value row = fval b"
    using eligible_delta [OF best(2)] by blast
  have d: "is_finite d" "delta_value r = fval d"
    using eligible_delta [OF assms(3)] assms(5) by (metis option.inject)+
  show ?thesis
    using le b d by (intro exI [of _ b]) (simp add: row(2) summary_row_columns option_value_def cmp_fval)
qed

lemma peer_rows_set:
  "set (peer_rows rows b) = {r \<in> set rows. is_best_run_policy r \<and> group_key r = group_key b}"
  by (auto simp: peer_rows_def map_of_group_by image_iff)

lemma peer_rows_sorted: "sorted (map (\<lambda>r. policy_order_key (row_text r ''policy'')) (peer_rows rows b))"
  by (simp add: peer_rows_def)

lemma context_row_columns:
  "row_get (best_run_context_row p row) ''target_policy'' = PStr p"
  "row_get (best_run_context_row p row) ''is_target_policy'' = PBool (row_text row ''policy'' = p)"
  "row_get (best_run_context_row p row) ''experiment_name'' = row_get_or row ''experiment_name'' (PStr [])"
  unfolding best_run_context_row_def Let_def row_get_def
  by (subst row_get_dict_update; simp)+

text \<open>
  Every best run appears in its own context as the target: among the peers of the same
  condition its policy and experiment are listed and marked.
\<close>

theorem best_run_in_context:
  assumes "s \<in> set (fst (build_best_run_examples rows))"
  shows "\<exists>c. c \<in> set (snd (build_best_run_examples rows)) \<and>
    row_get c ''is_target_policy'' = PBool True \<and>
    row_get c ''target_policy'' = PStr (value_str (row_get s ''target_policy'')) \<and>
    row_get c ''experiment_name'' = row_get s ''best_experiment_name''"
proof -
  obtain row where row: "row \<in> set (best_rows rows)" "s = best_run_summary_row row"
    using assms by (auto simp: build_best_run_examples_def Let_def)
  let ?c = "best_run_context_row (row_text row ''policy'') row"
  have "row \<in> set (peer_rows rows row)"
    using best_rows_cases(1,2) [OF row(1)] by (simp add: peer_rows_set)
  then have "?c \<in> set (snd (build_best_run_examples rows))"
    using row(1) by (auto simp: build_best_run_examples_def Let_def)
  then show ?thesis
    by (intro exI [of _ ?c]) (simp add: row(2) context_row_columns summary_row_columns row_text_def)
qed

section \<open>On two runs of one policy\<close>

definition slow_run :: table_row where
  "slow_run = [(''policy'', PStr ''contention_aware''), (''mean_latency_delta_pct'', PStr ''2''),
    (''experiment_name'', PStr ''a'')]"

definition fast_run :: table_row where
  "fast_run = [(''policy'', PStr ''contention_aware''), (''mean_latency_delta_pct'', PStr ''1''),
    (''experiment_name'', PStr ''b'')]"

lemma runs_numbers: "py_float ''2'' = Some (Fin False (2 ^ 52) (- 51))" "py_float ''1'' = Some fone"
  by (simp_all add: py_float_digits literal_defs cong: eval_congs)

lemma runs_delta:
  "value_for_plot slow_run ''mean_latency_delta_pct'' = Some (Fin False (2 ^ 52) (- 51))"
  "value_for_plot fast_run ''mean_latency_delta_pct'' = Some fone"
proof -
  have cells: "row_get slow_run ''mean_latency_delta_pct'' = PStr ''2''"
    "row_get fast_run ''mean_latency_delta_pct'' = PStr ''1''"
    by (simp_all add: slow_run_def fast_run_def row_get_def row_get_or_def)
  have fin: "is_finite (Fin False (2 ^ 52) (- 51))" "is_finite fone" by simp_all
  show "value_for_plot slow_run ''mean_latency_delta_pct'' = Some (Fin False (2 ^ 52) (- 51))"
    "value_for_plot fast_run ''mean_latency_delta_pct'' = Some fone"
    unfolding value_for_plot_def cells float_or_none_text runs_numbers option.case by (simp_all only: fin if_True)
qed

lemma runs_eligible: "is_best_run_policy slow_run" "is_best_run_policy fast_run"
  "row_text slow_run ''policy'' = ''contention_aware''" "row_text fast_run ''policy'' = ''contention_aware''"
  by (simp_all add: is_best_run_policy_def runs_delta)
    (simp_all add: row_text_def row_get_or_def slow_run_def fast_run_def value_str_def BEST_RUN_BASELINE_POLICIES_def)

lemma distinct_singleton_set:
  assumes "set xs = {x}" and "distinct xs"
  shows "xs = [x]"
proof -
  have "length xs = 1" using distinct_card [OF assms(2)] assms(1) by simp
  then obtain y where "xs = [y]" by (auto simp: length_Suc_conv)
  then show ?thesis using assms(1) by simp
qed

lemma runs_best: "best_rows [slow_run, fast_run] = [fast_run]"
proof -
  have "group_by (\<lambda>row. row_text row ''policy'') [slow_run, fast_run] = [(''contention_aware'', [slow_run, fast_run])]"
    by (simp add: group_by_def dict_append_def runs_eligible)
  moreover have "ordered_policies [[(''policy'', PStr ''contention_aware'')]] = [''contention_aware'']"
  proof -
    have "present_policies [[(''policy'', PStr ''contention_aware'')]] = [''contention_aware'']"
      by (simp add: present_policies_def row_get_def row_get_or_def)
    then have "set (ordered_policies [[(''policy'', PStr ''contention_aware'')]]) = {''contention_aware''}"
      by (simp only: ordered_policies_set list.set)
    then show ?thesis by (rule distinct_singleton_set) (rule ordered_policies_set(2))
  qed
  moreover have "rank_less (best_run_sort_key fast_run) (best_run_sort_key slow_run)"
    by (simp add: best_run_sort_key_def runs_delta or_else_def literal_defs)
  ultimately show ?thesis
    by (simp add: best_rows_def best_of_def best_row_def runs_eligible)
qed

theorem best_run_is_best_witness:
  "\<exists>b. row_get (best_run_summary_row fast_run) ''mean_latency_delta_pct'' = PFloat b \<and> is_finite b \<and>
     fle b (Fin False (2 ^ 52) (- 51))"
proof (rule best_run_is_best)
  show "best_run_summary_row fast_run \<in> set (fst (build_best_run_examples [slow_run, fast_run]))"
    by (simp add: build_best_run_examples_def runs_best)
  show "row_text slow_run ''policy'' = value_str (row_get (best_run_summary_row fast_run) ''target_policy'')"
    using runs_eligible(4) by (simp add: summary_row_columns runs_eligible flip: row_text_def)
qed (simp_all add: runs_eligible runs_delta)

theorem best_run_in_context_witness:
  "\<exists>c. c \<in> set (snd (build_best_run_examples [slow_run, fast_run])) \<and> row_get c ''is_target_policy'' = PBool True"
proof -
  have "best_run_summary_row fast_run \<in> set (fst (build_best_run_examples [slow_run, fast_run]))"
    by (simp add: build_best_run_examples_def runs_best)
  from best_run_in_context [OF this] show ?thesis by blast
qed

end
