(* ===== verification/PlotObserve.thy ===== *)
theory PlotObserve
  imports PlotBest
begin

text \<open>
  The automatic remarks of the report (\<open>build_observations\<close> of \<^verbatim>\<open>scripts/plot_results.py\<close>)
  and what they are computed from: averages under one value of a dimension, and the share of
  the hottest objects in the remote traffic of a run.
\<close>

section \<open>Concentration of remote traffic\<close>

record ObjectConcentrationSummary =
  top_distinct_requesters :: pyfloat
  top_remote_access_share :: pyfloat

definition concentration_objects :: "table_row list \<Rightarrow> (pyfloat \<times> pyfloat) list" where
  "concentration_objects contention_rows =
     concat (map (\<lambda>row.
       case float_or_none (row_get row ''remote_accesses'') of None \<Rightarrow> []
       | Some accesses \<Rightarrow> if fle accesses fzero then []
           else (case float_or_none (row_get row ''distinct_requesters'') of None \<Rightarrow> []
                 | Some requesters \<Rightarrow> [(accesses, requesters)])) contention_rows)"

text \<open>\<open>sort(reverse=True)\<close> keeps equal items in their order, as a stable sort by the negated key does.\<close>

definition hottest_first :: "(pyfloat \<times> pyfloat) list \<Rightarrow> (pyfloat \<times> pyfloat) list" where
  "hottest_first objects = sort_key (\<lambda>item. - fval (fst item)) objects"

definition summarize_object_concentration ::
    "nat \<Rightarrow> table_row list \<Rightarrow> ObjectConcentrationSummary option" where
  "summarize_object_concentration top_k contention_rows =
     (let objects = concentration_objects contention_rows;
          total = foldl fadd fzero (map fst objects)
      in if objects = [] \<or> fle total fzero then None
         else let top = take top_k (hottest_first objects)
           in Some \<lparr>top_distinct_requesters = fdiv (fsum (map snd top)) (float_of_int (int (length top))),
                    top_remote_access_share = fdiv (fsum (map fst top)) total\<rparr>)"

definition object_concentration_by_run ::
    "(string \<Rightarrow> string option) \<Rightarrow> nat \<Rightarrow> table_row list \<Rightarrow> (string \<times> ObjectConcentrationSummary) list" where
  "object_concentration_by_run contention_file top_k comparison_rows =
     foldl (\<lambda>summaries row.
       let experiment_name = row_text row ''experiment_name''
       in if experiment_name = [] then summaries
          else (case summarize_object_concentration top_k
                  (read_contention_rows contention_file (row_text row ''output_dir'')) of
                  None \<Rightarrow> summaries
                | Some summary \<Rightarrow> AList.update experiment_name summary summaries)) [] comparison_rows"

section \<open>Text of numbers and averages\<close>

definition percent :: "pyfloat option \<Rightarrow> string" where
  "percent value = (case value of None \<Rightarrow> ''n/a'' | Some v \<Rightarrow> fmt_f_signed 1 (fmul (flit 100 0) v) @ ''%'')"

definition average_for_dimension_value :: "table_row list \<Rightarrow> string \<Rightarrow> string \<Rightarrow> string \<Rightarrow> pyfloat option" where
  "average_for_dimension_value rows dimension value metric_column =
     average (filter (\<lambda>row. row_text row dimension = value) rows) metric_column"

text \<open>\<open>values[0]\<close> and \<open>values[-1]\<close> of a list that may be empty.\<close>

definition first_item :: "'a list \<Rightarrow> 'a res" where
  "first_item xs = (case xs of [] \<Rightarrow> Inl IndexError | x # _ \<Rightarrow> Inr x)"

definition last_item :: "'a list \<Rightarrow> 'a res" where
  "last_item xs = (if xs = [] then Inl IndexError else Inr (last xs))"

text \<open>\<open>x or y\<close> on floats: the second also stands in for a zero.\<close>

definition value_or :: "pyfloat option \<Rightarrow> pyfloat \<Rightarrow> pyfloat" where
  "value_or x dflt = (case x of None \<Rightarrow> dflt | Some v \<Rightarrow> if is_fzero v then dflt else v)"

definition infinite :: "bool \<Rightarrow> pyfloat" where
  "infinite negative = Inf negative"

section \<open>Remarks of the final study\<close>

definition final_study_rows :: "table_row list \<Rightarrow> string \<Rightarrow> string \<Rightarrow> table_row list" where
  "final_study_rows rows final_preset fallback_preset =
     rows_for_preferred_presets rows [final_preset] [fallback_preset]"

definition seed_remark :: "string list \<Rightarrow> string" where
  "seed_remark seeds =
     ''Final-study estimates include '' @ show_nat (length seeds) @ '' matched workload seed''
     @ (if length seeds \<noteq> 1 then ''s'' else []) @ ''.''"

definition wait_remark :: "(string list \<Rightarrow> string list) \<Rightarrow> table_row list \<Rightarrow> string list" where
  "wait_remark it comparison_rows =
     (let calibration = final_study_rows comparison_rows ''eval_final_contention_scaling'' ''eval_contention_calibration'';
          node_values = distinct_values it calibration ''node_count''
      in if length node_values < 2 then []
         else (case (average_for_dimension_value calibration ''node_count'' (hd node_values) ''average_memory_wait'',
                     average_for_dimension_value calibration ''node_count'' (last node_values) ''average_memory_wait'') of
                 (Some low, Some high) \<Rightarrow>
                   [''Average memory wait changed from '' @ fmt_f 2 low @ '' at '' @ hd node_values @ '' nodes to ''
                    @ fmt_f 2 high @ '' at '' @ last node_values @ '' nodes.'']
               | _ \<Rightarrow> []))"

definition improvement_candidates :: "table_row list \<Rightarrow> table_row list" where
  "improvement_candidates final_table =
     filter (\<lambda>row. row_get row ''policy'' \<noteq> PStr ''lru''
       \<and> value_for_plot row ''mean_latency_improvement_pct'' \<noteq> None) final_table"

text \<open>\<open>max(rows, key=...)\<close> keeps the first of equal keys, like \<open>min\<close> under the reversed order.\<close>

definition most_improved :: "table_row \<Rightarrow> table_row list \<Rightarrow> table_row" where
  "most_improved =
     (let key = (\<lambda>row. value_or (value_for_plot row ''mean_latency_improvement_pct'') (infinite True))
      in first_minimum (\<lambda>a b. flt (key b) (key a)))"

definition fixed_1 :: "pyval \<Rightarrow> string res" where
  "fixed_1 v = (case v of PStr _ \<Rightarrow> Inl ValueError | _ \<Rightarrow> bindR (value_float v) (\<lambda>x. Inr (fmt_f 1 x)))"

definition final_remarks ::
    "(string list \<Rightarrow> string list) \<Rightarrow> (pyfloat \<Rightarrow> pyfloat res) \<Rightarrow> (pyfloat \<Rightarrow> pyfloat res) \<Rightarrow>
     table_row list \<Rightarrow> string list res" where
  "final_remarks it square square_root comparison_rows =
     (let start = seed_remark (distinct_values it comparison_rows ''seed'') # wait_remark it comparison_rows
      in bindR (build_final_policy_table square square_root comparison_rows) (\<lambda>final_table.
         case improvement_candidates final_table of [] \<Rightarrow> Inr start
         | c # cs \<Rightarrow>
             let best = most_improved c cs
             in bindR (dict_get best ''policy'') (\<lambda>policy.
                bindR (dict_get best ''mean_latency_improvement_pct'') (\<lambda>improvement.
                bindR (fixed_1 improvement) (\<lambda>shown.
                Inr (start @ [''`'' @ value_str policy
                  @ ''` had the largest condition-averaged latency improvement in the final policy study (''
                  @ shown @ ''%).'']))))))"

section \<open>Remarks of a calibration\<close>

definition requester_average ::
    "(string \<times> ObjectConcentrationSummary) list \<Rightarrow> table_row list \<Rightarrow> string \<Rightarrow> pyfloat option" where
  "requester_average concentration comparison_rows overlap =
     average
       (concat (map (\<lambda>row. if row_get row ''cross_node_overlap'' \<noteq> PStr overlap then []
          else (case map_of concentration (row_text row ''experiment_name'') of
                  None \<Rightarrow> [] | Some s \<Rightarrow> [[(''value'', PFloat (top_distinct_requesters s))]])) comparison_rows))
       ''value''"

definition requester_remark :: "(string \<Rightarrow> string option) \<Rightarrow> table_row list \<Rightarrow> string list" where
  "requester_remark contention_file comparison_rows =
     (let concentration = object_concentration_by_run contention_file 5 comparison_rows
      in if concentration = [] then []
         else (case (requester_average concentration comparison_rows ''low'',
                     requester_average concentration comparison_rows ''high'') of
                 (Some low, Some high) \<Rightarrow>
                   [''Top-object requester diversity '' @ (if flt low high then ''increased'' else ''did not increase'')
                    @ '' from low overlap ('' @ fmt_f 2 low @ '') to high overlap ('' @ fmt_f 2 high @ '').'']
               | _ \<Rightarrow> []))"

definition node_remark ::
    "(string list \<Rightarrow> string list) \<Rightarrow> string list \<Rightarrow> table_row list \<Rightarrow> string list res" where
  "node_remark it swept comparison_rows =
     (if ''node_count'' \<notin> set swept then Inr []
      else let node_values = distinct_values it comparison_rows ''node_count''
        in bindR (first_item node_values) (\<lambda>low_node.
           bindR (last_item node_values) (\<lambda>high_node.
           Inr (case (average_for_dimension_value comparison_rows ''node_count'' low_node ''average_memory_wait'',
                      average_for_dimension_value comparison_rows ''node_count'' high_node ''average_memory_wait'') of
                  (Some low, Some high) \<Rightarrow>
                    [''Average memory wait '' @ (if flt low high then ''increased'' else ''did not increase'')
                     @ '' from node count `'' @ low_node @ ''` ('' @ fmt_f 2 low @ '') to `'' @ high_node
                     @ ''` ('' @ fmt_f 2 high @ '').'']
                | _ \<Rightarrow> []))))"

definition bandwidth_remark :: "string list \<Rightarrow> table_row list \<Rightarrow> string list" where
  "bandwidth_remark swept comparison_rows =
     (if ''memory_bandwidth_level'' \<notin> set swept then []
      else (case (average_for_dimension_value comparison_rows ''memory_bandwidth_level'' ''mild'' ''average_memory_wait'',
                  average_for_dimension_value comparison_rows ''memory_bandwidth_level'' ''severe'' ''average_memory_wait'') of
              (Some mild, Some severe) \<Rightarrow>
                [''Severe bandwidth produced '' @ (if flt mild severe then ''higher'' else ''not higher'')
                 @ '' average memory wait than mild bandwidth ('' @ fmt_f 2 severe @ '' vs '' @ fmt_f 2 mild @ '').'']
            | _ \<Rightarrow> []))"

section \<open>Remarks on the policies\<close>

definition non_baseline :: "string \<Rightarrow> table_row list \<Rightarrow> table_row list" where
  "non_baseline baseline policy_summary =
     filter (\<lambda>row. row_get row ''policy'' \<noteq> PStr baseline
       \<and> value_for_plot row ''avg_mean_latency_delta_pct'' \<noteq> None) policy_summary"

definition best_average :: "table_row \<Rightarrow> table_row list \<Rightarrow> table_row" where
  "best_average =
     (let key = (\<lambda>row. value_or (value_for_plot row ''avg_mean_latency_delta_pct'') (infinite False))
      in first_minimum (\<lambda>a b. flt (key a) (key b)))"

definition best_remark :: "string \<Rightarrow> table_row list \<Rightarrow> string list res" where
  "best_remark baseline policy_summary =
     (case non_baseline baseline policy_summary of [] \<Rightarrow> Inr []
      | c # cs \<Rightarrow>
          let best = best_average c cs
          in bindR (dict_get best ''policy'') (\<lambda>policy.
             Inr [''Best average mean-latency delta versus `'' @ baseline @ ''` is ''
               @ percent (value_for_plot best ''avg_mean_latency_delta_pct'') @ '' from `'' @ value_str policy @ ''`.'']))"

definition low_stale :: "table_row \<Rightarrow> bool" where
  "low_stale row = fle (value_or (value_for_plot row ''stale_telemetry_rate'') fone) (flit 4 1)"

definition high_stale :: "table_row \<Rightarrow> bool" where
  "high_stale row = fle (flit 7 1) (value_or (value_for_plot row ''stale_telemetry_rate'') fzero)"

definition quieter_memory :: "table_row \<Rightarrow> bool" where
  "quieter_memory row =
     (fle (fabs (value_or (value_for_plot row ''local_hit_rate_delta'') fzero)) (flit 2 2)
      \<and> flt (value_or (value_for_plot row ''average_memory_wait_delta_pct'') fzero) (fneg (flit 2 2)))"

definition contention_remarks :: "table_row list \<Rightarrow> string list" where
  "contention_remarks comparison_rows =
     (let rows = filter (\<lambda>row. sublist ''contention_aware'' (row_text row ''policy'')) comparison_rows;
          low = filter low_stale rows; high = filter high_stale rows; quiet = filter quieter_memory rows
      in if rows = [] then []
         else (''Contention-aware rows with low hot-set-sized stale telemetry produced ''
                 @ show_nat (count_class low ''win'') @ ''/'' @ show_nat (length low) @ '' wins; high-stale rows produced ''
                 @ show_nat (count_class high ''loss'') @ ''/'' @ show_nat (length high) @ '' losses.'')
              # (if quiet = [] then []
                 else [show_nat (length quiet) @ '' contention-aware rows had similar hit rate to baseline but lower memory wait, which is a useful signal even when hit rate alone looks neutral.'']))"

definition build_observations ::
    "(string list \<Rightarrow> string list) \<Rightarrow> (pyfloat \<Rightarrow> pyfloat res) \<Rightarrow> (pyfloat \<Rightarrow> pyfloat res) \<Rightarrow>
     (string \<Rightarrow> string option) \<Rightarrow> table_row list \<Rightarrow> table_row list \<Rightarrow> string \<Rightarrow> string \<Rightarrow>
     (string \<times> string list \<times> bool) list \<Rightarrow> string list res" where
  "build_observations it square square_root contention_file comparison_rows policy_summary baseline report_mode dimensions =
     (let swept = swept_dimensions dimensions
      in if report_mode = ''final_report'' then final_remarks it square square_root comparison_rows
         else bindR (if report_mode = ''contention_calibration''
                     then bindR (node_remark it swept comparison_rows) (\<lambda>nodes.
                       Inr (requester_remark contention_file comparison_rows @ nodes @ bandwidth_remark swept comparison_rows))
                     else Inr []) (\<lambda>calibration.
              bindR (best_remark baseline policy_summary) (\<lambda>best.
              let observations = calibration @ best @ contention_remarks comparison_rows
              in Inr (if observations = []
                      then [''No strong automated interpretation was available; inspect the plots and derived CSVs for policy-specific behavior.'']
                      else observations))))"

section \<open>What the choice of the best average really is\<close>

definition delta_of :: "table_row \<Rightarrow> pyfloat option" where
  "delta_of row = value_for_plot row ''avg_mean_latency_delta_pct''"

definition nonzero_delta :: "table_row \<Rightarrow> bool" where
  "nonzero_delta row = (case delta_of row of None \<Rightarrow> False | Some v \<Rightarrow> \<not> is_fzero v)"

definition choice_rank :: "table_row \<Rightarrow> nat \<times> rat" where
  "choice_rank row = (case delta_of row of None \<Rightarrow> (1, 0)
     | Some v \<Rightarrow> if is_fzero v then (1, 0) else (0, fval v))"

lemma choice_rank_less:
  "flt (value_or (delta_of a) (infinite False)) (value_or (delta_of b) (infinite False)) \<longleftrightarrow> choice_rank a < choice_rank b"
proof -
  have fin: "is_finite x" if "delta_of row = Some x" for row x
    using that float_or_none_finite by (simp add: delta_of_def value_for_plot_def)
  have inf: "flt x (infinite False)" "\<not> flt (infinite False) x" if "is_finite x" for x
    using that by (cases x; simp add: infinite_def)+
  have "\<not> flt (infinite False) (infinite False)" by (simp add: infinite_def)
  then show ?thesis
    using fin [of a] fin [of b] inf
    by (auto simp: value_or_def choice_rank_def flt_fval split: option.split)
qed

lemma best_average_rank:
  assumes "row \<in> set (c # cs)"
  shows "choice_rank (best_average c cs) \<le> choice_rank row" and "best_average c cs \<in> set (c # cs)"
  unfolding best_average_def Let_def delta_of_def [symmetric] choice_rank_less
  by (rule first_minimum_le [OF _ assms]; auto) (rule first_minimum_in)

text \<open>
  C19. The policy reported as best is the best of those whose average delta is not zero: a policy
  exactly on par with the baseline counts as infinitely slow (the code writes \<open>value or
  inf\<close>), so any other policy, however slow, is reported before it.
\<close>

theorem best_average_choice:
  assumes "row \<in> set (c # cs)" and "nonzero_delta row"
  shows "nonzero_delta (best_average c cs) \<and>
    (\<exists>b d. delta_of (best_average c cs) = Some b \<and> delta_of row = Some d \<and> fle b d)"
proof -
  let ?best = "best_average c cs"
  note rank = best_average_rank(1) [OF assms(1)]
  obtain d where d: "delta_of row = Some d" "\<not> is_fzero d" "choice_rank row = (0, fval d)"
    using assms(2) by (auto simp: nonzero_delta_def choice_rank_def split: option.splits)
  have zero: "fst (choice_rank ?best) = 0" using rank d(3) by (cases "choice_rank ?best") auto
  then obtain b where b: "delta_of ?best = Some b" "\<not> is_fzero b" "choice_rank ?best = (0, fval b)"
    by (auto simp: choice_rank_def split: option.splits if_splits)
  have "fval b \<le> fval d" using rank d(3) b(3) by simp
  moreover have "is_finite b" "is_finite d"
    using b(1) d(1) float_or_none_finite by (auto simp: delta_of_def value_for_plot_def)
  ultimately have "fle b d" by (simp add: fle_fval)
  then show ?thesis using b d by (simp add: nonzero_delta_def)
qed


section \<open>When the remarks can be made\<close>

lemma node_remark_total:
  assumes "''node_count'' \<in> set swept \<Longrightarrow> distinct_values it rows ''node_count'' \<noteq> []"
  shows "\<exists>xs. node_remark it swept rows = Inr xs"
  using assms by (auto simp: node_remark_def Let_def first_item_def last_item_def split: list.split)

lemma best_remark_total:
  assumes "\<forall>row\<in>set summary. ''policy'' \<in> fst ` set row"
  shows "\<exists>xs. best_remark baseline summary = Inr xs"
proof (cases "non_baseline baseline summary")
  case (Cons c cs)
  have "best_average c cs \<in> set (non_baseline baseline summary)"
    unfolding Cons best_average_def Let_def by (rule first_minimum_in)
  then have "''policy'' \<in> fst ` set (best_average c cs)" using assms by (auto simp: non_baseline_def)
  then obtain v where "map_of (best_average c cs) ''policy'' = Some v"
    by (auto dest!: weak_map_of_SomeI)
  then show ?thesis by (simp add: best_remark_def Cons dict_get_def Let_def)
qed (simp add: best_remark_def)

lemma final_remarks_total:
  assumes "build_final_policy_table square square_root rows = Inr table"
  shows "\<exists>xs. final_remarks it square square_root rows = Inr xs"
proof (cases "improvement_candidates table")
  case (Cons c cs)
  define best where "best = most_improved c cs"
  have "best \<in> set (improvement_candidates table)"
    unfolding Cons best_def most_improved_def Let_def by (rule first_minimum_in)
  then have best: "best \<in> set table" "value_for_plot best ''mean_latency_improvement_pct'' \<noteq> None"
    by (simp_all add: improvement_candidates_def)
  obtain policy policy_rows where "final_policy_row square square_root policy policy_rows = Inr best"
    using final_table_rows [OF assms best(1)] by blast
  note cells = final_policy_row_cells [OF this]
  obtain v where v: "map_of best ''mean_latency_improvement_pct'' = Some (option_value v)" using cells(2) by blast
  have "v \<noteq> None"
    using best(2) v by (cases v) (simp_all add: value_for_plot_def row_get_def row_get_or_def option_value_def)
  then obtain x where "map_of best ''mean_latency_improvement_pct'' = Some (PFloat x)"
    using v by (auto simp: option_value_def)
  then show ?thesis
    using assms cells(1) by (simp add: final_remarks_def Cons dict_get_def fixed_1_def value_float_def Let_def flip: best_def)
qed (simp add: final_remarks_def assms Let_def)

section \<open>The hottest objects\<close>

lemma hottest_sorted:
  "sorted (map (\<lambda>item. - fval (fst item)) (hottest_first objects))" "set (hottest_first objects) = set objects"
  by (simp_all add: hottest_first_def)

text \<open>No object outside the hottest \<open>k\<close> has more remote accesses than one among them.\<close>

theorem hottest_objects_hottest:
  assumes "i < k" and "k \<le> j" and "j < length objects"
  shows "fval (fst (hottest_first objects ! j)) \<le> fval (fst (hottest_first objects ! i))"
proof -
  have "length (hottest_first objects) = length objects" by (simp add: hottest_first_def)
  with assms have "- fval (fst (hottest_first objects ! i)) \<le> - fval (fst (hottest_first objects ! j))"
    using sorted_nth_mono [OF hottest_sorted(1) [of objects], of i j] by simp
  then show ?thesis by simp
qed

section \<open>On a policy that equals the baseline and one that is slower\<close>

definition equal_policy :: table_row where
  "equal_policy = [(''policy'', PStr ''hotness_only''), (''avg_mean_latency_delta_pct'', PStr ''0'')]"

definition slower_policy :: table_row where
  "slower_policy = [(''policy'', PStr ''contention_aware''), (''avg_mean_latency_delta_pct'', PStr ''1'')]"

lemma policy_numbers: "py_float ''0'' = Some fzero" "py_float ''1'' = Some fone"
  by (simp_all add: py_float_digits literal_defs cong: eval_congs)

lemma policy_deltas: "delta_of equal_policy = Some fzero" "delta_of slower_policy = Some fone"
proof -
  have cells: "row_get equal_policy ''avg_mean_latency_delta_pct'' = PStr ''0''"
    "row_get slower_policy ''avg_mean_latency_delta_pct'' = PStr ''1''"
    by (simp_all add: equal_policy_def slower_policy_def row_get_def row_get_or_def)
  have fin: "is_finite fzero" "is_finite fone" by simp_all
  show "delta_of equal_policy = Some fzero" "delta_of slower_policy = Some fone"
    unfolding delta_of_def value_for_plot_def cells float_or_none_text policy_numbers option.case
    by (simp_all only: fin if_True)
qed

theorem best_average_choice_witness:
  "delta_of equal_policy = Some fzero \<and> flt fzero fone \<and> delta_of (best_average equal_policy [slower_policy]) = Some fone"
proof -
  have nz: "nonzero_delta slower_policy" "\<not> nonzero_delta equal_policy"
    by (simp_all add: nonzero_delta_def policy_deltas) (simp_all add: is_fzero_def fzero_def fone_def)
  have "nonzero_delta (best_average equal_policy [slower_policy])"
    using best_average_choice [of slower_policy equal_policy "[slower_policy]"] nz by simp
  then have "best_average equal_policy [slower_policy] = slower_policy"
    using best_average_rank(2) [of slower_policy equal_policy "[slower_policy]"] nz(2) by auto
  then show ?thesis by (simp add: policy_deltas) (simp add: fzero_def fone_def align_def signed_def)
qed

end
