(* ===== verification/PlotReport.thy ===== *)
theory PlotReport
  imports PlotObserve
begin

text \<open>
  The Markdown report of \<^verbatim>\<open>scripts/plot_results.py\<close>: its tables and all lines of
  \<open>write_report\<close>, in the order the source appends them. The plots are given by the list of
  files the plotting functions saved.
\<close>

section \<open>Markdown pieces\<close>

definition markdown_cell :: "string \<Rightarrow> pyval \<Rightarrow> string" where
  "markdown_cell key v = (case v of
     PFloat x \<Rightarrow> if sublist ''pct'' key \<or> sublist ''rate'' key \<or> sublist ''fairness'' key then fmt_f 3 x else fmt_f 2 x
   | PNone \<Rightarrow> [] | _ \<Rightarrow> value_str v)"

definition table_line :: "string list \<Rightarrow> string" where
  "table_line cells = ''| '' @ str_join '' | '' cells @ '' |''"

definition newline :: string where
  "newline = [CHR 0x0A]"

definition markdown_table :: "table_row list \<Rightarrow> (string \<times> string) list \<Rightarrow> nat option \<Rightarrow> string" where
  "markdown_table rows columns limit =
     (let selected = (case limit of None \<Rightarrow> rows | Some n \<Rightarrow> take n rows)
      in if selected = [] then ''_No rows available._'' @ newline
         else str_join newline
                ([table_line (map fst columns), table_line (map (\<lambda>_. ''---'') columns)]
                 @ map (\<lambda>row. table_line (map (\<lambda>(_, key). markdown_cell key (row_get row key)) columns)) selected)
              @ newline)"

definition format_dimension_values :: "string list \<Rightarrow> nat \<Rightarrow> string" where
  "format_dimension_values values limit =
     (let quoted = map (\<lambda>value. ''`'' @ value @ ''`'')
      in if length values \<le> limit then str_join '', '' (quoted values)
         else str_join '', '' (quoted (take limit values)) @ '', ... ('' @ show_nat (length values) @ '' values)'')"

section \<open>Paths of plots\<close>

text \<open>\<open>name\<close>, \<open>suffix\<close> and \<open>stem\<close> of a path, and \<open>relative_to(parent)\<close>.\<close>

record plot_output =
  plot_path :: string
  plot_group :: string

definition path_name :: "string \<Rightarrow> string" where
  "path_name p = last (str_split (CHR ''/'') p)"

definition path_suffix :: "string \<Rightarrow> string" where
  "path_suffix p =
     (let name = path_name p; tail = takeWhile (\<lambda>c. c \<noteq> CHR ''.'') (rev name); stem = take (length name - length tail - 1) name
      in if CHR ''.'' \<in> set name \<and> stem \<noteq> [] \<and> tail \<noteq> [] then ''.'' @ rev tail else [])"

definition path_stem :: "string \<Rightarrow> string" where
  "path_stem p = (let name = path_name p in take (length name - length (path_suffix p)) name)"

definition relative_to :: "string \<Rightarrow> string \<Rightarrow> string res" where
  "relative_to parent p =
     (let base = (if parent = ''.'' then [] else if suffix ''/'' parent then parent else parent @ ''/'')
      in if prefix base p then Inr (drop (length base) p) else Inl ValueError)"

text \<open>\<open>text.title()\<close> on the letters of the ASCII range, which plot names are made of.\<close>

definition is_letter :: "char \<Rightarrow> bool" where
  "is_letter c = (let n = (of_char c :: nat) in (65 \<le> n \<and> n \<le> 90) \<or> (97 \<le> n \<and> n \<le> 122))"

definition upper_char :: "char \<Rightarrow> char" where
  "upper_char c = (let n = (of_char c :: nat) in if 97 \<le> n \<and> n \<le> 122 then char_of (n - 32) else c)"

fun title_from :: "bool \<Rightarrow> string \<Rightarrow> string" where
  "title_from in_word [] = []"
| "title_from in_word (c # cs) =
     (if is_letter c then (if in_word then lower_char c else upper_char c) else c) # title_from (is_letter c) cs"

definition str_title :: "string \<Rightarrow> string" where
  "str_title s = title_from False s"

section \<open>The sections of the report\<close>

definition rel_plots_by_group :: "string \<Rightarrow> plot_output list \<Rightarrow> (string \<times> string list) list res" where
  "rel_plots_by_group parent outputs =
     foldR (\<lambda>d output. bindR (relative_to parent (plot_path output)) (\<lambda>rel. Inr (dict_append (plot_group output) rel d)))
       [] (filter (\<lambda>output. path_suffix (plot_path output) = ''.svg'') outputs)"

text \<open>A missing average sorts behind every number.\<close>

definition summary_key :: "table_row \<Rightarrow> nat \<times> rat" where
  "summary_key row = (case value_for_plot row ''avg_mean_latency_delta_pct'' of None \<Rightarrow> (1, 0) | Some v \<Rightarrow> (0, fval v))"

definition sorted_summary :: "table_row list \<Rightarrow> table_row list" where
  "sorted_summary policy_summary = sort_key summary_key policy_summary"

definition head_section :: "string \<Rightarrow> string list \<Rightarrow> string \<Rightarrow> string \<Rightarrow> pyfloat \<Rightarrow> string list" where
  "head_section title aggregates report_mode baseline tie_threshold =
     [''# '' @ title, [], ''## Inputs'', []]
     @ map (\<lambda>aggregate. ''- `'' @ aggregate @ ''`'') aggregates
     @ [[], ''## Baseline And Classification'', [],
        ''- Report mode: `'' @ report_mode @ ''`'',
        ''- Baseline policy: `'' @ baseline @ ''`'',
        ''- Tie threshold: +/-'' @ fmt_f 1 (fmul (flit 100 0) tie_threshold) @ ''% mean-latency delta'',
        ''- Lower latency, lower memory wait, and fewer remote accesses are better.'',
        ''- Higher cache hit rate, estimated contention relief, and fairness are better.'',
        [], ''## Experiment Dimensions'', [], ''Swept dimensions:'', []]"

definition dimension_lines :: "bool \<Rightarrow> string \<Rightarrow> (string \<times> string list \<times> bool) list \<Rightarrow> string list" where
  "dimension_lines wanted none dimensions =
     (let lines = map (\<lambda>(column, values, _). ''- `'' @ column @ ''`: '' @ format_dimension_values values 8)
            (filter (\<lambda>(_, _, swept). swept = wanted) dimensions)
      in if lines = [] then [none] else lines)"

definition dimension_section :: "(string \<times> string list \<times> bool) list \<Rightarrow> string list" where
  "dimension_section dimensions =
     dimension_lines True ''- _No known swept dimensions detected._'' dimensions
     @ [[], ''Fixed dimensions:'', []]
     @ dimension_lines False ''- _No known fixed dimensions detected._'' dimensions"

definition observation_section :: "string list \<Rightarrow> string list" where
  "observation_section observations =
     [[], ''## Key Observations'', []] @ map (\<lambda>observation. ''- '' @ observation) observations @ [[]]"

section \<open>Fixed texts\<close>

definition policy_summary_table_columns :: "(string \<times> string) list" where
  "policy_summary_table_columns =
    [(''Policy'', ''policy''),
     (''Runs'', ''run_count''),
     (''Wins'', ''win_count''),
     (''Ties'', ''tie_count''),
     (''Losses'', ''loss_count''),
     (''Avg Mean Delta'', ''avg_mean_latency_delta_pct''),
     (''Avg P99 Delta'', ''avg_p99_latency_delta_pct''),
     (''Avg Hit Rate'', ''avg_local_hit_rate''),
     (''Avg Hot-Set Stale'', ''avg_stale_telemetry_rate''),
     (''Avg Fairness'', ''avg_jain_inverse_latency_fairness'')]"

definition best_run_table_columns :: "(string \<times> string) list" where
  "best_run_table_columns =
    [(''Target Policy'', ''target_policy''),
     (''Improvement'', ''latency_improvement_pct''),
     (''Churn'', ''hot_set_churn_fraction''),
     (''Cache X'', ''cache_capacity_hotset_multiplier''),
     (''RPE'', ''requests_per_node_per_epoch''),
     (''Hot Set'', ''hot_set_size''),
     (''Object Mode'', ''object_size_mode''),
     (''Large Obj P'', ''large_object_probability''),
     (''Channels'', ''memory_channel_count''),
     (''Hot Channels'', ''hot_object_channel_count'')]"

definition final_policy_table_columns :: "(string \<times> string) list" where
  "final_policy_table_columns =
    [(''Policy'', ''policy''),
     (''Seeds'', ''seed_count''),
     (''Runs'', ''comparable_run_count''),
     (''Win Rate'', ''win_rate''),
     (''Mean Latency Improve %'', ''mean_latency_improvement_pct''),
     (''Seed SD'', ''seed_std_latency_improvement_pct''),
     (''P99 Improve %'', ''mean_p99_improvement_pct''),
     (''Memory-Wait Reduce %'', ''mean_memory_wait_reduction_pct''),
     (''Hit Rate'', ''mean_local_hit_rate'')]"

definition guidance_lines :: "string list" where
  "guidance_lines =
    [''## Interpretation Guidance'',
     [],
     ''Contention-aware placement should be expected to help when shared remote-memory '' @
      ''pressure is persistent, hot objects are stable or drift gradually, remote memory '' @
      ''is a real bottleneck, cache capacity is constrained but useful, and '' @
      ''previous-epoch telemetry is predictive enough to act on.'',
     [],
     ''It should be expected to hurt or tie when hot sets fully shift every epoch, '' @
      ''epochs are too short, remote memory is lightly loaded, object sizes/service '' @
      ''costs are uniform, or local reuse is too sparse for private-cache placement to '' @
      ''pay off.'',
     [],
     ''A policy can still be interesting when hit rate is similar to LRU but memory '' @
      ''wait or remote accesses fall, because the research question is about reducing '' @
      ''shared bottleneck pressure, not only maximizing local hits.'',
     []]"

definition viability_guidance :: "string list" where
  "viability_guidance =
    [''For policy-viability runs, global-average plots summarize all regimes together. '' @
      ''Churn-conditioned plots should be used to separate stable, predictive telemetry '' @
      ''from high-churn regimes where hot-set-sized stale telemetry is expected to hurt '' @
      ''contention-aware policies.'',
     [],
     ''Best-run example plots intentionally zoom in on each non-baseline policy'' @ [CHR 0x27] @ ''s '' @
      ''strongest individual condition. They are useful for explaining high points in '' @
      ''the scatter plot, but should be paired with global and churn-conditioned views '' @
      ''before making broad policy claims.'',
     []]"

definition parameter_guidance :: "string list" where
  "parameter_guidance =
    [''For isolated parameter demonstrations, each report is designed to vary one '' @
      ''primary knob while holding the rest of the regime fixed. These plots are best '' @
      ''used to explain mechanism and scaling behavior; they should not replace the '' @
      ''broader policy viability matrix as a complete ranking of policies.'',
     []]"

definition weight_guidance :: "string list" where
  "weight_guidance =
    [''For contention-weight sensitivity runs, the plots vary one score weight at a '' @
      ''time around the default smoothed policy. Use these results to identify which '' @
      ''score components drive admission quality, latency, memory wait, and eviction '' @
      ''regret; do not treat the sweep as proof that a tuned policy wins in all regimes.'',
     []]"

definition final_guidance :: "string list" where
  "final_guidance =
    [''The four final-report figures answer distinct questions: whether the simulator '' @
      ''creates pressure, whether policy benefit grows with pressure, where the latest '' @
      ''policies operate well, and which placement mechanisms explain their behavior.'',
     [],
     ''Do not treat best individual cells as independent evidence. Use the paired '' @
      ''condition deltas and variation across workload seeds when stating quantitative '' @
      ''conclusions.'',
     []]"

section \<open>The whole report\<close>

definition policy_section :: "table_row list \<Rightarrow> string list" where
  "policy_section policy_summary =
     [''## Policy Summary'', [], markdown_table (sorted_summary policy_summary) policy_summary_table_columns None, []]"

definition viability_section :: "string \<Rightarrow> table_row list \<Rightarrow> string list" where
  "viability_section baseline best_run_summary =
     [''## Best Run Examples'', [],
      ''These rows show each non-baseline policy'' @ [CHR 0x27] @ ''s best individual mean-latency improvement versus `'' @ baseline @
        ''`. They are high-water examples from the matrix, not global averages.'',
      [], markdown_table best_run_summary best_run_table_columns None, []]"

definition final_section :: "table_row list \<Rightarrow> string list" where
  "final_section final_policy_table =
     [''## Final Policy Table'', [],
      ''Improvements and reductions are positive-is-better. Variation is the sample standard deviation of '' @
        ''per-seed means after averaging matched conditions within each seed.'',
      [], markdown_table final_policy_table final_policy_table_columns None, []]"

definition plot_lines :: "string \<Rightarrow> string list" where
  "plot_lines plot =
     [''#### '' @ str_title (str_replace (CHR ''_'') '' '' (path_stem plot)), [],
      ''!['' @ path_stem plot @ '']('' @ plot @ '')'', []]"

definition plot_section :: "(string \<times> string list) list \<Rightarrow> string list" where
  "plot_section groups =
     [''## Plots'', []]
     @ concat (map (\<lambda>(group, plots). [''### '' @ group, []] @ concat (map plot_lines plots)) groups)"

definition generated_files :: "string \<Rightarrow> string list" where
  "generated_files report_mode =
     [''## Generated Files'', [], ''- `policy_comparison.csv`'', ''- `policy_summary.csv`'', ''- `condition_summary.csv`'']
     @ (if report_mode = ''policy_viability''
        then [''- `viability_best_runs.csv`'', ''- `viability_best_run_policy_context.csv`''] else [])
     @ (if report_mode = ''final_report'' then [''- `final_policy_table.csv`''] else [])
     @ [''- `plots/`'', []]"

definition report_lines ::
    "string \<Rightarrow> string list \<Rightarrow> string \<Rightarrow> pyfloat \<Rightarrow> (string \<times> string list) list \<Rightarrow> table_row list \<Rightarrow> string \<Rightarrow>
     (string \<times> string list \<times> bool) list \<Rightarrow> string list \<Rightarrow> table_row list \<Rightarrow> table_row list \<Rightarrow> string list" where
  "report_lines title aggregates baseline tie_threshold plots policy_summary report_mode dimensions observations
       best_run_summary final_policy_table =
     head_section title aggregates report_mode baseline tie_threshold
     @ dimension_section dimensions
     @ observation_section observations
     @ (if report_mode \<noteq> ''final_report'' then policy_section policy_summary else [])
     @ (if report_mode = ''policy_viability'' then viability_section baseline best_run_summary else [])
     @ (if report_mode = ''final_report'' then final_section final_policy_table else [])
     @ plot_section plots
     @ guidance_lines
     @ (if report_mode = ''policy_viability'' then viability_guidance else [])
     @ (if report_mode = ''parameter_demo'' then parameter_guidance else [])
     @ (if report_mode = ''weight_sensitivity'' then weight_guidance else [])
     @ (if report_mode = ''final_report'' then final_guidance else [])
     @ generated_files report_mode"

text \<open>
  \<open>write_report\<close>: \<open>path\<close> lies in the directory \<open>parent\<close>. The plots are grouped before the
  observations are computed; either step can raise before anything is written.
\<close>

definition write_report ::
    "(string list \<Rightarrow> string list) \<Rightarrow> (pyfloat \<Rightarrow> pyfloat res) \<Rightarrow> (pyfloat \<Rightarrow> pyfloat res) \<Rightarrow> (string \<Rightarrow> string option) \<Rightarrow>
     string \<Rightarrow> string \<Rightarrow> string \<Rightarrow> string list \<Rightarrow> string \<Rightarrow> pyfloat \<Rightarrow> plot_output list \<Rightarrow> table_row list \<Rightarrow> table_row list \<Rightarrow>
     string \<Rightarrow> (string \<times> string list \<times> bool) list \<Rightarrow> table_row list \<Rightarrow> table_row list \<Rightarrow>
     (string \<Rightarrow> string option) \<Rightarrow> (string \<Rightarrow> string option) res" where
  "write_report it square square_root contention_file parent path title aggregates baseline tie_threshold plot_outputs
       policy_summary comparison_rows report_mode dimensions best_run_summary final_policy_table fs =
     bindR (rel_plots_by_group parent plot_outputs) (\<lambda>plots.
     bindR (build_observations it square square_root contention_file comparison_rows policy_summary baseline report_mode dimensions)
       (\<lambda>observations.
     Inr (fs(path \<mapsto> str_join newline
       (report_lines title aggregates baseline tie_threshold plots policy_summary report_mode dimensions observations
          best_run_summary final_policy_table)))))"

section \<open>Order and plots\<close>

text \<open>
  The summary table lists the policies from the smallest average latency delta to the
  largest, those without one at the end, and loses none.
\<close>

lemma summary_order:
  "sorted (map summary_key (sorted_summary rows))" "mset (sorted_summary rows) = mset rows"
  by (simp_all add: sorted_summary_def)

lemma rel_plots_exist:
  assumes "\<forall>output\<in>set outputs. \<exists>rel. relative_to parent (plot_path output) = Inr rel"
  shows "\<exists>groups. rel_plots_by_group parent outputs = Inr groups"
proof -
  have *: "\<exists>d'. foldR (\<lambda>d output. bindR (relative_to parent (plot_path output))
      (\<lambda>rel. Inr (dict_append (plot_group output) rel d))) d os = Inr d'"
    if "\<forall>output\<in>set os. \<exists>rel. relative_to parent (plot_path output) = Inr rel" for d os
    using that
  proof (induction os arbitrary: d)
    case (Cons a os)
    then obtain rel where "relative_to parent (plot_path a) = Inr rel" by auto
    then show ?case using Cons by simp
  qed simp
  show ?thesis unfolding rel_plots_by_group_def by (rule *) (use assms in simp)
qed

end
