(* ===== verification/PlotCanvas.thy ===== *)
theory PlotCanvas
  imports RunMatrixCli PlotReport
begin

text \<open>
  Figures of \<^verbatim>\<open>scripts/plot_results.py\<close>. Matplotlib is a library the script only calls, so a
  figure is the list of the calls the script makes on it, in order and with their arguments,
  beginning with \<open>plt.subplots\<close>. Calls on different figures are independent: the list of the
  figures a function creates is what it asks of the library, and the last figure is the one it
  returns. This theory has the common pieces: saving, placeholders and bar charts per policy.
\<close>

section \<open>Calls on the library\<close>

text \<open>
  Arguments: Python constants, lists and tuples, and objects the library made before: the line
  of axes \<open>(r, c)\<close> with a given label, the image of axes, and the handles or labels of its legend.
\<close>

datatype arg =
    ANone
  | ABool bool
  | AInt int
  | AFloat pyfloat
  | AText string
  | AList "arg list"
  | AFigure
  | AAxes "(nat \<times> nat) list"
  | ALine nat nat string
  | AImage nat nat
  | AHandles nat nat
  | ALabels nat nat

datatype target = Plt | Fig | Axes nat nat

datatype call = Call target string "arg list" "(string \<times> arg) list"

type_synonym figure = "call list"

definition texts :: "string list \<Rightarrow> arg" where "texts xs = AList (map AText xs)"

definition floats :: "pyfloat list \<Rightarrow> arg" where "floats xs = AList (map AFloat xs)"

text \<open>\<open>range(n)\<close>, \<open>(a, b)\<close> and \<open>max(lo, x)\<close> of an integer bound and a float.\<close>

definition range_arg :: "nat \<Rightarrow> arg" where "range_arg n = AList (map (\<lambda>i. AInt (int i)) [0..<n])"

definition pair_arg :: "arg \<Rightarrow> arg \<Rightarrow> arg" where "pair_arg a b = AList [a, b]"

definition at_least :: "int \<Rightarrow> pyfloat \<Rightarrow> arg" where
  "at_least lo x = (if flt (float_of_int lo) x then AFloat x else AInt lo)"

definition at_least_float :: "pyfloat \<Rightarrow> pyfloat \<Rightarrow> arg" where
  "at_least_float lo x = AFloat (if flt lo x then x else lo)"

definition times_count :: "pyfloat \<Rightarrow> nat \<Rightarrow> pyfloat" where
  "times_count x n = fmul x (float_of_int (int n))"

definition subplots :: "nat \<Rightarrow> nat \<Rightarrow> (string \<times> arg) list \<Rightarrow> call" where
  "subplots rows columns kws = Call Plt ''subplots'' [AInt (int rows), AInt (int columns)] kws"

definition close_figure :: "figure \<Rightarrow> figure" where
  "close_figure fig = fig @ [Call Plt ''close'' [AFigure] []]"

definition is_close :: "call \<Rightarrow> bool" where
  "is_close c = (case c of Call t m args kws \<Rightarrow> t = Plt \<and> m = ''close'')"

definition is_subplots :: "call \<Rightarrow> bool" where
  "is_subplots c = (case c of Call t m args kws \<Rightarrow> t = Plt \<and> m = ''subplots'')"

definition plot_placeholder :: "string \<Rightarrow> string \<Rightarrow> figure" where
  "plot_placeholder title message =
     [Call Plt ''subplots'' [] [(''figsize'', pair_arg (AInt 9) (AInt 5))],
      Call (Axes 0 0) ''axis'' [AText ''off''] [],
      Call (Axes 0 0) ''set_title'' [AText title] [],
      Call (Axes 0 0) ''text'' [AFloat (flit 5 1), AFloat (flit 5 1), AText message]
        [(''ha'', AText ''center''), (''va'', AText ''center''), (''wrap'', ABool True)]]"

definition no_data :: string where "no_data = ''No data available for this plot.''"

section \<open>Saving\<close>

text \<open>The figure with the calls that save it, and the paths of the images.\<close>

definition plot_file :: "string \<Rightarrow> string \<Rightarrow> string \<Rightarrow> string" where
  "plot_file plots_dir name fmt = path_join plots_dir (name @ ''.'' @ fmt)"

definition save_figure :: "figure \<Rightarrow> string \<Rightarrow> string \<Rightarrow> string list \<Rightarrow> figure \<times> string list" where
  "save_figure fig plots_dir name formats =
     (let paths = map (plot_file plots_dir name) formats
      in (fig @ map (\<lambda>path. Call Fig ''savefig'' [AText path] [(''bbox_inches'', AText ''tight''), (''dpi'', AInt 180)]) paths,
          paths))"

type_synonym plot_spec = "string \<times> figure list"

definition save_plot_spec :: "string \<Rightarrow> string list \<Rightarrow> string \<Rightarrow> plot_spec \<Rightarrow> plot_output list \<times> figure list" where
  "save_plot_spec plots_dir formats group_name spec =
     (let (fig, paths) = save_figure (last (snd spec)) plots_dir (fst spec) formats
      in (map (\<lambda>path. \<lparr>plot_path = path, plot_group = group_name\<rparr>) paths,
          butlast (snd spec) @ [close_figure fig]))"

definition save_plot_specs ::
    "string \<Rightarrow> string list \<Rightarrow> string \<Rightarrow> plot_spec list \<Rightarrow> plot_output list \<times> figure list" where
  "save_plot_specs plots_dir formats group_name plot_specs =
     (let saved = map (save_plot_spec plots_dir formats group_name) plot_specs
      in (concat (map fst saved), concat (map snd saved)))"

section \<open>Bar charts\<close>

definition policy_ticks :: "nat \<Rightarrow> nat \<Rightarrow> string list \<Rightarrow> call list" where
  "policy_ticks r c labels =
     [Call (Axes r c) ''set_xticks'' [range_arg (length labels)] [],
      Call (Axes r c) ''set_xticklabels'' [texts labels] [(''rotation'', AInt 30), (''ha'', AText ''right'')]]"

definition y_grid :: "nat \<Rightarrow> nat \<Rightarrow> pyfloat \<Rightarrow> call" where
  "y_grid r c alpha = Call (Axes r c) ''grid'' [] [(''axis'', AText ''y''), (''alpha'', AFloat alpha)]"

definition bar_plot :: "string list \<Rightarrow> (string \<times> pyfloat option list) list \<Rightarrow> string \<Rightarrow> string \<Rightarrow> figure list" where
  "bar_plot labels series title ylabel =
     (if labels = [] \<or> series = [] then [plot_placeholder title no_data]
      else let group_width = flit 78 2;
               bar_width = fdiv group_width (float_of_int (max 1 (int (length series))));
               offset = (\<lambda>index. fadd (fadd (fdiv (fneg group_width) (flit 2 0)) (fdiv bar_width (flit 2 0)))
                                   (fmul (float_of_int (int index)) bar_width))
        in [[Call Plt ''subplots'' []
               [(''figsize'', pair_arg (at_least 9 (times_count (flit 12 1) (length labels))) (AFloat (flit 55 1)))]]
            @ map (\<lambda>(index, name, values).
                Call (Axes 0 0) ''bar''
                  [floats (map (\<lambda>x. fadd (float_of_int (int x)) (offset index)) [0..<length labels]),
                   floats (map (\<lambda>value. case value of Some v \<Rightarrow> v | None \<Rightarrow> fzero) values)]
                  [(''width'', AFloat bar_width), (''label'', AText name)]) (enumerate 0 series)
            @ [Call (Axes 0 0) ''set_title'' [AText title] [],
               Call (Axes 0 0) ''set_ylabel'' [AText ylabel] []]
            @ policy_ticks 0 0 labels
            @ [Call (Axes 0 0) ''legend'' [] [], y_grid 0 0 (flit 3 1)]])"

text \<open>The summary rows by policy; a later row with the same label replaces an earlier one.\<close>

definition policy_summary_lookup :: "table_row list \<Rightarrow> (pyval \<times> table_row) list res" where
  "policy_summary_lookup policy_summary =
     foldR (\<lambda>d row. bindR (dict_get row ''policy'') (\<lambda>policy. Inr (AList.update policy row d))) [] policy_summary"

definition summary_of :: "(pyval \<times> table_row) list \<Rightarrow> string \<Rightarrow> table_row res" where
  "summary_of lookup policy = (case map_of lookup (PStr policy) of None \<Rightarrow> Inl (KeyError policy) | Some row \<Rightarrow> Inr row)"

text \<open>A column of the summary for each policy, as it is or as a percentage.\<close>

definition summary_values :: "(pyval \<times> table_row) list \<Rightarrow> string list \<Rightarrow> string \<Rightarrow> pyfloat option list res" where
  "summary_values lookup policies column =
     mapR (\<lambda>p. bindR (summary_of lookup p) (\<lambda>row. Inr (value_for_plot row column))) policies"

definition summary_percents :: "(pyval \<times> table_row) list \<Rightarrow> string list \<Rightarrow> string \<Rightarrow> pyfloat option list res" where
  "summary_percents lookup policies column =
     mapR (\<lambda>p. bindR (summary_of lookup p) (\<lambda>row. Inr (map_option (fmul (flit 100 0)) (value_for_plot row column)))) policies"

definition make_policy_latency_plot :: "table_row list \<Rightarrow> figure list res" where
  "make_policy_latency_plot policy_summary =
     (let policies = ordered_policies policy_summary
      in bindR (policy_summary_lookup policy_summary) (\<lambda>lookup.
         bindR (summary_values lookup policies ''avg_mean_latency'') (\<lambda>mean_values.
         bindR (summary_values lookup policies ''avg_p99_latency'') (\<lambda>p99_values.
         Inr (bar_plot policies [(''Mean latency'', mean_values), (''P99 latency'', p99_values)]
                ''Policy latency overview'' ''Latency (simulation time)'')))))"

definition make_latency_delta_plot :: "table_row list \<Rightarrow> figure list res" where
  "make_latency_delta_plot policy_summary =
     (let policies = ordered_policies policy_summary
      in bindR (policy_summary_lookup policy_summary) (\<lambda>lookup.
         bindR (summary_percents lookup policies ''avg_mean_latency_delta_pct'') (\<lambda>mean_values.
         bindR (summary_percents lookup policies ''avg_p99_latency_delta_pct'') (\<lambda>p99_values.
         Inr (bar_plot policies [(''Mean latency delta'', mean_values), (''P99 latency delta'', p99_values)]
                ''Latency delta versus baseline'' ''Delta (%)'')))))"

definition make_fairness_plot :: "table_row list \<Rightarrow> figure list res" where
  "make_fairness_plot policy_summary =
     (let policies = ordered_policies policy_summary
      in bindR (policy_summary_lookup policy_summary) (\<lambda>lookup.
         bindR (summary_values lookup policies ''avg_jain_inverse_latency_fairness'') (\<lambda>fairness.
         bindR (summary_percents lookup policies ''avg_mean_latency_delta_pct'') (\<lambda>deltas.
         Inr (bar_plot policies [(''Jain inverse-latency fairness'', fairness), (''Mean latency delta (%)'', deltas)]
                ''Fairness and latency tradeoff'' ''Metric value'')))))"

definition calibration_policy_pressure_reduction_plot :: "table_row list \<Rightarrow> figure list res" where
  "calibration_policy_pressure_reduction_plot policy_summary =
     (let policies = ordered_policies policy_summary
      in bindR (policy_summary_lookup policy_summary) (\<lambda>lookup.
         bindR (summary_values lookup policies ''avg_total_remote_accesses'') (\<lambda>accesses.
         bindR (summary_values lookup policies ''avg_average_memory_wait'') (\<lambda>waits.
         bindR (summary_percents lookup policies ''avg_mean_latency_delta_pct'') (\<lambda>deltas.
         Inr (bar_plot policies
                [(''Remote accesses'', accesses), (''Average memory wait'', waits), (''Mean latency delta (%)'', deltas)]
                ''Policy pressure reduction during contention calibration'' ''Metric value''))))))"

section \<open>Four panels per policy\<close>

text \<open>The panels of a 2 x 2 grid, filled row by row.\<close>

definition summary_panel ::
    "(pyval \<times> table_row) list \<Rightarrow> string list \<Rightarrow> nat \<times> string \<times> string \<times> string \<Rightarrow> call list res" where
  "summary_panel lookup policies panel =
     (case panel of (i, column, title, ylabel) \<Rightarrow>
        let r = i div 2; c = i mod 2
        in bindR (summary_values lookup policies column) (\<lambda>values.
           Inr ([Call (Axes r c) ''bar'' [range_arg (length policies), floats (map or_zero values)] [],
                 Call (Axes r c) ''set_title'' [AText title] [],
                 Call (Axes r c) ''set_ylabel'' [AText ylabel] []]
                @ policy_ticks r c policies @ [y_grid r c (flit 3 1)])))"

definition summary_panels ::
    "table_row list \<Rightarrow> string list \<Rightarrow> (string \<times> string \<times> string) list \<Rightarrow> string \<Rightarrow> figure list res" where
  "summary_panels policy_summary policies plots title =
     bindR (policy_summary_lookup policy_summary) (\<lambda>lookup.
     bindR (mapR (summary_panel lookup policies) (enumerate 0 plots)) (\<lambda>panels.
     Inr [[subplots 2 2 [(''figsize'', pair_arg (AInt 14) (AInt 9))]] @ concat panels
          @ [Call Fig ''suptitle'' [AText title] [], Call Fig ''tight_layout'' [] []]]))"

definition make_cache_memory_plot :: "table_row list \<Rightarrow> figure list res" where
  "make_cache_memory_plot policy_summary =
     (let policies = ordered_policies policy_summary
      in if policies = [] then Inr [plot_placeholder ''Cache and memory overview'' no_data]
         else summary_panels policy_summary policies
           [(''avg_local_hit_rate'', ''Local hit rate'', ''Hit rate''),
            (''avg_average_memory_wait'', ''Average memory wait'', ''Wait time''),
            (''avg_total_remote_accesses'', ''Remote accesses'', ''Accesses''),
            (''avg_estimated_avoided_contention_cost'', ''Estimated contention relief'', ''Avoided wait + service time'')]
           ''Policy cache and memory-pressure overview'')"

definition viability_admission_quality_plot :: "table_row list \<Rightarrow> figure list res" where
  "viability_admission_quality_plot policy_summary =
     (let policies = ordered_policies policy_summary
      in if policies = []
         then Inr [plot_placeholder ''Admission quality and telemetry diagnostics'' ''No policy diagnostics available.'']
         else summary_panels policy_summary policies
           [(''avg_admission_yield'', ''Admission yield'', ''Future hits / placement''),
            (''avg_reuse_after_admit_rate'', ''Reuse-after-admit rate'', ''Rate''),
            (''avg_stale_telemetry_rate'', ''Hot-set-sized stale telemetry'', ''Rate''),
            (''avg_eviction_regret_count'', ''Eviction regret count'', ''Count'')]
           ''Admission quality and telemetry diagnostics'')"

section \<open>Figures the library accepts\<close>

text \<open>
  A drawing call works on a figure or its axes and saves nothing. A figure in progress begins
  with \<open>plt.subplots\<close> on a grid of at least one row and column, followed by drawing calls;
  a finished figure may have been saved and closed after that, and nothing follows the closing.
\<close>

fun draws :: "call \<Rightarrow> bool" where
  "draws (Call t m args kws) = (t \<noteq> Plt \<and> m \<noteq> ''savefig'')"

fun opens :: "call \<Rightarrow> bool" where
  "opens (Call t m args kws) = (t = Plt \<and> m = ''subplots'' \<and>
     (case args of [AInt r, AInt c] \<Rightarrow> 0 < r \<and> 0 < c | _ \<Rightarrow> args = []))"

fun saves :: "call \<Rightarrow> bool" where
  "saves (Call t m args kws) = (t = Fig \<and> m = ''savefig'')"

definition figure_body :: "figure \<Rightarrow> bool" where
  "figure_body fig = (case fig of [] \<Rightarrow> False | c # cs \<Rightarrow> opens c \<and> list_all draws cs)"

definition figure_open :: "figure \<Rightarrow> bool" where
  "figure_open fig = (\<not> list_ex is_close fig)"

definition saved_paths :: "figure \<Rightarrow> string list" where
  "saved_paths fig = concat (map (\<lambda>c. case c of
     Call t m args kws \<Rightarrow> (case args of [AText path] \<Rightarrow> if saves c then [path] else [] | _ \<Rightarrow> [])) fig)"

text \<open>Nothing follows the closing of a figure, and it is saved after it was drawn.\<close>

definition figure_ready :: "figure \<Rightarrow> bool" where
  "figure_ready fig = (\<exists>body written closing. fig = body @ written @ closing \<and> figure_body body \<and>
     list_all saves written \<and> (closing = [] \<or> closing = [Call Plt ''close'' [AFigure] []]))"

text \<open>What a plotting function promises of the figures it created; the last one it returns.\<close>

definition plot_ok :: "figure list \<Rightarrow> bool" where
  "plot_ok figs = (figs \<noteq> [] \<and> figure_body (last figs) \<and>
     list_all (\<lambda>fig. figure_ready fig \<and> saved_paths fig = []) (butlast figs))"

lemma draws_not_close: "draws c \<Longrightarrow> \<not> is_close c" "saves c \<Longrightarrow> \<not> is_close c" "opens c \<Longrightarrow> \<not> is_close c"
  by (cases c; simp add: is_close_def)+

lemma draws_no_path: "draws c \<or> opens c \<Longrightarrow> saved_paths (c # cs) = saved_paths cs"
  by (cases c) (auto simp: saved_paths_def split: list.split arg.split)

lemma saved_paths_append [simp]: "saved_paths (a @ b) = saved_paths a @ saved_paths b"
  by (simp add: saved_paths_def)

lemma saved_paths_Nil [simp]: "saved_paths [] = []"
  by (simp add: saved_paths_def)

lemma saved_paths_body: "figure_body fig \<Longrightarrow> saved_paths fig = []"
proof -
  have "list_all draws cs \<Longrightarrow> saved_paths cs = []" for cs
    by (induction cs) (simp_all add: draws_no_path)
  then show "figure_body fig \<Longrightarrow> saved_paths fig = []"
    by (cases fig) (simp_all add: figure_body_def draws_no_path)
qed

lemma saved_paths_saves:
  "saved_paths (map (\<lambda>x. Call Fig ''savefig'' [AText (f x)] kws) xs) = map f xs"
  by (induction xs) (simp_all add: saved_paths_def)

lemma saved_paths_close [simp]: "saved_paths (close_figure fig) = saved_paths fig"
  by (simp add: close_figure_def) (simp add: saved_paths_def)

lemma body_ready: "figure_body fig \<Longrightarrow> figure_ready fig"
  unfolding figure_ready_def by (rule exI [of _ fig], rule exI [of _ "[]"], rule exI [of _ "[]"]) simp

lemma closed_ready: "figure_body fig \<Longrightarrow> figure_ready (close_figure fig)"
  unfolding figure_ready_def close_figure_def by (rule exI [of _ fig], rule exI [of _ "[]"]) simp

lemma figure_body_open: "figure_body fig \<Longrightarrow> figure_open fig"
  by (cases fig) (auto simp: figure_body_def figure_open_def list_all_iff list_ex_iff dest: draws_not_close)

lemma figure_open_close [simp]: "figure_open (close_figure fig) \<longleftrightarrow> False"
  by (simp add: figure_open_def close_figure_def is_close_def)

lemma figure_body_append [simp]: "figure_body fig \<Longrightarrow> figure_body (fig @ cs) \<longleftrightarrow> list_all draws cs"
  by (cases fig) (auto simp: figure_body_def)

lemma figure_body_Cons [simp]: "figure_body (c # cs) \<longleftrightarrow> opens c \<and> list_all draws cs"
  by (simp add: figure_body_def)

lemma opens_subplots [simp]: "opens (subplots r c kws) \<longleftrightarrow> 0 < r \<and> 0 < c"
  by (simp add: subplots_def)

lemma plot_ok_one [simp]: "plot_ok [fig] \<longleftrightarrow> figure_body fig"
  by (simp add: plot_ok_def)

lemma plot_ok_closed [simp]: "figure_body fig \<Longrightarrow> plot_ok [close_figure fig, fig'] \<longleftrightarrow> figure_body fig'"
  by (simp add: plot_ok_def closed_ready saved_paths_body)

lemma plot_ok_open [simp]: "figure_body fig \<Longrightarrow> plot_ok [fig, fig'] \<longleftrightarrow> figure_body fig'"
  by (simp add: plot_ok_def body_ready saved_paths_body)

lemma body_placeholder [simp]: "figure_body (plot_placeholder title message)"
  by (simp add: plot_placeholder_def)

lemma draws_concat_map [simp]: "(\<And>x. list_all draws (f x)) \<Longrightarrow> list_all draws (concat (map f xs))"
  by (auto simp: list_all_iff)

lemma draws_map: "(\<And>x. draws (f x)) \<Longrightarrow> list_all draws (map f xs)"
  by (auto simp: list_all_iff)

lemma draws_ticks [simp]: "list_all draws (policy_ticks r c labels)"
  by (simp add: policy_ticks_def)

lemma draws_y_grid [simp]: "draws (y_grid r c alpha)"
  by (simp add: y_grid_def)

section \<open>Saving what was drawn\<close>

lemma save_figure_ready: "figure_body fig \<Longrightarrow> figure_ready (close_figure (fst (save_figure fig dir name formats)))"
  unfolding figure_ready_def close_figure_def save_figure_def Let_def fst_conv
  by (intro exI [of _ fig] exI conjI) (auto simp: list_all_iff)

lemma save_plot_spec_paths:
  "map plot_path (fst (save_plot_spec dir formats g spec)) = map (plot_file dir (fst spec)) formats"
  by (simp add: save_plot_spec_def save_figure_def Let_def o_def)

lemma save_plot_spec_figures:
  assumes "plot_ok (snd spec)"
  shows "list_all figure_ready (snd (save_plot_spec dir formats g spec))"
    and "concat (map saved_paths (snd (save_plot_spec dir formats g spec))) =
      map plot_path (fst (save_plot_spec dir formats g spec))"
proof -
  have "figure_ready (close_figure (fst (save_figure (last (snd spec)) dir (fst spec) formats)))"
    using assms by (intro save_figure_ready) (simp add: plot_ok_def)
  then show "list_all figure_ready (snd (save_plot_spec dir formats g spec))"
    using assms by (auto simp: save_plot_spec_def plot_ok_def Let_def list_all_iff split: prod.split)
  have none: "concat (map saved_paths (butlast (snd spec))) = []"
    using assms unfolding concat_eq_Nil_conv by (auto simp: plot_ok_def list_all_iff)
  moreover have "saved_paths (last (snd spec)) = []"
    using assms by (intro saved_paths_body) (simp add: plot_ok_def)
  ultimately show "concat (map saved_paths (snd (save_plot_spec dir formats g spec))) =
      map plot_path (fst (save_plot_spec dir formats g spec))"
    unfolding save_plot_spec_def save_figure_def Let_def prod.case fst_conv snd_conv map_append concat_append none
    by (simp add: o_def saved_paths_saves)
qed

text \<open>Every image a group of plots lists was saved, nothing else was, and no figure is used after it was closed.\<close>

lemma save_plot_specs_figures:
  assumes "list_all (\<lambda>spec. plot_ok (snd spec)) specs"
  shows "list_all figure_ready (snd (save_plot_specs dir formats g specs))"
    and "concat (map saved_paths (snd (save_plot_specs dir formats g specs))) =
      map plot_path (fst (save_plot_specs dir formats g specs))"
  using assms by (induction specs) (simp_all add: save_plot_specs_def save_plot_spec_figures)

lemma save_plot_specs_paths:
  "map plot_path (fst (save_plot_specs dir formats g specs)) =
     concat (map (\<lambda>name. map (plot_file dir name) formats) (map fst specs))"
  by (induction specs) (simp_all add: save_plot_specs_def save_plot_spec_paths)

section \<open>Charts of the policy summary\<close>

lemma bar_plot_ok: "plot_ok (bar_plot labels series title ylabel)"
  by (auto simp: bar_plot_def Let_def intro!: draws_map simp del: list.pred_map split: prod.split)

lemma lookup_of_summary:
  assumes "\<forall>row\<in>set ps. ''policy'' \<in> fst ` set row"
  shows "\<exists>lookup. policy_summary_lookup ps = Inr lookup \<and>
    (\<forall>p. map_of lookup p \<noteq> None \<longleftrightarrow> p \<in> (\<lambda>row. row_get row ''policy'') ` set ps)"
  using assms
proof (induction ps rule: rev_induct)
  case (snoc row ps)
  then obtain v where v: "map_of row ''policy'' = Some v" by (auto simp: image_iff dest!: weak_map_of_SomeI)
  from snoc obtain lookup where lookup: "policy_summary_lookup ps = Inr lookup"
    "\<forall>p. map_of lookup p \<noteq> None \<longleftrightarrow> p \<in> (\<lambda>row. row_get row ''policy'') ` set ps" by auto
  have "policy_summary_lookup (ps @ [row]) = Inr (AList.update v row lookup)"
    using lookup(1) by (simp add: policy_summary_lookup_def foldR_append dict_get_def v)
  moreover have "row_get row ''policy'' = v" by (simp add: row_get_def row_get_or_def v)
  ultimately show ?case using lookup(2) by (auto simp: update_conv')
qed (simp add: policy_summary_lookup_def)

lemma summary_values_total:
  assumes "\<forall>row\<in>set ps. ''policy'' \<in> fst ` set row"
  obtains lookup where "policy_summary_lookup ps = Inr lookup"
    "\<And>column. \<exists>vs. summary_values lookup (ordered_policies ps) column = Inr vs"
    "\<And>column. \<exists>vs. summary_percents lookup (ordered_policies ps) column = Inr vs"
proof -
  obtain lookup where lookup: "policy_summary_lookup ps = Inr lookup"
    "\<forall>p. map_of lookup p \<noteq> None \<longleftrightarrow> p \<in> (\<lambda>row. row_get row ''policy'') ` set ps"
    using lookup_of_summary [OF assms] by blast
  have found: "\<exists>row. summary_of lookup p = Inr row" if "p \<in> set (ordered_policies ps)" for p
  proof -
    have "p \<in> set (present_policies ps)" using that by (simp add: ordered_policies_set)
    then have "PStr p \<in> (\<lambda>row. row_get row ''policy'') ` set ps"
      by (force simp: present_policies_def split: pyval.splits if_splits)
    then show ?thesis using lookup(2) by (auto simp: summary_of_def split: option.splits)
  qed
  have total: "\<exists>vs. mapR (\<lambda>p. bindR (summary_of lookup p) (\<lambda>row. Inr (f row))) (ordered_policies ps) = Inr vs"
    for f :: "table_row \<Rightarrow> pyfloat option"
  proof -
    have "mapR (\<lambda>p. bindR (summary_of lookup p) (\<lambda>row. Inr (f row))) (ordered_policies ps) =
        Inr (map (\<lambda>p. f (projr (summary_of lookup p))) (ordered_policies ps))"
      using found by (intro mapR_all_Inr) fastforce
    then show ?thesis by blast
  qed
  show thesis
    by (rule that [OF lookup(1)]) (simp_all only: summary_values_def summary_percents_def total)
qed

lemma summary_plots_ok:
  assumes "\<forall>row\<in>set ps. ''policy'' \<in> fst ` set row"
  shows "\<exists>figs. make_policy_latency_plot ps = Inr figs \<and> plot_ok figs"
    and "\<exists>figs. make_latency_delta_plot ps = Inr figs \<and> plot_ok figs"
    and "\<exists>figs. make_fairness_plot ps = Inr figs \<and> plot_ok figs"
    and "\<exists>figs. calibration_policy_pressure_reduction_plot ps = Inr figs \<and> plot_ok figs"
proof -
  obtain lookup where lookup: "policy_summary_lookup ps = Inr lookup"
    and vs: "\<And>column. \<exists>vs. summary_values lookup (ordered_policies ps) column = Inr vs"
    and ps: "\<And>column. \<exists>vs. summary_percents lookup (ordered_policies ps) column = Inr vs"
    by (rule summary_values_total [OF assms], rule that)
  obtain v p where v: "\<And>column. summary_values lookup (ordered_policies ps) column = Inr (v column)"
    and p: "\<And>column. summary_percents lookup (ordered_policies ps) column = Inr (p column)"
    using vs ps by metis
  show "\<exists>figs. make_policy_latency_plot ps = Inr figs \<and> plot_ok figs"
    and "\<exists>figs. make_latency_delta_plot ps = Inr figs \<and> plot_ok figs"
    and "\<exists>figs. make_fairness_plot ps = Inr figs \<and> plot_ok figs"
    and "\<exists>figs. calibration_policy_pressure_reduction_plot ps = Inr figs \<and> plot_ok figs"
    by (simp_all add: make_policy_latency_plot_def make_latency_delta_plot_def make_fairness_plot_def
        calibration_policy_pressure_reduction_plot_def lookup v p bar_plot_ok Let_def)
qed

lemma summary_panels_ok:
  assumes "\<forall>row\<in>set ps. ''policy'' \<in> fst ` set row"
  shows "\<exists>figs. summary_panels ps (ordered_policies ps) plots title = Inr figs \<and> plot_ok figs"
proof -
  obtain lookup where lookup: "policy_summary_lookup ps = Inr lookup"
    and vs: "\<And>column. \<exists>vs. summary_values lookup (ordered_policies ps) column = Inr vs"
    by (rule summary_values_total [OF assms], rule that)
  have panel: "\<exists>cs. summary_panel lookup (ordered_policies ps) panel = Inr cs \<and> list_all draws cs" for panel
    using vs [of "fst (snd panel)"] by (auto simp: summary_panel_def Let_def split: prod.split)
  then obtain f where f: "\<And>panel. summary_panel lookup (ordered_policies ps) panel = Inr (f panel)"
    "\<And>panel. list_all draws (f panel)" by metis
  have "mapR (summary_panel lookup (ordered_policies ps)) (enumerate 0 plots) = Inr (map f (enumerate 0 plots))"
    by (rule mapR_all_Inr) (rule f(1))
  then show ?thesis
    using f(2) by (simp add: summary_panels_def lookup)
qed

lemma panel_plots_ok:
  assumes "\<forall>row\<in>set ps. ''policy'' \<in> fst ` set row"
  shows "\<exists>figs. make_cache_memory_plot ps = Inr figs \<and> plot_ok figs"
    and "\<exists>figs. viability_admission_quality_plot ps = Inr figs \<and> plot_ok figs"
  using summary_panels_ok [OF assms] by (auto simp: make_cache_memory_plot_def viability_admission_quality_plot_def Let_def)

end
