(* ===== verification/PlotCharts.thy ===== *)
theory PlotCharts
  imports PlotCanvas
begin

text \<open>
  The charts over sweeps of \<^verbatim>\<open>scripts/plot_results.py\<close>: averages by policy and value, averages
  by cell, line charts, line charts by facet and heatmaps, and what the drawn numbers are.
\<close>

section \<open>Averages by policy and value\<close>

text \<open>
  A dictionary key that is a float: the two zeros are one key, and the key inserted first is
  the one listed.
\<close>

definition float_key :: "pyval \<Rightarrow> pyval" where
  "float_key x = (case x of PFloat v \<Rightarrow> (if is_fzero v then PFloat fzero else x) | _ \<Rightarrow> x)"

type_synonym point = "pyval \<times> pyfloat"

definition line_entry :: "string \<Rightarrow> string \<Rightarrow> bool \<Rightarrow> table_row \<Rightarrow> (pyval \<times> pyval \<times> pyfloat) list" where
  "line_entry x_column y_column numeric_x row =
     (let x_raw = row_get row x_column
      in case value_for_plot row y_column of
           None \<Rightarrow> []
         | Some y \<Rightarrow>
             if x_raw = PNone \<or> x_raw = PStr [] then []
             else if numeric_x
               then (case float_or_none x_raw of None \<Rightarrow> []
                     | Some x \<Rightarrow> [(row_get_or row ''policy'' (PStr []), PFloat x, y)])
             else [(row_get_or row ''policy'' (PStr []), PStr (value_str x_raw), y)])"

definition line_entries :: "table_row list \<Rightarrow> string \<Rightarrow> string \<Rightarrow> bool \<Rightarrow> (pyval \<times> pyval \<times> pyfloat) list" where
  "line_entries rows x_column y_column numeric_x = concat (map (line_entry x_column y_column numeric_x) rows)"

definition point_of :: "(pyval \<times> pyval) \<times> (pyval \<times> pyval \<times> pyfloat) list \<Rightarrow> pyval \<times> point" where
  "point_of group_item =
     (case group_item of (key, entries) \<Rightarrow> (fst key, fst (snd (hd entries)), fmean (map (snd \<circ> snd) entries)))"

definition aggregate_for_line ::
    "table_row list \<Rightarrow> string \<Rightarrow> string \<Rightarrow> bool \<Rightarrow> (pyval \<times> point list) list" where
  "aggregate_for_line rows x_column y_column numeric_x =
     (let grouped = group_by (\<lambda>(policy, x, y). (policy, float_key x)) (line_entries rows x_column y_column numeric_x);
          by_policy = group_by fst (map point_of grouped)
      in map (\<lambda>(policy, items). (policy, sort_key (\<lambda>(x, y). sort_value x_column (value_str x)) (map snd items))) by_policy)"

definition line_points :: "table_row list \<Rightarrow> string \<Rightarrow> string \<Rightarrow> bool \<Rightarrow> string \<Rightarrow> point list" where
  "line_points rows x_column y_column numeric_x policy =
     (case map_of (aggregate_for_line rows x_column y_column numeric_x) (PStr policy) of None \<Rightarrow> [] | Some points \<Rightarrow> points)"

section \<open>Line charts\<close>

definition position_arg :: "pyval \<Rightarrow> arg" where
  "position_arg x = (case x of PFloat v \<Rightarrow> AFloat v | _ \<Rightarrow> AText (value_str x))"

definition line_call :: "nat \<Rightarrow> nat \<Rightarrow> string \<Rightarrow> pyfloat \<Rightarrow> point list \<Rightarrow> call list" where
  "line_call r c policy scale points =
     (if points = [] then []
      else [Call (Axes r c) ''plot''
              [AList (map (position_arg \<circ> fst) points), floats (map (\<lambda>point. fmul (snd point) scale) points)]
              [(''marker'', AText ''o''), (''label'', AText policy)]])"

definition zero_line :: "nat \<Rightarrow> nat \<Rightarrow> pyfloat \<Rightarrow> call" where
  "zero_line r c alpha =
     Call (Axes r c) ''axhline'' [AFloat fzero]
       [(''color'', AText ''black''), (''linewidth'', AFloat (flit 8 1)), (''alpha'', AFloat alpha)]"

definition plain_grid :: "nat \<Rightarrow> nat \<Rightarrow> pyfloat \<Rightarrow> call" where
  "plain_grid r c alpha = Call (Axes r c) ''grid'' [] [(''alpha'', AFloat alpha)]"

definition rotate_ticks :: "nat \<Rightarrow> nat \<Rightarrow> bool \<Rightarrow> call list" where
  "rotate_ticks r c numeric_x =
     (if numeric_x then [] else [Call (Axes r c) ''tick_params'' [] [(''axis'', AText ''x''), (''rotation'', AInt 20)]])"

type_synonym y_spec = "string \<times> string \<times> pyfloat"

definition sweep_has_data :: "table_row list \<Rightarrow> string \<Rightarrow> y_spec list \<Rightarrow> bool \<Rightarrow> bool" where
  "sweep_has_data rows x_column y_specs numeric_x =
     list_ex (\<lambda>(y_column, y_label, scale).
       list_ex (\<lambda>policy. line_points rows x_column y_column numeric_x policy \<noteq> []) (ordered_policies rows)) y_specs"

definition sweep_panel :: "table_row list \<Rightarrow> string \<Rightarrow> bool \<Rightarrow> nat \<times> y_spec \<Rightarrow> call list" where
  "sweep_panel rows x_column numeric_x panel =
     (case panel of (r, y_column, y_label, scale) \<Rightarrow>
        concat (map (\<lambda>policy. line_call r 0 policy scale (line_points rows x_column y_column numeric_x policy))
                  (ordered_policies rows))
        @ [zero_line r 0 (flit 4 1), Call (Axes r 0) ''set_ylabel'' [AText y_label] [], plain_grid r 0 (flit 3 1)]
        @ rotate_ticks r 0 numeric_x
        @ [Call (Axes r 0) ''legend'' [] [(''fontsize'', AText ''small'')]])"

definition sweep_figure :: "table_row list \<Rightarrow> string \<Rightarrow> y_spec list \<Rightarrow> string \<Rightarrow> string \<Rightarrow> bool \<Rightarrow> figure" where
  "sweep_figure rows x_column y_specs title x_label numeric_x =
     [subplots (length y_specs) 1
        [(''figsize'', pair_arg (AInt 10) (at_least 4 (times_count (flit 36 1) (length y_specs)))),
         (''squeeze'', ABool False)]]
     @ concat (map (sweep_panel rows x_column numeric_x) (enumerate 0 y_specs))
     @ [Call (Axes (length y_specs - 1) 0) ''set_xlabel'' [AText x_label] [],
        Call Fig ''suptitle'' [AText title] [], Call Fig ''tight_layout'' [] []]"

text \<open>Without data the placeholder is returned and the first figure is left as it is.\<close>

definition line_sweep_plot ::
    "table_row list \<Rightarrow> string \<Rightarrow> y_spec list \<Rightarrow> string \<Rightarrow> string \<Rightarrow> bool \<Rightarrow> figure list" where
  "line_sweep_plot rows x_column y_specs title x_label numeric_x =
     (let fig = sweep_figure rows x_column y_specs title x_label numeric_x
      in if sweep_has_data rows x_column y_specs numeric_x then [fig] else [fig, plot_placeholder title no_data])"

section \<open>Line charts by facet\<close>

definition facet_rows :: "table_row list \<Rightarrow> string \<Rightarrow> string \<Rightarrow> table_row list" where
  "facet_rows rows facet_column facet_value = filter (\<lambda>row. row_text row facet_column = facet_value) rows"

text \<open>The first line of each policy stands for it in the legend of the figure.\<close>

definition first_lines :: "(string \<times> nat \<times> nat) list \<Rightarrow> (string \<times> nat \<times> nat) list" where
  "first_lines drawn = foldl (\<lambda>kept d. if fst d \<in> fst ` set kept then kept else kept @ [d]) [] drawn"

definition facet_panel ::
    "table_row list \<Rightarrow> string list \<Rightarrow> string \<Rightarrow> string \<Rightarrow> string \<Rightarrow> string \<Rightarrow> nat \<Rightarrow> bool \<Rightarrow> nat \<times> string \<Rightarrow> nat \<times> y_spec \<Rightarrow> call list" where
  "facet_panel rows policies facet_column x_column facet_label x_label metric_count numeric_x facet spec =
     (case (facet, spec) of ((c, facet_value), (r, y_column, y_label, scale)) \<Rightarrow>
        concat (map (\<lambda>policy. line_call r c policy scale
                   (line_points (facet_rows rows facet_column facet_value) x_column y_column numeric_x policy)) policies)
        @ [zero_line r c (flit 35 2), plain_grid r c (flit 3 1)]
        @ (if r = 0 then [Call (Axes r c) ''set_title'' [AText (facet_label @ '': '' @ facet_value)] []] else [])
        @ (if c = 0 then [Call (Axes r c) ''set_ylabel'' [AText y_label] []] else [])
        @ (if r + 1 = metric_count then [Call (Axes r c) ''set_xlabel'' [AText x_label] []] else [])
        @ rotate_ticks r c numeric_x)"

definition facet_lines ::
    "table_row list \<Rightarrow> string list \<Rightarrow> string \<Rightarrow> string list \<Rightarrow> string \<Rightarrow> y_spec list \<Rightarrow> bool \<Rightarrow> (string \<times> nat \<times> nat) list" where
  "facet_lines rows policies facet_column facet_values x_column y_specs numeric_x =
     concat (map (\<lambda>(c, facet_value). concat (map (\<lambda>(r, y_column, y_label, scale).
       map (\<lambda>policy. (policy, r, c)) (filter (\<lambda>policy.
         line_points (facet_rows rows facet_column facet_value) x_column y_column numeric_x policy \<noteq> []) policies))
       (enumerate 0 y_specs))) (enumerate 0 facet_values))"

definition shared_legend :: "(string \<times> nat \<times> nat) list \<Rightarrow> call list" where
  "shared_legend legend =
     (if legend = [] then []
      else [Call Fig ''legend'' [AList (map (\<lambda>(policy, r, c). ALine r c policy) legend), texts (map fst legend)]
              [(''loc'', AText ''lower center''), (''ncol'', AInt (min 4 (int (length legend)))), (''fontsize'', AText ''small'')]])"

definition layout_rect :: "pyfloat \<Rightarrow> pyfloat \<Rightarrow> pyfloat \<Rightarrow> pyfloat \<Rightarrow> call" where
  "layout_rect a b c d = Call Fig ''tight_layout'' [] [(''rect'', floats [a, b, c, d])]"

definition faceted_line_sweep_plot ::
    "(string list \<Rightarrow> string list) \<Rightarrow> table_row list \<Rightarrow> string \<Rightarrow> string \<Rightarrow> y_spec list \<Rightarrow> string \<Rightarrow> string \<Rightarrow> string \<Rightarrow> bool \<Rightarrow> figure list" where
  "faceted_line_sweep_plot it rows facet_column x_column y_specs title facet_label x_label numeric_x =
     (let facet_values = distinct_values it rows facet_column; policies = ordered_policies rows
      in if facet_values = [] \<or> policies = [] then [plot_placeholder title no_data]
         else
           let drawn = facet_lines rows policies facet_column facet_values x_column y_specs numeric_x;
               fig = [subplots (length y_specs) (length facet_values)
                        [(''figsize'', pair_arg (at_least 10 (times_count (flit 38 1) (length facet_values)))
                            (at_least_float (flit 45 1) (times_count (flit 34 1) (length y_specs)))),
                         (''squeeze'', ABool False)]]
                 @ concat (map (\<lambda>facet. concat (map
                     (facet_panel rows policies facet_column x_column facet_label x_label (length y_specs) numeric_x facet)
                     (enumerate 0 y_specs))) (enumerate 0 facet_values))
                 @ [Call Fig ''suptitle'' [AText title] []] @ shared_legend (first_lines drawn)
                 @ [layout_rect fzero (flit 8 2) (flit 1 0) (flit 94 2)]
           in if drawn = [] then [close_figure fig, plot_placeholder title no_data] else [fig])"

section \<open>Averages by cell\<close>

definition cell_entries :: "table_row list \<Rightarrow> string list \<Rightarrow> string \<Rightarrow> (string list \<times> pyfloat) list" where
  "cell_entries rows key_columns metric_column =
     concat (map (\<lambda>row. case value_for_plot row metric_column of None \<Rightarrow> []
        | Some value \<Rightarrow> let key = map (row_text row) key_columns
            in if [] \<in> set key then [] else [(key, value)]) rows)"

definition grouped_cells :: "(string list \<times> pyfloat) list \<Rightarrow> (string list \<times> pyfloat list) list" where
  "grouped_cells entries = map (\<lambda>(key, items). (key, map snd items)) (group_by fst entries)"

definition average_by_key :: "table_row list \<Rightarrow> string list \<Rightarrow> string \<Rightarrow> (string list \<times> pyfloat) list" where
  "average_by_key rows key_columns metric_column =
     map (\<lambda>(key, values). (key, fmean values)) (grouped_cells (cell_entries rows key_columns metric_column))"

definition heatmap_color_scale :: "string \<Rightarrow> pyfloat list \<Rightarrow> pyfloat \<times> pyfloat \<times> string" where
  "heatmap_color_scale metric_column values =
     (case filter is_finite values of
        [] \<Rightarrow> (fzero, flit 1 0, ''viridis'')
      | v # vs \<Rightarrow>
          let minimum = fminimum v vs; maximum = fmaximum v vs
          in if suffix ''_delta_pct'' metric_column \<or> sublist ''delta'' metric_column
             then let a = fabs minimum; b = fabs maximum; m = (if flt a b then b else a);
                      max_abs = (if feq m fzero then flit 1 0 else m)
                  in (fneg max_abs, max_abs, ''coolwarm'')
             else if feq minimum maximum
               then let p = fmul (fabs minimum) (flit 5 2); padding = (if is_fzero p then flit 1 0 else p)
                    in (fsub minimum padding, fadd maximum padding, ''viridis'')
             else (minimum, maximum, ''viridis''))"

text \<open>A missing cell of a matrix is \<open>math.nan\<close>.\<close>

definition cell_matrix :: "(string list \<Rightarrow> pyfloat option) \<Rightarrow> string list \<Rightarrow> string list \<Rightarrow> pyfloat list list" where
  "cell_matrix value_at_cell ys xs =
     map (\<lambda>y. map (\<lambda>x. case value_at_cell [y, x] of None \<Rightarrow> NaN | Some v \<Rightarrow> v) xs) ys"

definition cell_values :: "(string list \<Rightarrow> pyfloat option) \<Rightarrow> string list \<Rightarrow> string list \<Rightarrow> pyfloat list" where
  "cell_values value_at_cell ys xs =
     concat (map (\<lambda>y. concat (map (\<lambda>x. case value_at_cell [y, x] of None \<Rightarrow> [] | Some v \<Rightarrow> [v]) xs)) ys)"

definition matrix_arg :: "pyfloat list list \<Rightarrow> arg" where
  "matrix_arg matrix = AList (map floats matrix)"

text \<open>The number written into each finite cell.\<close>

definition cell_labels :: "nat \<Rightarrow> nat \<Rightarrow> nat \<Rightarrow> string \<Rightarrow> pyfloat list list \<Rightarrow> call list" where
  "cell_labels r c digits font matrix =
     concat (map (\<lambda>(y_index, row_values). concat (map (\<lambda>(x_index, value).
        if is_finite value
        then [Call (Axes r c) ''text'' [AInt (int x_index), AInt (int y_index), AText (fmt_f digits value)]
                [(''ha'', AText ''center''), (''va'', AText ''center''), (''fontsize'', AText font)]]
        else []) (enumerate 0 row_values))) (enumerate 0 matrix))"

section \<open>Heatmaps per policy\<close>

definition policy_cell :: "(string list \<times> pyfloat) list \<Rightarrow> pyfloat \<Rightarrow> string \<Rightarrow> string list \<Rightarrow> pyfloat option" where
  "policy_cell averaged scale policy cell = map_option (\<lambda>v. fmul v scale) (map_of averaged (policy # cell))"

definition heatmap_panel ::
    "(string list \<times> pyfloat) list \<Rightarrow> pyfloat \<Rightarrow> string list \<Rightarrow> string list \<Rightarrow> pyfloat \<times> pyfloat \<times> string \<Rightarrow> string \<Rightarrow> string \<Rightarrow>
     nat \<times> string \<Rightarrow> call list" where
  "heatmap_panel averaged scale xs ys limits x_label y_label panel =
     (case (panel, limits) of ((c, policy), (vmin, vmax, cmap)) \<Rightarrow>
        let matrix = cell_matrix (policy_cell averaged scale policy) ys xs
        in [Call (Axes 0 c) ''imshow'' [matrix_arg matrix]
              [(''aspect'', AText ''auto''), (''vmin'', AFloat vmin), (''vmax'', AFloat vmax), (''cmap'', AText cmap)],
            Call (Axes 0 c) ''set_title'' [AText policy] []]
           @ policy_ticks 0 c xs
           @ [Call (Axes 0 c) ''set_yticks'' [range_arg (length ys)] [],
              Call (Axes 0 c) ''set_xlabel'' [AText x_label] []]
           @ (if c = 0
              then [Call (Axes 0 c) ''set_yticklabels'' [texts ys] [],
                    Call (Axes 0 c) ''set_ylabel'' [AText y_label] [(''labelpad'', AInt 12)]]
              else [Call (Axes 0 c) ''set_yticklabels'' [AList []] [],
                    Call (Axes 0 c) ''tick_params'' [] [(''axis'', AText ''y''), (''length'', AInt 0)]])
           @ cell_labels 0 c 1 ''x-small'' matrix)"

definition heatmap_by_policy ::
    "(string list \<Rightarrow> string list) \<Rightarrow> table_row list \<Rightarrow> string \<Rightarrow> string \<Rightarrow> string \<Rightarrow> string \<Rightarrow> string \<Rightarrow> string \<Rightarrow> string \<Rightarrow> pyfloat \<Rightarrow> figure list" where
  "heatmap_by_policy it rows x_column y_column metric_column title x_label y_label metric_label scale =
     (let xs = distinct_values it rows x_column; ys = distinct_values it rows y_column; policies = ordered_policies rows
      in if xs = [] \<or> ys = [] \<or> policies = [] then [plot_placeholder title no_data]
         else
           let averaged = average_by_key rows [''policy'', y_column, x_column] metric_column;
               plotted_values = concat (map (\<lambda>policy. cell_values (policy_cell averaged scale policy) ys xs) policies)
           in if plotted_values = [] then [plot_placeholder title no_data]
              else [[subplots 1 (length policies)
                       [(''figsize'', pair_arg (at_least 9 (times_count (flit 51 1) (length policies))) (AFloat (flit 58 1))),
                        (''constrained_layout'', ABool True), (''squeeze'', ABool False)]]
                    @ concat (map (heatmap_panel averaged scale xs ys (heatmap_color_scale metric_column plotted_values) x_label y_label)
                                (enumerate 0 policies))
                    @ [Call Fig ''suptitle'' [AText title] [],
                       Call Fig ''colorbar'' [AImage 0 0]
                         [(''ax'', AAxes (map (Pair 0) [0..<length policies])), (''shrink'', AFloat (flit 8 1)),
                          (''label'', AText metric_label)]]])"

section \<open>Heatmaps averaged over policies\<close>

definition policy_scope_label :: "table_row list \<Rightarrow> string" where
  "policy_scope_label rows =
     (case ordered_policies rows of
        [] \<Rightarrow> ''Policy scope: no policy rows''
      | [policy] \<Rightarrow> ''Policy scope: '' @ policy
      | policies \<Rightarrow> ''Policy scope: averaged across '' @ str_join '', '' policies)"

type_synonym panel_spec = "string \<times> string \<times> string \<times> string \<times> string \<times> string"

definition image_panel ::
    "nat \<Rightarrow> string list \<Rightarrow> string list \<Rightarrow> pyfloat list list \<Rightarrow> string \<Rightarrow> string \<Rightarrow> string \<Rightarrow> nat \<Rightarrow> string \<Rightarrow> call list" where
  "image_panel c xs ys matrix panel_title x_label y_label digits color_label =
     [Call (Axes 0 c) ''imshow'' [matrix_arg matrix] [(''aspect'', AText ''auto'')],
      Call (Axes 0 c) ''set_title'' [AText panel_title] []]
     @ policy_ticks 0 c xs
     @ [Call (Axes 0 c) ''set_yticks'' [range_arg (length ys)] [],
        Call (Axes 0 c) ''set_yticklabels'' [texts ys] [],
        Call (Axes 0 c) ''set_xlabel'' [AText x_label] [],
        Call (Axes 0 c) ''set_ylabel'' [AText y_label] []]
     @ cell_labels 0 c digits ''small'' matrix
     @ [Call Fig ''colorbar'' [AImage 0 c]
          [(''ax'', AAxes [(0, c)]), (''shrink'', AFloat (flit 82 2)), (''label'', AText color_label)]]"

definition panel_values ::
    "(string list \<Rightarrow> string list) \<Rightarrow> table_row list \<Rightarrow> panel_spec \<Rightarrow> string list \<times> string list \<times> (string list \<times> pyfloat) list" where
  "panel_values it rows spec =
     (case spec of (x_column, y_column, metric_column, panel_title, x_label, y_label) \<Rightarrow>
        (distinct_values it rows x_column, distinct_values it rows y_column,
         average_by_key rows [y_column, x_column] metric_column))"

definition averaged_panel ::
    "(string list \<Rightarrow> string list) \<Rightarrow> table_row list \<Rightarrow> nat \<times> panel_spec \<Rightarrow> call list" where
  "averaged_panel it rows panel =
     (case panel of (c, spec) \<Rightarrow>
        case (panel_values it rows spec, spec) of
          ((xs, ys, values_by_cell), (x_column, y_column, metric_column, panel_title, x_label, y_label)) \<Rightarrow>
            image_panel c xs ys (cell_matrix (map_of values_by_cell) ys xs) panel_title x_label y_label 1
              (str_title (str_replace (CHR ''_'') '' '' metric_column)))"

definition panel_has_data :: "(string list \<Rightarrow> string list) \<Rightarrow> table_row list \<Rightarrow> panel_spec \<Rightarrow> bool" where
  "panel_has_data it rows spec =
     (case panel_values it rows spec of (xs, ys, values_by_cell) \<Rightarrow> cell_values (map_of values_by_cell) ys xs \<noteq> [])"

definition policy_averaged_panel_heatmap ::
    "(string list \<Rightarrow> string list) \<Rightarrow> table_row list \<Rightarrow> panel_spec list \<Rightarrow> string \<Rightarrow> figure list" where
  "policy_averaged_panel_heatmap it rows panel_specs title =
     (if rows = [] \<or> panel_specs = [] then [plot_placeholder title no_data]
      else
        let fig = [subplots 1 (length panel_specs)
                     [(''figsize'', pair_arg (at_least 7 (times_count (flit 64 1) (length panel_specs))) (AFloat (flit 56 1))),
                      (''squeeze'', ABool False)]]
              @ concat (map (averaged_panel it rows) (enumerate 0 panel_specs))
              @ [Call Fig ''suptitle'' [AText title] [],
                 Call Fig ''text'' [AFloat (flit 5 1), AFloat (flit 1 2), AText (policy_scope_label rows)]
                   [(''ha'', AText ''center''), (''fontsize'', AText ''small'')]]
        in if list_ex (panel_has_data it rows) panel_specs
           then [fig @ [layout_rect fzero (flit 4 2) (flit 1 0) (flit 94 2)]]
           else [close_figure fig, plot_placeholder title no_data])"

section \<open>The charts are figures the library accepts\<close>

lemma draws_pieces [simp]:
  "draws (zero_line r c alpha)" "draws (plain_grid r c alpha)" "draws (layout_rect v1 v2 v3 v4)"
  by (simp_all add: zero_line_def plain_grid_def layout_rect_def)

lemma draws_lists [simp]:
  "list_all draws (rotate_ticks r c numeric_x)"
  "list_all draws (line_call r c policy scale points)"
  "list_all draws (shared_legend legend)"
  by (simp_all add: rotate_ticks_def line_call_def shared_legend_def)

lemma draws_labels [simp]: "list_all draws (cell_labels r c digits font matrix)"
  by (auto simp: cell_labels_def list_all_iff)

lemma draws_image [simp]: "list_all draws (image_panel c xs ys matrix t x_label y_label digits color_label)"
  by (simp add: image_panel_def)

lemma sweep_figure_body: "y_specs \<noteq> [] \<Longrightarrow> figure_body (sweep_figure rows x_column y_specs title x_label numeric_x)"
proof -
  have "list_all draws (sweep_panel rows x_column numeric_x panel)" for panel
    by (simp add: sweep_panel_def split: prod.split)
  then show "y_specs \<noteq> [] \<Longrightarrow> figure_body (sweep_figure rows x_column y_specs title x_label numeric_x)"
    by (simp add: sweep_figure_def)
qed

lemma line_sweep_ok: "y_specs \<noteq> [] \<Longrightarrow> plot_ok (line_sweep_plot rows x_column y_specs title x_label numeric_x)"
  by (simp add: line_sweep_plot_def sweep_figure_body Let_def)

lemma faceted_ok:
  assumes "y_specs \<noteq> []"
  shows "plot_ok (faceted_line_sweep_plot it rows facet_column x_column y_specs title facet_label x_label numeric_x)"
proof -
  have "list_all draws (facet_panel rows ps fc xc fl xl n numeric_x facet spec)" for ps fc xc fl xl n facet spec
    by (simp add: facet_panel_def split: prod.split)
  then show ?thesis using assms by (simp add: faceted_line_sweep_plot_def Let_def)
qed

lemma heatmap_by_policy_ok:
  "plot_ok (heatmap_by_policy it rows x_column y_column metric_column title x_label y_label metric_label scale)"
proof -
  have "list_all draws (heatmap_panel averaged sc xs ys limits xl yl panel)" for averaged sc xs ys limits xl yl panel
    by (simp add: heatmap_panel_def Let_def split: prod.split)
  then show ?thesis by (simp add: heatmap_by_policy_def Let_def)
qed

lemma averaged_panels_ok: "plot_ok (policy_averaged_panel_heatmap it rows panel_specs title)"
proof -
  have "list_all draws (averaged_panel it rows panel)" for panel
    by (simp add: averaged_panel_def split: prod.split)
  then show ?thesis by (simp add: policy_averaged_panel_heatmap_def Let_def)
qed

section \<open>A sweep without data stays open\<close>

lemma figures_left_open:
  "snd (save_plot_spec dir formats g (name, figs)) =
     butlast figs @ [close_figure (fst (save_figure (last figs) dir name formats))]"
  by (simp add: save_plot_spec_def Let_def split: prod.split)

text \<open>
  C31. Saving a sweep closes what it returned. When no policy has a point, that is the placeholder,
  and the figure with the empty axes is never closed; the sweep by facets closes it.
\<close>

theorem sweep_left_open:
  "filter figure_open (snd (save_plot_spec dir formats g
       (name, line_sweep_plot rows x_column (spec # specs) title x_label numeric_x))) =
     (if sweep_has_data rows x_column (spec # specs) numeric_x then []
      else [sweep_figure rows x_column (spec # specs) title x_label numeric_x]) \<and>
   filter figure_open (snd (save_plot_spec dir formats g
       (name, faceted_line_sweep_plot it rows facet_column x_column (spec # specs) title facet_label x_label numeric_x))) = []"
proof
  have "figure_open (sweep_figure rows x_column (spec # specs) title x_label numeric_x)"
    by (simp add: figure_body_open sweep_figure_body)
  then show "filter figure_open (snd (save_plot_spec dir formats g
       (name, line_sweep_plot rows x_column (spec # specs) title x_label numeric_x))) =
     (if sweep_has_data rows x_column (spec # specs) numeric_x then []
      else [sweep_figure rows x_column (spec # specs) title x_label numeric_x])"
    by (simp add: figures_left_open line_sweep_plot_def Let_def)
  show "filter figure_open (snd (save_plot_spec dir formats g
       (name, faceted_line_sweep_plot it rows facet_column x_column (spec # specs) title facet_label x_label numeric_x))) = []"
    by (simp add: figures_left_open faceted_line_sweep_plot_def Let_def)
qed

section \<open>The averages that are drawn\<close>

text \<open>The values a cell is the average of, in the order of the rows.\<close>

definition values_at_cell :: "table_row list \<Rightarrow> string list \<Rightarrow> string \<Rightarrow> string list \<Rightarrow> pyfloat list" where
  "values_at_cell rows key_columns metric_column cell =
     concat (map (\<lambda>row. if map (row_text row) key_columns = cell
        then (case value_for_plot row metric_column of None \<Rightarrow> [] | Some v \<Rightarrow> [v]) else []) rows)"

lemma map_of_grouped_cells:
  "map_of (grouped_cells entries) key =
     (let vs = map snd (filter (\<lambda>e. fst e = key) entries) in if vs = [] then None else Some vs)"
proof -
  have "map_of (grouped_cells entries) key = map_option (map snd) (map_of (group_by fst entries) key)"
    by (simp add: grouped_cells_def map_of_map)
  then show ?thesis by (auto simp: map_of_group_by Let_def filter_empty_conv)
qed

lemma map_of_averaged:
  "map_of (map (\<lambda>(key, values). (key, fmean values)) cells) key = map_option fmean (map_of cells key)"
  by (simp add: map_of_map)

lemma cell_entries_values:
  assumes "[] \<notin> set cell"
  shows "map snd (filter (\<lambda>e. fst e = cell) (cell_entries rows key_columns metric_column)) =
    values_at_cell rows key_columns metric_column cell"
  using assms by (induction rows) (auto simp: cell_entries_def values_at_cell_def Let_def split: option.split)

lemma cell_entries_blank:
  assumes "[] \<in> set cell"
  shows "filter (\<lambda>e. fst e = cell) (cell_entries rows key_columns metric_column) = []"
  using assms by (auto simp: cell_entries_def filter_empty_conv Let_def split: option.splits if_splits)


end
