(* ===== verification/PlotStudies.thy ===== *)
theory PlotStudies
  imports PlotCharts
begin

text \<open>
  The figures of the calibration and viability reports of \<^verbatim>\<open>scripts/plot_results.py\<close>: memory
  and channel pressure, concentration of remote traffic, viability signals and the best-run
  examples.
\<close>

section \<open>Calibration heatmaps\<close>

definition calibration_memory_pressure_heatmap :: "(string list \<Rightarrow> string list) \<Rightarrow> table_row list \<Rightarrow> figure list" where
  "calibration_memory_pressure_heatmap it comparison_rows =
     policy_averaged_panel_heatmap it comparison_rows
       [(''node_count'', ''memory_bandwidth_level'', ''average_memory_wait'', ''Average memory wait'',
         ''Compute node count'', ''Memory bandwidth level''),
        (''node_count'', ''memory_bandwidth_level'', ''total_queue_wait'', ''Total queue wait'',
         ''Compute node count'', ''Memory bandwidth level'')]
       ''Memory pressure by node count and bandwidth''"

definition calibration_hotness_memory_pressure_heatmap :: "(string list \<Rightarrow> string list) \<Rightarrow> table_row list \<Rightarrow> figure list" where
  "calibration_hotness_memory_pressure_heatmap it comparison_rows =
     policy_averaged_panel_heatmap it comparison_rows
       [(''hot_access_probability'', ''cache_capacity_hotset_multiplier'', ''average_memory_wait'',
         ''Hotness by cache capacity'', ''Hot-access probability'', ''Cache capacity / hot-set footprint''),
        (''hot_access_probability'', ''memory_bandwidth_level'', ''average_memory_wait'',
         ''Hotness by memory bandwidth'', ''Hot-access probability'', ''Memory bandwidth level'')]
       ''Memory wait by hotness, cache capacity, and bandwidth''"

definition calibration_channel_pressure_heatmap :: "(string list \<Rightarrow> string list) \<Rightarrow> table_row list \<Rightarrow> figure list" where
  "calibration_channel_pressure_heatmap it comparison_rows =
     policy_averaged_panel_heatmap it comparison_rows
       [(''memory_channel_count'', ''hot_object_channel_count'', ''average_memory_wait'', ''Average memory wait'',
         ''Memory channel count'', ''Hot-object channel count''),
        (''memory_channel_count'', ''hot_object_channel_count'', ''peak_memory_channel_queue_depth'',
         ''Peak channel queue depth'', ''Memory channel count'', ''Hot-object channel count'')]
       ''Channel-local memory pressure''"

section \<open>Calibration sweeps\<close>

definition calibration_channel_count_pressure_plot :: "table_row list \<Rightarrow> figure list" where
  "calibration_channel_count_pressure_plot comparison_rows =
     line_sweep_plot comparison_rows ''memory_channel_count''
       [(''average_memory_wait'', ''Average memory wait'', flit 1 0),
        (''total_queue_wait'', ''Total queue wait'', flit 1 0),
        (''peak_memory_channel_queue_depth'', ''Peak channel queue depth'', flit 1 0),
        (''channel_queue_imbalance'', ''Channel queue imbalance'', flit 1 0)]
       ''Memory pressure as channel parallelism changes'' ''Memory channel count'' True"

definition calibration_issue_mode_pressure_plot :: "table_row list \<Rightarrow> figure list" where
  "calibration_issue_mode_pressure_plot comparison_rows =
     line_sweep_plot comparison_rows ''workload_issue_mode''
       [(''average_memory_wait'', ''Average memory wait'', flit 1 0),
        (''total_queue_wait'', ''Total queue wait'', flit 1 0),
        (''peak_memory_channel_queue_depth'', ''Peak channel queue depth'', flit 1 0),
        (''p99_latency'', ''P99 latency'', flit 1 0)]
       ''Memory pressure by workload issue mode'' ''Workload issue mode'' False"

definition calibration_channel_hotspot_plot :: "table_row list \<Rightarrow> figure list" where
  "calibration_channel_hotspot_plot comparison_rows =
     line_sweep_plot comparison_rows ''hot_object_channel_count''
       [(''average_memory_wait'', ''Average memory wait'', flit 1 0),
        (''peak_memory_channel_queue_depth'', ''Peak channel queue depth'', flit 1 0),
        (''max_channel_total_queue_wait'', ''Max channel total queue wait'', flit 1 0),
        (''channel_queue_imbalance'', ''Channel queue imbalance'', flit 1 0)]
       ''Channel-local hotspot pressure'' ''Hot-object channel count (0 = unrestricted)'' True"

section \<open>Concentration by overlap and hotness\<close>

definition concentration_entries ::
    "table_row list \<Rightarrow> (string \<times> ObjectConcentrationSummary) list \<Rightarrow> (ObjectConcentrationSummary \<Rightarrow> pyfloat) \<Rightarrow>
     (string list \<times> pyfloat) list" where
  "concentration_entries comparison_rows concentration pick =
     concat (map (\<lambda>row. case map_of concentration (row_text row ''experiment_name'') of None \<Rightarrow> []
        | Some summary \<Rightarrow> let key = [row_text row ''cross_node_overlap'', row_text row ''hot_access_probability'']
            in if [] \<in> set key then [] else [(key, pick summary)]) comparison_rows)"

definition concentration_metric_by_cell ::
    "table_row list \<Rightarrow> (string \<times> ObjectConcentrationSummary) list \<Rightarrow> (ObjectConcentrationSummary \<Rightarrow> pyfloat) \<Rightarrow>
     (string list \<times> pyfloat) list" where
  "concentration_metric_by_cell comparison_rows concentration pick =
     map (\<lambda>(key, values). (key, fmean values)) (grouped_cells (concentration_entries comparison_rows concentration pick))"

definition concentration_specs :: "((ObjectConcentrationSummary \<Rightarrow> pyfloat) \<times> string \<times> string) list" where
  "concentration_specs =
     [(top_distinct_requesters, ''Top-5 average distinct requesters'', ''Distinct requesters''),
      (top_remote_access_share, ''Top-5 remote access share'', ''Share of remote accesses'')]"

definition concentration_scope :: "string list \<Rightarrow> string" where
  "concentration_scope policies =
     (if length policies = 1 then ''Policy scope: '' @ hd policies
      else ''Policy scope: averaged across '' @ str_join '', '' policies)"

definition calibration_overlap_hotness_concentration_plot ::
    "(string list \<Rightarrow> string list) \<Rightarrow> (string \<Rightarrow> string option) \<Rightarrow> table_row list \<Rightarrow> figure list" where
  "calibration_overlap_hotness_concentration_plot it contention_file comparison_rows =
     (let title = ''Object concentration by overlap and hotness'';
          concentration = object_concentration_by_run contention_file 5 comparison_rows;
          hot_probabilities = distinct_values it comparison_rows ''hot_access_probability'';
          overlaps = distinct_values it comparison_rows ''cross_node_overlap''
      in if concentration = []
         then [plot_placeholder title ''No contention_by_object.csv files were available.'']
         else if hot_probabilities = [] \<or> overlaps = []
         then [plot_placeholder title ''No overlap/hot-access matrix values were available.'']
         else
           let by_cell = (\<lambda>pick. map_of (concentration_metric_by_cell comparison_rows concentration pick));
               fig = [subplots 1 2 [(''figsize'', pair_arg (AInt 14) (AFloat (flit 55 1))), (''squeeze'', ABool False)]]
                 @ concat (map (\<lambda>(c, pick, panel_title, color_label).
                     image_panel c hot_probabilities overlaps (cell_matrix (by_cell pick) overlaps hot_probabilities)
                       panel_title ''Hot-access probability'' ''Cross-node overlap'' 2 color_label)
                     (enumerate 0 concentration_specs))
                 @ [Call Fig ''suptitle'' [AText ''Object-level concentration by overlap and hotness''] [],
                    Call Fig ''text'' [AFloat (flit 5 1), AFloat (flit 1 2),
                        AText (concentration_scope (ordered_policies comparison_rows))]
                      [(''ha'', AText ''center''), (''fontsize'', AText ''small'')]]
           in if list_ex (\<lambda>(pick, _, _). cell_values (by_cell pick) overlaps hot_probabilities \<noteq> []) concentration_specs
              then [fig @ [layout_rect fzero (flit 4 2) (flit 1 0) (flit 94 2)]]
              else [close_figure fig, plot_placeholder title ''No object-concentration data was available.''])"

section \<open>Pressure by node count\<close>

definition node_metrics :: "(string \<times> string) list" where
  "node_metrics =
     [(''average_memory_wait'', ''Average memory wait''), (''peak_memory_queue_depth'', ''Peak queue depth''),
      (''total_queue_wait'', ''Total queue wait'')]"

text \<open>The points of one policy and bandwidth, ordered by their node count.\<close>

definition node_points ::
    "(string list \<Rightarrow> string list) \<Rightarrow> table_row list \<Rightarrow> string \<Rightarrow> string \<Rightarrow> string \<Rightarrow> (pyfloat \<times> pyfloat) list" where
  "node_points it comparison_rows metric_column policy bandwidth =
     (let grouped = grouped_cells (cell_entries comparison_rows [''policy'', ''memory_bandwidth_level'', ''node_count''] metric_column)
      in sort_key (fval \<circ> fst) (concat (map (\<lambda>node_count.
           case map_of grouped [policy, bandwidth, node_count] of
             None \<Rightarrow> []
           | Some values \<Rightarrow> [(or_zero (float_or_none (PStr node_count)),
                fdiv (fmul (flit 1 0) (fsum values)) (float_of_int (int (length values))))])
           (distinct_values it comparison_rows ''node_count''))))"

definition node_lines ::
    "(string list \<Rightarrow> string list) \<Rightarrow> table_row list \<Rightarrow> string \<Rightarrow> (string \<times> (pyfloat \<times> pyfloat) list) list" where
  "node_lines it comparison_rows metric_column =
     concat (map (\<lambda>policy. concat (map (\<lambda>bandwidth.
        let points = node_points it comparison_rows metric_column policy bandwidth
        in if points = [] then [] else [(policy @ ''/'' @ bandwidth, points)])
        (distinct_values it (filter (\<lambda>row. row_get row ''policy'' = PStr policy) comparison_rows) ''memory_bandwidth_level'')))
        (ordered_policies comparison_rows))"

definition node_panel :: "(string list \<Rightarrow> string list) \<Rightarrow> table_row list \<Rightarrow> nat \<times> string \<times> string \<Rightarrow> call list" where
  "node_panel it comparison_rows panel =
     (case panel of (r, metric_column, ylabel) \<Rightarrow>
        map (\<lambda>(label, points). Call (Axes r 0) ''plot'' [floats (map fst points), floats (map snd points)]
               [(''marker'', AText ''o''), (''label'', AText label)]) (node_lines it comparison_rows metric_column)
        @ [Call (Axes r 0) ''set_ylabel'' [AText ylabel] [], plain_grid r 0 (flit 3 1),
           Call (Axes r 0) ''legend'' [] [(''fontsize'', AText ''x-small''), (''ncol'', AInt 2)]])"

definition calibration_node_count_pressure_plot :: "(string list \<Rightarrow> string list) \<Rightarrow> table_row list \<Rightarrow> figure list" where
  "calibration_node_count_pressure_plot it comparison_rows =
     (let title = ''Contention scaling by node count and bandwidth'';
          fig = [subplots (length node_metrics) 1 [(''figsize'', pair_arg (AInt 11) (AInt 10)), (''squeeze'', ABool False)]]
            @ concat (map (node_panel it comparison_rows) (enumerate 0 node_metrics))
            @ [Call (Axes (length node_metrics - 1) 0) ''set_xlabel'' [AText ''Compute node count''] [],
               Call Fig ''suptitle'' [AText title] [], Call Fig ''tight_layout'' [] []]
      in if list_ex (\<lambda>(metric_column, _). node_lines it comparison_rows metric_column \<noteq> []) node_metrics then [fig]
         else [close_figure fig, plot_placeholder title ''No node-count pressure data available.''])"

section \<open>Viability\<close>

definition contention_aware_rows :: "table_row list \<Rightarrow> table_row list" where
  "contention_aware_rows rows = filter (\<lambda>row. sublist ''contention_aware'' (row_text row ''policy'')) rows"

definition scatter_call :: "table_row list \<Rightarrow> string \<Rightarrow> call" where
  "scatter_call usable policy =
     (let policy_rows = filter (\<lambda>row. row_get row ''policy'' = PStr policy) usable;
          plot = (\<lambda>column row. or_zero (value_for_plot row column))
      in Call (Axes 0 0) ''scatter''
           [floats (map (plot ''stale_telemetry_rate'') policy_rows),
            floats (map (\<lambda>row. fmul (fneg (flit 100 0)) (plot ''mean_latency_delta_pct'' row)) policy_rows)]
           [(''s'', floats (map (\<lambda>row. fadd (flit 40 0) (fmul (flit 30 0) (plot ''admission_yield'' row))) policy_rows)),
            (''alpha'', AFloat (flit 75 2)), (''label'', AText policy)])"

definition make_viability_scatter :: "table_row list \<Rightarrow> figure list" where
  "make_viability_scatter comparison_rows =
     (let usable = filter (\<lambda>row. value_for_plot row ''stale_telemetry_rate'' \<noteq> None
            \<and> value_for_plot row ''mean_latency_delta_pct'' \<noteq> None) (contention_aware_rows comparison_rows)
      in if usable = []
         then [plot_placeholder ''Contention-aware viability scatter''
                 ''No contention-aware viability rows with stale-telemetry data.'']
         else [[Call Plt ''subplots'' [] [(''figsize'', pair_arg (AInt 9) (AInt 6))]]
               @ map (scatter_call usable) (ordered_policies usable)
               @ [zero_line 0 0 (flit 4 1),
                  Call (Axes 0 0) ''set_title'' [AText ''Contention-aware viability signals''] [],
                  Call (Axes 0 0) ''set_xlabel'' [AText ''Hot-set-sized stale telemetry rate''] [],
                  Call (Axes 0 0) ''set_ylabel'' [AText ''Mean latency improvement vs baseline (%)''] [],
                  Call (Axes 0 0) ''legend'' [] [(''fontsize'', AText ''small'')],
                  plain_grid 0 0 (flit 3 1)]])"

definition viability_admission_quality_by_churn_plot :: "table_row list \<Rightarrow> figure list" where
  "viability_admission_quality_by_churn_plot comparison_rows =
     line_sweep_plot comparison_rows ''hot_set_churn_fraction''
       [(''admission_yield'', ''Admission yield'', flit 1 0),
        (''reuse_after_admit_rate'', ''Reuse-after-admit rate'', flit 1 0),
        (''estimated_avoided_contention_cost'', ''Estimated contention relief'', flit 1 0),
        (''eviction_regret_count'', ''Eviction regret count'', flit 1 0)]
       ''Admission quality by hot-set churn'' ''Hot-set churn fraction'' True"

definition viability_remote_pressure_by_churn_plot :: "table_row list \<Rightarrow> figure list" where
  "viability_remote_pressure_by_churn_plot comparison_rows =
     line_sweep_plot comparison_rows ''hot_set_churn_fraction''
       [(''total_remote_accesses_delta_pct'', ''Remote-access delta vs baseline (%)'', flit 100 0),
        (''average_memory_wait_delta_pct'', ''Average memory-wait delta vs baseline (%)'', flit 100 0),
        (''estimated_avoided_contention_cost'', ''Estimated contention relief'', flit 1 0)]
       ''Remote pressure by hot-set churn'' ''Hot-set churn fraction'' True"

definition viability_fairness_by_churn_plot :: "table_row list \<Rightarrow> figure list" where
  "viability_fairness_by_churn_plot comparison_rows =
     line_sweep_plot comparison_rows ''hot_set_churn_fraction''
       [(''jain_inverse_latency_fairness'', ''Jain inverse-latency fairness'', flit 1 0),
        (''per_node_mean_latency_spread'', ''Per-node mean-latency spread'', flit 1 0)]
       ''Fairness by hot-set churn'' ''Hot-set churn fraction'' True"

section \<open>Best-run examples\<close>

text \<open>The targets are a set, but its sort key is injective: the order of the set cannot show.\<close>

definition best_run_targets :: "table_row list \<Rightarrow> string list" where
  "best_run_targets context_rows =
     sort_key policy_order_key
       (remdups (filter (\<lambda>t. t \<noteq> []) (map (\<lambda>row. row_text row ''target_policy'') context_rows)))"

definition best_run_condition_label :: "table_row \<Rightarrow> string" where
  "best_run_condition_label row =
     str_join '', '' (concat (map (\<lambda>(column, label).
        let value = str_strip (row_text row column) in if value = [] then [] else [label @ ''='' @ value])
        [(''hot_set_churn_fraction'', ''churn''), (''cache_capacity_hotset_multiplier'', ''cachex''),
         (''requests_per_node_per_epoch'', ''rpe''), (''large_object_probability'', ''large-p'')]))"

definition sorted_best_context_rows :: "table_row list \<Rightarrow> table_row list" where
  "sorted_best_context_rows rows = sort_key (\<lambda>row. policy_order_key (row_text row ''comparison_policy'')) rows"

definition target_rows :: "table_row list \<Rightarrow> string \<Rightarrow> table_row list" where
  "target_rows context_rows target_policy =
     sorted_best_context_rows (filter (\<lambda>row. row_get row ''target_policy'' = PStr target_policy) context_rows)"

definition bar_colors :: "table_row list \<Rightarrow> arg" where
  "bar_colors rows =
     texts (map (\<lambda>row. if row_get row ''is_target_policy'' = PBool True then ''tab:orange'' else ''tab:blue'') rows)"

definition example_title :: "string \<Rightarrow> table_row list \<Rightarrow> arg" where
  "example_title target_policy rows =
     AText (target_policy @ newline @ (case rows of [] \<Rightarrow> [] | row # _ \<Rightarrow> best_run_condition_label row))"

definition latency_example :: "table_row list \<Rightarrow> nat \<Rightarrow> nat \<times> string \<Rightarrow> call list" where
  "latency_example context_rows columns example =
     (case example of (index, target_policy) \<Rightarrow>
        let r = index div columns; c = index mod columns; rows = target_rows context_rows target_policy;
            policies = map (\<lambda>row. row_text row ''comparison_policy'') rows;
            heights = map (\<lambda>row. case value_for_plot row ''latency_improvement_pct'' of Some v \<Rightarrow> v | None \<Rightarrow> fzero) rows
        in [Call (Axes r c) ''bar'' [range_arg (length policies), floats heights] [(''color'', bar_colors rows)],
            zero_line r c (flit 45 2),
            Call (Axes r c) ''set_title'' [example_title target_policy rows] [],
            Call (Axes r c) ''set_ylabel'' [AText ''Mean latency improvement vs baseline (%)''] []]
           @ policy_ticks r c policies @ [y_grid r c (flit 3 1)])"

text \<open>\<open>math.ceil(len(targets) / columns)\<close>; the float quotient of two counts below \<open>2 ^ 53\<close> never rounds past an integer.\<close>

definition rows_needed :: "nat \<Rightarrow> nat \<Rightarrow> nat" where
  "rows_needed n columns = (n + columns - 1) div columns"

definition unused_axes :: "nat \<Rightarrow> nat list \<Rightarrow> call list" where
  "unused_axes columns indices =
     map (\<lambda>index. Call (Axes (index div columns) (index mod columns)) ''axis'' [AText ''off''] []) indices"

definition make_best_run_latency_examples_plot :: "table_row list \<Rightarrow> figure list" where
  "make_best_run_latency_examples_plot context_rows =
     (let targets = best_run_targets context_rows; title = ''Best-run latency examples'';
          columns = min 3 (length targets); rows = rows_needed (length targets) columns
      in if targets = [] then [plot_placeholder title ''No non-baseline best-run examples were available.'']
         else
           let fig = [subplots rows columns
                        [(''figsize'', pair_arg (at_least 10 (times_count (flit 48 1) columns))
                            (at_least_float (flit 45 1) (times_count (flit 41 1) rows))),
                         (''squeeze'', ABool False)]]
                 @ concat (map (latency_example context_rows columns) (enumerate 0 targets))
                 @ unused_axes columns [length targets..<rows * columns]
                 @ [Call Fig ''suptitle'' [AText ''Best individual run for each non-baseline policy''] [],
                    layout_rect fzero fzero (flit 1 0) (flit 95 2)]
           in if list_ex (\<lambda>target_policy. list_ex (\<lambda>row. value_for_plot row ''latency_improvement_pct'' \<noteq> None)
                   (target_rows context_rows target_policy)) targets
              then [fig]
              else [close_figure fig, plot_placeholder title ''No latency-improvement values were available.''])"

definition pressure_metrics :: "(string \<times> string \<times> pyfloat) list" where
  "pressure_metrics =
     [(''local_hit_rate'', ''Local hit rate'', flit 1 0),
      (''average_memory_wait_delta_pct'', ''Memory-wait reduction vs baseline (%)'', fneg (flit 100 0)),
      (''total_remote_accesses_delta_pct'', ''Remote-access reduction vs baseline (%)'', fneg (flit 100 0))]"

definition pressure_example :: "table_row list \<Rightarrow> nat \<Rightarrow> string \<Rightarrow> nat \<times> string \<times> string \<times> pyfloat \<Rightarrow> call list" where
  "pressure_example context_rows c target_policy panel =
     (case panel of (r, metric_column, label, scale) \<Rightarrow>
        let rows = target_rows context_rows target_policy;
            policies = map (\<lambda>row. row_text row ''comparison_policy'') rows;
            heights = map (\<lambda>row. case value_for_plot row metric_column of Some v \<Rightarrow> fmul scale v | None \<Rightarrow> fzero) rows
        in [Call (Axes r c) ''bar'' [range_arg (length policies), floats heights] [(''color'', bar_colors rows)],
            zero_line r c (flit 4 1)]
           @ (if r = 0 then [Call (Axes r c) ''set_title'' [example_title target_policy rows] []] else [])
           @ (if c = 0 then [Call (Axes r c) ''set_ylabel'' [AText label] []] else [])
           @ policy_ticks r c policies @ [y_grid r c (flit 3 1)])"

definition make_best_run_pressure_examples_plot :: "table_row list \<Rightarrow> figure list" where
  "make_best_run_pressure_examples_plot context_rows =
     (let targets = best_run_targets context_rows; title = ''Best-run pressure examples''
      in if targets = [] then [plot_placeholder title ''No non-baseline best-run examples were available.'']
         else
           let fig = [subplots (length pressure_metrics) (length targets)
                        [(''figsize'', pair_arg (at_least 10 (times_count (flit 44 1) (length targets))) (AFloat (flit 105 1))),
                         (''squeeze'', ABool False)]]
                 @ concat (map (\<lambda>(c, target_policy).
                     concat (map (pressure_example context_rows c target_policy) (enumerate 0 pressure_metrics)))
                     (enumerate 0 targets))
                 @ [Call Fig ''suptitle'' [AText ''Cache and remote-pressure context at best-run conditions''] [],
                    layout_rect fzero fzero (flit 1 0) (flit 96 2)]
           in if list_ex (\<lambda>target_policy. list_ex (\<lambda>(metric_column, _).
                   list_ex (\<lambda>row. value_for_plot row metric_column \<noteq> None) (target_rows context_rows target_policy))
                   pressure_metrics) targets
              then [fig]
              else [close_figure fig, plot_placeholder title ''No pressure-context values were available.''])"

section \<open>The figures are ones the library accepts\<close>

lemmas study_sweeps = calibration_channel_count_pressure_plot_def calibration_issue_mode_pressure_plot_def
  calibration_channel_hotspot_plot_def viability_admission_quality_by_churn_plot_def
  viability_remote_pressure_by_churn_plot_def viability_fairness_by_churn_plot_def

lemmas study_heatmaps = calibration_memory_pressure_heatmap_def calibration_hotness_memory_pressure_heatmap_def
  calibration_channel_pressure_heatmap_def

lemma study_plots_ok [simp]:
  "plot_ok (calibration_memory_pressure_heatmap it rows)"
  "plot_ok (calibration_hotness_memory_pressure_heatmap it rows)"
  "plot_ok (calibration_channel_pressure_heatmap it rows)"
  "plot_ok (calibration_channel_count_pressure_plot rows)"
  "plot_ok (calibration_issue_mode_pressure_plot rows)"
  "plot_ok (calibration_channel_hotspot_plot rows)"
  "plot_ok (viability_admission_quality_by_churn_plot rows)"
  "plot_ok (viability_remote_pressure_by_churn_plot rows)"
  "plot_ok (viability_fairness_by_churn_plot rows)"
  by (simp_all add: study_sweeps study_heatmaps line_sweep_ok averaged_panels_ok)

lemma concentration_plot_ok [simp]: "plot_ok (calibration_overlap_hotness_concentration_plot it contention_file rows)"
  by (simp add: calibration_overlap_hotness_concentration_plot_def Let_def split: prod.split)

lemma node_plot_ok [simp]: "plot_ok (calibration_node_count_pressure_plot it rows)"
proof -
  have "list_all draws (node_panel it rows panel)" for panel
    by (auto simp: node_panel_def list_all_iff split: prod.split)
  then show ?thesis
    by (simp add: calibration_node_count_pressure_plot_def node_metrics_def Let_def)
qed

lemma scatter_ok [simp]: "plot_ok (make_viability_scatter rows)"
  by (auto simp: make_viability_scatter_def scatter_call_def Let_def list_all_iff)

lemma rows_needed_pos: "0 < n \<Longrightarrow> 0 < c \<Longrightarrow> 0 < rows_needed n c"
  by (simp add: rows_needed_def div_greater_zero_iff)

lemma latency_examples_ok [simp]: "plot_ok (make_best_run_latency_examples_plot rows)"
proof -
  have "list_all draws (latency_example rows c e)" for c e
    by (simp add: latency_example_def Let_def split: prod.split)
  moreover have "list_all draws (unused_axes c indices)" for c indices
    by (auto simp: unused_axes_def list_all_iff)
  ultimately show ?thesis
    by (simp add: make_best_run_latency_examples_plot_def rows_needed_pos Let_def)
qed

lemma pressure_examples_ok [simp]: "plot_ok (make_best_run_pressure_examples_plot rows)"
proof -
  have "list_all draws (pressure_example rows c p e)" for c p e
    by (simp add: pressure_example_def Let_def split: prod.split)
  then show ?thesis
    by (simp add: make_best_run_pressure_examples_plot_def pressure_metrics_def Let_def split: prod.split)
qed

end
