(* ===== verification/PlotFinal.thy ===== *)
theory PlotFinal
  imports PlotStudies
begin

text \<open>
  The four figures of the final report in \<^verbatim>\<open>scripts/plot_results.py\<close>, with the colours and
  labels of the policies. What a legend shows is read back from the library: \<open>legend\<close> says
  whether axes with the given calls report any handles.
\<close>

section \<open>Colours, labels and averages\<close>

definition FINAL_POLICY_COLORS :: "(string \<times> string) list" where
  "FINAL_POLICY_COLORS =
     [(''always_remote'', ''#6f6f6f''),
      (''lru'', ''#1f1f1f''),
      (''hotness_only_windowed'', ''#d17a00''),
      (''contention_aware_smoothed'', ''#1f77b4''),
      (''contention_aware_smoothed_reuse_gated'', ''#2ca02c''),
      (''contention_aware_smoothed_reuse_gated_hysteresis'', ''#c43c39''),
      (''contention_aware_size_value'', ''#7a5195'')]"

definition FINAL_POLICY_LABELS :: "(string \<times> string) list" where
  "FINAL_POLICY_LABELS =
     [(''always_remote'', ''Always remote''),
      (''lru'', ''LRU''),
      (''hotness_only_windowed'', ''Windowed hotness''),
      (''contention_aware_smoothed'', ''Smoothed CA''),
      (''contention_aware_smoothed_reuse_gated'', ''Smoothed + confirmation''),
      (''contention_aware_smoothed_reuse_gated_hysteresis'', ''Smoothed + confirmation + hysteresis''),
      (''contention_aware_size_value'', ''Smoothed + cost density'')]"

definition final_policy_label :: "string \<Rightarrow> string" where
  "final_policy_label policy = (case map_of FINAL_POLICY_LABELS policy of None \<Rightarrow> policy | Some label \<Rightarrow> label)"

definition final_color :: "string \<Rightarrow> arg" where
  "final_color policy = (case map_of FINAL_POLICY_COLORS policy of None \<Rightarrow> ANone | Some color \<Rightarrow> AText color)"

definition final_metric_value :: "table_row \<Rightarrow> string \<Rightarrow> string option \<Rightarrow> pyfloat option" where
  "final_metric_value row column fallback =
     (case (value_for_plot row column, fallback) of
        (None, Some other) \<Rightarrow> value_for_plot row other
      | (value, _) \<Rightarrow> value)"

definition final_entries ::
    "table_row list \<Rightarrow> string list \<Rightarrow> string \<Rightarrow> pyfloat \<Rightarrow> string option \<Rightarrow> (string list \<times> pyfloat) list" where
  "final_entries rows dimensions metric_column scale fallback_metric =
     concat (map (\<lambda>row. let key = map (row_text row) dimensions
        in case final_metric_value row metric_column fallback_metric of None \<Rightarrow> []
           | Some value \<Rightarrow> if [] \<in> set key then [] else [(key, fmul scale value)]) rows)"

definition final_grouped_points ::
    "table_row list \<Rightarrow> string list \<Rightarrow> string \<Rightarrow> pyfloat \<Rightarrow> string option \<Rightarrow> (string list \<times> pyfloat) list" where
  "final_grouped_points rows dimensions metric_column scale fallback_metric =
     map (\<lambda>(key, values). (key, fmean values))
       (grouped_cells (final_entries rows dimensions metric_column scale fallback_metric))"

text \<open>
  \<open>points.sort()\<close> compares pairs of floats: first the position, which is finite, then the value.
  An average that overflowed to NaN has no place in that order; it is put last.
\<close>

definition float_rank :: "pyfloat \<Rightarrow> nat \<times> rat" where
  "float_rank x = (case x of Inf True \<Rightarrow> (0, 0) | Fin s m e \<Rightarrow> (1, fval x) | Inf False \<Rightarrow> (2, 0) | NaN \<Rightarrow> (3, 0))"

definition sorted_points :: "(pyfloat \<times> pyfloat) list \<Rightarrow> (pyfloat \<times> pyfloat) list" where
  "sorted_points points = sort_key (\<lambda>(x, y). (fval x, float_rank y)) points"

text \<open>The averages of the cells \<open>prefix @ [label]\<close>, at the labels that are numbers.\<close>

definition final_points :: "(string list \<times> pyfloat) list \<Rightarrow> string list \<Rightarrow> string list \<Rightarrow> (pyfloat \<times> pyfloat) list" where
  "final_points grouped cell labels =
     sorted_points (concat (map (\<lambda>label.
       case (map_of grouped (cell @ [label]), float_or_none (PStr label)) of
         (Some value, Some x) \<Rightarrow> [(x, value)] | _ \<Rightarrow> []) labels))"

definition final_line :: "nat \<Rightarrow> nat \<Rightarrow> (pyfloat \<times> pyfloat) list \<Rightarrow> (string \<times> arg) list \<Rightarrow> call list" where
  "final_line r c points kws =
     (if points = [] then []
      else [Call (Axes r c) ''plot'' [floats (map fst points), floats (map snd points)] ((''marker'', AText ''o'') # kws)])"

definition policy_line :: "nat \<Rightarrow> nat \<Rightarrow> string \<Rightarrow> (pyfloat \<times> pyfloat) list \<Rightarrow> call list" where
  "policy_line r c policy points =
     final_line r c points [(''color'', final_color policy), (''label'', AText (final_policy_label policy))]"

definition is_final_row :: "table_row \<Rightarrow> bool" where
  "is_final_row row = (row_text row ''policy'' \<in> set FINAL_REPORT_POLICY_ORDER \<and> row_text row ''policy'' \<noteq> ''lru'')"

definition baseline_policies :: "table_row list \<Rightarrow> string list" where
  "baseline_policies rows =
     filter (\<lambda>policy. list_ex (\<lambda>row. row_get row ''policy'' = PStr policy) rows) [''always_remote'', ''lru'']"

text \<open>The legend at the right margin, when the first axes report something to show.\<close>

definition margin_legend :: "(figure \<Rightarrow> bool) \<Rightarrow> figure \<Rightarrow> figure" where
  "margin_legend legend fig =
     fig @ [Call (Axes 0 0) ''get_legend_handles_labels'' [] []]
     @ (if legend fig
        then [Call Fig ''legend'' [AHandles 0 0, ALabels 0 0]
                [(''loc'', AText ''center right''), (''bbox_to_anchor'', floats [flit 995 3, flit 5 1]),
                 (''ncol'', AInt 1), (''fontsize'', AText ''small'')]]
        else [])"

section \<open>Simulator contention\<close>

definition bandwidth_style :: "string \<Rightarrow> string" where
  "bandwidth_style bandwidth =
     (case map_of [(''mild'', ''-''), (''moderate'', ''--''), (''severe'', '':'')] bandwidth of None \<Rightarrow> ''-'' | Some s \<Rightarrow> s)"

definition scaling_panel ::
    "(string list \<Rightarrow> string list) \<Rightarrow> table_row list \<Rightarrow> nat \<times> string \<times> string option \<times> string \<Rightarrow> call list" where
  "scaling_panel it rows panel =
     (case panel of (c, metric_column, fallback, ylabel) \<Rightarrow>
        let grouped = final_grouped_points rows [''policy'', ''memory_bandwidth_level'', ''node_count''] metric_column (flit 1 0) fallback
        in concat (map (\<lambda>policy. concat (map (\<lambda>bandwidth.
             final_line 0 c (final_points grouped [policy, bandwidth] (distinct_values it rows ''node_count''))
               [(''color'', final_color policy), (''linestyle'', AText (bandwidth_style bandwidth)),
                (''label'', AText (final_policy_label policy @ '', '' @ bandwidth))])
             (distinct_values it rows ''memory_bandwidth_level''))) (baseline_policies rows))
           @ [Call (Axes 0 c) ''set_xlabel'' [AText ''Compute node count''] [],
              Call (Axes 0 c) ''set_ylabel'' [AText ylabel] [], plain_grid 0 c (flit 25 2)])"

definition burst_panel :: "(string list \<Rightarrow> string list) \<Rightarrow> table_row list \<Rightarrow> nat \<times> string \<times> string \<Rightarrow> call list" where
  "burst_panel it burst_rows panel =
     (case panel of (c, metric_column, ylabel) \<Rightarrow>
        if burst_rows = []
        then [Call (Axes 1 c) ''axis'' [AText ''off''] [],
              Call (Axes 1 c) ''text'' [AFloat (flit 5 1), AFloat (flit 5 1),
                  AText (''Add eval_bursty_calibration to show'' @ newline @ ''completion-driven vs scheduled-bursty pressure.'')]
                [(''ha'', AText ''center''), (''va'', AText ''center'')]]
        else
          let modes = distinct_values it burst_rows ''workload_issue_mode'';
              grouped = final_grouped_points burst_rows [''policy'', ''workload_issue_mode''] metric_column (flit 1 0) None;
              bar_width = flit 36 2
          in map (\<lambda>(policy_index, policy).
               let offset = fmul (fsub (float_of_int (int policy_index)) (flit 5 1)) bar_width
               in Call (Axes 1 c) ''bar''
                    [floats (map (\<lambda>index. fadd (float_of_int (int index)) offset) [0..<length modes]),
                     floats (map (\<lambda>mode. case map_of grouped [policy, mode] of None \<Rightarrow> fzero | Some v \<Rightarrow> v) modes)]
                    [(''width'', AFloat bar_width), (''color'', final_color policy), (''label'', AText (final_policy_label policy))])
               (enumerate 0 (baseline_policies burst_rows))
             @ [Call (Axes 1 c) ''set_xticks'' [range_arg (length modes)] [],
                Call (Axes 1 c) ''set_xticklabels'' [texts (map (str_replace (CHR ''_'') '' '') modes)] [(''rotation'', AInt 12)],
                Call (Axes 1 c) ''set_ylabel'' [AText ylabel] [], y_grid 1 c (flit 25 2)])"

definition final_simulator_contention_plot :: "(string list \<Rightarrow> string list) \<Rightarrow> table_row list \<Rightarrow> figure list" where
  "final_simulator_contention_plot it comparison_rows =
     (let calibration_rows = final_study_rows comparison_rows ''eval_final_contention_scaling'' ''eval_contention_calibration'';
          burst_rows = filter (\<lambda>row. row_text row ''preset'' = ''eval_bursty_calibration'') comparison_rows
      in if calibration_rows = []
         then [plot_placeholder ''Simulator contention calibration'' ''No final contention-scaling rows were supplied.'']
         else [[subplots 2 2 [(''figsize'', pair_arg (AFloat (flit 135 1)) (AFloat (flit 82 1))), (''constrained_layout'', ABool True)]]
               @ concat (map (scaling_panel it calibration_rows) (enumerate 0
                   [(''average_memory_wait'', None, ''Average memory wait''),
                    (''peak_memory_channel_queue_depth'', Some ''peak_memory_queue_depth'', ''Peak channel queue depth'')]))
               @ [Call (Axes 0 0) ''legend'' [] [(''fontsize'', AText ''x-small''), (''ncol'', AInt 2)]]
               @ concat (map (burst_panel it burst_rows) (enumerate 0
                   [(''average_memory_wait'', ''Average memory wait''), (''p99_latency'', ''P99 request latency'')]))
               @ (if burst_rows = [] then [] else [Call (Axes 1 0) ''legend'' [] [(''fontsize'', AText ''small'')]])
               @ [Call Fig ''suptitle'' [AText ''Simulator contention scales with demand and overlapping arrivals'']
                    [(''fontsize'', AInt 15)]]])"

section \<open>Policy scaling under pressure\<close>

definition scaling_metrics :: "(string \<times> string) list" where
  "scaling_metrics =
     [(''mean_latency_delta_pct'', ''Mean latency improvement vs LRU (%)''),
      (''average_memory_wait_delta_pct'', ''Memory-wait reduction vs LRU (%)'')]"

definition shown_policies :: "string list" where
  "shown_policies = filter (\<lambda>policy. policy \<noteq> ''lru'') FINAL_REPORT_POLICY_ORDER"

definition bandwidth_panel ::
    "(string list \<Rightarrow> string list) \<Rightarrow> table_row list \<Rightarrow> nat \<times> string \<Rightarrow> nat \<times> string \<times> string \<Rightarrow> call list" where
  "bandwidth_panel it rows column panel =
     (case (column, panel) of ((c, bandwidth), (r, metric_column, ylabel)) \<Rightarrow>
        let bandwidth_rows = filter (\<lambda>row. row_text row ''memory_bandwidth_level'' = bandwidth) rows;
            grouped = final_grouped_points bandwidth_rows [''policy'', ''node_count''] metric_column (fneg (flit 100 0)) None
        in concat (map (\<lambda>policy. policy_line r c policy
             (final_points grouped [policy] (distinct_values it bandwidth_rows ''node_count''))) shown_policies)
           @ [zero_line r c (flit 45 2), plain_grid r c (flit 25 2)]
           @ (if r = 0 then [Call (Axes r c) ''set_title'' [AText (str_title bandwidth @ '' memory bandwidth'')] []] else [])
           @ (if c = 0 then [Call (Axes r c) ''set_ylabel'' [AText ylabel] []] else [])
           @ (if r + 1 = length scaling_metrics then [Call (Axes r c) ''set_xlabel'' [AText ''Compute node count''] []] else []))"

definition shown_bandwidths :: "string list \<Rightarrow> string list" where
  "shown_bandwidths available_bandwidths =
     (let endpoints = filter (\<lambda>value. value \<in> set available_bandwidths) [''mild'', ''severe'']
      in if endpoints = [] then available_bandwidths else endpoints)"

lemma shown_bandwidths_empty [simp]: "shown_bandwidths available = [] \<longleftrightarrow> available = []"
  by (auto simp: shown_bandwidths_def Let_def)

definition final_pressure_policy_scaling_plot ::
    "(string list \<Rightarrow> string list) \<Rightarrow> (figure \<Rightarrow> bool) \<Rightarrow> table_row list \<Rightarrow> figure list" where
  "final_pressure_policy_scaling_plot it legend comparison_rows =
     (let rows = filter is_final_row
            (final_study_rows comparison_rows ''eval_final_node_bandwidth'' ''eval_interactions_node_bandwidth'')
      in if rows = []
         then [plot_placeholder ''Policy benefit under memory pressure'' ''No final node-bandwidth policy rows were supplied.'']
         else
           let bandwidths = shown_bandwidths (distinct_values it rows ''memory_bandwidth_level'')
           in [margin_legend legend
                 ([subplots (length scaling_metrics) (length bandwidths)
                     [(''figsize'', pair_arg (AFloat (times_count (flit 62 1) (length bandwidths))) (AFloat (flit 76 1))),
                      (''squeeze'', ABool False), (''sharex'', AText ''col'')]]
                  @ concat (map (\<lambda>column. concat (map (bandwidth_panel it rows column) (enumerate 0 scaling_metrics)))
                      (enumerate 0 bandwidths)))
               @ [Call Fig ''suptitle'' [AText ''Contention-aware benefit as shared-memory pressure increases''] [(''fontsize'', AInt 15)],
                  layout_rect fzero fzero (flit 78 2) (flit 94 2)]])"

section \<open>Operating region\<close>

definition region_panel ::
    "(string list \<Rightarrow> string list) \<Rightarrow> table_row list \<Rightarrow> nat \<Rightarrow> nat \<times> string \<Rightarrow> nat \<times> string \<Rightarrow> call list" where
  "region_panel it rows rpe_count panel_row panel_column =
     (case (panel_row, panel_column) of ((r, rpe), (c, churn)) \<Rightarrow>
        let selected = filter (\<lambda>row. row_text row ''requests_per_node_per_epoch'' = rpe
              \<and> row_text row ''hot_set_churn_fraction'' = churn) rows;
            grouped = final_grouped_points selected [''policy'', ''cache_capacity_hotset_multiplier'']
              ''mean_latency_delta_pct'' (fneg (flit 100 0)) None
        in concat (map (\<lambda>policy. policy_line r c policy
             (final_points grouped [policy] (distinct_values it selected ''cache_capacity_hotset_multiplier''))) shown_policies)
           @ [zero_line r c (flit 45 2), plain_grid r c (flit 25 2)]
           @ (if r = 0 then [Call (Axes r c) ''set_title'' [AText (''Churn = '' @ churn)] []] else [])
           @ (if c = 0
              then [Call (Axes r c) ''set_ylabel'' [AText (''RPE = '' @ rpe @ newline @ ''Latency improvement vs LRU (%)'')] []]
              else [])
           @ (if r + 1 = rpe_count then [Call (Axes r c) ''set_xlabel'' [AText ''Cache capacity / hot-set footprint''] []] else []))"

definition final_policy_operating_region_plot ::
    "(string list \<Rightarrow> string list) \<Rightarrow> (figure \<Rightarrow> bool) \<Rightarrow> table_row list \<Rightarrow> figure list" where
  "final_policy_operating_region_plot it legend comparison_rows =
     (let rows = filter is_final_row
            (final_study_rows comparison_rows ''eval_final_policy_iteration'' ''eval_policy_iteration'');
          churn_values = distinct_values it rows ''hot_set_churn_fraction'';
          rpe_values = distinct_values it rows ''requests_per_node_per_epoch''
      in if rows = [] \<or> churn_values = [] \<or> rpe_values = []
         then [plot_placeholder ''Latest-policy operating region'' ''No final policy-iteration rows were supplied.'']
         else [margin_legend legend
                 ([subplots (length rpe_values) (length churn_values)
                     [(''figsize'', pair_arg (AFloat (times_count (flit 48 1) (length churn_values)))
                         (AFloat (times_count (flit 38 1) (length rpe_values)))),
                      (''squeeze'', ABool False), (''sharex'', ABool True), (''sharey'', ABool True)]]
                  @ concat (map (\<lambda>panel_row. concat (map (region_panel it rows (length rpe_values) panel_row)
                      (enumerate 0 churn_values))) (enumerate 0 rpe_values)))
               @ [Call Fig ''suptitle'' [AText ''Latest-policy operating region across churn, reuse, and cache pressure'']
                    [(''fontsize'', AInt 15)],
                  layout_rect fzero fzero (flit 76 2) (flit 94 2)]])"

section \<open>Mechanisms\<close>

definition mechanism_policies :: "string list" where
  "mechanism_policies =
     [''contention_aware_smoothed'', ''contention_aware_smoothed_reuse_gated'',
      ''contention_aware_smoothed_reuse_gated_hysteresis'', ''contention_aware_size_value'']"

definition mechanism_metrics :: "(string \<times> string \<times> pyfloat) list" where
  "mechanism_metrics =
     [(''total_remote_accesses_delta_pct'', ''Remote-access reduction vs LRU (%)'', fneg (flit 100 0)),
      (''average_memory_wait_delta_pct'', ''Memory-wait reduction vs LRU (%)'', fneg (flit 100 0)),
      (''admission_yield'', ''Admission yield (future hits / placement)'', flit 1 0),
      (''reuse_after_admit_rate'', ''Reuse after admission (%)'', flit 100 0)]"

definition mechanism_panel ::
    "(string list \<Rightarrow> string list) \<Rightarrow> table_row list \<Rightarrow> nat \<times> string \<times> string \<times> pyfloat \<Rightarrow> call list" where
  "mechanism_panel it rows panel =
     (case panel of (i, metric_column, ylabel, scale) \<Rightarrow>
        let r = i div 2; c = i mod 2;
            grouped = final_grouped_points rows [''policy'', ''hot_set_churn_fraction''] metric_column scale None
        in concat (map (\<lambda>policy. policy_line r c policy
             (final_points grouped [policy] (distinct_values it rows ''hot_set_churn_fraction'')))
             (filter (\<lambda>policy. policy \<in> set mechanism_policies) FINAL_REPORT_POLICY_ORDER))
           @ (if sublist ''reduction'' (str_lower ylabel) then [zero_line r c (flit 45 2)] else [])
           @ [Call (Axes r c) ''set_ylabel'' [AText ylabel] [],
              Call (Axes r c) ''set_xlabel'' [AText ''Hot-set churn fraction''] [], plain_grid r c (flit 25 2)])"

definition final_policy_mechanism_plot ::
    "(string list \<Rightarrow> string list) \<Rightarrow> (figure \<Rightarrow> bool) \<Rightarrow> table_row list \<Rightarrow> figure list" where
  "final_policy_mechanism_plot it legend comparison_rows =
     (let rows = filter (\<lambda>row. row_text row ''policy'' \<in> set mechanism_policies)
            (final_study_rows comparison_rows ''eval_final_policy_iteration'' ''eval_policy_iteration'')
      in if rows = []
         then [plot_placeholder ''Contention-aware policy mechanisms'' ''No latest contention-aware policy rows were supplied.'']
         else [margin_legend legend
                 ([subplots 2 2 [(''figsize'', pair_arg (AInt 13) (AInt 8)), (''sharex'', ABool True)]]
                  @ concat (map (mechanism_panel it rows) (enumerate 0 mechanism_metrics)))
               @ [Call Fig ''suptitle'' [AText ''Why the latest contention-aware variants behave differently''] [(''fontsize'', AInt 15)],
                  layout_rect fzero fzero (flit 77 2) (flit 94 2)]])"

section \<open>The figures are ones the library accepts\<close>

lemma draws_final_line [simp]: "list_all draws (final_line r c points kws)"
  by (simp add: final_line_def)

lemma draws_policy_line [simp]: "list_all draws (policy_line r c policy points)"
  by (simp add: policy_line_def)

lemma body_margin_legend [simp]: "figure_body fig \<Longrightarrow> figure_body (margin_legend legend fig)"
  by (simp add: margin_legend_def)

lemma contention_plot_ok: "plot_ok (final_simulator_contention_plot it rows)"
proof -
  have "list_all draws (scaling_panel it rows panel)" for rows panel
    by (simp add: scaling_panel_def Let_def split: prod.split)
  moreover have "list_all draws (burst_panel it rows panel)" for rows panel
    by (auto simp: burst_panel_def list_all_iff Let_def split: prod.split)
  ultimately show ?thesis
    by (simp add: final_simulator_contention_plot_def Let_def)
qed

definition bandwidth_rows :: "table_row list \<Rightarrow> table_row list" where
  "bandwidth_rows comparison_rows =
     filter is_final_row (final_study_rows comparison_rows ''eval_final_node_bandwidth'' ''eval_interactions_node_bandwidth'')"

lemma scaling_plot_body:
  assumes "distinct_values it (bandwidth_rows rows) ''memory_bandwidth_level'' \<noteq> [] \<or> bandwidth_rows rows = []"
  shows "plot_ok (final_pressure_policy_scaling_plot it legend rows)"
proof -
  have "list_all draws (bandwidth_panel it rows column panel)" for rows column panel
    by (simp add: bandwidth_panel_def Let_def split: prod.split)
  then show ?thesis
    using assms by (elim disjE) (simp_all add: final_pressure_policy_scaling_plot_def bandwidth_rows_def scaling_metrics_def Let_def)
qed

lemma region_plot_ok: "plot_ok (final_policy_operating_region_plot it legend rows)"
proof -
  have "list_all draws (region_panel it rows n a b)" for rows n a b
    by (simp add: region_panel_def Let_def split: prod.split)
  then show ?thesis
    by (simp add: final_policy_operating_region_plot_def Let_def)
qed

lemma mechanism_plot_ok: "plot_ok (final_policy_mechanism_plot it legend rows)"
proof -
  have "list_all draws (mechanism_panel it rows panel)" for rows panel
    by (simp add: mechanism_panel_def Let_def split: prod.split)
  then show ?thesis
    by (simp add: final_policy_mechanism_plot_def Let_def)
qed

text \<open>
  C30. The scaling figure is laid out on a grid without columns exactly when there are final rows and
  none has a bandwidth label; the operating-region figure checks its axes before it draws.
\<close>

theorem scaling_plot_accepted_iff:
  "(\<not> plot_ok (final_pressure_policy_scaling_plot it legend rows) \<longleftrightarrow>
      bandwidth_rows rows \<noteq> [] \<and> distinct_values it (bandwidth_rows rows) ''memory_bandwidth_level'' = []) \<and>
   plot_ok (final_policy_operating_region_plot it legend rows)"
proof
  have "\<not> plot_ok (final_pressure_policy_scaling_plot it legend rows)"
    if "bandwidth_rows rows \<noteq> []" "distinct_values it (bandwidth_rows rows) ''memory_bandwidth_level'' = []"
    using that by (simp add: final_pressure_policy_scaling_plot_def bandwidth_rows_def margin_legend_def Let_def)
  then show "\<not> plot_ok (final_pressure_policy_scaling_plot it legend rows) \<longleftrightarrow>
      bandwidth_rows rows \<noteq> [] \<and> distinct_values it (bandwidth_rows rows) ''memory_bandwidth_level'' = []"
    using scaling_plot_body by blast
  show "plot_ok (final_policy_operating_region_plot it legend rows)" by (rule region_plot_ok)
qed

end
