(* ===== verification/PlotBundles.thy ===== *)
theory PlotBundles
  imports PlotFinal
begin

text \<open>
  The plot bundles of \<^verbatim>\<open>scripts/plot_results.py\<close>: which figures each report mode draws, under
  which names they are saved, and \<open>generate_plots\<close>. A bundle is the list of the saved images and
  the list of the figures that were created on the way.
\<close>

type_synonym plot_bundle = "plot_output list \<times> figure list"

definition extend :: "plot_bundle \<Rightarrow> plot_bundle \<Rightarrow> plot_bundle" where
  "extend outputs added = (fst outputs @ fst added, snd outputs @ snd added)"

definition only_if :: "bool \<Rightarrow> 'a list \<Rightarrow> 'a list" where
  "only_if condition items = (if condition then items else [])"

section \<open>Final report and common plots\<close>

definition generate_final_report_plots ::
    "(string list \<Rightarrow> string list) \<Rightarrow> (figure \<Rightarrow> bool) \<Rightarrow> string \<Rightarrow> string list \<Rightarrow> table_row list \<Rightarrow> plot_bundle" where
  "generate_final_report_plots it legend plots_dir formats comparison_rows =
     save_plot_specs plots_dir formats ''Final Report Figures''
       [(''final_simulator_contention'', final_simulator_contention_plot it comparison_rows),
        (''final_pressure_policy_scaling'', final_pressure_policy_scaling_plot it legend comparison_rows),
        (''final_policy_operating_region'', final_policy_operating_region_plot it legend comparison_rows),
        (''final_policy_mechanisms'', final_policy_mechanism_plot it legend comparison_rows)]"

definition common_specs :: "table_row list \<Rightarrow> plot_spec list res" where
  "common_specs policy_summary =
     bindR (make_policy_latency_plot policy_summary) (\<lambda>latency.
     bindR (make_cache_memory_plot policy_summary) (\<lambda>cache.
     bindR (make_latency_delta_plot policy_summary) (\<lambda>delta.
     bindR (make_fairness_plot policy_summary) (\<lambda>fairness.
     Inr [(''policy_latency_overview'', latency), (''policy_cache_memory_overview'', cache),
          (''latency_delta_vs_baseline'', delta), (''fairness_overview'', fairness)]))))"

definition generate_common_plots :: "string \<Rightarrow> string list \<Rightarrow> table_row list \<Rightarrow> plot_bundle res" where
  "generate_common_plots plots_dir formats policy_summary =
     bindR (common_specs policy_summary) (\<lambda>specs.
     Inr (save_plot_specs plots_dir formats ''Global Average Views'' specs))"

section \<open>Sweeps\<close>

definition latency_delta_spec :: y_spec where
  "latency_delta_spec = (''mean_latency_delta_pct'', ''Mean latency delta (%)'', flit 100 0)"

definition p99_delta_spec :: y_spec where
  "p99_delta_spec = (''p99_latency_delta_pct'', ''P99 latency delta (%)'', flit 100 0)"

definition plain_spec :: "string \<Rightarrow> string \<Rightarrow> y_spec" where
  "plain_spec column label = (column, label, flit 1 0)"

definition generic_specs :: "table_row list \<Rightarrow> string list \<Rightarrow> plot_spec list" where
  "generic_specs comparison_rows swept =
     only_if (''hot_set_churn_fraction'' \<in> set swept)
       [(''churn_sweep'', line_sweep_plot comparison_rows ''hot_set_churn_fraction''
           [latency_delta_spec, plain_spec ''stale_telemetry_rate'' ''Hot-set-sized stale telemetry'']
           ''Temporal stability sweep'' ''Hot-set churn fraction'' True)]
     @ only_if (''requests_per_node_per_epoch'' \<in> set swept)
       [(''epoch_length_sweep'', line_sweep_plot comparison_rows ''requests_per_node_per_epoch''
           [latency_delta_spec] ''Epoch length sweep'' ''Requests per node per epoch'' True)]
     @ only_if (''cache_capacity_hotset_multiplier'' \<in> set swept)
       [(''cache_pressure_sweep'', line_sweep_plot comparison_rows ''cache_capacity_hotset_multiplier''
           [latency_delta_spec, plain_spec ''local_hit_rate'' ''Local hit rate'']
           ''Cache pressure sweep'' ''Cache capacity / hot-set footprint'' True)]
     @ only_if (''memory_bandwidth_level'' \<in> set swept)
       [(''memory_bottleneck_sweep'', line_sweep_plot comparison_rows ''memory_bandwidth_level''
           [plain_spec ''average_memory_wait'' ''Average memory wait'', latency_delta_spec]
           ''Memory bottleneck sweep'' ''Memory bandwidth level'' False)]
     @ [(''viability_scatter'', make_viability_scatter comparison_rows)]"

definition generate_generic_plots :: "string \<Rightarrow> string list \<Rightarrow> table_row list \<Rightarrow> string list \<Rightarrow> plot_bundle" where
  "generate_generic_plots plots_dir formats comparison_rows swept =
     save_plot_specs plots_dir formats ''Generic Sweeps'' (generic_specs comparison_rows swept)"

section \<open>Contention calibration\<close>

definition policy_count :: "table_row list \<Rightarrow> nat" where
  "policy_count rows = length (remdups (map (\<lambda>row. row_get_or row ''policy'' (PStr [])) rows))"

definition calibration_specs ::
    "(string list \<Rightarrow> string list) \<Rightarrow> (string \<Rightarrow> string option) \<Rightarrow> table_row list \<Rightarrow> string list \<Rightarrow> plot_spec list" where
  "calibration_specs it contention_file comparison_rows swept =
     only_if (''node_count'' \<in> set swept)
       [(''calibration_node_count_pressure'', calibration_node_count_pressure_plot it comparison_rows)]
     @ only_if (''node_count'' \<in> set swept \<and> ''memory_bandwidth_level'' \<in> set swept)
       [(''calibration_memory_pressure_heatmap'', calibration_memory_pressure_heatmap it comparison_rows)]
     @ only_if (''hot_access_probability'' \<in> set swept)
       [(''calibration_hotness_memory_pressure_heatmap'', calibration_hotness_memory_pressure_heatmap it comparison_rows)]
     @ only_if (''memory_bandwidth_level'' \<in> set swept)
       [(''calibration_bandwidth_pressure'', line_sweep_plot comparison_rows ''memory_bandwidth_level''
           [plain_spec ''average_memory_wait'' ''Average memory wait'', plain_spec ''total_queue_wait'' ''Total queue wait'',
            plain_spec ''total_remote_service_time'' ''Total remote service time'']
           ''Memory bandwidth pressure'' ''Memory bandwidth level'' False)]
     @ only_if (''memory_channel_count'' \<in> set swept)
       [(''calibration_channel_count_pressure'', calibration_channel_count_pressure_plot comparison_rows)]
     @ only_if (''workload_issue_mode'' \<in> set swept)
       [(''calibration_issue_mode_pressure'', calibration_issue_mode_pressure_plot comparison_rows)]
     @ only_if (''hot_object_channel_count'' \<in> set swept)
       [(''calibration_channel_hotspot_pressure'', calibration_channel_hotspot_plot comparison_rows)]
     @ only_if (''memory_channel_count'' \<in> set swept \<and> ''hot_object_channel_count'' \<in> set swept)
       [(''calibration_channel_pressure_heatmap'', calibration_channel_pressure_heatmap it comparison_rows)]
     @ only_if (''cross_node_overlap'' \<in> set swept \<and> ''hot_access_probability'' \<in> set swept)
       [(''calibration_overlap_hotness_heatmap'',
           heatmap_by_policy it comparison_rows ''hot_access_probability'' ''cross_node_overlap'' ''average_memory_wait''
             ''Overlap and hotness concentration pressure'' ''Hot-access probability'' ''Cross-node overlap''
             ''Average memory wait'' (flit 1 0)),
        (''calibration_overlap_hotness_concentration'',
           calibration_overlap_hotness_concentration_plot it contention_file comparison_rows)]"

definition generate_contention_calibration_plots ::
    "(string list \<Rightarrow> string list) \<Rightarrow> (string \<Rightarrow> string option) \<Rightarrow> string \<Rightarrow> string list \<Rightarrow> table_row list \<Rightarrow> table_row list \<Rightarrow>
     string list \<Rightarrow> plot_bundle res" where
  "generate_contention_calibration_plots it contention_file plots_dir formats comparison_rows policy_summary swept =
     bindR (if 1 < policy_count comparison_rows
            then bindR (calibration_policy_pressure_reduction_plot policy_summary) (\<lambda>figs.
                 Inr [(''calibration_policy_pressure_reduction'', figs)])
            else Inr []) (\<lambda>policy_specs.
     Inr (save_plot_specs plots_dir formats ''Contention Calibration''
            (calibration_specs it contention_file comparison_rows swept @ policy_specs)))"

section \<open>Policy viability\<close>

definition viability_specs ::
    "(string list \<Rightarrow> string list) \<Rightarrow> table_row list \<Rightarrow> string list \<Rightarrow> figure list \<Rightarrow> plot_spec list" where
  "viability_specs it comparison_rows swept quality =
     only_if (''hot_set_churn_fraction'' \<in> set swept \<and> ''requests_per_node_per_epoch'' \<in> set swept)
       [(''viability_churn_epoch_heatmap'',
           heatmap_by_policy it (contention_aware_rows comparison_rows) ''requests_per_node_per_epoch'' ''hot_set_churn_fraction''
             ''mean_latency_delta_pct'' ''Contention-aware latency delta by churn and epoch length''
             ''Requests per node per epoch'' ''Hot-set churn fraction'' ''Mean latency delta vs baseline (%)'' (flit 100 0))]
     @ only_if (''cache_capacity_hotset_multiplier'' \<in> set swept)
       [(''viability_cache_pressure'', line_sweep_plot comparison_rows ''cache_capacity_hotset_multiplier''
           [latency_delta_spec, plain_spec ''local_hit_rate'' ''Local hit rate'']
           ''Policy viability across cache pressure'' ''Cache capacity / hot-set footprint'' True)]
     @ [(''viability_scatter'', make_viability_scatter comparison_rows), (''viability_admission_quality'', quality)]"

definition conditioned_specs :: "(string list \<Rightarrow> string list) \<Rightarrow> table_row list \<Rightarrow> string list \<Rightarrow> plot_spec list" where
  "conditioned_specs it comparison_rows swept =
     only_if (''cache_capacity_hotset_multiplier'' \<in> set swept
           \<and> distinct_values it comparison_rows ''hot_set_churn_fraction'' \<noteq> [])
       [(''viability_cache_pressure_by_churn'',
           faceted_line_sweep_plot it comparison_rows ''hot_set_churn_fraction'' ''cache_capacity_hotset_multiplier''
             [latency_delta_spec, plain_spec ''local_hit_rate'' ''Local hit rate'']
             ''Policy viability across cache pressure by churn'' ''Hot-set churn'' ''Cache capacity / hot-set footprint'' True)]
     @ only_if (''hot_set_churn_fraction'' \<in> set swept)
       [(''viability_admission_quality_by_churn'', viability_admission_quality_by_churn_plot comparison_rows),
        (''viability_remote_pressure_by_churn'', viability_remote_pressure_by_churn_plot comparison_rows),
        (''viability_fairness_by_churn'', viability_fairness_by_churn_plot comparison_rows)]"

definition best_run_specs :: "table_row list \<Rightarrow> plot_spec list" where
  "best_run_specs best_run_context =
     [(''viability_best_run_latency_examples'', make_best_run_latency_examples_plot best_run_context),
      (''viability_best_run_pressure_examples'', make_best_run_pressure_examples_plot best_run_context)]"

definition generate_policy_viability_plots ::
    "(string list \<Rightarrow> string list) \<Rightarrow> string \<Rightarrow> string list \<Rightarrow> table_row list \<Rightarrow> table_row list \<Rightarrow> string list \<Rightarrow> table_row list \<Rightarrow> plot_bundle res" where
  "generate_policy_viability_plots it plots_dir formats comparison_rows policy_summary swept best_run_context =
     bindR (viability_admission_quality_plot policy_summary) (\<lambda>quality.
     let outputs = save_plot_specs plots_dir formats ''Policy Viability Global Views'' (viability_specs it comparison_rows swept quality);
         conditioned = save_plot_specs plots_dir formats ''Churn-Conditioned Policy Viability'' (conditioned_specs it comparison_rows swept);
         best_runs = save_plot_specs plots_dir formats ''Best Run Examples'' (best_run_specs best_run_context)
     in Inr (extend (extend outputs conditioned) best_runs))"

section \<open>Interactions\<close>

definition interaction_axes_for_preset :: "string \<Rightarrow> (string \<times> string) option" where
  "interaction_axes_for_preset preset =
     (if preset = ''eval_interactions_churn_epoch'' then Some (''requests_per_node_per_epoch'', ''hot_set_churn_fraction'')
      else if preset = ''eval_interactions_cache_hotset'' then Some (''cache_capacity_hotset_multiplier'', ''hot_set_size'')
      else if preset = ''eval_interactions_node_bandwidth'' then Some (''node_count'', ''memory_bandwidth_level'')
      else None)"

definition axis_title :: "string \<Rightarrow> string" where
  "axis_title column = str_title (str_replace (CHR ''_'') '' '' column)"

definition interaction_specs :: "(string list \<Rightarrow> string list) \<Rightarrow> table_row list \<Rightarrow> string \<Rightarrow> string \<Rightarrow> plot_spec list" where
  "interaction_specs it comparison_rows x_column y_column =
     [(''interaction_mean_latency_delta_heatmap'',
         heatmap_by_policy it comparison_rows x_column y_column ''mean_latency_delta_pct'' ''Interaction: mean latency delta''
           (axis_title x_column) (axis_title y_column) ''Mean latency delta vs baseline (%)'' (flit 100 0)),
      (''interaction_memory_wait_heatmap'',
         heatmap_by_policy it comparison_rows x_column y_column ''average_memory_wait'' ''Interaction: average memory wait''
           (axis_title x_column) (axis_title y_column) ''Average memory wait'' (flit 1 0)),
      (''interaction_hit_rate_heatmap'',
         heatmap_by_policy it comparison_rows x_column y_column ''local_hit_rate'' ''Interaction: local hit rate''
           (axis_title x_column) (axis_title y_column) ''Local hit rate'' (flit 1 0))]"

definition generate_interaction_plots ::
    "(string list \<Rightarrow> string list) \<Rightarrow> string \<Rightarrow> string list \<Rightarrow> table_row list \<Rightarrow> string list \<Rightarrow> plot_bundle" where
  "generate_interaction_plots it plots_dir formats comparison_rows swept =
     (let presets = distinct_values it comparison_rows ''preset''
      in case (if length presets = 1 then interaction_axes_for_preset (hd presets) else None) of
           None \<Rightarrow> generate_generic_plots plots_dir formats comparison_rows swept
         | Some (x_column, y_column) \<Rightarrow>
             if x_column \<in> set swept \<and> y_column \<in> set swept
             then save_plot_specs plots_dir formats ''Interaction Studies'' (interaction_specs it comparison_rows x_column y_column)
             else generate_generic_plots plots_dir formats comparison_rows swept)"

section \<open>Single parameters\<close>

definition parameter_demo_axis_for_preset :: "string \<Rightarrow> (string \<times> string) option" where
  "parameter_demo_axis_for_preset preset =
     (if preset = ''eval_knob_cache_pressure''
      then Some (''cache_capacity_hotset_multiplier'', ''Cache capacity / hot-set footprint'')
      else if preset = ''eval_knob_epoch_reuse'' then Some (''requests_per_node_per_epoch'', ''Requests per node per epoch'')
      else if preset = ''eval_knob_object_size_mix'' then Some (''large_object_probability'', ''Large-object probability'')
      else if preset = ''eval_knob_hot_concentration'' then Some (''hot_access_probability'', ''Hot-access probability'')
      else None)"

definition parameter_specs :: "table_row list \<Rightarrow> string \<Rightarrow> string \<Rightarrow> plot_spec list" where
  "parameter_specs comparison_rows x_column x_label =
     [(''parameter_demo_latency_hit_rate'', line_sweep_plot comparison_rows x_column
         [latency_delta_spec, plain_spec ''local_hit_rate'' ''Local hit rate'']
         ''Isolated knob effect on latency and cache hits'' x_label True),
      (''parameter_demo_memory_pressure'', line_sweep_plot comparison_rows x_column
         [plain_spec ''average_memory_wait'' ''Average memory wait'', plain_spec ''total_remote_accesses'' ''Total remote accesses'']
         ''Isolated knob effect on remote-memory pressure'' x_label True),
      (''parameter_demo_admission_quality'', line_sweep_plot comparison_rows x_column
         [plain_spec ''admission_yield'' ''Admission yield'', plain_spec ''reuse_after_admit_rate'' ''Reuse-after-admit rate'']
         ''Isolated knob effect on admission quality'' x_label True),
      (''parameter_demo_tail_latency'', line_sweep_plot comparison_rows x_column
         [p99_delta_spec] ''Isolated knob effect on tail latency'' x_label True)]"

definition generate_parameter_demo_plots ::
    "(string list \<Rightarrow> string list) \<Rightarrow> string \<Rightarrow> string list \<Rightarrow> table_row list \<Rightarrow> string list \<Rightarrow> plot_bundle" where
  "generate_parameter_demo_plots it plots_dir formats comparison_rows swept =
     (let presets = distinct_values it comparison_rows ''preset''
      in case (if length presets = 1 then parameter_demo_axis_for_preset (hd presets) else None) of
           None \<Rightarrow> generate_generic_plots plots_dir formats comparison_rows swept
         | Some (x_column, x_label) \<Rightarrow>
             if x_column \<in> set swept
             then save_plot_specs plots_dir formats ''Isolated Parameter Demonstrations'' (parameter_specs comparison_rows x_column x_label)
             else generate_generic_plots plots_dir formats comparison_rows swept)"

section \<open>Weights\<close>

definition weight_specs :: "(string list \<Rightarrow> string list) \<Rightarrow> table_row list \<Rightarrow> plot_spec list" where
  "weight_specs it rows =
     [(''weight_sensitivity_latency'',
         faceted_line_sweep_plot it rows ''contention_weight_name'' ''contention_weight_value'' [latency_delta_spec, p99_delta_spec]
           ''Contention-aware latency sensitivity by score weight'' ''Weight'' ''Weight value'' True),
      (''weight_sensitivity_memory_hit_rate'',
         faceted_line_sweep_plot it rows ''contention_weight_name'' ''contention_weight_value''
           [plain_spec ''local_hit_rate'' ''Local hit rate'', plain_spec ''average_memory_wait'' ''Average memory wait'']
           ''Contention-aware cache and memory sensitivity by score weight'' ''Weight'' ''Weight value'' True),
      (''weight_sensitivity_admission_regret'',
         faceted_line_sweep_plot it rows ''contention_weight_name'' ''contention_weight_value''
           [plain_spec ''admission_yield'' ''Admission yield'', plain_spec ''eviction_regret_count'' ''Eviction regret'']
           ''Contention-aware admission sensitivity by score weight'' ''Weight'' ''Weight value'' True)]"

definition generate_weight_sensitivity_plots ::
    "(string list \<Rightarrow> string list) \<Rightarrow> string \<Rightarrow> string list \<Rightarrow> table_row list \<Rightarrow> plot_bundle" where
  "generate_weight_sensitivity_plots it plots_dir formats comparison_rows =
     save_plot_specs plots_dir formats ''Contention Weight Sensitivity''
       (weight_specs it (filter (\<lambda>row. str_strip (row_text row ''contention_weight_name'') \<noteq> []) comparison_rows))"

section \<open>All plots of a report\<close>

definition mode_plots ::
    "(string list \<Rightarrow> string list) \<Rightarrow> (string \<Rightarrow> string option) \<Rightarrow> string \<Rightarrow> string list \<Rightarrow> table_row list \<Rightarrow> table_row list \<Rightarrow>
     string \<Rightarrow> string list \<Rightarrow> table_row list \<Rightarrow> plot_bundle res" where
  "mode_plots it contention_file plots_dir formats comparison_rows policy_summary report_mode swept best_run_context =
     (if report_mode = ''contention_calibration''
      then generate_contention_calibration_plots it contention_file plots_dir formats comparison_rows policy_summary swept
      else if report_mode = ''policy_viability''
      then generate_policy_viability_plots it plots_dir formats comparison_rows policy_summary swept best_run_context
      else if report_mode = ''interaction'' then Inr (generate_interaction_plots it plots_dir formats comparison_rows swept)
      else if report_mode = ''parameter_demo'' then Inr (generate_parameter_demo_plots it plots_dir formats comparison_rows swept)
      else if report_mode = ''weight_sensitivity'' then Inr (generate_weight_sensitivity_plots it plots_dir formats comparison_rows)
      else Inr (generate_generic_plots plots_dir formats comparison_rows swept))"

definition generate_plots ::
    "(string list \<Rightarrow> string list) \<Rightarrow> (figure \<Rightarrow> bool) \<Rightarrow> (string \<Rightarrow> string option) \<Rightarrow> string \<Rightarrow> string list \<Rightarrow> table_row list \<Rightarrow>
     table_row list \<Rightarrow> string \<Rightarrow> (string \<times> string list \<times> bool) list \<Rightarrow> table_row list \<Rightarrow> plot_bundle res" where
  "generate_plots it legend contention_file output_dir formats comparison_rows policy_summary report_mode dimensions best_run_context =
     (let plots_dir = path_join output_dir ''plots''; swept = swept_dimensions dimensions
      in if report_mode = ''final_report''
         then Inr (generate_final_report_plots it legend plots_dir formats comparison_rows)
         else bindR (generate_common_plots plots_dir formats policy_summary) (\<lambda>outputs.
              bindR (mode_plots it contention_file plots_dir formats comparison_rows policy_summary report_mode swept best_run_context) (\<lambda>added.
              Inr (extend outputs added))))"

section \<open>Every plot of a bundle is one the library accepts\<close>

abbreviation specs_ok :: "plot_spec list \<Rightarrow> bool" where
  "specs_ok specs \<equiv> list_all (\<lambda>spec. plot_ok (snd spec)) specs"

lemma only_if_ok [simp]: "list_all P (only_if condition items) \<longleftrightarrow> (condition \<longrightarrow> list_all P items)"
  by (simp add: only_if_def)

lemma common_specs_ok:
  assumes "\<forall>row\<in>set ps. ''policy'' \<in> fst ` set row"
  obtains specs where "common_specs ps = Inr specs" "specs_ok specs"
    "map fst specs = [''policy_latency_overview'', ''policy_cache_memory_overview'', ''latency_delta_vs_baseline'', ''fairness_overview'']"
  using summary_plots_ok(1-3) [OF assms] panel_plots_ok(1) [OF assms] by (auto simp: common_specs_def intro!: that)

lemma generic_specs_ok: "specs_ok (generic_specs rows swept)"
  by (simp add: generic_specs_def line_sweep_ok)

lemma calibration_specs_ok: "specs_ok (calibration_specs it contention_file rows swept)"
  by (simp add: calibration_specs_def line_sweep_ok heatmap_by_policy_ok)

lemma viability_specs_ok: "plot_ok quality \<Longrightarrow> specs_ok (viability_specs it rows swept quality)"
  by (simp add: viability_specs_def line_sweep_ok heatmap_by_policy_ok)

lemma conditioned_specs_ok: "specs_ok (conditioned_specs it rows swept)"
  by (simp add: conditioned_specs_def faceted_ok)

lemma best_run_specs_ok: "specs_ok (best_run_specs context_rows)"
  by (simp add: best_run_specs_def)

lemma interaction_specs_ok: "specs_ok (interaction_specs it rows x y)"
  by (simp add: interaction_specs_def heatmap_by_policy_ok)

lemma parameter_specs_ok: "specs_ok (parameter_specs rows x x_label)"
  by (simp add: parameter_specs_def line_sweep_ok)

lemma weight_specs_ok: "specs_ok (weight_specs it rows)"
  by (simp add: weight_specs_def faceted_ok)

lemmas specs_ok_rules = generic_specs_ok calibration_specs_ok conditioned_specs_ok best_run_specs_ok
  interaction_specs_ok parameter_specs_ok weight_specs_ok

section \<open>Names of a bundle\<close>

text \<open>
  A bundle saved from specifications with distinct names: its figures are finished properly,
  exactly the listed images are saved, and they are named after the specifications.
\<close>

definition saved_bundle :: "string \<Rightarrow> string list \<Rightarrow> string list \<Rightarrow> plot_bundle \<Rightarrow> bool" where
  "saved_bundle plots_dir formats names saved =
     (list_all figure_ready (snd saved) \<and>
      concat (map saved_paths (snd saved)) = map plot_path (fst saved) \<and>
      map plot_path (fst saved) = concat (map (\<lambda>name. map (plot_file plots_dir name) formats) names))"

lemma saved_specs: "specs_ok specs \<Longrightarrow> saved_bundle dir formats (map fst specs) (save_plot_specs dir formats g specs)"
  by (simp add: saved_bundle_def save_plot_specs_figures save_plot_specs_paths)

lemma saved_extend:
  "saved_bundle dir formats names a \<Longrightarrow> saved_bundle dir formats names' b \<Longrightarrow> saved_bundle dir formats (names @ names') (extend a b)"
  by (simp add: saved_bundle_def extend_def)

text \<open>The names of the bundle of a mode.\<close>

definition generic_names :: "string list" where
  "generic_names = [''churn_sweep'', ''epoch_length_sweep'', ''cache_pressure_sweep'', ''memory_bottleneck_sweep'', ''viability_scatter'']"

definition calibration_names :: "string list" where
  "calibration_names = [''calibration_node_count_pressure'', ''calibration_memory_pressure_heatmap'',
     ''calibration_hotness_memory_pressure_heatmap'', ''calibration_bandwidth_pressure'', ''calibration_channel_count_pressure'',
     ''calibration_issue_mode_pressure'', ''calibration_channel_hotspot_pressure'', ''calibration_channel_pressure_heatmap'',
     ''calibration_overlap_hotness_heatmap'', ''calibration_overlap_hotness_concentration'',
     ''calibration_policy_pressure_reduction'']"

definition viability_names :: "string list" where
  "viability_names = [''viability_churn_epoch_heatmap'', ''viability_cache_pressure'', ''viability_scatter'',
     ''viability_admission_quality'', ''viability_cache_pressure_by_churn'', ''viability_admission_quality_by_churn'',
     ''viability_remote_pressure_by_churn'', ''viability_fairness_by_churn'', ''viability_best_run_latency_examples'',
     ''viability_best_run_pressure_examples'']"

definition interaction_names :: "string list" where
  "interaction_names = [''interaction_mean_latency_delta_heatmap'', ''interaction_memory_wait_heatmap'', ''interaction_hit_rate_heatmap'']"

definition parameter_names :: "string list" where
  "parameter_names = [''parameter_demo_latency_hit_rate'', ''parameter_demo_memory_pressure'',
     ''parameter_demo_admission_quality'', ''parameter_demo_tail_latency'']"

definition weight_names :: "string list" where
  "weight_names = [''weight_sensitivity_latency'', ''weight_sensitivity_memory_hit_rate'', ''weight_sensitivity_admission_regret'']"

lemma map_only_if [simp]: "map f (only_if condition items) = only_if condition (map f items)"
  by (simp add: only_if_def)

lemma only_if_subseq: "subseq (only_if condition items) items"
  by (simp add: only_if_def)

lemmas names_of_specs = list_emb_append_mono only_if_subseq subseq_order.order_refl

lemma generic_names: "subseq (map fst (generic_specs rows swept)) generic_names"
proof -
  have split: "generic_names = [''churn_sweep''] @ [''epoch_length_sweep''] @ [''cache_pressure_sweep'']
      @ [''memory_bottleneck_sweep''] @ [''viability_scatter'']"
    by (simp add: generic_names_def)
  show ?thesis
    unfolding split generic_specs_def map_append map_only_if list.map fst_conv by (intro names_of_specs)
qed

lemma calibration_names:
  assumes "subseq policy_names [''calibration_policy_pressure_reduction'']"
  shows "subseq (map fst (calibration_specs it contention_file rows swept) @ policy_names) calibration_names"
proof -
  have split: "calibration_names = ([''calibration_node_count_pressure''] @ [''calibration_memory_pressure_heatmap'']
      @ [''calibration_hotness_memory_pressure_heatmap''] @ [''calibration_bandwidth_pressure'']
      @ [''calibration_channel_count_pressure''] @ [''calibration_issue_mode_pressure'']
      @ [''calibration_channel_hotspot_pressure''] @ [''calibration_channel_pressure_heatmap'']
      @ [''calibration_overlap_hotness_heatmap'', ''calibration_overlap_hotness_concentration''])
      @ [''calibration_policy_pressure_reduction'']"
    by (simp add: calibration_names_def)
  show ?thesis
    unfolding split calibration_specs_def map_append map_only_if list.map fst_conv by (intro names_of_specs assms)
qed

lemma viability_names:
  "subseq ((map fst (viability_specs it rows swept quality) @ map fst (conditioned_specs it rows swept)) @ map fst (best_run_specs ctx))
     viability_names"
proof -
  have split: "viability_names = (([''viability_churn_epoch_heatmap''] @ [''viability_cache_pressure'']
      @ [''viability_scatter'', ''viability_admission_quality''])
      @ ([''viability_cache_pressure_by_churn''] @ [''viability_admission_quality_by_churn'',
         ''viability_remote_pressure_by_churn'', ''viability_fairness_by_churn'']))
      @ [''viability_best_run_latency_examples'', ''viability_best_run_pressure_examples'']"
    by (simp add: viability_names_def)
  show ?thesis
    unfolding split viability_specs_def conditioned_specs_def best_run_specs_def map_append map_only_if list.map fst_conv
    by (intro names_of_specs)
qed

definition common_names :: "string list" where
  "common_names = [''policy_latency_overview'', ''policy_cache_memory_overview'', ''latency_delta_vs_baseline'', ''fairness_overview'']"

definition mode_name_lists :: "string list list" where
  "mode_name_lists = [generic_names, calibration_names, viability_names, interaction_names, parameter_names, weight_names]"

lemma mode_names_distinct: "names \<in> set mode_name_lists \<Longrightarrow> distinct (common_names @ names)"
  unfolding mode_name_lists_def
  by (auto simp: common_names_def generic_names_def calibration_names_def viability_names_def interaction_names_def
      parameter_names_def weight_names_def)

section \<open>What is saved\<close>

text \<open>A bundle whose names are a selection of the names of one mode.\<close>

definition saved_mode :: "string \<Rightarrow> string list \<Rightarrow> plot_bundle \<Rightarrow> bool" where
  "saved_mode dir formats saved =
     (\<exists>names all_names. saved_bundle dir formats names saved \<and> subseq names all_names \<and> all_names \<in> set mode_name_lists)"

lemma saved_modeI:
  "saved_bundle dir formats names saved \<Longrightarrow> subseq names all_names \<Longrightarrow> all_names \<in> set mode_name_lists \<Longrightarrow> saved_mode dir formats saved"
  unfolding saved_mode_def by blast

lemma mode_lists: "generic_names \<in> set mode_name_lists" "calibration_names \<in> set mode_name_lists"
  "viability_names \<in> set mode_name_lists" "interaction_names \<in> set mode_name_lists"
  "parameter_names \<in> set mode_name_lists" "weight_names \<in> set mode_name_lists"
  by (simp_all add: mode_name_lists_def)

lemma generic_saved: "saved_mode dir formats (generate_generic_plots dir formats rows swept)"
  unfolding generate_generic_plots_def
  by (rule saved_modeI [OF saved_specs [OF generic_specs_ok] generic_names mode_lists(1)])

lemma interaction_saved: "saved_mode dir formats (generate_interaction_plots it dir formats rows swept)"
proof -
  have "saved_mode dir formats (save_plot_specs dir formats g (interaction_specs it rows x y))" for g x y
    by (rule saved_modeI [OF saved_specs [OF interaction_specs_ok] _ mode_lists(4)])
      (simp add: interaction_specs_def interaction_names_def)
  then show ?thesis by (simp add: generate_interaction_plots_def Let_def generic_saved split: option.split prod.split)
qed

lemma parameter_saved: "saved_mode dir formats (generate_parameter_demo_plots it dir formats rows swept)"
proof -
  have "saved_mode dir formats (save_plot_specs dir formats g (parameter_specs rows x l))" for g x l
    by (rule saved_modeI [OF saved_specs [OF parameter_specs_ok] _ mode_lists(5)])
      (simp add: parameter_specs_def parameter_names_def)
  then show ?thesis by (simp add: generate_parameter_demo_plots_def Let_def generic_saved split: option.split prod.split)
qed

lemma weight_saved: "saved_mode dir formats (generate_weight_sensitivity_plots it dir formats rows)"
  unfolding generate_weight_sensitivity_plots_def
  by (rule saved_modeI [OF saved_specs [OF weight_specs_ok] _ mode_lists(6)]) (simp add: weight_specs_def weight_names_def)

lemma calibration_saved:
  assumes "\<forall>row\<in>set ps. ''policy'' \<in> fst ` set row"
  shows "\<exists>saved. generate_contention_calibration_plots it contention_file dir formats rows ps swept = Inr saved \<and> saved_mode dir formats saved"
proof -
  obtain figs where figs: "calibration_policy_pressure_reduction_plot ps = Inr figs" "plot_ok figs"
    using summary_plots_ok(4) [OF assms] by blast
  let ?extra = "if 1 < policy_count rows then [(''calibration_policy_pressure_reduction'', figs)] else []"
  let ?specs = "calibration_specs it contention_file rows swept @ ?extra"
  have "specs_ok ?specs" using figs(2) by (simp add: calibration_specs_ok)
  moreover have "subseq (map fst ?specs) calibration_names"
    unfolding map_append by (rule calibration_names) simp
  ultimately have "saved_mode dir formats (save_plot_specs dir formats ''Contention Calibration'' ?specs)"
    by (intro saved_modeI [OF saved_specs _ mode_lists(2)])
  moreover have "generate_contention_calibration_plots it contention_file dir formats rows ps swept =
      Inr (save_plot_specs dir formats ''Contention Calibration'' ?specs)"
    using figs(1) by (simp add: generate_contention_calibration_plots_def)
  ultimately show ?thesis by blast
qed

lemma viability_saved:
  assumes "\<forall>row\<in>set ps. ''policy'' \<in> fst ` set row"
  shows "\<exists>saved. generate_policy_viability_plots it dir formats rows ps swept ctx = Inr saved \<and> saved_mode dir formats saved"
proof -
  obtain quality where q: "viability_admission_quality_plot ps = Inr quality" "plot_ok quality"
    using panel_plots_ok(2) [OF assms] by blast
  have "saved_bundle dir formats ((map fst (viability_specs it rows swept quality) @ map fst (conditioned_specs it rows swept)) @ map fst (best_run_specs ctx))
      (extend (extend (save_plot_specs dir formats ''Policy Viability Global Views'' (viability_specs it rows swept quality))
         (save_plot_specs dir formats ''Churn-Conditioned Policy Viability'' (conditioned_specs it rows swept)))
       (save_plot_specs dir formats ''Best Run Examples'' (best_run_specs ctx)))"
    using q(2) by (intro saved_extend saved_specs viability_specs_ok conditioned_specs_ok best_run_specs_ok)
  from saved_modeI [OF this viability_names mode_lists(3)] show ?thesis
    by (simp add: generate_policy_viability_plots_def q(1) Let_def)
qed

definition produces :: "string \<Rightarrow> string list \<Rightarrow> plot_bundle res \<Rightarrow> bool" where
  "produces dir formats result = (case result of Inl e \<Rightarrow> False | Inr saved \<Rightarrow> saved_mode dir formats saved)"

lemma producesD: "produces dir formats result \<Longrightarrow> \<exists>saved. result = Inr saved \<and> saved_mode dir formats saved"
  by (cases result) (simp_all add: produces_def del: split_paired_Ex)

lemma producesI: "\<exists>saved. result = Inr saved \<and> saved_mode dir formats saved \<Longrightarrow> produces dir formats result"
  by (cases result) (simp_all add: produces_def del: split_paired_Ex)

lemma mode_saved:
  assumes "\<forall>row\<in>set ps. ''policy'' \<in> fst ` set row"
  shows "produces dir formats (mode_plots it contention_file dir formats rows ps mode swept ctx)"
proof -
  have "produces dir formats (generate_contention_calibration_plots it contention_file dir formats rows ps swept)"
    "produces dir formats (generate_policy_viability_plots it dir formats rows ps swept ctx)"
    using calibration_saved [OF assms] viability_saved [OF assms] by (intro producesI; blast)+
  moreover have "produces dir formats (Inr saved)" if "saved_mode dir formats saved" for saved
    using that by (simp add: produces_def)
  ultimately show ?thesis
    by (simp add: mode_plots_def interaction_saved parameter_saved weight_saved generic_saved)
qed

lemma final_names_saved:
  assumes "plot_ok (final_pressure_policy_scaling_plot it legend rows)"
  shows "\<exists>names. saved_bundle dir formats names (generate_final_report_plots it legend dir formats rows) \<and> distinct names
    \<and> list_all (\<lambda>name. CHR ''.'' \<notin> set name) names"
proof -
  let ?names = "[''final_simulator_contention'', ''final_pressure_policy_scaling'', ''final_policy_operating_region'', ''final_policy_mechanisms'']"
  let ?specs = "[(''final_simulator_contention'', final_simulator_contention_plot it rows),
        (''final_pressure_policy_scaling'', final_pressure_policy_scaling_plot it legend rows),
        (''final_policy_operating_region'', final_policy_operating_region_plot it legend rows),
        (''final_policy_mechanisms'', final_policy_mechanism_plot it legend rows)]"
  have "specs_ok ?specs" using assms by (simp add: contention_plot_ok region_plot_ok mechanism_plot_ok)
  from saved_specs [OF this] have "saved_bundle dir formats ?names (generate_final_report_plots it legend dir formats rows)"
    by (simp add: generate_final_report_plots_def)
  moreover have "distinct ?names \<and> list_all (\<lambda>name. CHR ''.'' \<notin> set name) ?names" by simp
  ultimately show ?thesis by blast
qed

lemma mode_names_plain: "names \<in> set mode_name_lists \<Longrightarrow> name \<in> set (common_names @ names) \<Longrightarrow> CHR ''.'' \<notin> set name"
  unfolding mode_name_lists_def
  by (auto simp: common_names_def generic_names_def calibration_names_def viability_names_def interaction_names_def
      parameter_names_def weight_names_def)

lemma generate_plots_saved:
  assumes "\<forall>row\<in>set ps. ''policy'' \<in> fst ` set row"
    and "mode = ''final_report'' \<Longrightarrow> plot_ok (final_pressure_policy_scaling_plot it legend rows)"
  shows "\<exists>saved names. generate_plots it legend contention_file dir formats rows ps mode dims ctx = Inr saved \<and>
    saved_bundle (path_join dir ''plots'') formats names saved \<and> distinct names \<and> list_all (\<lambda>name. CHR ''.'' \<notin> set name) names"
proof (cases "mode = ''final_report''")
  case True
  then show ?thesis using final_names_saved [OF assms(2)] by (simp add: generate_plots_def Let_def)
next
  case False
  let ?dir = "path_join dir ''plots''"
  obtain specs where specs: "common_specs ps = Inr specs" "specs_ok specs" "map fst specs = common_names"
    unfolding common_names_def by (rule common_specs_ok [OF assms(1)])
  obtain saved where mode: "mode_plots it contention_file ?dir formats rows ps mode (swept_dimensions dims) ctx = Inr saved"
    "saved_mode ?dir formats saved"
    using producesD [OF mode_saved [OF assms(1)]] by blast
  obtain names all_names where names: "saved_bundle ?dir formats names saved" "subseq names all_names" "all_names \<in> set mode_name_lists"
    using mode(2) by (auto simp: saved_mode_def)
  let ?common = "save_plot_specs ?dir formats ''Global Average Views'' specs"
  have sub: "subseq (common_names @ names) (common_names @ all_names)"
    by (rule list_emb_append_mono [OF subseq_order.order_refl names(2)])
  have "saved_bundle ?dir formats (common_names @ names) (extend ?common saved)"
    using saved_extend [OF saved_specs [OF specs(2)] names(1)] unfolding specs(3) .
  moreover have "distinct (common_names @ names)"
    using sub mode_names_distinct [OF names(3)] unfolding subseq_conv_nths by (metis distinct_nthsI)
  moreover have "list_all (\<lambda>name. CHR ''.'' \<notin> set name) (common_names @ names)"
    unfolding list_all_iff using mode_names_plain [OF names(3)] sub by (metis notin_set_nthsI subseq_conv_nths)
  moreover have "generate_plots it legend contention_file dir formats rows ps mode dims ctx = Inr (extend ?common saved)"
    using False mode(1) specs(1) by (simp add: generate_plots_def generate_common_plots_def Let_def)
  ultimately show ?thesis by (intro exI conjI)
qed

lemma plot_file_inject:
  assumes "CHR ''.'' \<notin> set name" and "CHR ''.'' \<notin> set name'" and "plot_file dir name fmt = plot_file dir name' fmt'"
  shows "name = name' \<and> fmt = fmt'"
proof -
  have eq: "name @ CHR ''.'' # fmt = name' @ CHR ''.'' # fmt'" using assms(3) by (simp add: plot_file_def)
  have "takeWhile (\<lambda>c. c \<noteq> CHR ''.'') (n @ CHR ''.'' # f) = n" if "CHR ''.'' \<notin> set n" for n f
    using that by (subst takeWhile_append2) auto
  then have "name = name'" using eq assms(1,2) by metis
  then show ?thesis using eq by simp
qed

lemma distinct_plot_files:
  assumes "distinct names" and "list_all (\<lambda>name. CHR ''.'' \<notin> set name) names" and "distinct formats"
  shows "distinct (concat (map (\<lambda>name. map (plot_file dir name) formats) names))"
  using assms(1,2)
proof (induction names)
  case (Cons name names)
  have "inj_on (plot_file dir name) (set formats)"
    using Cons.prems(2) plot_file_inject by (intro inj_onI) (simp, blast)
  moreover have "plot_file dir name fmt \<noteq> plot_file dir name' fmt'" if "name' \<in> set names" for name' fmt fmt'
    using that Cons.prems plot_file_inject [of name name' dir fmt fmt'] unfolding list_all_iff by auto
  ultimately show ?case using Cons assms(3) by (auto simp: distinct_map)
qed simp



section \<open>The library as an interface\<close>

text \<open>
  What the script relies on: Matplotlib carries out the calls on a figure that is laid out on
  a grid with rows and columns, drawn, saved and closed in this order.
\<close>

locale plot_library =
  fixes draw :: "figure \<Rightarrow> unit res"
  assumes accepts: "figure_ready fig \<Longrightarrow> draw fig = Inr ()"
begin

lemma draws_all: "list_all figure_ready figs \<Longrightarrow> \<exists>us. mapR draw figs = Inr us"
  by (induction figs) (auto simp: accepts)

end

text \<open>
  An executable library that refuses what Matplotlib refuses: a grid without rows or columns
  (\<open>ValueError\<close>).
\<close>

definition checked_layout :: "figure \<Rightarrow> unit res" where
  "checked_layout fig = guardR (case fig of [] \<Rightarrow> False | c # cs \<Rightarrow> opens c) ValueError"

interpretation checked: plot_library checked_layout
proof
  fix fig
  assume "figure_ready fig"
  then obtain body rest where "fig = body @ rest" "figure_body body" by (auto simp: figure_ready_def)
  then show "checked_layout fig = Inr ()" by (cases body) (simp_all add: checked_layout_def figure_body_def)
qed

end
