(* ===== verification/PlotMain.thy ===== *)
theory PlotMain
  imports PlotBundles
begin

text \<open>
  \<open>main\<close> of \<^verbatim>\<open>scripts/plot_results.py\<close> over the files it reads and writes. The plotting
  library is a parameter: whether it can be imported, whether axes report something for a
  legend, and whether it carries out the calls on a figure or raises. Image files and the
  terminal are not part of the state; neither are directories.
\<close>

record report_args =
  ra_aggregate :: "string list"
  ra_output_dir :: "string option"
  ra_baseline :: string
  ra_tie_threshold :: pyfloat
  ra_formats :: string
  ra_title :: string
  ra_report_mode :: string

definition default_report_args :: "string list \<Rightarrow> report_args" where
  "default_report_args aggregate =
     \<lparr>ra_aggregate = aggregate, ra_output_dir = None, ra_baseline = ''lru'', ra_tie_threshold = flit 2 2,
      ra_formats = ''svg'', ra_title = ''DM Simulator Results Analysis'', ra_report_mode = ''auto''\<rparr>"

text \<open>What the environment supplies.\<close>

record environment =
  env_set_order :: "string list \<Rightarrow> string list"
  env_square :: "pyfloat \<Rightarrow> pyfloat res"
  env_square_root :: "pyfloat \<Rightarrow> pyfloat res"
  env_matplotlib :: bool
  env_legend :: "figure \<Rightarrow> bool"
  env_draw :: "figure \<Rightarrow> unit res"

text \<open>\<open>path.parent\<close>: a bare name lies in the current directory, a file of the root in the root.\<close>

definition path_parent :: "string \<Rightarrow> string" where
  "path_parent p =
     (let parts = str_split (CHR ''/'') p
      in if length parts < 2 then ''.'' else if butlast parts = [[]] then ''/''
         else if butlast parts = [[], []] then ''//'' else str_join ''/'' (butlast parts))"

definition check_threshold :: "pyfloat \<Rightarrow> unit res" where
  "check_threshold t =
     guardR (\<not> (flt t fzero \<or> \<not> is_finite t)) (SystemExit ''--tie-threshold must be a nonnegative finite number'')"

definition output_dir_of :: "report_args \<Rightarrow> string res" where
  "output_dir_of args = (case ra_output_dir args of Some d \<Rightarrow> Inr d
     | None \<Rightarrow> bindR (first_item (ra_aggregate args)) (\<lambda>a. Inr (path_join (path_parent a) ''analysis'')))"

record report_data =
  rd_mode :: string
  rd_dimensions :: "(string \<times> string list \<times> bool) list"
  rd_comparison :: "table_row list"
  rd_policy_summary :: "table_row list"
  rd_condition_summary :: "table_row list"
  rd_best_summary :: "table_row list"
  rd_best_context :: "table_row list"
  rd_final_table :: "table_row list"

definition report_tables :: "environment \<Rightarrow> report_args \<Rightarrow> (string \<Rightarrow> string option) \<Rightarrow> report_data res" where
  "report_tables env args fs =
     bindR (read_aggregate_rows fs (ra_aggregate args)) (\<lambda>aggregate_rows.
     let mode = detect_report_mode (env_set_order env) aggregate_rows (ra_report_mode args);
         dimensions = dimension_summary (env_set_order env) aggregate_rows;
         comparison = build_policy_comparison aggregate_rows (ra_baseline args) (ra_tie_threshold args);
         best = (if mode = ''policy_viability'' then build_best_run_examples comparison else ([], []))
     in bindR (build_policy_summary comparison) (\<lambda>summary.
        bindR (build_condition_summary comparison) (\<lambda>conditions.
        bindR (if mode = ''final_report''
               then build_final_policy_table (env_square env) (env_square_root env) comparison else Inr []) (\<lambda>final_table.
        Inr \<lparr>rd_mode = mode, rd_dimensions = dimensions, rd_comparison = comparison,
             rd_policy_summary = summary, rd_condition_summary = conditions,
             rd_best_summary = fst best, rd_best_context = snd best, rd_final_table = final_table\<rparr>))))"

definition write_tables :: "string \<Rightarrow> report_data \<Rightarrow> (string \<Rightarrow> string option) \<Rightarrow> (string \<Rightarrow> string option)" where
  "write_tables dir d fs =
     (let out = (\<lambda>name columns rows fs. write_csv (path_join dir name) columns rows fs);
          fs1 = out ''policy_comparison.csv'' COMPARISON_COLUMNS (rd_comparison d) fs;
          fs2 = out ''policy_summary.csv'' POLICY_SUMMARY_COLUMNS (rd_policy_summary d) fs1;
          fs3 = out ''condition_summary.csv'' CONDITION_COLUMNS (rd_condition_summary d) fs2;
          fs5 = (if rd_mode d = ''policy_viability''
                 then out ''viability_best_run_policy_context.csv'' BEST_RUN_CONTEXT_COLUMNS (rd_best_context d)
                        (out ''viability_best_runs.csv'' BEST_RUN_COLUMNS (rd_best_summary d) fs3) else fs3)
      in if rd_mode d = ''final_report''
         then out ''final_policy_table.csv'' FINAL_POLICY_TABLE_COLUMNS (rd_final_table d) fs5 else fs5)"

definition contention_file_of :: "(string \<Rightarrow> string option) \<Rightarrow> string \<Rightarrow> string option" where
  "contention_file_of fs dir = fs (path_join dir ''contention_by_object.csv'')"

definition report_main ::
    "environment \<Rightarrow> report_args \<Rightarrow> (string \<Rightarrow> string option) \<Rightarrow> (string \<Rightarrow> string option) \<times> int res" where
  "report_main env args fs =
     (case bindR (check_threshold (ra_tie_threshold args)) (\<lambda>_.
           bindR (parse_formats (ra_formats args)) (\<lambda>formats.
           bindR (output_dir_of args) (\<lambda>dir. Inr (formats, dir)))) of
        Inl e \<Rightarrow> (fs, Inl e)
      | Inr (formats, dir) \<Rightarrow>
          if \<not> env_matplotlib env then (fs, Inr 2)
          else (case report_tables env args fs of
              Inl e \<Rightarrow> (fs, Inl e)
            | Inr d \<Rightarrow>
                let fs' = write_tables dir d fs
                in (case bindR (generate_plots (env_set_order env) (env_legend env) (contention_file_of fs') dir formats
                           (rd_comparison d) (rd_policy_summary d) (rd_mode d) (rd_dimensions d) (rd_best_context d))
                         (\<lambda>(plots, figures).
                       bindR (mapR (env_draw env) figures) (\<lambda>drawn.
                       write_report (env_set_order env) (env_square env) (env_square_root env) (contention_file_of fs')
                         dir (path_join dir ''report.md'') (ra_title args) (ra_aggregate args) (ra_baseline args)
                         (ra_tie_threshold args) plots (rd_policy_summary d) (rd_comparison d) (rd_mode d)
                         (rd_dimensions d) (rd_best_summary d) (rd_final_table d) fs')) of
                     Inl e \<Rightarrow> (fs', Inl e)
                   | Inr fs'' \<Rightarrow> (fs'', Inr 0))))"

section \<open>Which files a report touches\<close>

definition report_files :: "string list" where
  "report_files =
     [''policy_comparison.csv'', ''policy_summary.csv'', ''condition_summary.csv'', ''viability_best_runs.csv'',
      ''viability_best_run_policy_context.csv'', ''final_policy_table.csv'', ''report.md'']"

lemma write_tables_frame:
  assumes "p \<notin> path_join dir ` set report_files"
  shows "write_tables dir d fs p = fs p"
  using assms by (auto simp: write_tables_def write_csv_def report_files_def Let_def)

lemma write_tables_comparison:
  "write_tables dir d fs (path_join dir ''policy_comparison.csv'') = Some (table_text COMPARISON_COLUMNS (rd_comparison d))"
  by (simp add: write_tables_def write_csv_def Let_def)

lemma write_report_frame:
  assumes "write_report it square square_root cf parent path title aggregates baseline t plots summary comparison mode dims best final fs = Inr fs'"
    and "p \<noteq> path"
  shows "fs' p = fs p"
  using assms by (auto simp: write_report_def bindR_Inr_iff)


section \<open>With the default options\<close>

definition demo_environment :: environment where
  "demo_environment =
     \<lparr>env_set_order = remdups, env_square = float_square, env_square_root = float_root, env_matplotlib = True,
      env_legend = (\<lambda>fig. True), env_draw = checked_layout\<rparr>"

definition demo_report_args :: report_args where
  "demo_report_args = default_report_args [''results/aggregate_summary.csv'']"

lemma demo_report_options:
  "check_threshold (ra_tie_threshold demo_report_args) = Inr ()"
  "parse_formats (ra_formats demo_report_args) = Inr [''svg'']"
  "output_dir_of demo_report_args = Inr ''results/analysis''"
proof -
  show "check_threshold (ra_tie_threshold demo_report_args) = Inr ()"
    by (simp add: check_threshold_def guardR_def demo_report_args_def default_report_args_def literal_defs cong: eval_congs)
  show "parse_formats (ra_formats demo_report_args) = Inr [''svg'']"
    by (simp add: parse_formats_def demo_report_args_def default_report_args_def str_strip_def is_space_def
        str_lower_def lower_char_def Let_def)
  show "output_dir_of demo_report_args = Inr ''results/analysis''"
    by (simp add: output_dir_of_def demo_report_args_def default_report_args_def first_item_def path_parent_def path_join_def suffix_to_prefix Let_def)
qed


end
