(* ===== verification/Pipeline.thy ===== *)
theory Pipeline
  imports RunMatrixSummary PlotMain
begin

text \<open>
  The two scripts meet in the aggregate file: \<^verbatim>\<open>run_matrix.py\<close> writes it and
  \<^verbatim>\<open>plot_results.py\<close> reads it. The facts below follow a value from the row of a run to
  the report tables.
\<close>

section \<open>Reading what the matrix wrote\<close>

definition row_succeeded :: "row \<Rightarrow> bool" where
  "row_succeeded r = (case map_of r ''status'' of None \<Rightarrow> False | Some v \<Rightarrow> csv_value v = ''success'')"

definition reported_row :: "string \<Rightarrow> row \<Rightarrow> table_row" where
  "reported_row path r = source_row path (row_dict AGGREGATE_COLUMNS (aggregate_fields r))"

lemma status_column: "''status'' \<in> set AGGREGATE_COLUMNS" "''_source_aggregate'' \<notin> set AGGREGATE_COLUMNS"
  by (simp_all add: AGGREGATE_COLUMNS_def)

lemma row_get_or_of: "row_get_or (table_row_of d) k dflt = (case map_of d k of None \<Rightarrow> dflt | Some c \<Rightarrow> cell_value c)"
  by (induction d) (auto simp: row_get_or_def table_row_of_def)

lemma keep_row_status:
  "keep_row (row_dict AGGREGATE_COLUMNS (aggregate_fields r)) \<longleftrightarrow> row_succeeded r"
  using status_column(1)
  by (auto simp: keep_row_def row_get_or_of aggregate_cell cell_value_def row_succeeded_def csv_value_def
      value_str_def split: option.splits)

lemma read_aggregate_written:
  assumes "fs path = Some (aggregate_text rows)"
  shows "read_aggregate_rows fs [path] =
    (if filter row_succeeded rows = [] then Inl (SystemExit ''No successful rows found in aggregate input'')
     else Inr (map (reported_row path) (filter row_succeeded rows)))"
proof -
  have "filter keep_row (dict_rows (aggregate_text rows)) =
      map (\<lambda>r. row_dict AGGREGATE_COLUMNS (aggregate_fields r)) (filter row_succeeded rows)"
    by (simp add: dict_rows_aggregate filter_map o_def keep_row_status)
  then show ?thesis by (simp add: read_aggregate_rows_def assms reported_row_def Let_def o_def)
qed

lemma reported_cell:
  assumes "column \<in> set AGGREGATE_COLUMNS"
  shows "row_get_or (reported_row path r) column dflt =
    PStr (csv_value (case map_of r column of None \<Rightarrow> PStr [] | Some v \<Rightarrow> v))"
proof -
  have "column \<noteq> ''_source_aggregate''" using assms status_column(2) by auto
  then show ?thesis
    using assms by (simp add: reported_row_def source_row_def row_get_or_def update_conv' )
      (simp add: row_get_or_of [unfolded row_get_or_def] aggregate_cell cell_value_def)
qed

text \<open>
  C6. A number a run put into its row is the number the report computes with: written with
  \<open>repr\<close>, quoted by the csv writer, read by the csv reader and parsed, it is the same float,
  and only an infinity or a NaN becomes a missing value. Failed runs are left out, and the
  others keep their order.
\<close>

theorem metric_reaches_report:
  assumes "fs path = Some (aggregate_text rows)" and "read_aggregate_rows fs [path] = Inr out"
    and "i < length out" and "column \<in> set AGGREGATE_COLUMNS"
    and "map_of (filter row_succeeded rows ! i) column = Some (PFloat x)" and "canonical x"
  shows "length out = length (filter row_succeeded rows) \<and>
    metric (out ! i) column = (if is_finite x then Some x else None)"
proof -
  have out: "out = map (reported_row path) (filter row_succeeded rows)"
    using assms(2) read_aggregate_written [of fs path rows, OF assms(1)] by (auto split: if_splits)
  then have "row_get (out ! i) column = PStr (py_repr x)"
    using assms(3-5) by (simp add: row_get_def reported_cell csv_value_def value_str_def)
  then have "metric (out ! i) column = float_or_none (PFloat x)"
    by (simp add: metric_def float_or_none_def value_str_def)
  then show ?thesis using assms(6) by (simp add: out float_or_none_PFloat)
qed

section \<open>The report of a written aggregate\<close>

lemma report_columns_written:
  "set GROUP_COLUMNS \<subseteq> set AGGREGATE_COLUMNS" "set CONDITION_DIMENSIONS \<subseteq> set AGGREGATE_COLUMNS"
  "''policy'' \<in> set AGGREGATE_COLUMNS"
  by (simp_all add: GROUP_COLUMNS_def CONDITION_DIMENSIONS_def AGGREGATE_COLUMNS_def)

lemma comparison_cell_text:
  assumes "d \<in> set GROUP_COLUMNS \<union> {''policy'', ''contention_weight_profile'', ''contention_weight_name'', ''contention_weight_value''}"
    and "\<And>dflt. \<exists>s. row_get_or row d dflt = PStr s"
  shows "\<exists>s. row_get_or (comparison_row row p b t) d dflt = PStr s"
proof (cases "d \<in> set GROUP_COLUMNS")
  case True
  then show ?thesis using assms(2) [of "PStr []"] by (simp add: group_column_kept)
next
  case False
  then have d: "d = ''policy'' \<or> d = ''contention_weight_profile'' \<or> d = ''contention_weight_name'' \<or>
      d = ''contention_weight_value''" using assms(1) by blast
  have some: "map_of (label_entries row p b) d = Some (row_get_or row d (PStr []))"
    using d by (elim disjE) (simp_all add: label_entries_def Let_def)
  then have "d \<in> fst ` set (label_entries row p b)" by (force dest: map_of_SomeD)
  then have none: "map_of (metric_entries row b t) d = None"
    using entries_distinct [of row p b t] unfolding map_of_eq_None_iff by auto
  show ?thesis using some assms(2) [of "PStr []"] by (simp add: comparison_row_entry(2) [OF none some])
qed

lemma condition_dimensions_labels:
  "set CONDITION_DIMENSIONS \<subseteq> set GROUP_COLUMNS \<union>
     {''policy'', ''contention_weight_profile'', ''contention_weight_name'', ''contention_weight_value''}"
  by (simp add: CONDITION_DIMENSIONS_def GROUP_COLUMNS_def)

text \<open>Rows read from files the matrix runner wrote, from any number of them.\<close>

definition all_written :: "(string \<Rightarrow> string option) \<Rightarrow> string list \<Rightarrow> bool" where
  "all_written fs paths = (\<forall>path\<in>set paths. \<exists>rows. fs path = Some (aggregate_text rows))"

lemma read_aggregate_rows_written:
  assumes "all_written fs paths" and "read_aggregate_rows fs paths = Inr out" and "row \<in> set out"
  shows "\<exists>path r. row = reported_row path r"
proof -
  let ?f = "\<lambda>path. case fs path of
      None \<Rightarrow> Inl (SystemExit (''Aggregate file does not exist: '' @ path))
    | Some content \<Rightarrow> Inr (map (source_row path) (filter keep_row (dict_rows content)))"
  obtain parts where parts: "mapR ?f paths = Inr parts" "out = concat parts"
    using assms(2) by (auto simp: read_aggregate_rows_def bindR_Inr_iff Let_def split: if_splits)
  obtain part where part: "part \<in> set parts" "row \<in> set part" using assms(3) parts(2) by auto
  from mapR_set [OF parts(1) part(1)] obtain path where path: "path \<in> set paths" "?f path = Inr part" by blast
  then obtain rows where "fs path = Some (aggregate_text rows)" using assms(1) by (auto simp: all_written_def)
  then have "row \<in> source_row path ` set (dict_rows (aggregate_text rows))" using path(2) part(2) by auto
  then show ?thesis by (auto simp: dict_rows_aggregate reported_row_def)
qed

lemma tables_of_written:
  assumes "all_written fs paths" and "read_aggregate_rows fs paths = Inr out"
  shows "\<exists>ps. build_policy_summary (build_policy_comparison out p t) = Inr ps"
    and "\<exists>cs. build_condition_summary (build_policy_comparison out p t) = Inr cs"
proof -
  have cell: "\<exists>s. row_get_or c d (PStr []) = PStr s"
    if "c \<in> set (build_policy_comparison out p t)" "d \<in> set CONDITION_DIMENSIONS \<union> {''policy''}" for c d
  proof -
    note c_in = that(1)
    obtain row b where row: "row \<in> set out" "c = comparison_row row p b t"
      using c_in unfolding build_policy_comparison_def Let_def set_map by blast
    then obtain path r where c: "c = comparison_row (reported_row path r) p b t"
      using read_aggregate_rows_written [OF assms] by blast
    have d: "d \<in> set AGGREGATE_COLUMNS" "d \<in> set GROUP_COLUMNS \<union>
        {''policy'', ''contention_weight_profile'', ''contention_weight_name'', ''contention_weight_value''}"
      using that(2) report_columns_written(2,3) condition_dimensions_labels by blast+
    show ?thesis
      unfolding c by (rule comparison_cell_text [OF d(2)]) (use d(1) in \<open>simp add: reported_cell\<close>)
  qed
  have "comparable_keys (condition_key_of d c) (condition_key_of d c')"
    if "c \<in> set (build_policy_comparison out p t)" "c' \<in> set (build_policy_comparison out p t)"
      "d \<in> set CONDITION_DIMENSIONS" for c c' d
    using cell [OF that(1), of d] cell [OF that(2), of d] cell [OF that(1), of "''policy''"]
      cell [OF that(2), of "''policy''"] that(3)
    by (auto simp: comparable_keys_def condition_key_of_def comparable_values_def)
  then show "\<exists>cs. build_condition_summary (build_policy_comparison out p t) = Inr cs"
    unfolding condition_summary_eq list_all_iff by simp
  show "\<exists>ps. build_policy_summary (build_policy_comparison out p t) = Inr ps"
    unfolding build_policy_summary_def by_policy_groups [OF comparison_has_policy] by simp
qed

text \<open>
  From an aggregate file of the matrix runner every table of the report is built: the
  policy summary and the condition summary exist, since no cell the report sorts by is
  missing.
\<close>

theorem report_tables_exist:
  assumes "all_written fs paths" and "read_aggregate_rows fs paths = Inr out"
  shows "\<exists>ps cs. build_policy_summary (build_policy_comparison out p t) = Inr ps \<and>
    build_condition_summary (build_policy_comparison out p t) = Inr cs"
  using tables_of_written [OF assms] by blast

section \<open>A report is always finished\<close>

lemma comparison_texts:
  assumes "column \<in> set GROUP_COLUMNS"
  shows "column_texts (build_policy_comparison rows p t) column = column_texts rows column"
  using assms by (simp add: column_texts_def build_policy_comparison_def Let_def o_def row_text_def group_column_kept)

lemma swept_column_present:
  assumes "set_iteration it" and "c \<in> set (swept_dimensions (dimension_summary it rows))"
  shows "column_texts rows c \<noteq> []"
proof -
  have "distinct_values it rows c \<noteq> []"
    using assms(2) by (auto simp: swept_dimensions_def dimension_summary_def Let_def split: if_splits)
  then show ?thesis using distinct_values_props(1) [OF assms(1), of rows c] by (metis set_empty)
qed

lemma summary_has_policy:
  assumes "build_policy_summary rows = Inr ps"
  shows "\<forall>row\<in>set ps. ''policy'' \<in> fst ` set row"
  using assms by (auto simp: build_policy_summary_def bindR_Inr_iff policy_summary_row_policy)

lemma observations_exist:
  assumes "set_iteration it" and "build_policy_summary (build_policy_comparison rows p t) = Inr ps"
    and "mode = ''final_report'' \<Longrightarrow> \<exists>table. build_final_policy_table square square_root (build_policy_comparison rows p t) = Inr table"
  shows "\<exists>xs. build_observations it square square_root cf (build_policy_comparison rows p t) ps p mode
      (dimension_summary it rows) = Inr xs"
proof (cases "mode = ''final_report''")
  case True
  then show ?thesis using assms(3) final_remarks_total by (auto simp: build_observations_def)
next
  case False
  let ?swept = "swept_dimensions (dimension_summary it rows)" and ?cs = "build_policy_comparison rows p t"
  have "distinct_values it ?cs ''node_count'' \<noteq> []" if "''node_count'' \<in> set ?swept"
  proof -
    have "''node_count'' \<in> set GROUP_COLUMNS" by (simp add: GROUP_COLUMNS_def)
    then have "column_texts ?cs ''node_count'' \<noteq> []"
      using swept_column_present [OF assms(1) that] by (simp add: comparison_texts)
    then show ?thesis using distinct_values_props(1) [OF assms(1), of ?cs "''node_count''"] by (metis set_empty)
  qed
  then obtain ns where "node_remark it ?swept ?cs = Inr ns" using node_remark_total by blast
  moreover obtain bs where "best_remark p ps = Inr bs"
    using best_remark_total [OF summary_has_policy [OF assms(2)]] by blast
  ultimately show ?thesis using False by (simp add: build_observations_def Let_def)
qed

lemma tables_computed:
  assumes "libm (env_square env) (env_square_root env)" and "all_written fs (ra_aggregate args)"
    and "read_aggregate_rows fs (ra_aggregate args) = Inr out"
    and "cs = build_policy_comparison out (ra_baseline args) (ra_tie_threshold args)"
    and "mode = detect_report_mode (env_set_order env) out (ra_report_mode args)"
  shows "report_tables env args fs = Inl OverflowError \<or>
    (\<exists>d. report_tables env args fs = Inr d \<and> rd_mode d = mode \<and> rd_comparison d = cs \<and>
       rd_dimensions d = dimension_summary (env_set_order env) out \<and> build_policy_summary cs = Inr (rd_policy_summary d) \<and>
       (mode = ''final_report'' \<longrightarrow> (\<exists>table. build_final_policy_table (env_square env) (env_square_root env) cs = Inr table)))"
proof -
  let ?final = "if mode = ''final_report'' then build_final_policy_table (env_square env) (env_square_root env) cs else Inr []"
  obtain ps conds where ps: "build_policy_summary cs = Inr ps" and conds: "build_condition_summary cs = Inr conds"
    using tables_of_written [OF assms(2,3)] assms(4) by blast
  have tables: "report_tables env args fs = bindR ?final (\<lambda>final. Inr
      \<lparr>rd_mode = mode, rd_dimensions = dimension_summary (env_set_order env) out, rd_comparison = cs,
       rd_policy_summary = ps, rd_condition_summary = conds,
       rd_best_summary = fst (if mode = ''policy_viability'' then build_best_run_examples cs else ([], [])),
       rd_best_context = snd (if mode = ''policy_viability'' then build_best_run_examples cs else ([], [])),
       rd_final_table = final\<rparr>)"
    using ps conds by (simp add: report_tables_def assms(3-5) Let_def)
  have "?final = Inl OverflowError \<or> (\<exists>final. ?final = Inr final)"
    using final_policy_table_cases [OF assms(1), of cs] by (cases "mode = ''final_report''") (simp_all, blast)
  then show ?thesis
  proof (elim disjE exE)
    fix final
    assume final: "?final = Inr final"
    then show ?thesis by (intro disjI2) (simp add: tables ps split: if_splits)
  qed (simp add: tables)
qed

text \<open>Images saved below \<^verbatim>\<open>plots\<close> have a path relative to the report.\<close>

lemma relative_below_plots: "\<exists>rel. relative_to dir (path_join (path_join dir ''plots'') q) = Inr rel"
proof -
  have "path_join (path_join dir ''plots'') q = path_join dir ''plots'' @ ''/'' @ q"
  proof -
    have "last (path_join dir ''plots'') = CHR ''s''" by (simp add: path_join_def)
    moreover have "path_join dir ''plots'' \<noteq> ''.''" "path_join dir ''plots'' \<noteq> []"
      by (auto simp: path_join_def append_eq_Cons_conv)
    ultimately show ?thesis by (auto simp: path_join_def [of "path_join dir ''plots''"] suffix_def)
  qed
  then show ?thesis by (auto simp: relative_to_def path_join_def Let_def)
qed

definition bandwidth_named :: "table_row list \<Rightarrow> bool" where
  "bandwidth_named rows = list_all (\<lambda>row. str_strip (row_text row ''memory_bandwidth_level'') \<noteq> []) rows"

lemma scaling_accepted:
  assumes "set_iteration it" and "bandwidth_named rows"
  shows "plot_ok (final_pressure_policy_scaling_plot it legend (build_policy_comparison rows p t))"
proof (rule scaling_plot_body)
  let ?cs = "build_policy_comparison rows p t"
  have "''memory_bandwidth_level'' \<in> set GROUP_COLUMNS" by (simp add: GROUP_COLUMNS_def)
  then have named: "bandwidth_named ?cs"
    using assms(2) by (auto simp: bandwidth_named_def list_all_iff build_policy_comparison_def Let_def row_text_def group_column_kept)
  have "set (bandwidth_rows ?cs) \<subseteq> set ?cs"
    by (auto simp: bandwidth_rows_def final_study_rows_def rows_for_preferred_presets_def Let_def)
  then have "column_texts (bandwidth_rows ?cs) ''memory_bandwidth_level'' \<noteq> []" if "bandwidth_rows ?cs \<noteq> []"
    using that named by (cases "bandwidth_rows ?cs") (auto simp: column_texts_def bandwidth_named_def list_all_iff)
  then show "distinct_values it (bandwidth_rows ?cs) ''memory_bandwidth_level'' \<noteq> [] \<or> bandwidth_rows ?cs = []"
    using distinct_values_props(1) [OF assms(1), of "bandwidth_rows ?cs" "''memory_bandwidth_level''"] by (metis set_empty)
qed

text \<open>Every plot of a report is drawn, whatever its mode.\<close>

lemma plots_drawn:
  assumes "set_iteration it" and "plot_library draw" and "bandwidth_named rows"
    and "build_policy_summary (build_policy_comparison rows p t) = Inr ps"
  shows "\<exists>plots figures us. generate_plots it legend cf dir formats (build_policy_comparison rows p t) ps mode dims ctx = Inr (plots, figures) \<and>
    mapR draw figures = Inr us \<and> (\<forall>output\<in>set plots. \<exists>rel. relative_to dir (plot_path output) = Inr rel)"
proof -
  obtain saved names where saved: "generate_plots it legend cf dir formats (build_policy_comparison rows p t) ps mode dims ctx = Inr saved"
    "saved_bundle (path_join dir ''plots'') formats names saved"
    using generate_plots_saved [OF summary_has_policy [OF assms(4)] scaling_accepted [OF assms(1,3)]] by blast
  then obtain us where "mapR draw (snd saved) = Inr us"
    using plot_library.draws_all [OF assms(2)] unfolding saved_bundle_def by blast
  moreover have "\<exists>rel. relative_to dir path = Inr rel" if "path \<in> set (map plot_path (fst saved))" for path
  proof -
    have "path \<in> set (concat (map (\<lambda>name. map (plot_file (path_join dir ''plots'') name) formats) names))"
      using that saved(2) unfolding saved_bundle_def by metis
    then obtain name fmt where "path = plot_file (path_join dir ''plots'') name fmt" by auto
    then show ?thesis using relative_below_plots by (simp add: plot_file_def)
  qed
  ultimately show ?thesis using saved(1) by (intro exI [of _ "fst saved"] exI [of _ "snd saved"]) auto
qed

lemma report_finishes:
  assumes "set_iteration (env_set_order env)" and "libm (env_square env) (env_square_root env)"
    and "env_matplotlib env" and "plot_library (env_draw env)"
    and "check_threshold (ra_tie_threshold args) = Inr ()" and "parse_formats (ra_formats args) = Inr formats"
    and "output_dir_of args = Inr dir"
    and "all_written fs (ra_aggregate args)" and "read_aggregate_rows fs (ra_aggregate args) = Inr out"
    and "bandwidth_named out"
  shows "report_main env args fs = (fs, Inl OverflowError) \<or>
    (\<exists>fs'. report_main env args fs = (fs', Inr 0) \<and> fs' (path_join dir ''report.md'') \<noteq> None \<and>
       fs' (path_join dir ''policy_comparison.csv'') =
         Some (table_text COMPARISON_COLUMNS (build_policy_comparison out (ra_baseline args) (ra_tie_threshold args))))"
proof -
  let ?cs = "build_policy_comparison out (ra_baseline args) (ra_tie_threshold args)"
  let ?mode = "detect_report_mode (env_set_order env) out (ra_report_mode args)"
  consider "report_tables env args fs = Inl OverflowError"
    | d where "report_tables env args fs = Inr d" "rd_mode d = ?mode" "rd_comparison d = ?cs"
        "rd_dimensions d = dimension_summary (env_set_order env) out" "build_policy_summary ?cs = Inr (rd_policy_summary d)"
        "?mode = ''final_report'' \<longrightarrow> (\<exists>table. build_final_policy_table (env_square env) (env_square_root env) ?cs = Inr table)"
    using tables_computed [OF assms(2,8,9) refl refl] by blast
  then show ?thesis
  proof cases
    case 1
    then show ?thesis by (simp add: report_main_def assms(3,5-7))
  next
    case 2
    define fs1 where "fs1 = write_tables dir d fs"
    obtain plots figures us where plots: "generate_plots (env_set_order env) (env_legend env) (contention_file_of fs1) dir formats
        ?cs (rd_policy_summary d) ?mode (dimension_summary (env_set_order env) out) (rd_best_context d) = Inr (plots, figures)"
      "mapR (env_draw env) figures = Inr us"
      and below: "\<forall>output\<in>set plots. \<exists>rel. relative_to dir (plot_path output) = Inr rel"
      using plots_drawn [OF assms(1,4,10) 2(5)] by blast
    obtain groups where groups: "rel_plots_by_group dir plots = Inr groups" using rel_plots_exist [OF below] by blast
    obtain obs where obs: "build_observations (env_set_order env) (env_square env) (env_square_root env) (contention_file_of fs1)
        ?cs (rd_policy_summary d) (ra_baseline args) ?mode (dimension_summary (env_set_order env) out) = Inr obs"
      using observations_exist [OF assms(1) 2(5)] 2(6) by blast
    then obtain body where "report_main env args fs = (fs1(path_join dir ''report.md'' \<mapsto> body), Inr 0)"
      using plots groups by (simp add: report_main_def write_report_def assms(3,5-7) 2(1-4) Let_def flip: fs1_def)
    moreover have "fs1 (path_join dir ''policy_comparison.csv'') = Some (table_text COMPARISON_COLUMNS ?cs)"
      by (simp add: fs1_def write_tables_comparison 2(3))
    ultimately show ?thesis by simp
  qed
qed


section \<open>On a one-run aggregate\<close>

definition one_run :: "row list" where
  "one_run = [[(''status'', PStr ''success''), (''mean_latency'', PFloat fone), (''memory_bandwidth_level'', PStr ''mild'')]]"

lemma one_run_read:
  "filter row_succeeded one_run = one_run"
  "\<exists>out. read_aggregate_rows [''a.csv'' \<mapsto> aggregate_text one_run] [''a.csv''] = Inr out \<and> 0 < length out"
proof -
  show ok: "filter row_succeeded one_run = one_run"
    by (simp add: one_run_def row_succeeded_def csv_value_def value_str_def)
  have "one_run \<noteq> []" by (simp add: one_run_def)
  then show "\<exists>out. read_aggregate_rows [''a.csv'' \<mapsto> aggregate_text one_run] [''a.csv''] = Inr out \<and> 0 < length out"
    using read_aggregate_written [of "[''a.csv'' \<mapsto> aggregate_text one_run]" "''a.csv''" one_run] by (simp add: ok)
qed

theorem metric_reaches_report_witness:
  "\<exists>out. read_aggregate_rows [''a.csv'' \<mapsto> aggregate_text one_run] [''a.csv''] = Inr out \<and>
     metric (out ! 0) ''mean_latency'' = Some fone"
proof -
  obtain out where out: "read_aggregate_rows [''a.csv'' \<mapsto> aggregate_text one_run] [''a.csv''] = Inr out" "0 < length out"
    using one_run_read(2) by blast
  have "''mean_latency'' \<in> set AGGREGATE_COLUMNS" by (simp add: AGGREGATE_COLUMNS_def)
  moreover have "map_of (filter row_succeeded one_run ! 0) ''mean_latency'' = Some (PFloat fone)"
    unfolding one_run_read(1) by (simp add: one_run_def)
  ultimately have "metric (out ! 0) ''mean_latency'' = Some fone"
    using metric_reaches_report [OF _ out] by simp
  then show ?thesis using out(1) by blast
qed

theorem report_tables_exist_witness:
  "\<exists>out ps cs. read_aggregate_rows [''a.csv'' \<mapsto> aggregate_text one_run] [''a.csv''] = Inr out \<and>
     build_policy_summary (build_policy_comparison out ''lru'' fzero) = Inr ps \<and>
     build_condition_summary (build_policy_comparison out ''lru'' fzero) = Inr cs"
proof -
  obtain out where out: "read_aggregate_rows [''a.csv'' \<mapsto> aggregate_text one_run] [''a.csv''] = Inr out"
    using one_run_read(2) by blast
  have "all_written [''a.csv'' \<mapsto> aggregate_text one_run] [''a.csv'']" unfolding all_written_def by auto
  from report_tables_exist [OF this out, of "''lru''" fzero] out show ?thesis by blast
qed

lemma one_run_all_read:
  defines "fs \<equiv> [''results/aggregate_summary.csv'' \<mapsto> aggregate_text one_run]"
  shows "all_written fs (ra_aggregate demo_report_args)"
    and "\<exists>out. read_aggregate_rows fs (ra_aggregate demo_report_args) = Inr out"
proof -
  have paths: "ra_aggregate demo_report_args = [''results/aggregate_summary.csv'']"
    by (simp add: demo_report_args_def default_report_args_def)
  show "all_written fs (ra_aggregate demo_report_args)" unfolding all_written_def paths fs_def by auto
  have "one_run \<noteq> []" by (simp add: one_run_def)
  then show "\<exists>out. read_aggregate_rows fs (ra_aggregate demo_report_args) = Inr out"
    using read_aggregate_written [of fs "''results/aggregate_summary.csv''" one_run]
    unfolding paths by (simp add: fs_def one_run_read(1))
qed

lemma one_run_bandwidth:
  assumes "read_aggregate_rows [''results/aggregate_summary.csv'' \<mapsto> aggregate_text one_run] (ra_aggregate demo_report_args) = Inr out"
  shows "bandwidth_named out"
proof -
  have "out = map (reported_row ''results/aggregate_summary.csv'') one_run"
    using assms read_aggregate_written [of "[''results/aggregate_summary.csv'' \<mapsto> aggregate_text one_run]" "''results/aggregate_summary.csv''" one_run]
    by (auto simp: one_run_read(1) demo_report_args_def default_report_args_def split: if_splits)
  moreover have "''memory_bandwidth_level'' \<in> set AGGREGATE_COLUMNS" by (simp add: AGGREGATE_COLUMNS_def)
  ultimately show ?thesis
    by (simp add: bandwidth_named_def one_run_def row_text_def reported_cell csv_value_def value_str_def str_strip_def is_space_def)
qed


end
