(* ===== verification/RunExperiments.thy ===== *)
theory RunExperiments
  imports RunMatrixDriver PlotReport
begin

text \<open>
  \<^verbatim>\<open>scripts/run_experiments.py\<close>: run the simulator on a list of configuration files, each into
  a directory named after the file, and stop at the first failure. The launcher and the world
  are those of the matrix driver.
\<close>

record experiment_args =
  ex_configs :: "string list"
  ex_binary :: string
  ex_results_dir :: string

definition default_experiment_args :: "string \<Rightarrow> string list \<Rightarrow> experiment_args" where
  "default_experiment_args repo configs =
     \<lparr>ex_configs = configs, ex_binary = path_join (path_join repo ''build'') ''dm_simulator'',
      ex_results_dir = path_join repo ''results''\<rparr>"

definition experiment_output_dir :: "experiment_args \<Rightarrow> string \<Rightarrow> string" where
  "experiment_output_dir args config = path_join (ex_results_dir args) (path_stem config)"

definition experiment_command :: "experiment_args \<Rightarrow> string \<Rightarrow> string list" where
  "experiment_command args config =
     [ex_binary args, ''--config'', config, ''--output-dir'', experiment_output_dir args config]"

fun run_configs :: "launcher \<Rightarrow> experiment_args \<Rightarrow> string list \<Rightarrow> int prog" where
  "run_configs launch args [] = returnP (Inr 0)"
| "run_configs launch args (config # configs) =
     bindP (launch (experiment_command args config)) (\<lambda>_. run_configs launch args configs)"

definition experiments_main :: "launcher \<Rightarrow> experiment_args \<Rightarrow> int prog" where
  "experiments_main launch args = run_configs launch args (ex_configs args)"

text \<open>A launch that succeeds on a list of configurations, with the world it leaves.\<close>

fun launches :: "launcher \<Rightarrow> experiment_args \<Rightarrow> string list \<Rightarrow> world \<Rightarrow> world \<Rightarrow> bool" where
  "launches launch args [] w w' = (w' = w)"
| "launches launch args (config # configs) w w' =
     (\<exists>w1. launch (experiment_command args config) w = (w1, Inr ()) \<and> launches launch args configs w1 w')"

lemma run_configs_append:
  "launches launch args before w w1 \<Longrightarrow> run_configs launch args (before @ later) w = run_configs launch args later w1"
  by (induction before arbitrary: w) (auto simp: bindP_def)

text \<open>
  The script returns 0 exactly when every configuration ran; at the first failure it raises
  the simulator's exception, in the world that launch left, and the later configurations are
  not launched.
\<close>

theorem experiments_outcome:
  "(\<exists>w'. experiments_main launch args w = (w', Inr 0) \<and> launches launch args (ex_configs args) w w') \<or>
   (\<exists>before config later w1 w2 e. ex_configs args = before @ config # later \<and> launches launch args before w w1 \<and>
      launch (experiment_command args config) w1 = (w2, Inl e) \<and> experiments_main launch args w = (w2, Inl e))"
proof -
  have "(\<exists>w'. run_configs launch args cs w = (w', Inr 0) \<and> launches launch args cs w w') \<or>
    (\<exists>before config later w1 w2 e. cs = before @ config # later \<and> launches launch args before w w1 \<and>
      launch (experiment_command args config) w1 = (w2, Inl e) \<and> run_configs launch args cs w = (w2, Inl e))" for cs
  proof (induction cs arbitrary: w)
    case (Cons c cs)
    obtain w1 r where l: "launch (experiment_command args c) w = (w1, r)" by fastforce
    show ?case
    proof (cases r)
      case (Inl e)
      then show ?thesis
        using l by (intro disjI2 exI [of _ "[]"] exI [of _ c] exI [of _ cs] exI [of _ w] exI [of _ w1] exI [of _ e])
          (simp add: bindP_def)
    next
      case (Inr u)
      then have run: "run_configs launch args (c # cs) w = run_configs launch args cs w1" using l by (simp add: bindP_def)
      from Cons.IH [of w1] show ?thesis
      proof (elim disjE exE conjE)
        fix w'
        assume "run_configs launch args cs w1 = (w', Inr 0)" "launches launch args cs w1 w'"
        then show ?thesis using l Inr run by auto
      next
        fix before config later w2 w3 e
        assume "cs = before @ config # later" "launches launch args before w1 w2"
          "launch (experiment_command args config) w2 = (w3, Inl e)" "run_configs launch args cs w1 = (w3, Inl e)"
        then show ?thesis
          using l Inr run
          by (intro disjI2 exI [of _ "c # before"] exI [of _ config] exI [of _ later] exI [of _ w2] exI [of _ w3] exI [of _ e])
            auto
      qed
    qed
  qed simp
  then show ?thesis by (simp add: experiments_main_def)
qed

end
