(* ===== verification/PyRound.thy ===== *)
theory PyRound
  imports PyFloat
begin

text \<open>
  Rounding is monotone: a sum or product that is at least (at most) some float is rounded to
  at least (at most) that float. This bounds results of float arithmetic without an error
  analysis.
\<close>

section \<open>Rounding a ratio\<close>

abbreviation mag :: "nat \<Rightarrow> int \<Rightarrow> rat" where
  "mag m e \<equiv> of_nat m * 2 powi e"

lemma powi_less: "(2 :: rat) powi a < 2 powi b \<longleftrightarrow> a < b"
proof
  show "(2 :: rat) powi a < 2 powi b" if "a < b" using that by (intro power_int_strict_increasing) simp_all
  show "a < b" if "(2 :: rat) powi a < 2 powi b"
  proof (rule ccontr)
    assume "\<not> a < b"
    then have "(2 :: rat) powi b \<le> 2 powi a" by (intro power_int_increasing) simp_all
    then show False using that by simp
  qed
qed

lemma mag_mono: "m \<le> n \<Longrightarrow> mag m e \<le> mag n e"
  by (intro mult_right_mono) (simp_all only: of_nat_le_iff, simp)

lemma mag_scale: "k \<le> e \<Longrightarrow> mag (m * 2 ^ nat (e - k)) k = mag m e"
proof -
  assume "k \<le> e"
  then have "(2 :: rat) ^ nat (e - k) * 2 powi k = 2 powi (e - k + k)"
    unfolding power_int_add [OF disjI1 [OF zero_neq_numeral [symmetric]]] by (simp add: power_int_def)
  then show ?thesis by (simp add: mult.assoc)
qed

lemma mag_bound: "m < 2 ^ k \<Longrightarrow> mag m e < 2 powi (e + int k)"
proof -
  assume "m < 2 ^ k"
  then have "(of_nat m :: rat) < of_nat (2 ^ k)" by (simp only: of_nat_less_iff)
  then have "mag m e < 2 ^ k * 2 powi e" by (simp add: mult_strict_right_mono)
  then show ?thesis by (simp add: power_int_add mult.commute)
qed

lemma mag_ge: "2 ^ k \<le> m \<Longrightarrow> 2 powi (e + int k) \<le> mag m e"
proof -
  assume "2 ^ k \<le> m"
  then have "(of_nat (2 ^ k) :: rat) \<le> of_nat m" by (simp only: of_nat_le_iff)
  then have "2 ^ k * 2 powi e \<le> mag m e" by (simp add: mult_right_mono)
  then show ?thesis by (simp add: power_int_add mult.commute)
qed

lemma canonical_Fin: "canonical (Fin s m e) \<Longrightarrow> m < 2 ^ 53 \<and> - 1074 \<le> e \<and> e \<le> 971"
  by (auto simp: canonical_def)

lemma scaled_le_iff:
  fixes p q :: nat
  shows "p * 2 ^ nat (- k) \<le> q * 2 ^ nat k \<longleftrightarrow> (of_nat p :: rat) \<le> 2 powi k * of_nat q"
proof (cases "0 \<le> k")
  case True
  then have "(2 :: rat) powi k * of_nat q = of_nat (q * 2 ^ nat k)" by (simp add: power_int_def)
  then show ?thesis using True by (simp only: of_nat_le_iff) simp
next
  case False
  then have "(of_nat p :: rat) \<le> 2 powi k * of_nat q \<longleftrightarrow> of_nat (p * 2 ^ nat (- k)) \<le> (of_nat q :: rat)"
    by (simp add: power_int_def field_simps)
  then show ?thesis using False by (simp only: of_nat_le_iff) simp
qed

text \<open>The rounded magnitude before the overflow check.\<close>

definition rounded :: "nat \<Rightarrow> nat \<Rightarrow> rat" where
  "rounded p q = mag (ratio_mant p q) (ratio_exp p q)"

lemma round_ratio_value:
  assumes "0 < p"
  shows "round_ratio s p q = Inf s \<or> (\<exists>m e. round_ratio s p q = Fin s m e \<and> mag m e = rounded p q)"
    and "rounded p q < 2 powi 1024 \<Longrightarrow> 0 < q \<Longrightarrow> round_ratio s p q \<noteq> Inf s"
proof -
  have top: "mag (2 ^ 52) (ratio_exp p q + 1) = mag (2 ^ 53) (ratio_exp p q)"
    by (simp add: power_int_add)
  then show "round_ratio s p q = Inf s \<or> (\<exists>m e. round_ratio s p q = Fin s m e \<and> mag m e = rounded p q)"
    using assms by (auto simp: round_ratio_eq rounded_def)
  assume small: "rounded p q < 2 powi 1024" and q: "0 < q"
  have exp: "ratio_exp p q < 972" if "2 ^ 52 \<le> ratio_mant p q"
  proof -
    have "2 powi (ratio_exp p q + int 52) < (2 :: rat) powi 1024"
      using mag_ge [OF that, of "ratio_exp p q"] small unfolding rounded_def by (rule order.strict_trans1)
    then have "ratio_exp p q + int 52 < 1024" by (simp only: powi_less)
    then show ?thesis by simp
  qed
  show "round_ratio s p q \<noteq> Inf s"
  proof (cases "ratio_mant p q = 2 ^ 53")
    case True
    then have "2 ^ 53 \<le> ratio_mant p q" by (rule eq_refl [OF sym])
    from mag_ge [OF this, of "ratio_exp p q"] have "2 powi (ratio_exp p q + int 53) < (2 :: rat) powi 1024"
      using small unfolding rounded_def by (rule order.strict_trans1)
    then have "ratio_exp p q + int 53 < 1024" by (simp only: powi_less)
    then show ?thesis using assms True by (simp add: round_ratio_eq)
  next
    case False
    then show ?thesis
      using assms exp ratio_mant_bounds(2) [OF assms q] by (cases "ratio_exp p q = - 1074") (auto simp: round_ratio_eq ratio_exp_def)
  qed
qed

lemma rounded_ge:
  assumes "canonical (Fin s m e)" and "0 < p" and "0 < q" and "mag m e * of_nat q \<le> of_nat p"
  shows "mag m e \<le> rounded p q"
proof (cases "ratio_exp p q \<le> e")
  case True
  let ?E = "ratio_exp p q" and ?a = "m * 2 ^ nat (e - ratio_exp p q)"
  have "mag ?a ?E * of_nat q \<le> of_nat p" using assms(4) by (simp only: mag_scale [OF True])
  then have "?a \<le> p * 2 ^ nat (- ?E) div (q * 2 ^ nat ?E)"
    by (simp only: scaled_div_bounds [OF assms(3)])
  also have "\<dots> \<le> ratio_mant p q" using div_half_even_bounds unfolding ratio_mant_def by blast
  finally have "mag ?a ?E \<le> rounded p q" unfolding rounded_def by (rule mag_mono)
  then show ?thesis by (simp only: mag_scale [OF True])
next
  case False
  note c = canonical_Fin [OF assms(1)]
  then have "2 ^ 52 \<le> ratio_mant p q" using False ratio_mant_bounds(2) [OF assms(2,3)] by simp
  from mag_ge [OF this] have "2 powi (ratio_exp p q + 52) \<le> rounded p q" by (simp add: rounded_def)
  moreover have "mag m e < 2 powi (e + 53)" using mag_bound [of m 53 e] c by simp
  moreover have "(2 :: rat) powi (e + 53) \<le> 2 powi (ratio_exp p q + 52)"
    using False by (intro power_int_increasing) simp_all
  ultimately show ?thesis by linarith
qed

lemma rounded_le:
  assumes "canonical (Fin s m e)" and "0 < p" and "0 < q" and "of_nat p \<le> mag m e * of_nat q"
  shows "rounded p q \<le> mag m e"
proof -
  let ?E = "ratio_exp p q"
  note c = canonical_Fin [OF assms(1)]
  have E: "?E \<le> e"
  proof (rule ccontr)
    assume "\<not> ?E \<le> e"
    then have low: "floor_log2 p q = ?E + 52" using c by (auto simp: ratio_exp_def)
    have "2 powi (?E + 52) * of_nat q \<le> (of_nat p :: rat)"
      using floor_log2_bounds(1) [OF assms(2,3)] by (simp only: low)
    also have "\<dots> \<le> mag m e * of_nat q" by (rule assms(4))
    also have "\<dots> < 2 powi (e + 53) * of_nat q"
      using mag_bound [of m 53 e] c assms(3) by (intro mult_strict_right_mono) simp_all
    finally have "(2 :: rat) powi (?E + 52) < 2 powi (e + 53)" using assms(3) by simp
    then show False using \<open>\<not> ?E \<le> e\<close> by (simp add: powi_less)
  qed
  let ?a = "m * 2 ^ nat (e - ?E)" and ?n = "p * 2 ^ nat (- ?E)" and ?d = "q * 2 ^ nat ?E"
  have "of_nat p \<le> mag ?a ?E * of_nat q" using assms(4) by (simp only: mag_scale [OF E])
  then have "(of_nat p :: rat) \<le> 2 powi ?E * of_nat (?a * q)" by (simp only: of_nat_mult ac_simps)
  then have "?n \<le> ?a * ?d" unfolding scaled_le_iff [symmetric] by (simp only: ac_simps)
  moreover have "2 * (ratio_mant p q * ?d) \<le> 2 * ?n + ?d"
    unfolding ratio_mant_def by (rule div_half_even_half_unit) (use assms(3) in simp)
  ultimately have "2 * (ratio_mant p q * ?d) \<le> (2 * ?a + 1) * ?d" by (simp add: algebra_simps)
  then have "(2 * ratio_mant p q) * ?d \<le> (2 * ?a + 1) * ?d" by (simp only: mult.assoc)
  moreover have "0 < ?d" using assms(3) by simp
  ultimately have "2 * ratio_mant p q \<le> 2 * ?a + 1" by (simp only: mult_le_cancel2 simp_thms)
  then have "ratio_mant p q \<le> ?a" by linarith
  then have "rounded p q \<le> mag ?a ?E" unfolding rounded_def by (rule mag_mono)
  then show ?thesis by (simp only: mag_scale [OF E])
qed

section \<open>Rounding a dyadic value\<close>

text \<open>Between two floats the rounded value stays between them.\<close>

lemma fval_Fin: "fval (Fin s m e) = (if s then - mag m e else mag m e)"
  by (simp add: fval_def signed_def)

lemma round_ge_mag:
  assumes "canonical (Fin t n k)" and "0 < p" and "0 < q" and "mag n k * of_nat q \<le> of_nat p"
  shows "round_ratio s p q = Inf s \<or> (\<exists>m e. round_ratio s p q = Fin s m e \<and> mag n k \<le> mag m e)"
  using round_ratio_value(1) [OF assms(2), of s q] rounded_ge [OF assms] by auto

lemma round_le_mag:
  assumes "canonical (Fin t n k)" and "0 < p" and "0 < q" and "of_nat p \<le> mag n k * of_nat q"
  shows "\<exists>m e. round_ratio s p q = Fin s m e \<and> mag m e \<le> mag n k"
proof -
  note c = canonical_Fin [OF assms(1)]
  have "mag n k < 2 powi (k + int 53)" using c by (intro mag_bound) simp
  also have "\<dots> \<le> (2 :: rat) powi 1024" using c by (intro power_int_increasing) simp_all
  finally have "rounded p q < 2 powi 1024" using rounded_le [OF assms] by (rule order.strict_trans1 [rotated])
  then show ?thesis
    using round_ratio_value(1) [OF assms(2), of s q] round_ratio_value(2) [OF assms(2), of q s]
      rounded_le [OF assms] assms(3) by auto
qed

lemma dyadic_scaled:
  "mag n k * of_nat (2 ^ nat (- e)) \<le> of_nat (m * 2 ^ nat e) \<longleftrightarrow> mag n k \<le> mag m e"
  "of_nat (m * 2 ^ nat e) \<le> mag n k * of_nat (2 ^ nat (- e)) \<longleftrightarrow> mag m e \<le> mag n k"
proof -
  have "mag m e * 2 ^ nat (- e) = of_nat (m * 2 ^ nat e)"
    by (cases "0 \<le> e") (simp_all add: power_int_def field_simps)
  then have eq: "of_nat (m * 2 ^ nat e) = mag m e * of_nat (2 ^ nat (- e))"
    by (simp only: of_nat_power of_nat_numeral)
  have pos: "(0 :: rat) < of_nat (2 ^ nat (- e))" by simp
  show "mag n k * of_nat (2 ^ nat (- e)) \<le> of_nat (m * 2 ^ nat e) \<longleftrightarrow> mag n k \<le> mag m e"
    and "of_nat (m * 2 ^ nat e) \<le> mag n k * of_nat (2 ^ nat (- e)) \<longleftrightarrow> mag m e \<le> mag n k"
    unfolding eq using pos by (simp_all only: mult_le_cancel_right_pos)
qed

lemma fle_infinite [simp]: "fle (Fin t n k) (Inf False)" "fle (Inf True) (Fin t n k)"
  by (simp_all add: fle_def)

lemma of_dyadic_ge:
  assumes "canonical z" and "is_finite z" and "0 < m" and "fval z \<le> fval (Fin s m e)"
  shows "fle z (of_dyadic s m e)"
proof -
  obtain t n k where z: "z = Fin t n k" using assms(2) by (cases z) auto
  let ?p = "m * 2 ^ nat e" and ?q = "2 ^ nat (- e) :: nat"
  have pq: "0 < ?p" "0 < ?q" using assms(3) by simp_all
  have c: "canonical (Fin t n k)" using assms(1) z by simp
  have pos: "0 < mag m e" using assms(3) by simp
  consider (lower) "\<not> s" "\<not> t" "mag n k \<le> mag m e" | (sign) "\<not> s" "t" | (upper) "s" "t" "mag m e \<le> mag n k"
  proof -
    have "0 \<le> mag n k" by simp
    then have "\<not> mag n k \<le> - mag m e" using pos by linarith
    then show thesis using assms(4) that by (cases s; cases t) (simp_all add: z fval_Fin)
  qed
  then show ?thesis
  proof cases
    case lower
    from round_ge_mag [OF c pq, of s] lower show ?thesis
      unfolding dyadic_scaled(1) of_dyadic_def by (auto simp: z fle_fval fval_Fin)
  next
    case sign
    have neg: "- mag n k \<le> mag m' e'" for m' e'
      by (rule order.trans [of _ 0]) simp_all
    have "round_ratio s ?p ?q = Inf s \<or> (\<exists>m e. round_ratio s ?p ?q = Fin s m e)"
      using round_ratio_value(1) [OF pq(1)] by blast
    then show ?thesis
      using sign neg by (auto simp: of_dyadic_def z fle_fval fval_Fin)
  next
    case upper
    from round_le_mag [OF c pq, of s] upper show ?thesis
      unfolding dyadic_scaled(2) of_dyadic_def by (auto simp: z fle_fval fval_Fin)
  qed
qed

lemma fle_fneg: "fle (fneg x) (fneg y) = fle y x"
proof (cases "is_finite x \<and> is_finite y")
  case True
  then show ?thesis by (simp add: fle_fval)
next
  case False
  then show ?thesis by (cases x; cases y) (auto simp: fle_def)
qed

lemma of_dyadic_neg: "of_dyadic (\<not> s) m e = fneg (of_dyadic s m e)"
  by (simp add: of_dyadic_def round_ratio_eq)

lemma of_dyadic_le:
  assumes "canonical z" and "is_finite z" and "0 < m" and "fval (Fin s m e) \<le> fval z"
  shows "fle (of_dyadic s m e) z"
proof -
  have "fle (fneg z) (of_dyadic (\<not> s) m e)"
    using assms by (intro of_dyadic_ge) (auto simp: fval_Fin split: if_splits)
  then show ?thesis by (simp only: of_dyadic_neg fle_fneg)
qed

section \<open>Sums and products\<close>

lemma fval_int: "of_int v * 2 powi e = fval (Fin (v < 0) (nat \<bar>v\<bar>) e)"
  by (simp add: fval_def signed_def)

lemma fadd_cases:
  assumes "is_finite x" and "is_finite y"
  obtains (zero) "fval x + fval y = 0" "is_finite (fadd x y)" "fval (fadd x y) = 0"
  | (round) s m e where "0 < m" "fadd x y = of_dyadic s m e" "fval x + fval y = fval (Fin s m e)"
proof -
  obtain s1 m1 e1 s2 m2 e2 where xy: "x = Fin s1 m1 e1" "y = Fin s2 m2 e2"
    using assms by (cases x; cases y) auto
  let ?e = "min e1 e2"
  let ?v = "align s1 m1 e1 ?e + align s2 m2 e2 ?e"
  have v: "fval x + fval y = of_int ?v * 2 powi ?e"
    by (simp add: xy fval_def align_value distrib_right)
  show thesis
  proof (cases "?v = 0")
    case True
    then show thesis using v by (intro zero) (simp_all add: xy Let_def fval_Fin)
  next
    case False
    have "fval x + fval y = fval (Fin (?v < 0) (nat \<bar>?v\<bar>) ?e)"
      unfolding v by (rule fval_int)
    then show thesis using False by (intro round [of "nat \<bar>?v\<bar>" "?v < 0" ?e]) (simp_all add: xy Let_def)
  qed
qed

lemma fadd_ge:
  assumes "is_finite x" and "is_finite y" and "canonical z" and "is_finite z" and "fval z \<le> fval x + fval y"
  shows "fle z (fadd x y)"
  using assms(1,2) by (cases rule: fadd_cases) (use assms in \<open>simp_all add: fle_fval of_dyadic_ge\<close>)

lemma fadd_le:
  assumes "is_finite x" and "is_finite y" and "canonical z" and "is_finite z" and "fval x + fval y \<le> fval z"
  shows "fle (fadd x y) z"
  using assms(1,2) by (cases rule: fadd_cases) (use assms in \<open>simp_all add: fle_fval of_dyadic_le\<close>)

lemma fmul_cases:
  assumes "is_finite x" and "is_finite y"
  obtains (zero) "fval x * fval y = 0" "is_finite (fmul x y)" "fval (fmul x y) = 0"
  | (round) s m e where "0 < m" "fmul x y = of_dyadic s m e" "fval x * fval y = fval (Fin s m e)"
proof -
  obtain s1 m1 e1 s2 m2 e2 where xy: "x = Fin s1 m1 e1" "y = Fin s2 m2 e2"
    using assms by (cases x; cases y) auto
  have v: "fval x * fval y = fval (Fin (s1 \<noteq> s2) (m1 * m2) (e1 + e2))"
    by (simp add: xy fval_Fin power_int_add)
  show thesis
  proof (cases "m1 * m2 = 0")
    case True
    then have "fmul x y = Fin (s1 \<noteq> s2) 0 (- 1074)" by (simp only: xy fmul.simps of_dyadic_def mult_zero_left round_ratio_zero)
    moreover have "fval x * fval y = 0" using True unfolding v by (simp only: fval_Fin) simp
    ultimately show thesis by (intro zero) (simp_all add: fval_Fin)
  next
    case False
    then show thesis using v by (intro round [of "m1 * m2" "s1 \<noteq> s2" "e1 + e2"]) (simp_all add: xy)
  qed
qed

lemma fmul_ge:
  assumes "is_finite x" and "is_finite y" and "canonical z" and "is_finite z" and "fval z \<le> fval x * fval y"
  shows "fle z (fmul x y)"
  using assms(1,2) by (cases rule: fmul_cases) (use assms in \<open>simp_all only: fle_fval of_dyadic_ge\<close>)

lemma fmul_le:
  assumes "is_finite x" and "is_finite y" and "canonical z" and "is_finite z" and "fval x * fval y \<le> fval z"
  shows "fle (fmul x y) z"
  using assms(1,2) by (cases rule: fmul_cases) (use assms in \<open>simp_all only: fle_fval of_dyadic_le\<close>)

section \<open>A nonzero float is determined by its value\<close>

lemma mag_unique:
  assumes "canonical (Fin s m e)" and "canonical (Fin s' m' e')" and "mag m e = mag m' e'" and "0 < m" and "0 < m'"
    and "e \<le> e'"
  shows "m = m' \<and> e = e'"
proof -
  have "mag (m' * 2 ^ nat (e' - e)) e = mag m e" using mag_scale [OF assms(6), of m'] assms(3) by simp
  then have m: "m' * 2 ^ nat (e' - e) = m" by (simp only: mult_cancel_right of_nat_eq_iff) simp
  have "e = e'"
  proof (rule ccontr)
    assume "e \<noteq> e'"
    then have "e < e'" using assms(6) by simp
    then have "2 ^ 52 \<le> m'" using assms(2) canonical_Fin [OF assms(1)] by (auto simp: canonical_def)
    moreover have "2 \<le> (2 :: nat) ^ nat (e' - e)"
      using \<open>e < e'\<close> power_increasing [of 1 "nat (e' - e)" "2 :: nat"] by simp
    ultimately have "2 ^ 52 * 2 \<le> m" unfolding m [symmetric] by (rule mult_le_mono)
    then show False using canonical_Fin [OF assms(1)] by simp
  qed
  then show ?thesis using m by simp
qed

lemma fval_inject:
  assumes "canonical x" and "canonical y" and "is_finite x" and "is_finite y" and "fval x = fval y" and "fval x \<noteq> 0"
  shows "x = y"
proof -
  obtain s m e s' m' e' where xy: "x = Fin s m e" "y = Fin s' m' e'" using assms(3,4) by (cases x; cases y) auto
  have pos: "0 < m" "0 < m'" using assms(5,6) fval_sign(3) [of s m e] fval_sign(3) [of s' m' e'] by (auto simp: xy)
  then have mag: "0 < mag m e" "0 < mag m' e'" by simp_all
  then have "s = s'" "mag m e = mag m' e'"
    using assms(5) by (cases s; cases s'; simp only: xy fval_Fin if_True if_False simp_thms; linarith)+
  note c = assms(1) [unfolded xy(1)] assms(2) [unfolded xy(2)]
  have "m = m' \<and> e = e'"
  proof (cases "e \<le> e'")
    case True
    from mag_unique [OF c \<open>mag m e = mag m' e'\<close> pos True] show ?thesis .
  next
    case False
    then have "e' \<le> e" by simp
    from mag_unique [OF c(2,1) \<open>mag m e = mag m' e'\<close> [symmetric] pos(2,1) this] show ?thesis by simp
  qed
  then show ?thesis using \<open>s = s'\<close> by (simp add: xy)
qed

end
