(* ===== verification/PlotScale.thy ===== *)
theory PlotScale
  imports PlotCharts PyRound
begin

text \<open>
  The colour limits of a heatmap are a proper interval that covers every drawn number, for
  every list of floats: the padding of a single value always moves a limit past it.
\<close>

section \<open>Extremes of finite values\<close>

lemma fminimum_props:
  assumes "list_all is_finite (x # xs)"
  shows "fminimum x xs \<in> set (x # xs)" and "\<And>y. y \<in> set (x # xs) \<Longrightarrow> fval (fminimum x xs) \<le> fval y"
proof -
  show "fminimum x xs \<in> set (x # xs)"
    by (induction xs arbitrary: x) (auto split: if_splits)
  show "fval (fminimum x xs) \<le> fval y" if "y \<in> set (x # xs)" for y
    using assms that
  proof (induction xs arbitrary: x y)
    case (Cons z zs)
    have step: "fval (fminimum (if flt z x then z else x) zs) \<le> fval w"
      if "w \<in> set ((if flt z x then z else x) # zs)" for w
      using Cons.prems(1) that by (intro Cons.IH) auto
    show ?case
      using Cons.prems step [of "if flt z x then z else x"] step [of y]
      by (auto simp: flt_fval not_less split: if_splits)
  qed simp
qed

lemma fmaximum_props:
  assumes "list_all is_finite (x # xs)"
  shows "fmaximum x xs \<in> set (x # xs)" and "\<And>y. y \<in> set (x # xs) \<Longrightarrow> fval y \<le> fval (fmaximum x xs)"
proof -
  show "fmaximum x xs \<in> set (x # xs)"
    by (induction xs arbitrary: x) (auto split: if_splits)
  show "fval y \<le> fval (fmaximum x xs)" if "y \<in> set (x # xs)" for y
    using assms that
  proof (induction xs arbitrary: x y)
    case (Cons z zs)
    have step: "fval w \<le> fval (fmaximum (if flt x z then z else x) zs)"
      if "w \<in> set ((if flt x z then z else x) # zs)" for w
      using Cons.prems(1) that by (intro Cons.IH) auto
    show ?case
      using Cons.prems step [of "if flt x z then z else x"] step [of y]
      by (auto simp: flt_fval not_less split: if_splits)
  qed simp
qed

section \<open>The padding of a single value\<close>

definition padding_of :: "pyfloat \<Rightarrow> pyfloat" where
  "padding_of x = (let p = fmul (fabs x) (flit 5 2) in if is_fzero p then flit 1 0 else p)"

lemma padding_factor: "flit 5 2 = Fin False 7205759403792794 (- 57)"
  by (simp add: eval_simps)

lemma flit_one: "flit 1 0 = Fin False (2 ^ 52) (- 52)"
  by (simp add: eval_simps)

lemma flit_one_value: "is_finite (flit 1 0)" "fval (flit 1 0) = 1"
  by (simp_all only: flit_one fval_Fin) (simp_all add: power_int_minus)

lemmas flit_one_values [simp] = flit_one_value flit_one_value [unfolded One_nat_def]

lemma fval_fabs: "is_finite x \<Longrightarrow> fval (fabs x) = \<bar>fval x\<bar>"
  by (cases x) (simp_all add: fval_Fin)

lemma is_finite_fabs [simp]: "is_finite (fabs x) = is_finite x"
  by (cases x) simp_all

lemma canonical_fabs [simp]: "canonical (fabs x) = canonical x"
  by (cases x) (simp_all add: canonical_def)

lemma factor_bounds: "1 / 32 \<le> fval (flit 5 2)" "1 / 20 \<le> fval (flit 5 2)" "fval (flit 5 2) \<le> 1"
  by (simp_all add: padding_factor fval_def signed_def power_int_minus)

lemma padding_finite:
  assumes "is_finite x" and "canonical x"
  shows "is_finite (padding_of x)" and "0 < fval (padding_of x)"
proof -
  let ?p = "fmul (fabs x) (flit 5 2)"
  have fin: "is_finite (flit 5 2)" by (simp add: padding_factor)
  have nonneg: "0 \<le> fval (fabs x) * fval (flit 5 2)"
    using factor_bounds(2) by (intro mult_nonneg_nonneg) (simp_all add: fval_fabs [OF assms(1)])
  have "fval (fabs x) * fval (flit 5 2) \<le> fval (fabs x) * 1"
    using factor_bounds(3) by (intro mult_left_mono) (simp_all add: fval_fabs [OF assms(1)])
  then have upper: "fle ?p (fabs x)" using assms fin by (intro fmul_le) simp_all
  have lower: "fle fzero ?p" using assms fin nonneg by (intro fmul_ge) simp_all
  obtain m e where p: "?p = Fin False m e \<or> ?p = Fin True 0 e"
  proof (cases ?p)
    case (Fin s m e)
    then have "0 \<le> fval (Fin s m e)" using lower by (simp add: fle_fval)
    then have "\<not> (s \<and> 0 < m)" using fval_sign(1) [of s m e] by linarith
    then show thesis using Fin that [of m e] by (cases s) auto
  next
    case (Inf s)
    then show thesis using upper lower assms(1) by (cases x) (auto simp: fle_def fzero_def split: bool.splits)
  next
    case NaN
    then show thesis using upper by (cases x) (auto simp: fle_def)
  qed
  then show "is_finite (padding_of x)" "0 < fval (padding_of x)"
    by (auto simp: padding_of_def Let_def is_fzero_def fval_Fin)
qed

text \<open>The padding is at least one unit in the last place of the padded number.\<close>

lemma canonical_least:
  assumes "canonical z" and "is_finite z" and "0 < fval z"
  shows "2 powi (- 1074) \<le> fval z"
proof -
  obtain s m e where z: "z = Fin s m e" using assms(2) by (cases z) auto
  then have "\<not> s" "0 < m" "- 1074 \<le> e"
    using assms(1,3) fval_sign(2) [of s m e] canonical_Fin [of s m e] by auto
  then have "(2 :: rat) powi (- 1074) \<le> 2 powi e" by (intro power_int_increasing) simp_all
  also have "\<dots> \<le> mag m e" using \<open>0 < m\<close> mag_mono [of 1 m e] by simp
  finally show ?thesis using \<open>\<not> s\<close> by (simp only: z fval_Fin if_False)
qed

lemma padding_ge:
  assumes "canonical x" and "is_finite x" and "canonical z" and "is_finite z" and "0 < fval z"
    and "fval z \<le> fval (fabs x) * fval (flit 5 2)"
  shows "fval z \<le> fval (padding_of x)"
proof -
  let ?p = "fmul (fabs x) (flit 5 2)"
  have le: "fle z ?p" using assms by (intro fmul_ge) (simp_all add: padding_factor)
  have "\<not> is_fzero ?p"
  proof
    assume "is_fzero ?p"
    then have "is_finite ?p" "fval ?p = 0" by (auto simp: is_fzero_def fval_Fin split: pyfloat.splits)
    then show False using le assms(4,5) by (simp add: fle_fval)
  qed
  then have "padding_of x = ?p" by (simp add: padding_of_def)
  then show ?thesis using le assms(4) padding_finite(1) [OF assms(2,1)] by (simp add: fle_fval)
qed

lemma padding_unit:
  assumes "canonical (Fin s m e)" and "0 < m"
  shows "2 powi e \<le> fval (padding_of (Fin s m e))"
proof -
  let ?x = "Fin s m e"
  note c = canonical_Fin [OF assms(1)]
  have prod: "mag m e * (1 / 20) \<le> fval (fabs ?x) * fval (flit 5 2)"
    "mag m e * (1 / 32) \<le> fval (fabs ?x) * fval (flit 5 2)"
    using factor_bounds(1,2) by (simp_all only: fabs.simps fval_Fin if_False) (intro mult_left_mono; simp)+
  consider (tiny) "m < 20" | (low) "20 \<le> m" "e \<le> - 1070" | (normal) "2 ^ 52 \<le> m" "- 1070 < e"
    using assms(1) by (cases "m < 20"; cases "e \<le> - 1070") (auto simp: canonical_def)
  then show ?thesis
  proof cases
    case tiny
    then have "e = - 1074" using assms(1) by (auto simp: canonical_def)
    moreover have "canonical (padding_of ?x)" by (simp add: padding_of_def Let_def)
    ultimately show ?thesis using canonical_least padding_finite [OF _ assms(1)] by simp
  next
    case low
    let ?z = "Fin False (2 ^ nat (e + 1074)) (- 1074)"
    have z: "fval ?z = 2 powi e" using c mag_scale [of "- 1074" e 1] by (simp add: fval_Fin)
    have "(2 :: nat) ^ nat (e + 1074) \<le> 2 ^ 4" using low by (intro power_increasing) simp_all
    then have "canonical ?z" by (simp add: canonical_def)
    moreover have "2 powi e * 20 \<le> mag m e" using low(1) mag_mono [of 20 m e] by (simp add: mult.commute)
    then have "2 powi e \<le> fval (fabs ?x) * fval (flit 5 2)" using prod(1) by linarith
    ultimately show ?thesis using padding_ge [OF assms(1) _ \<open>canonical ?z\<close>] by (simp add: z)
  next
    case normal
    let ?z = "Fin False m (e - 5)"
    have z: "fval ?z = mag m e * (1 / 32)" by (simp add: fval_Fin power_int_diff)
    have "canonical ?z" using assms(1) normal c by (auto simp: canonical_def)
    then have "fval ?z \<le> fval (padding_of ?x)"
      using prod(2) assms padding_ge [OF assms(1) _ \<open>canonical ?z\<close>] by (simp add: z)
    moreover have "32 * 2 powi e \<le> mag m e" using normal(1) mag_mono [of 32 m e] by simp
    ultimately show ?thesis unfolding z by linarith
  qed
qed

text \<open>The float next to a nonzero float in the direction of zero.\<close>

lemma neighbour:
  assumes "canonical (Fin s m e)" and "0 < m"
  obtains n k where "canonical (Fin s n k)" "mag n k < mag m e" "mag m e - 2 powi e \<le> mag n k"
proof (cases "m = 2 ^ 52 \<and> - 1074 < e")
  case True
  define w where "w = (2 :: rat) powi (e - 1)"
  have w: "2 powi e = 2 * w" "0 < w" by (simp_all add: w_def power_int_diff)
  have m: "of_nat m = (4503599627370496 :: rat)" using True by simp
  have n: "of_nat (2 ^ 53 - 1) = (9007199254740991 :: rat)" by simp
  have "canonical (Fin s (2 ^ 53 - 1) (e - 1))" using True canonical_Fin [OF assms(1)] by (simp add: canonical_def)
  moreover have "mag (2 ^ 53 - 1) (e - 1) < mag m e" "mag m e - 2 powi e \<le> mag (2 ^ 53 - 1) (e - 1)"
    unfolding m n w(1) w_def [symmetric] using w(2) by linarith+
  ultimately show thesis by (rule that)
next
  case False
  then have "canonical (Fin s (m - 1) e)" using assms by (auto simp: canonical_def)
  moreover have "of_nat (m - 1) = (of_nat m - 1 :: rat)" using assms(2) by (simp add: of_nat_diff)
  ultimately show thesis by (intro that [of "m - 1" e]) (simp_all add: algebra_simps)
qed

text \<open>Order through a finite float; the outer value may be infinite.\<close>

lemma flt_fle_trans:
  assumes "is_finite y" and "is_finite z" and "fle z w"
  shows "fval y < fval z \<Longrightarrow> flt y w" and "fval y \<le> fval z \<Longrightarrow> fle y w"
  using assms by (cases "is_finite w"; cases w; auto simp: cmp_fval; cases y; cases z; auto simp: fle_def)+

lemma fle_flt_trans:
  assumes "is_finite y" and "is_finite z" and "fle w z"
  shows "fval z < fval y \<Longrightarrow> flt w y" and "fval z \<le> fval y \<Longrightarrow> fle w y"
  using assms by (cases "is_finite w"; cases w; auto simp: cmp_fval; cases y; cases z; auto simp: fle_def)+

lemma flt_between:
  assumes "is_finite x" and "is_finite y" and "fval x = fval y" and "fle a x" and "fle y b" and "flt a x \<or> flt y b"
  shows "flt a b"
proof (cases "is_finite a \<and> is_finite b")
  case True
  then show ?thesis using assms by (auto simp: cmp_fval)
next
  case False
  then show ?thesis using assms(1,2,4,5) by (cases x; cases y; cases a; cases b) (auto simp: fle_def)
qed

lemma padding_moves:
  assumes "canonical x" and "is_finite x" and "is_finite y" and "canonical y" and "fval x = fval y"
  shows "fle (fsub x (padding_of x)) x" and "fle y (fadd y (padding_of x))"
    and "flt (fsub x (padding_of x)) (fadd y (padding_of x))"
proof -
  let ?p = "padding_of x"
  note p = padding_finite [OF assms(2,1)]
  show le: "fle (fsub x ?p) x" "fle y (fadd y ?p)"
    unfolding fsub_def using assms p by (auto intro!: fadd_le fadd_ge)
  obtain s m e where x: "x = Fin s m e" using assms(2) by (cases x) auto
  have "flt (fsub x ?p) x \<or> flt y (fadd y ?p)"
  proof (cases "m = 0")
    case True
    have "fval x = 0" using True by (simp add: x fval_Fin)
    then have zero: "fval x = 0" "fval y = 0" using assms(5) by simp_all
    have "?p = flit 1 0" using True x by (simp add: padding_of_def padding_factor of_dyadic_def is_fzero_def)
    then have "fle (flit 1 0) (fadd y ?p)" using assms zero by (intro fadd_ge) simp_all
    then show ?thesis using flt_fle_trans(1) [of y "flit 1 0"] assms(3) zero(2) by simp
  next
    case False
    then obtain n k where z: "canonical (Fin s n k)" "mag n k < mag m e" "mag m e - 2 powi e \<le> mag n k"
      using neighbour [of s m e] assms(1) x by auto
    have unit: "2 powi e \<le> fval ?p" using padding_unit [of s m e] assms(1) x False by simp
    show ?thesis
    proof (cases s)
      case True
      have v: "fval x = - mag m e" "fval (Fin s n k) = - mag n k" using True x by (simp_all add: fval_Fin)
      have "fval (Fin s n k) \<le> fval y + fval ?p" using z(3) unit assms(5) v by linarith
      from fadd_ge [OF assms(3) p(1) z(1) _ this] have "fle (Fin s n k) (fadd y ?p)" by simp
      then show ?thesis using z(2) v assms(3,5) flt_fle_trans(1) [of y "Fin s n k"] by simp
    next
      case False
      have v: "fval x = mag m e" "fval (Fin s n k) = mag n k" using False x by (simp_all add: fval_Fin)
      have "fval x + fval (fneg ?p) \<le> fval (Fin s n k)" using z(3) unit v unfolding fval_neg by linarith
      from fadd_le [OF assms(2) _ z(1) _ this] have "fle (fsub x ?p) (Fin s n k)" using p(1) by (simp add: fsub_def)
      then show ?thesis using z(2) v assms(2) fle_flt_trans(1) [of x "Fin s n k"] by simp
    qed
  qed
  then show "flt (fsub x ?p) (fadd y ?p)" using flt_between assms(2,3,5) le by blast
qed

section \<open>The colour limits\<close>

text \<open>The three ways limits \<open>(a, b)\<close> enclose every finite number between \<open>lo\<close> and \<open>hi\<close>.\<close>

definition encloses :: "pyfloat \<Rightarrow> pyfloat \<Rightarrow> pyfloat \<Rightarrow> pyfloat \<Rightarrow> bool" where
  "encloses lo hi a b =
     (flt a b \<and> (\<forall>x. is_finite x \<longrightarrow> fval lo \<le> fval x \<longrightarrow> fval x \<le> fval hi \<longrightarrow> fle a x \<and> fle x b))"

lemma range_encloses:
  assumes "is_finite lo" "is_finite hi" "fval lo < fval hi"
  shows "encloses lo hi lo hi"
  using assms by (simp add: encloses_def flt_fval fle_fval)

lemma symmetric_encloses:
  assumes "is_finite lo" "is_finite hi"
  defines "m \<equiv> if flt (fabs lo) (fabs hi) then fabs hi else fabs lo"
  defines "M \<equiv> if feq m fzero then flit 1 0 else m"
  shows "encloses lo hi (fneg M) M"
proof -
  have "is_finite m" "\<bar>fval lo\<bar> \<le> fval m" "\<bar>fval hi\<bar> \<le> fval m"
    using assms(1,2) by (auto simp: m_def flt_fval fval_fabs)
  then have M: "is_finite M" "0 < fval M" "\<bar>fval lo\<bar> \<le> fval M" "\<bar>fval hi\<bar> \<le> fval M"
    unfolding M_def by (auto simp: feq_fval)
  then have "fle (fneg M) x \<and> fle x M" if "is_finite x" "fval lo \<le> fval x" "fval x \<le> fval hi" for x
    using that by (auto simp only: fle_fval is_finite_fneg fval_neg)
  then show ?thesis unfolding encloses_def using M by (simp add: flt_fval)
qed

lemma single_encloses:
  assumes "canonical lo" "is_finite lo" "is_finite hi" "canonical hi" "fval lo = fval hi"
  shows "encloses lo hi (fsub lo (padding_of lo)) (fadd hi (padding_of lo))"
  unfolding encloses_def
proof (intro conjI allI impI)
  note moves = padding_moves [OF assms]
  show "flt (fsub lo (padding_of lo)) (fadd hi (padding_of lo))" by (rule moves(3))
  fix x assume x: "is_finite x" "fval lo \<le> fval x" "fval x \<le> fval hi"
  show "fle (fsub lo (padding_of lo)) x" by (rule fle_flt_trans(2) [OF x(1) assms(2) moves(1) x(2)])
  show "fle x (fadd hi (padding_of lo))" by (rule flt_fle_trans(2) [OF x(1) assms(3) moves(2) x(3)])
qed

lemma color_limits_enclose:
  assumes "list_all is_finite (v # vs)" and "list_all canonical (v # vs)" and "filter is_finite values = v # vs"
    and "heatmap_color_scale metric_column values = (vmin, vmax, cmap)"
  shows "encloses (fminimum v vs) (fmaximum v vs) vmin vmax \<and> (cmap = ''viridis'' \<or> vmin = fneg vmax)"
proof -
  let ?lo = "fminimum v vs" and ?hi = "fmaximum v vs"
  note lo = fminimum_props [OF assms(1)] and hi = fmaximum_props [OF assms(1)]
  have ext: "canonical ?lo" "is_finite ?lo" "is_finite ?hi" "canonical ?hi" "fval ?lo \<le> fval ?hi"
    using lo(1) hi(1) assms(1,2) lo(2) [OF hi(1)] unfolding list_all_iff by blast+
  consider (differences) "suffix ''_delta_pct'' metric_column \<or> sublist ''delta'' metric_column"
    | (single) "\<not> (suffix ''_delta_pct'' metric_column \<or> sublist ''delta'' metric_column)" "feq ?lo ?hi"
    | (range) "\<not> (suffix ''_delta_pct'' metric_column \<or> sublist ''delta'' metric_column)" "\<not> feq ?lo ?hi" by blast
  then show ?thesis
  proof cases
    case differences
    then show ?thesis
      using assms(4) symmetric_encloses [OF ext(2,3)] unfolding heatmap_color_scale_def assms(3) by (auto simp: Let_def)
  next
    case single
    then have "fval ?lo = fval ?hi" using ext by (simp add: feq_fval)
    from single_encloses [OF ext(1-4) this] show ?thesis
      using assms(4) single unfolding heatmap_color_scale_def assms(3) by (auto simp: Let_def padding_of_def)
  next
    case range
    then have "fval ?lo < fval ?hi" using ext by (simp add: feq_fval)
    from range_encloses [OF ext(2,3) this] show ?thesis
      using assms(4) range unfolding heatmap_color_scale_def assms(3) by (auto simp: Let_def)
  qed
qed

text \<open>
  C16. The limits of the colour scale are strictly ordered, every finite number that is drawn lies
  between them, and the scale of differences is symmetric around zero.
\<close>

theorem heatmap_color_scale_covers:
  assumes "list_all canonical values" and "heatmap_color_scale metric_column values = (vmin, vmax, cmap)"
  shows "flt vmin vmax \<and> list_all (\<lambda>v. \<not> is_finite v \<or> fle vmin v \<and> fle v vmax) values \<and>
    (cmap = ''viridis'' \<or> vmin = fneg vmax)"
proof (cases "filter is_finite values")
  case Nil
  then show ?thesis
    using assms(2) by (auto simp: heatmap_color_scale_def flt_fval filter_empty_conv list_all_iff)
next
  case (Cons v vs)
  have fin: "list_all is_finite (v # vs)" and can: "list_all canonical (v # vs)"
    using Cons assms(1) unfolding list_all_iff Cons [symmetric] by auto
  have "x \<in> set (v # vs)" if "x \<in> set values" "is_finite x" for x
    using that unfolding Cons [symmetric] by simp
  then show ?thesis
    using color_limits_enclose [OF fin can Cons assms(2)] fminimum_props(2) [OF fin] fmaximum_props(2) [OF fin]
    unfolding encloses_def list_all_iff by blast
qed

lemma half_twice: "heatmap_color_scale ''local_hit_rate'' [flit 5 1, flit 5 1] =
    (fsub (flit 5 1) (padding_of (flit 5 1)), fadd (flit 5 1) (padding_of (flit 5 1)), ''viridis'')"
proof -
  have half: "flit 5 1 = Fin False (2 ^ 52) (- 53)" by (simp add: eval_simps)
  have "filter is_finite [flit 5 1, flit 5 1] = [flit 5 1, flit 5 1]" unfolding half by simp
  moreover have "\<not> (suffix ''_delta_pct'' ''local_hit_rate'' \<or> sublist ''delta'' ''local_hit_rate'')"
    by (simp add: suffix_to_prefix sublist_code)
  moreover have "feq (flit 5 1) (flit 5 1)" "\<not> flt (flit 5 1) (flit 5 1)" unfolding half by (simp_all add: cmp_fval)
  ultimately show ?thesis unfolding heatmap_color_scale_def padding_of_def Let_def by (simp only: list.case fminimum.simps fmaximum.simps if_True if_False)
qed

theorem heatmap_color_scale_covers_witness:
  "flt (fsub (flit 5 1) (padding_of (flit 5 1))) (fadd (flit 5 1) (padding_of (flit 5 1)))"
  using heatmap_color_scale_covers [OF _ half_twice] by (simp only: list.pred_inject canonical_flit simp_thms)

end
