(* ===== verification/PlotSweep.thy ===== *)
theory PlotSweep
  imports PlotCharts PyRound
begin

text \<open>
  The points of a line chart: one per value of the swept parameter, in increasing order, at
  the mean of the rows of the policy with that value.
\<close>

section \<open>Positions\<close>

fun position :: "pyval \<Rightarrow> rat" where
  "position (PFloat x) = fval x"
| "position _ = 0"

lemma float_key_eq:
  assumes "canonical x" and "canonical y" and "is_finite x" and "is_finite y"
  shows "float_key (PFloat x) = float_key (PFloat y) \<longleftrightarrow> fval x = fval y"
proof -
  have zero: "is_fzero z \<longleftrightarrow> fval z = 0" if "is_finite z" for z
    using that by (cases z) (simp_all add: is_fzero_def fval_Fin)
  show ?thesis
    using fval_inject [OF assms] assms zero by (auto simp: float_key_def)
qed

lemma plain_key_float: "canonical x \<Longrightarrow> is_finite x \<Longrightarrow> plain_key (value_str (PFloat x)) = Number (fval x)"
  by (simp add: plain_key_def value_str_def float_or_none_text py_float_py_repr)

lemma order_key_Number [simp]: "Number a \<le> Number b \<longleftrightarrow> a \<le> b"
  by (auto simp: less_eq_order_key_def)

section \<open>Entries\<close>

text \<open>The position and value of every row of a policy that takes part in a sweep.\<close>

definition sweep_values :: "table_row list \<Rightarrow> string \<Rightarrow> string \<Rightarrow> string \<Rightarrow> (rat \<times> pyfloat) list" where
  "sweep_values rows x_column y_column policy =
     concat (map (\<lambda>row. if row_get_or row ''policy'' (PStr []) \<noteq> PStr policy then []
        else (case (float_or_none (row_get row x_column), value_for_plot row y_column) of
                (Some x, Some y) \<Rightarrow> [(fval x, y)] | _ \<Rightarrow> [])) rows)"

lemma float_or_none_blank: "float_or_none (PStr []) = None"
  by (simp add: float_or_none_def value_str_def)

lemma line_entry_numeric:
  "line_entry x_column y_column True row =
     (case (float_or_none (row_get row x_column), value_for_plot row y_column) of
        (Some x, Some y) \<Rightarrow> [(row_get_or row ''policy'' (PStr []), PFloat x, y)] | _ \<Rightarrow> [])"
  by (auto simp: line_entry_def Let_def float_or_none_blank split: option.split)

lemma line_entries_float:
  "(p, x, y) \<in> set (line_entries rows x_column y_column True) \<Longrightarrow> \<exists>v. x = PFloat v \<and> canonical v \<and> is_finite v"
  by (auto simp: line_entries_def line_entry_numeric dest!: float_or_none_finite [OF sym] split: option.splits)

lemma sweep_values_entries:
  "sweep_values rows x_column y_column policy =
     map (\<lambda>(p, x, y). (position x, y))
       (filter (\<lambda>(p, x, y). p = PStr policy) (line_entries rows x_column y_column True))"
  by (induction rows) (auto simp: sweep_values_def line_entries_def line_entry_numeric split: option.split)

definition entry_key :: "pyval \<times> pyval \<times> pyfloat \<Rightarrow> pyval \<times> pyval" where
  "entry_key e = (case e of (policy, x, y) \<Rightarrow> (policy, float_key x))"

text \<open>The averaged points of a policy before they are sorted.\<close>

definition raw_points :: "table_row list \<Rightarrow> string \<Rightarrow> string \<Rightarrow> string \<Rightarrow> point list" where
  "raw_points rows x_column y_column policy =
     map snd (filter (\<lambda>i. fst i = PStr policy)
       (map point_of (group_by entry_key (line_entries rows x_column y_column True))))"

lemma line_points_sorted:
  "line_points rows x_column y_column True policy =
     sort_key (\<lambda>(x, y). sort_value x_column (value_str x)) (raw_points rows x_column y_column policy)"
proof -
  let ?items = "map point_of (group_by entry_key (line_entries rows x_column y_column True))"
  have "map_of (aggregate_for_line rows x_column y_column True) p =
      map_option (\<lambda>is. sort_key (\<lambda>(x, y). sort_value x_column (value_str x)) (map snd is)) (map_of (group_by fst ?items) p)" for p
    unfolding aggregate_for_line_def Let_def entry_key_def [abs_def, symmetric] by (simp add: map_of_map)
  moreover have "filter (\<lambda>i. fst i = PStr policy) ?items = []" if "PStr policy \<notin> fst ` set ?items"
    unfolding filter_empty_conv using that by (metis imageI)
  ultimately show ?thesis
    unfolding line_points_def raw_points_def map_of_group_by by (simp split: if_split)
qed

text \<open>One group of entries: its key, its position and its values.\<close>

lemma group_point:
  assumes "(key, es) \<in> set (group_by entry_key (line_entries rows x_column y_column True))" and "fst key = PStr policy"
  shows "\<exists>v. canonical v \<and> is_finite v \<and> key = (PStr policy, float_key (PFloat v)) \<and>
    fval v \<in> fst ` set (sweep_values rows x_column y_column policy) \<and>
    point_of (key, es) = (PStr policy, PFloat v,
      fmean (map snd (filter (\<lambda>e. fst e = fval v) (sweep_values rows x_column y_column policy))))"
proof -
  let ?E = "line_entries rows x_column y_column True"
  note es = group_by_entry [OF assms(1)]
  obtain p x0 y0 where hd: "hd es = (p, x0, y0)" by (cases "hd es") auto
  then have "(p, x0, y0) \<in> set es" using es(2) by (metis hd_in_set)
  then have in_E: "(p, x0, y0) \<in> set ?E" and key: "entry_key (p, x0, y0) = key" unfolding es(1) by auto
  obtain v where v: "x0 = PFloat v" "canonical v" "is_finite v" using line_entries_float [OF in_E] by blast
  have k: "key = (PStr policy, float_key (PFloat v))" using key assms(2) v(1) by (auto simp: entry_key_def)
  have same: "entry_key e = key \<longleftrightarrow> fst e = PStr policy \<and> position (fst (snd e)) = fval v" if e_in: "e \<in> set ?E" for e
  proof -
    obtain p' x' y' where e: "e = (p', x', y')" by (cases e) auto
    obtain w where w: "x' = PFloat w" "canonical w" "is_finite w" using line_entries_float e_in e by blast
    show ?thesis using float_key_eq [OF w(2) v(2) w(3) v(3)] by (simp add: entry_key_def k e w(1))
  qed
  have "filter (\<lambda>e. entry_key e = key) ?E = filter (\<lambda>e. fst e = PStr policy \<and> position (fst (snd e)) = fval v) ?E"
    using same by (rule filter_cong [OF refl])
  then have "map (snd \<circ> snd) es = map snd (filter (\<lambda>e. fst e = fval v) (sweep_values rows x_column y_column policy))"
    unfolding es(1) sweep_values_entries by (simp add: filter_map o_def case_prod_unfold conj_commute)
  moreover have "(fval v, y0) \<in> set (sweep_values rows x_column y_column policy)"
    using in_E key k v(1) unfolding sweep_values_entries by (force simp: entry_key_def)
  ultimately show ?thesis
    using v k hd by (intro exI [of _ v]) (force simp: point_of_def)
qed

definition policy_groups :: "table_row list \<Rightarrow> string \<Rightarrow> string \<Rightarrow> string \<Rightarrow> ((pyval \<times> pyval) \<times> (pyval \<times> pyval \<times> pyfloat) list) list" where
  "policy_groups rows x_column y_column policy =
     filter (\<lambda>g. fst (fst g) = PStr policy) (group_by entry_key (line_entries rows x_column y_column True))"

lemma raw_points_groups: "raw_points rows x_column y_column policy = map (snd \<circ> point_of) (policy_groups rows x_column y_column policy)"
proof -
  have "fst (point_of g) = fst (fst g)" for g by (simp add: point_of_def split: prod.split)
  then show ?thesis by (simp add: raw_points_def policy_groups_def filter_map o_def)
qed

lemma raw_point:
  assumes "item \<in> set (raw_points rows x_column y_column policy)"
  shows "\<exists>v. fst item = PFloat v \<and> canonical v \<and> is_finite v \<and> fval v \<in> fst ` set (sweep_values rows x_column y_column policy) \<and>
    snd item = fmean (map snd (filter (\<lambda>e. fst e = fval v) (sweep_values rows x_column y_column policy)))"
proof -
  obtain key es where "(key, es) \<in> set (policy_groups rows x_column y_column policy)" "item = snd (point_of (key, es))"
    using assms unfolding raw_points_groups by auto
  then show ?thesis using group_point [of key es] by (fastforce simp: policy_groups_def)
qed

lemma raw_positions_distinct: "distinct (map (position \<circ> fst) (raw_points rows x_column y_column policy))"
proof -
  let ?G = "policy_groups rows x_column y_column policy" and ?pos = "\<lambda>g. position (fst (snd (point_of g)))"
  have "distinct ?G"
    unfolding policy_groups_def using distinct_group_by by (metis distinct_filter distinct_map)
  moreover have "inj_on ?pos (set ?G)"
  proof (rule inj_onI)
    fix g h
    assume gh: "g \<in> set ?G" "h \<in> set ?G" "?pos g = ?pos h"
    obtain k es k' es' where g: "g = (k, es)" and h: "h = (k', es')" by (cases g; cases h) auto
    have mem: "(k, es) \<in> set (group_by entry_key (line_entries rows x_column y_column True))" "fst k = PStr policy"
      "(k', es') \<in> set (group_by entry_key (line_entries rows x_column y_column True))" "fst k' = PStr policy"
      using gh(1,2) unfolding g h policy_groups_def by auto
    obtain v where v: "canonical v" "is_finite v" "k = (PStr policy, float_key (PFloat v))" "?pos g = fval v"
      using group_point [OF mem(1,2)] unfolding g by auto
    obtain w where w: "canonical w" "is_finite w" "k' = (PStr policy, float_key (PFloat w))" "?pos h = fval w"
      using group_point [OF mem(3,4)] unfolding h by auto
    have "k = k'" using gh(3) v w float_key_eq [OF v(1) w(1) v(2) w(2)] by simp
    then show "g = h" unfolding g h using group_by_entry(1) [OF mem(1)] group_by_entry(1) [OF mem(3)] by simp
  qed
  ultimately show ?thesis unfolding raw_points_groups by (simp add: distinct_map o_def)
qed

lemma raw_positions_set:
  "set (map (position \<circ> fst) (raw_points rows x_column y_column policy)) = fst ` set (sweep_values rows x_column y_column policy)"
proof
  show "set (map (position \<circ> fst) (raw_points rows x_column y_column policy)) \<subseteq> fst ` set (sweep_values rows x_column y_column policy)"
  proof
    fix q
    assume "q \<in> set (map (position \<circ> fst) (raw_points rows x_column y_column policy))"
    then obtain item where "item \<in> set (raw_points rows x_column y_column policy)" "q = position (fst item)" by auto
    then show "q \<in> fst ` set (sweep_values rows x_column y_column policy)"
      using raw_point [of item rows x_column y_column policy] by (metis position.simps(1))
  qed
  show "fst ` set (sweep_values rows x_column y_column policy) \<subseteq> set (map (position \<circ> fst) (raw_points rows x_column y_column policy))"
  proof
    fix q
    assume "q \<in> fst ` set (sweep_values rows x_column y_column policy)"
    then obtain x y where e: "(PStr policy, x, y) \<in> set (line_entries rows x_column y_column True)" "q = position x"
      unfolding sweep_values_entries by auto
    obtain w where w: "x = PFloat w" "canonical w" "is_finite w" using line_entries_float [OF e(1)] by blast
    let ?key = "(PStr policy, float_key x)"
    have "?key \<in> fst ` set (group_by entry_key (line_entries rows x_column y_column True))"
      unfolding keys_group_by using e(1) by (force simp: entry_key_def)
    then obtain es where g: "(?key, es) \<in> set (group_by entry_key (line_entries rows x_column y_column True))" by auto
    obtain v where v: "canonical v" "is_finite v" "?key = (PStr policy, float_key (PFloat v))"
      "fst (snd (point_of (?key, es))) = PFloat v"
      using group_point [OF g] by auto
    have "q = fval v" using v(3) float_key_eq [OF w(2) v(1) w(3) v(2)] by (simp add: e(2) w(1))
    moreover have "(?key, es) \<in> set (policy_groups rows x_column y_column policy)" using g by (simp add: policy_groups_def)
    ultimately show "q \<in> set (map (position \<circ> fst) (raw_points rows x_column y_column policy))"
      unfolding raw_points_groups using v(4) by force
  qed
qed

text \<open>
  C14. The line of a policy has one point for every value of the swept parameter some row of the
  policy has, in increasing order, at the mean of the values of these rows.
\<close>

theorem line_points_exact:
  assumes "map_of CATEGORICAL_ORDER x_column = None"
  shows "map (\<lambda>(x, y). (position x, y)) (line_points rows x_column y_column True policy) =
    map (\<lambda>q. (q, fmean (map snd (filter (\<lambda>e. fst e = q) (sweep_values rows x_column y_column policy)))))
      (sorted_list_of_set (fst ` set (sweep_values rows x_column y_column policy)))"
proof -
  let ?ps = "line_points rows x_column y_column True policy" and ?raw = "raw_points rows x_column y_column policy"
  let ?mean = "\<lambda>q. fmean (map snd (filter (\<lambda>e. fst e = q) (sweep_values rows x_column y_column policy)))"
  let ?key = "\<lambda>(x, y :: pyfloat). sort_value x_column (value_str x)"
  have set: "set ?ps = set ?raw" by (simp add: line_points_sorted)
  have point: "?key item = Number (position (fst item)) \<and> snd item = ?mean (position (fst item))" if "item \<in> set ?raw" for item
    using raw_point [OF that] assms by (cases item) (auto simp: sort_value_def plain_key_float)
  have "sorted (map ?key ?ps)" unfolding line_points_sorted by (rule sorted_sort_key)
  moreover have "map ?key ?ps = map Number (map (position \<circ> fst) ?ps)" using point set by simp
  ultimately have "sorted (map (position \<circ> fst) ?ps)" by (simp add: sorted_map)
  moreover have "distinct (map (position \<circ> fst) ?ps)"
    using raw_positions_distinct [of rows x_column y_column policy]
    unfolding line_points_sorted by (simp add: distinct_map)
  ultimately have "map (position \<circ> fst) ?ps = sorted_list_of_set (set (map (position \<circ> fst) ?ps))"
    by (simp only: sorted_list_of_set.idem_if_sorted_distinct)
  also have "set (map (position \<circ> fst) ?ps) = fst ` set (sweep_values rows x_column y_column policy)"
    using raw_positions_set [of rows x_column y_column policy] by (simp add: set)
  finally have pos: "map (position \<circ> fst) ?ps = sorted_list_of_set (fst ` set (sweep_values rows x_column y_column policy))" .
  have "map (\<lambda>(x, y). (position x, y)) ?ps = map (\<lambda>q. (q, ?mean q)) (map (position \<circ> fst) ?ps)"
    using point set by (auto simp: o_def)
  then show ?thesis unfolding pos .
qed

section \<open>On a concrete table\<close>

definition sweep_rows :: "table_row list" where
  "sweep_rows =
     [[(''policy'', PStr ''lru''), (''node_count'', PStr ''2''), (''mean_latency'', PStr ''1'')],
      [(''policy'', PStr ''lru''), (''node_count'', PStr ''1''), (''mean_latency'', PStr ''2'')],
      [(''policy'', PStr ''fifo''), (''node_count'', PStr ''1''), (''mean_latency'', PStr ''1'')]]"

definition two :: pyfloat where "two = Fin False (2 ^ 52) (- 51)"

lemma two_value: "is_finite two" "fval two = 2"
  by (simp_all add: two_def fval_Fin power_int_minus)

lemma sweep_numbers: "float_or_none (PStr ''1'') = Some fone" "float_or_none (PStr ''2'') = Some two"
proof -
  have "py_float ''1'' = Some fone" "py_float ''2'' = Some two"
    by (simp_all add: py_float_digits two_def literal_defs cong: eval_congs)
  then show "float_or_none (PStr ''1'') = Some fone" "float_or_none (PStr ''2'') = Some two"
    using two_value(1) by (simp_all add: float_or_none_text)
qed

theorem line_points_exact_witness:
  "map (\<lambda>(x, y). (position x, y)) (line_points sweep_rows ''node_count'' ''mean_latency'' True ''lru'') =
     [(1, fmean [two]), (2, fmean [fone])]"
proof -
  have "map_of CATEGORICAL_ORDER ''node_count'' = None" by (simp add: CATEGORICAL_ORDER_def)
  note exact = line_points_exact [OF this, of sweep_rows "''mean_latency''" "''lru''"]
  have points: "sweep_values sweep_rows ''node_count'' ''mean_latency'' ''lru'' = [(2, fone), (1, two)]"
    by (simp add: sweep_values_def sweep_rows_def value_for_plot_def row_get_def row_get_or_def sweep_numbers two_value)
  have "sorted_list_of_set {2, 1 :: rat} = [1, 2]" by simp
  then show ?thesis unfolding exact points by simp
qed

end
