(* ===== verification/PyArgs.thy ===== *)
theory PyArgs
  imports PyText PyValue
begin

text \<open>
  The part of Python's \<open>argparse\<close> the scripts use, as in Python 3.11: long options with one value,
  options that may be repeated, switches, one list of positional arguments, the implicit
  \<open>-h\<close>/\<open>--help\<close>, abbreviated options, \<open>--option=value\<close> and the separator \<open>--\<close>.
\<close>

section \<open>Parsers\<close>

text \<open>
  What an option does with its value; the function is its \<open>type\<close> together with its \<open>choices\<close>,
  and \<^const>\<open>None\<close> a value they refuse.
\<close>

datatype action =
    Store "string \<Rightarrow> pyval option"
  | AppendTo "string \<Rightarrow> pyval option"
  | StoreTrue
  | ShowHelp

record option_spec =
  opt_string :: string
  opt_action :: action
  opt_default :: pyval
  opt_required :: bool

text \<open>A parser: its options, and the name of the list of positional arguments if it has one.\<close>

type_synonym arg_parser = "option_spec list \<times> string option"

type_synonym arg_names = "(string \<times> pyval) list"

definition text_value :: "string \<Rightarrow> pyval option" where "text_value s = Some (PStr s)"

definition int_value :: "string \<Rightarrow> pyval option" where "int_value s = map_option PInt (py_int s)"

definition float_value :: "string \<Rightarrow> pyval option" where "float_value s = map_option PFloat (py_float s)"

definition choice_value :: "string list \<Rightarrow> string \<Rightarrow> pyval option" where
  "choice_value choices s = (if s \<in> set choices then Some (PStr s) else None)"

text \<open>The attribute an option sets: \<open>--node-counts\<close> sets \<open>node_counts\<close>.\<close>

definition dest_of :: "string \<Rightarrow> string" where
  "dest_of name = str_replace (CHR ''-'') ''_'' (drop 2 name)"

definition help_options :: "string list" where "help_options = [''-h'', ''--help'']"

definition option_names :: "option_spec list \<Rightarrow> string list" where
  "option_names opts = help_options @ map opt_string opts"

definition action_of :: "option_spec list \<Rightarrow> string \<Rightarrow> action" where
  "action_of opts name =
     (case map_of (map (\<lambda>opt. (opt_string opt, opt_action opt)) opts) name of None \<Rightarrow> ShowHelp | Some a \<Rightarrow> a)"

section \<open>Classifying the words of a command line\<close>

text \<open>
  \<open>Cluster\<close> is a short option run together with more characters, as in \<open>-hx\<close>; the only short
  option of these parsers is \<open>-h\<close>.
\<close>

datatype word =
    Known string "string option"
  | Cluster string
  | Unknown string
  | Plain string
  | Dashes

text \<open>The regular expression of negative numbers; its end also matches before a final newline.\<close>

definition negative_number :: "string \<Rightarrow> bool" where
  "negative_number s =
     (case s of [] \<Rightarrow> False | c # cs \<Rightarrow>
        c = CHR ''-'' \<and>
        (let body = (if cs \<noteq> [] \<and> last cs = CHR 0x0A then butlast cs else cs);
             ip = takeWhile is_digit body; r = dropWhile is_digit body
         in if r = [] then ip \<noteq> []
            else hd r = CHR ''.'' \<and> tl r \<noteq> [] \<and> list_all is_digit (tl r)))"

definition unmatched_word :: "string \<Rightarrow> word" where
  "unmatched_word s = (if negative_number s \<or> CHR '' '' \<in> set s then Plain s else Unknown s)"

text \<open>The option string before the first \<open>=\<close>, and the value after it.\<close>

definition before_equals :: "string \<Rightarrow> string" where
  "before_equals s = takeWhile (\<lambda>c. c \<noteq> CHR ''='') s"

definition after_equals :: "string \<Rightarrow> string option" where
  "after_equals s = (case dropWhile (\<lambda>c. c \<noteq> CHR ''='') s of [] \<Rightarrow> None | _ # v \<Rightarrow> Some v)"

text \<open>\<^const>\<open>None\<close> is an ambiguous abbreviation.\<close>

definition classify_word :: "string list \<Rightarrow> string \<Rightarrow> word option" where
  "classify_word names s =
     (if s = [] \<or> hd s \<noteq> CHR ''-'' then Some (Plain s)
      else if s \<in> set names then Some (Known s None)
      else if length s = 1 then Some (Plain s)
      else if after_equals s \<noteq> None \<and> before_equals s \<in> set names
      then Some (Known (before_equals s) (after_equals s))
      else if s ! 1 = CHR ''-''
      then (case filter (prefix (before_equals s)) names of
              [] \<Rightarrow> Some (unmatched_word s)
            | [name] \<Rightarrow> Some (Known name (after_equals s))
            | _ \<Rightarrow> None)
      else if take 2 s = ''-h'' then Some (Cluster (drop 2 s))
      else Some (unmatched_word s))"

fun classify_words :: "string list \<Rightarrow> string list \<Rightarrow> word list option" where
  "classify_words names [] = Some []"
| "classify_words names (s # ss) =
     (if s = ''--'' then Some (Dashes # map Plain ss)
      else case classify_word names s of None \<Rightarrow> None
         | Some w \<Rightarrow> map_option ((#) w) (classify_words names ss))"

section \<open>Taking the actions\<close>

text \<open>A parser either returns its namespace, or prints a usage error, or the help text.\<close>

datatype 'a parsed = Parsed 'a | Refused | Helped

record arg_state =
  taken :: arg_names
  seen :: "string list"
  extras :: "string list"
  positional :: "string option"

text \<open>\<open>-hx\<close>: further \<open>h\<close> are more help options, and a value is refused.\<close>

fun help_cluster :: "string \<Rightarrow> bool" where
  "help_cluster [] = True"
| "help_cluster (c # cs) =
     (if c = CHR ''-'' then False
      else if c \<noteq> CHR ''h'' then True
      else case cs of [] \<Rightarrow> True | d # ds \<Rightarrow> d \<noteq> CHR ''='' \<and> help_cluster cs)"

definition set_option :: "string \<Rightarrow> pyval \<Rightarrow> arg_state \<Rightarrow> arg_state" where
  "set_option name v st =
     st\<lparr>taken := AList.update (dest_of name) v (taken st), seen := name # seen st\<rparr>"

definition appended :: "arg_names \<Rightarrow> string \<Rightarrow> pyval \<Rightarrow> pyval" where
  "appended ns d v = (case map_of ns d of Some (PList vs) \<Rightarrow> PList (vs @ [v]) | _ \<Rightarrow> PList [v])"

definition take_value :: "option_spec list \<Rightarrow> string \<Rightarrow> string \<Rightarrow> arg_state \<Rightarrow> arg_state parsed" where
  "take_value opts name s st =
     (case action_of opts name of
        Store convert \<Rightarrow> (case convert s of None \<Rightarrow> Refused | Some v \<Rightarrow> Parsed (set_option name v st))
      | AppendTo convert \<Rightarrow> (case convert s of None \<Rightarrow> Refused
          | Some v \<Rightarrow> Parsed (set_option name (appended (taken st) (dest_of name) v) st))
      | _ \<Rightarrow> Refused)"

fun word_text :: "word \<Rightarrow> string" where
  "word_text (Plain s) = s"
| "word_text Dashes = ''--''"
| "word_text (Unknown s) = s"
| "word_text (Cluster s) = ''-h'' @ s"
| "word_text (Known name v) = name"

fun is_argument :: "word \<Rightarrow> bool" where
  "is_argument (Plain s) = True"
| "is_argument Dashes = True"
| "is_argument _ = False"

definition is_plain :: "word \<Rightarrow> bool" where
  "is_plain w = (case w of Plain s \<Rightarrow> True | _ \<Rightarrow> False)"

text \<open>
  A run of arguments between options is the list of positional arguments, without a separator,
  if that list is still open and the run has an argument besides the separator.
\<close>

definition take_arguments :: "word list \<Rightarrow> arg_state \<Rightarrow> arg_state" where
  "take_arguments run st =
     (case positional st of
        Some d \<Rightarrow>
          if list_ex is_plain run
          then st\<lparr>taken := AList.update d (PList (map PStr (remove1 ''--'' (map word_text run)))) (taken st),
                  positional := None\<rparr>
          else st\<lparr>extras := extras st @ map word_text run\<rparr>
      | None \<Rightarrow> st\<lparr>extras := extras st @ map word_text run\<rparr>)"

definition takes_value :: "action \<Rightarrow> bool" where
  "takes_value a = (case a of Store f \<Rightarrow> True | AppendTo f \<Rightarrow> True | _ \<Rightarrow> False)"

definition bindA :: "'a parsed \<Rightarrow> ('a \<Rightarrow> 'b parsed) \<Rightarrow> 'b parsed" where
  "bindA m f = (case m of Parsed x \<Rightarrow> f x | Refused \<Rightarrow> Refused | Helped \<Rightarrow> Helped)"

lemma bindA_simps [simp]:
  "bindA (Parsed x) f = f x" "bindA Refused f = Refused" "bindA Helped f = Helped"
  by (simp_all add: bindA_def)

lemma bindA_Parsed [res_iff]: "bindA m f = Parsed y \<longleftrightarrow> (\<exists>x. m = Parsed x \<and> f x = Parsed y)"
  by (cases m) auto

function consume :: "option_spec list \<Rightarrow> word list \<Rightarrow> arg_state \<Rightarrow> arg_state parsed" where
  "consume opts [] st = Parsed st"
| "consume opts (Known name (Some s) # ws) st = bindA (take_value opts name s st) (consume opts ws)"
| "consume opts (Known name None # ws) st =
     (if takes_value (action_of opts name)
      then (case ws of
              Plain s # ws' \<Rightarrow> bindA (take_value opts name s st) (consume opts ws')
            | _ \<Rightarrow> Refused)
      else (case action_of opts name of
              StoreTrue \<Rightarrow> consume opts ws (set_option name (PBool True) st)
            | _ \<Rightarrow> Helped))"
| "consume opts (Cluster s # ws) st = (if help_cluster s then Helped else Refused)"
| "consume opts (Unknown s # ws) st = consume opts ws (st\<lparr>extras := extras st @ [s]\<rparr>)"
| "consume opts (Plain s # ws) st =
     consume opts (dropWhile is_argument ws) (take_arguments (Plain s # takeWhile is_argument ws) st)"
| "consume opts (Dashes # ws) st =
     consume opts (dropWhile is_argument ws) (take_arguments (Dashes # takeWhile is_argument ws) st)"
  by pat_completeness auto
termination
  by (relation "measure (\<lambda>(opts, ws, st). length ws)")
    (auto simp: less_Suc_eq_le length_dropWhile_le)

section \<open>The parser\<close>

definition start_state :: "arg_parser \<Rightarrow> arg_state" where
  "start_state p =
     \<lparr>taken = map (\<lambda>opt. (dest_of (opt_string opt), opt_default opt)) (fst p), seen = [], extras = [], positional = snd p\<rparr>"

text \<open>Required options and positional arguments must have been given, and nothing may be left over.\<close>

definition finish :: "arg_parser \<Rightarrow> arg_state \<Rightarrow> arg_names parsed" where
  "finish p st =
     (if list_all (\<lambda>opt. opt_required opt \<longrightarrow> opt_string opt \<in> set (seen st)) (fst p)
         \<and> positional st = None \<and> extras st = []
      then Parsed (taken st) else Refused)"

definition parse_args :: "arg_parser \<Rightarrow> string list \<Rightarrow> arg_names parsed" where
  "parse_args p argv =
     (case classify_words (option_names (fst p)) argv of
        None \<Rightarrow> Refused
      | Some ws \<Rightarrow> bindA (consume (fst p) ws (start_state p)) (finish p))"

section \<open>Facts about the words\<close>

lemma before_equals_explicit: "CHR ''='' \<notin> set name \<Longrightarrow> before_equals (name @ CHR ''='' # v) = name"
  by (induction name) (auto simp: before_equals_def)

lemma after_equals_explicit: "CHR ''='' \<notin> set name \<Longrightarrow> after_equals (name @ CHR ''='' # v) = Some v"
  by (induction name) (auto simp: after_equals_def)

definition long_option :: "string \<Rightarrow> bool" where
  "long_option name = (prefix ''--'' name \<and> CHR ''='' \<notin> set name \<and> 2 < length name)"

lemma long_option_Cons: "long_option name \<Longrightarrow> \<exists>c cs. name = CHR ''-'' # CHR ''-'' # c # cs"
  by (cases name; cases "tl name"; cases "tl (tl name)") (auto simp: long_option_def)

lemma names_no_equals:
  assumes "list_all (\<lambda>opt. long_option (opt_string opt)) opts" and "n \<in> set (option_names opts)"
  shows "CHR ''='' \<notin> set n"
  using assms by (auto simp: option_names_def help_options_def long_option_def list_all_iff)

lemma classify_explicit:
  assumes "list_all (\<lambda>opt. long_option (opt_string opt)) opts" and "opt \<in> set opts"
  shows "classify_word (option_names opts) (opt_string opt @ CHR ''='' # v) = Some (Known (opt_string opt) (Some v))"
proof -
  have long: "long_option (opt_string opt)" using assms by (simp add: list_all_iff)
  then have eq: "CHR ''='' \<notin> set (opt_string opt)" by (simp add: long_option_def)
  have "opt_string opt @ CHR ''='' # v \<notin> set (option_names opts)"
    using names_no_equals [OF assms(1)] by fastforce
  moreover have "opt_string opt \<in> set (option_names opts)" using assms(2) by (simp add: option_names_def)
  ultimately show ?thesis
    using long_option_Cons [OF long] before_equals_explicit [OF eq] after_equals_explicit [OF eq]
    by (auto simp: classify_word_def)
qed

lemma classify_known:
  assumes "list_all (\<lambda>opt. long_option (opt_string opt)) opts" and "opt \<in> set opts"
  shows "classify_word (option_names opts) (opt_string opt) = Some (Known (opt_string opt) None)"
  using long_option_Cons [of "opt_string opt"] assms by (auto simp: classify_word_def option_names_def list_all_iff)

lemma classify_plain: "s = [] \<or> hd s \<noteq> CHR ''-'' \<Longrightarrow> classify_word names s = Some (Plain s)"
  by (simp add: classify_word_def)

section \<open>What a namespace holds\<close>

text \<open>The value of an option that was given, and of any option.\<close>

definition given_value :: "option_spec \<Rightarrow> pyval \<Rightarrow> bool" where
  "given_value opt v =
     (case opt_action opt of
        Store convert \<Rightarrow> (\<exists>s. convert s = Some v)
      | AppendTo convert \<Rightarrow> (\<exists>vs. v = PList vs \<and> vs \<noteq> [] \<and> (\<forall>x\<in>set vs. \<exists>s. convert s = Some x))
      | StoreTrue \<Rightarrow> v = PBool True
      | ShowHelp \<Rightarrow> False)"

definition holds :: "arg_state \<Rightarrow> option_spec \<Rightarrow> bool" where
  "holds st opt =
     (\<exists>v. map_of (taken st) (dest_of (opt_string opt)) = Some v \<and>
        (if opt_string opt \<in> set (seen st) then given_value opt v else v = opt_default opt))"

text \<open>
  What the client relies on: option strings are proper long options that set different
  attributes, the positional list has one of its own, and a list option has no list as default.
\<close>

locale command_line =
  fixes opts :: "option_spec list" and rest :: "string option"
  assumes long_options: "list_all (\<lambda>opt. long_option (opt_string opt) \<and> opt_string opt \<noteq> ''--help'') opts"
    and dests: "distinct (map (\<lambda>opt. dest_of (opt_string opt)) opts)"
    and rest_dest: "rest = Some d \<Longrightarrow> d \<notin> (\<lambda>opt. dest_of (opt_string opt)) ` set opts"
    and no_list_default: "list_all (\<lambda>opt. case opt_default opt of PList vs \<Rightarrow> False | _ \<Rightarrow> True) opts"
begin

lemma long: "list_all (\<lambda>opt. long_option (opt_string opt)) opts"
  using long_options by (simp add: list_all_iff)

lemma dest_inject: "a \<in> set opts \<Longrightarrow> b \<in> set opts \<Longrightarrow> dest_of (opt_string a) = dest_of (opt_string b) \<longleftrightarrow> a = b"
  using dests by (auto simp: distinct_map inj_on_def)

lemma distinct_names: "distinct (map opt_string opts)"
  using dests by (auto simp: distinct_map inj_on_def)

lemma action_of_opt: "opt \<in> set opts \<Longrightarrow> action_of opts (opt_string opt) = opt_action opt"
proof -
  assume "opt \<in> set opts"
  then have "map_of (map (\<lambda>opt. (opt_string opt, opt_action opt)) opts) (opt_string opt) = Some (opt_action opt)"
    using distinct_names by (intro map_of_is_SomeI) (auto simp: o_def)
  then show ?thesis by (simp add: action_of_def)
qed

lemma action_of_other: "name \<notin> opt_string ` set opts \<Longrightarrow> action_of opts name = ShowHelp"
  by (auto simp: action_of_def split: option.split dest!: map_of_SomeD)

lemma start_holds: "opt \<in> set opts \<Longrightarrow> holds (start_state (opts, rest)) opt"
proof -
  assume "opt \<in> set opts"
  then have "map_of (map (\<lambda>opt. (dest_of (opt_string opt), opt_default opt)) opts) (dest_of (opt_string opt)) = Some (opt_default opt)"
    using dests by (intro map_of_is_SomeI) (auto simp: o_def)
  then show ?thesis by (simp add: holds_def start_state_def)
qed

lemma holds_set_option:
  assumes "o' \<in> set opts" and "opt \<in> set opts" and "holds st opt" and "given_value o' v"
  shows "holds (set_option (opt_string o') v st) opt"
  using assms dest_inject [OF assms(1,2)] by (cases "o' = opt") (auto simp: holds_def set_option_def update_conv')

lemma holds_arguments:
  assumes "opt \<in> set opts" and "holds st opt" and "positional st = None \<or> positional st = rest"
  shows "holds (take_arguments run st) opt"
    and "positional (take_arguments run st) = None \<or> positional (take_arguments run st) = rest"
  using assms rest_dest by (auto simp: holds_def take_arguments_def update_conv' split: option.split)

lemma take_value_holds:
  assumes "\<forall>opt\<in>set opts. holds st opt" and "take_value opts name s st = Parsed st'"
  shows "\<forall>opt\<in>set opts. holds st' opt" and "positional st' = positional st"
proof -
  obtain o' where o': "o' \<in> set opts" "opt_string o' = name"
    using assms(2) action_of_other [of name] by (fastforce simp: take_value_def)
  note act = action_of_opt [OF o'(1), unfolded o'(2)]
  have "\<exists>v. given_value o' v \<and> st' = set_option name v st"
  proof (cases "opt_action o'")
    case (Store f)
    then show ?thesis using assms(2) by (auto simp: take_value_def act given_value_def split: option.splits)
  next
    case (AppendTo f)
    then obtain v where v: "f s = Some v" "st' = set_option name (appended (taken st) (dest_of name) v) st"
      using assms(2) by (auto simp: take_value_def act split: option.splits)
    obtain u where u: "map_of (taken st) (dest_of name) = Some u" "u = opt_default o' \<or> given_value o' u"
      using assms(1) o' by (auto simp: holds_def split: if_splits)
    have "given_value o' (appended (taken st) (dest_of name) v)"
      using u v(1) no_list_default o'(1) AppendTo
      by (auto simp: appended_def given_value_def list_all_iff split: pyval.splits)
    then show ?thesis using v(2) by blast
  qed (use assms(2) in \<open>simp_all add: take_value_def act\<close>)
  then obtain v where v: "given_value o' v" "st' = set_option (opt_string o') v st" using o'(2) by blast
  show "\<forall>opt\<in>set opts. holds st' opt"
    using holds_set_option [OF o'(1) _ _ v(1)] assms(1) by (simp add: v(2))
  show "positional st' = positional st" by (simp add: v(2) set_option_def)
qed

lemma consume_holds:
  assumes "consume opts ws st = Parsed st'" and "\<forall>opt\<in>set opts. holds st opt"
    and "positional st = None \<or> positional st = rest"
  shows "\<forall>opt\<in>set opts. holds st' opt"
  using assms
proof (induction opts' \<equiv> opts ws st rule: consume.induct)
  case (2 name s ws st)
  then show ?case using take_value_holds by (auto simp: res_iff)
next
  case (3 name ws st)
  show ?case
  proof (cases "takes_value (action_of opts name)")
    case True
    then obtain s ws' st1 where "ws = Plain s # ws'" "take_value opts name s st = Parsed st1" "consume opts ws' st1 = Parsed st'"
      using 3(3) by (auto simp: res_iff split: list.splits word.splits)
    then show ?thesis using 3(1) [OF True] take_value_holds [OF 3(4)] 3(5) by (metis word.inject(4))
  next
    case False
    then have switch: "action_of opts name = StoreTrue" "consume opts ws (set_option name (PBool True) st) = Parsed st'"
      using 3(3) by (auto split: action.splits)
    then obtain o' where o': "o' \<in> set opts" "opt_string o' = name" using action_of_other [of name] by fastforce
    have "given_value o' (PBool True)" using action_of_opt [OF o'(1)] switch(1) o'(2) by (simp add: given_value_def)
    then have "\<forall>opt\<in>set opts. holds (set_option name (PBool True) st) opt"
      using holds_set_option [OF o'(1)] 3(4) o'(2) by auto
    then show ?thesis using 3(2) [OF False switch(1)] switch(2) 3(5) by (simp add: set_option_def)
  qed
next
  case (5 s ws st)
  then show ?case by (simp add: holds_def)
next
  case (6 s ws st)
  then show ?case using holds_arguments by (metis consume.simps(6))
next
  case (7 ws st)
  then show ?case using holds_arguments by (metis consume.simps(7))
qed (auto split: if_splits)

text \<open>Every attribute has its default, unless it is required, or a value its option accepts.\<close>

lemma parsed_values:
  assumes "parse_args (opts, rest) argv = Parsed ns" and "opt \<in> set opts"
  shows "\<exists>v. map_of ns (dest_of (opt_string opt)) = Some v \<and> (v = opt_default opt \<and> \<not> opt_required opt \<or> given_value opt v)"
proof -
  obtain ws st where st: "consume opts ws (start_state (opts, rest)) = Parsed st" "finish (opts, rest) st = Parsed ns"
    using assms(1) by (auto simp: parse_args_def res_iff split: option.splits)
  have "holds st opt"
    using consume_holds [OF st(1)] start_holds assms(2) by (simp add: start_state_def)
  then show ?thesis
    using st(2) assms(2) by (auto simp: finish_def holds_def list_all_iff split: if_splits)
qed

end

section \<open>Writing a command line\<close>

text \<open>
  A setting is an option with its value, or a switch alone. The form \<open>--option=value\<close> carries
  every value, also an empty one or one that begins with a dash.
\<close>

type_synonym setting = "string \<times> string option"

definition setting_word :: "setting \<Rightarrow> string" where
  "setting_word setting = (case setting of (name, None) \<Rightarrow> name | (name, Some s) \<Rightarrow> name @ CHR ''='' # s)"

definition setting_ok :: "option_spec \<Rightarrow> string option \<Rightarrow> bool" where
  "setting_ok opt v =
     (case (opt_action opt, v) of
        (Store convert, Some s) \<Rightarrow> convert s \<noteq> None
      | (AppendTo convert, Some s) \<Rightarrow> convert s \<noteq> None
      | (StoreTrue, None) \<Rightarrow> True
      | _ \<Rightarrow> False)"

definition settings_for :: "setting list \<Rightarrow> string \<Rightarrow> string option list" where
  "settings_for settings name = map snd (filter (\<lambda>x. fst x = name) settings)"

text \<open>The value an option ends up with: the last one given, or all of them for a list.\<close>

definition setting_value :: "option_spec \<Rightarrow> setting list \<Rightarrow> pyval" where
  "setting_value opt settings =
     (let given = settings_for settings (opt_string opt)
      in if given = [] then opt_default opt
         else case opt_action opt of
                Store convert \<Rightarrow> the (convert (the (last given)))
              | AppendTo convert \<Rightarrow> PList (map (\<lambda>v. the (convert (the v))) given)
              | _ \<Rightarrow> PBool True)"

lemma settings_for_snoc:
  "settings_for (settings @ [(name, v)]) n = settings_for settings n @ (if n = name then [v] else [])"
  by (simp add: settings_for_def)

definition settings_ok :: "option_spec list \<Rightarrow> setting list \<Rightarrow> bool" where
  "settings_ok opts settings = list_all (\<lambda>(name, v). \<exists>opt\<in>set opts. opt_string opt = name \<and> setting_ok opt v) settings"

lemma settings_ok_append [simp]: "settings_ok opts (xs @ ys) \<longleftrightarrow> settings_ok opts xs \<and> settings_ok opts ys"
  by (simp add: settings_ok_def)

lemma settings_ok_mono: "settings_ok opts xs \<Longrightarrow> set opts \<subseteq> set opts' \<Longrightarrow> settings_ok opts' xs"
  by (fastforce simp: settings_ok_def list_all_iff)

definition given_so_far :: "option_spec list \<Rightarrow> setting list \<Rightarrow> arg_state \<Rightarrow> bool" where
  "given_so_far opts settings st =
     ((\<forall>opt\<in>set opts. map_of (taken st) (dest_of (opt_string opt)) = Some (setting_value opt settings)) \<and>
      set (seen st) = fst ` set settings)"

text \<open>A field is an option with at most one setting; the settings of a list of fields, and the value of each.\<close>

type_synonym field = "string \<times> string option option"

definition field_settings :: "field list \<Rightarrow> setting list" where
  "field_settings table = concat (map (\<lambda>(name, v). case v of None \<Rightarrow> [] | Some x \<Rightarrow> [(name, x)]) table)"

definition field_value :: "option_spec \<Rightarrow> string option option \<Rightarrow> pyval" where
  "field_value opt v =
     (case v of None \<Rightarrow> opt_default opt
      | Some x \<Rightarrow> (case opt_action opt of
            Store convert \<Rightarrow> the (convert (the x))
          | AppendTo convert \<Rightarrow> PList [the (convert (the x))]
          | _ \<Rightarrow> PBool True))"

definition field_fits :: "option_spec \<Rightarrow> field \<Rightarrow> bool" where
  "field_fits opt field =
     (opt_string opt = fst field \<and>
      (case snd field of None \<Rightarrow> \<not> opt_required opt | Some x \<Rightarrow> setting_ok opt x))"

lemma field_settings_simps [simp]:
  "field_settings [] = []"
  "field_settings ((name, v) # table) = (case v of None \<Rightarrow> [] | Some x \<Rightarrow> [(name, x)]) @ field_settings table"
  by (simp_all add: field_settings_def)

lemma settings_for_absent: "name \<notin> fst ` set table \<Longrightarrow> settings_for (field_settings table) name = []"
  by (induction table) (auto simp: settings_for_def split: option.split)

lemma settings_for_field:
  "distinct (map fst table) \<Longrightarrow> (name, v) \<in> set table \<Longrightarrow>
     settings_for (field_settings table) name = (case v of None \<Rightarrow> [] | Some x \<Rightarrow> [x])"
proof (induction table)
  case (Cons f table)
  obtain n u where f: "f = (n, u)" by fastforce
  have split: "settings_for (field_settings (f # table)) name =
      (if n = name then (case u of None \<Rightarrow> [] | Some x \<Rightarrow> [x]) else []) @ settings_for (field_settings table) name"
    by (cases u) (simp_all add: f settings_for_def)
  show ?case
  proof (cases "f = (name, v)")
    case True
    then show ?thesis using Cons.prems(1) settings_for_absent [of name table] f split by simp
  next
    case False
    then have "(name, v) \<in> set table" using Cons.prems(2) by simp
    moreover have "n \<noteq> name" using calculation Cons.prems(1) f by force
    ultimately show ?thesis using Cons.IH Cons.prems(1) split by simp
  qed
qed simp

lemma field_settings_set: "(name, x) \<in> set (field_settings table) \<longleftrightarrow> (name, Some x) \<in> set table"
  by (induction table) (auto split: option.splits)

lemma field_settings_ok:
  assumes "list_all2 field_fits opts table"
  shows "settings_ok opts (field_settings table)"
proof -
  have "\<exists>opt\<in>set opts. opt_string opt = name \<and> setting_ok opt x" if "(name, Some x) \<in> set table" for name x
  proof -
    from that obtain opt where z: "(opt, name, Some x) \<in> set (zip opts table)"
      using list_all2_lengthD [OF assms] by (metis in_set_impl_in_set_zip2)
    then have "field_fits opt (name, Some x)" using assms by (auto simp: list_all2_iff)
    then show ?thesis using z by (auto simp: field_fits_def dest: set_zip_leftD)
  qed
  then show ?thesis by (auto simp: settings_ok_def list_all_iff field_settings_set)
qed

lemma setting_value_field:
  "distinct (map fst table) \<Longrightarrow> (opt_string opt, v) \<in> set table \<Longrightarrow>
     setting_value opt (field_settings table) = field_value opt v"
  by (auto simp: setting_value_def settings_for_field field_value_def split: option.split action.split)

context command_line
begin

lemma given_snoc:
  assumes "given_so_far opts settings st" and "o' \<in> set opts"
    and "v' = setting_value o' (settings @ [(opt_string o', v)])"
  shows "given_so_far opts (settings @ [(opt_string o', v)]) (set_option (opt_string o') v' st)"
proof -
  have "setting_value opt (settings @ [(opt_string o', v)]) = setting_value opt settings"
    if "opt \<in> set opts" "opt \<noteq> o'" for opt
  proof -
    have "opt_string opt \<noteq> opt_string o'" using dest_inject [OF that(1) assms(2)] that(2) by auto
    then show ?thesis by (simp add: setting_value_def settings_for_snoc)
  qed
  then show ?thesis
    using assms dest_inject [OF _ assms(2)] by (fastforce simp: given_so_far_def set_option_def update_conv')
qed

lemma take_setting:
  assumes "given_so_far opts settings st" and "o' \<in> set opts" and "setting_ok o' (Some s)"
  shows "take_value opts (opt_string o') s st =
    Parsed (set_option (opt_string o') (setting_value o' (settings @ [(opt_string o', Some s)])) st)"
proof (cases "opt_action o'")
  case (Store f)
  then show ?thesis
    using assms(3) by (auto simp: take_value_def action_of_opt [OF assms(2)] setting_ok_def setting_value_def settings_for_snoc)
next
  case (AppendTo f)
  have "map_of (taken st) (dest_of (opt_string o')) = Some (setting_value o' settings)"
    using assms(1,2) by (simp add: given_so_far_def)
  moreover have "\<And>vs. opt_default o' \<noteq> PList vs" using no_list_default assms(2) by (auto simp: list_all_iff)
  ultimately have "appended (taken st) (dest_of (opt_string o')) (the (f s)) =
      setting_value o' (settings @ [(opt_string o', Some s)])"
    using AppendTo by (auto simp: appended_def setting_value_def settings_for_snoc Let_def split: pyval.split)
  then show ?thesis
    using assms(3) AppendTo by (auto simp: take_value_def action_of_opt [OF assms(2)] setting_ok_def)
qed (use assms(3) in \<open>simp_all add: setting_ok_def\<close>)

lemma consume_settings:
  assumes "settings_ok opts settings" and "given_so_far opts earlier st"
  shows "\<exists>st'. consume opts (map (\<lambda>(name, v). Known name v) settings) st = Parsed st' \<and>
    given_so_far opts (earlier @ settings) st' \<and> extras st' = extras st \<and> positional st' = positional st \<and>
    (\<forall>d. d \<notin> (\<lambda>opt. dest_of (opt_string opt)) ` set opts \<longrightarrow> map_of (taken st') d = map_of (taken st) d)"
  using assms
proof (induction settings arbitrary: earlier st)
  case (Cons x settings)
  obtain name v where x: "x = (name, v)" by fastforce
  with Cons.prems obtain o' where o': "o' \<in> set opts" "opt_string o' = name" "setting_ok o' v"
    by (auto simp: settings_ok_def)
  let ?st = "set_option name (setting_value o' (earlier @ [(name, v)])) st"
  have step: "consume opts (Known name v # map (\<lambda>(name, v). Known name v) settings) st =
      consume opts (map (\<lambda>(name, v). Known name v) settings) ?st"
  proof (cases v)
    case None
    then have "opt_action o' = StoreTrue" using o'(3) by (auto simp: setting_ok_def split: action.splits)
    then show ?thesis
      using action_of_opt [OF o'(1)] o'(2) None
      by (simp add: takes_value_def setting_value_def settings_for_snoc)
  next
    case (Some s)
    then show ?thesis using take_setting [OF Cons.prems(2) o'(1)] o'(2,3) by simp
  qed
  have ok: "settings_ok opts settings" using Cons.prems(1) by (simp add: settings_ok_def)
  have given: "given_so_far opts (earlier @ [(name, v)]) ?st"
    using given_snoc [OF Cons.prems(2) o'(1) refl, of v] by (simp add: o'(2))
  have other: "map_of (taken ?st) d = map_of (taken st) d" if "d \<notin> (\<lambda>opt. dest_of (opt_string opt)) ` set opts" for d
    using that o' by (auto simp: set_option_def update_conv')
  show ?case
    using Cons.IH [OF ok given] step other by (auto simp: x set_option_def)
qed (simp add: given_so_far_def)

lemma classify_settings:
  assumes "settings_ok opts settings"
  shows "classify_words (option_names opts) (map setting_word settings) = Some (map (\<lambda>(name, v). Known name v) settings)"
  using assms
proof (induction settings)
  case (Cons x settings)
  obtain name v where x: "x = (name, v)" by fastforce
  with Cons.prems obtain o' where o': "o' \<in> set opts" "opt_string o' = name" by (auto simp: settings_ok_def)
  then have "long_option name" using long by (auto simp: list_all_iff)
  then have "2 < length (setting_word x)" by (auto simp: x setting_word_def long_option_def split: option.split)
  then have "setting_word x \<noteq> ''--''" by auto
  moreover have "classify_word (option_names opts) (setting_word x) = Some (Known name v)"
    using classify_explicit [OF long o'(1)] classify_known [OF long o'(1)] o'(2)
    by (cases v) (simp_all add: x setting_word_def)
  ultimately show ?case using Cons by (simp add: x settings_ok_def)
qed simp

lemma start_given: "given_so_far opts [] (start_state (opts, rest))"
  using start_holds by (simp add: given_so_far_def holds_def start_state_def setting_value_def settings_for_def)

text \<open>Settings that give every required option are parsed, and every attribute has the value set.\<close>

lemma parse_settings:
  assumes "settings_ok opts settings" and "rest = None"
    and "list_all (\<lambda>opt. opt_required opt \<longrightarrow> opt_string opt \<in> fst ` set settings) opts"
  shows "\<exists>ns. parse_args (opts, rest) (map setting_word settings) = Parsed ns \<and>
    (\<forall>opt\<in>set opts. map_of ns (dest_of (opt_string opt)) = Some (setting_value opt settings))"
proof -
  obtain st where st: "consume opts (map (\<lambda>(name, v). Known name v) settings) (start_state (opts, rest)) = Parsed st"
    "given_so_far opts settings st" "extras st = []" "positional st = None"
    using consume_settings [OF assms(1) start_given] assms(2) by (auto simp: start_state_def)
  then show ?thesis
    using classify_settings [OF assms(1)] assms(3)
    by (auto simp: parse_args_def finish_def given_so_far_def list_all_iff)
qed

text \<open>The same after a list of positional arguments that do not look like options.\<close>

lemma parse_positionals_settings:
  assumes "settings_ok opts settings" and "rest = Some d"
    and "list_all (\<lambda>opt. opt_required opt \<longrightarrow> opt_string opt \<in> fst ` set settings) opts"
    and "items \<noteq> []" and "list_all (\<lambda>s. s = [] \<or> hd s \<noteq> CHR ''-'') items"
  shows "\<exists>ns. parse_args (opts, rest) (items @ map setting_word settings) = Parsed ns \<and>
    map_of ns d = Some (PList (map PStr items)) \<and>
    (\<forall>opt\<in>set opts. map_of ns (dest_of (opt_string opt)) = Some (setting_value opt settings))"
proof -
  let ?known = "map (\<lambda>(name, v). Known name v) settings"
  have words: "classify_words (option_names opts) (items @ map setting_word settings) = Some (map Plain items @ ?known)"
    using assms(5) by (induction items) (auto simp: classify_plain classify_settings [OF assms(1)])
  obtain s ss where items: "items = s # ss" using assms(4) by (cases items) auto
  have run: "takeWhile is_argument (map Plain ss @ ?known) = map Plain ss"
    "dropWhile is_argument (map Plain ss @ ?known) = ?known"
  proof -
    have "takeWhile is_argument ?known = [] \<and> dropWhile is_argument ?known = ?known"
      by (cases settings) (auto split: prod.split)
    then show "takeWhile is_argument (map Plain ss @ ?known) = map Plain ss"
      "dropWhile is_argument (map Plain ss @ ?known) = ?known"
      by (induction ss) simp_all
  qed
  have "''--'' \<notin> set items" using assms(5) by (auto simp: list_all_iff)
  then have texts: "remove1 ''--'' (map word_text (map Plain items)) = items"
    by (simp add: o_def remove1_idem)
  define st where "st = take_arguments (map Plain items) (start_state (opts, rest))"
  have st: "taken st = AList.update d (PList (map PStr items)) (taken (start_state (opts, rest)))"
    "positional st = None" "extras st = []" "seen st = []"
    using texts by (simp_all add: st_def take_arguments_def start_state_def assms(2) items is_plain_def)
  have "given_so_far opts [] st"
    using start_given rest_dest [OF assms(2)] unfolding given_so_far_def st(1) st(4) update_conv'
    by (auto simp: start_state_def)
  from consume_settings [OF assms(1) this] obtain st' where st':
    "consume opts ?known st = Parsed st'" "given_so_far opts settings st'" "extras st' = []" "positional st' = None"
    "map_of (taken st') d = Some (PList (map PStr items))"
    using rest_dest [OF assms(2)] st by (auto simp: update_conv')
  have "consume opts (map Plain items @ ?known) (start_state (opts, rest)) = Parsed st'"
    using st'(1) run by (simp add: items st_def)
  then show ?thesis
    using st' words assms(3) by (auto simp: parse_args_def finish_def given_so_far_def list_all_iff)
qed

lemma fields_ok:
  assumes "list_all2 field_fits opts table"
  shows "settings_ok opts (field_settings table)"
    and "list_all (\<lambda>opt. opt_required opt \<longrightarrow> opt_string opt \<in> fst ` set (field_settings table)) opts"
    and "\<And>opt v. (opt, name, v) \<in> set (zip opts table) \<Longrightarrow> setting_value opt (field_settings table) = field_value opt v"
proof -
  have names: "map fst table = map opt_string opts"
    using assms by (induction rule: list_all2_induct) (simp_all add: field_fits_def)
  have mem: "opt \<in> set opts \<and> field_fits opt (name, v) \<and> (name, v) \<in> set table" if "(opt, name, v) \<in> set (zip opts table)" for opt name v
    using that assms by (auto simp: list_all2_iff dest: set_zip_leftD set_zip_rightD)
  have opt: "\<exists>name v. (opt, name, v) \<in> set (zip opts table)" if "opt \<in> set opts" for opt
    using that list_all2_lengthD [OF assms] by (metis in_set_impl_in_set_zip1 surj_pair)
  show "settings_ok opts (field_settings table)" using assms by (rule field_settings_ok)
  show "list_all (\<lambda>opt. opt_required opt \<longrightarrow> opt_string opt \<in> fst ` set (field_settings table)) opts"
    unfolding list_all_iff
  proof (intro ballI impI)
    fix opt assume o: "opt \<in> set opts" "opt_required opt"
    from opt [OF o(1)] obtain name v where z: "(opt, name, v) \<in> set (zip opts table)" by blast
    from mem [OF z] o(2) obtain x where "v = Some x" "opt_string opt = name" "(name, Some x) \<in> set table"
      by (auto simp: field_fits_def split: option.splits)
    then show "opt_string opt \<in> fst ` set (field_settings table)" using field_settings_set by force
  qed
  show "setting_value opt (field_settings table) = field_value opt v" if "(opt, name, v) \<in> set (zip opts table)" for opt v
    using mem [OF that] setting_value_field [of table opt v] distinct_names names by (simp add: field_fits_def)
qed

text \<open>A list of table in the order of the options is read back field by field.\<close>

lemma parse_fields:
  assumes "list_all2 field_fits opts table" and "rest = None"
  shows "\<exists>ns. parse_args (opts, rest) (map setting_word (field_settings table)) = Parsed ns \<and>
    list_all2 (\<lambda>opt field. map_of ns (dest_of (fst field)) = Some (field_value opt (snd field))) opts table"
proof -
  from parse_settings [OF fields_ok(1) [OF assms(1)] assms(2) fields_ok(2) [OF assms(1)]] obtain ns where
    ns: "parse_args (opts, rest) (map setting_word (field_settings table)) = Parsed ns"
      "\<forall>opt\<in>set opts. map_of ns (dest_of (opt_string opt)) = Some (setting_value opt (field_settings table))" by blast
  have "list_all2 (\<lambda>opt field. map_of ns (dest_of (fst field)) = Some (field_value opt (snd field))) opts table"
    unfolding list_all2_iff
  proof (intro conjI ballI)
    show "length opts = length table" using assms(1) by (rule list_all2_lengthD)
    fix z assume z: "z \<in> set (zip opts table)"
    obtain opt name v where split: "z = (opt, name, v)" by (cases z)
    with z have zip: "(opt, name, v) \<in> set (zip opts table)" by simp
    then have "field_fits opt (name, v)" and "opt \<in> set opts"
      using assms(1) by (auto simp: list_all2_iff dest: set_zip_leftD)
    then show "case z of (opt, field) \<Rightarrow> map_of ns (dest_of (fst field)) = Some (field_value opt (snd field))"
      using ns(2) fields_ok(3) [OF assms(1) zip] by (auto simp: split field_fits_def)
  qed
  then show ?thesis using ns(1) by blast
qed

end

end
