(* ===== verification/CommandLines.thy ===== *)
theory CommandLines
  imports RunMatrixMain PlotMain RunExperiments PyArgs
begin

text \<open>
  The command lines of the three scripts: the options each \<open>parse_args\<close> declares, the namespace
  it builds from the words of a command line, and the exit status of a whole invocation. An
  option whose \<open>type\<close> is \<open>Path\<close> holds the normalised text of the path. The lemmas instantiate
  what \<open>PyArgs\<close> proves of any parser of this form; the first group says what a returned
  namespace can hold, the second that a namespace written out as options is read back.
\<close>

section \<open>Paths\<close>

text \<open>\<open>str(Path(s))\<close>: repeated slashes and \<open>.\<close> components go, two leading slashes stay.\<close>

definition path_root :: "string \<Rightarrow> string" where
  "path_root s =
     (let n = length (takeWhile (\<lambda>c. c = CHR ''/'') s)
      in if n = 0 then '''' else if n = 2 then ''//'' else ''/'')"

definition path_parts :: "string \<Rightarrow> string list" where
  "path_parts s = filter (\<lambda>p. p \<noteq> [] \<and> p \<noteq> ''.'') (str_split (CHR ''/'') s)"

definition py_path :: "string \<Rightarrow> string" where
  "py_path s =
     (if path_root s = [] \<and> path_parts s = [] then ''.'' else path_root s @ str_join ''/'' (path_parts s))"

definition path_value :: "string \<Rightarrow> pyval option" where "path_value s = Some (PStr (py_path s))"

lemmas path_eval_defs = path_join_def suffix_to_prefix py_path_def path_root_def path_parts_def

lemma path_parts_rooted: "set r \<subseteq> {CHR ''/''} \<Longrightarrow> path_parts (r @ s) = path_parts s"
  by (induction r) (auto simp: path_parts_def)

lemma path_parts_join:
  assumes "\<forall>p\<in>set ps. p \<noteq> [] \<and> p \<noteq> ''.'' \<and> CHR ''/'' \<notin> set p"
  shows "path_parts (str_join ''/'' ps) = ps"
proof (cases "ps = []")
  case False
  then have "str_split (CHR ''/'') (str_join ''/'' ps) = ps" using assms by (intro str_split_join) auto
  then show ?thesis using assms by (simp add: path_parts_def)
qed (simp add: path_parts_def)

lemma path_parts_good: "p \<in> set (path_parts s) \<Longrightarrow> p \<noteq> [] \<and> p \<noteq> ''.'' \<and> CHR ''/'' \<notin> set p"
  using str_split_parts [of p "CHR ''/''" s] by (auto simp: path_parts_def)

lemma str_join_not_slash:
  assumes "\<forall>p\<in>set ps. p \<noteq> [] \<and> CHR ''/'' \<notin> set p"
  shows "takeWhile (\<lambda>c. c = CHR ''/'') (str_join ''/'' ps) = []"
proof (cases ps)
  case (Cons p qs)
  then have "p \<noteq> []" "CHR ''/'' \<notin> set p" using assms by auto
  then show ?thesis using Cons by (cases p; cases qs) auto
qed simp

lemma path_root_cases: "path_root s = [] \<or> path_root s = ''/'' \<or> path_root s = ''//''"
  by (simp add: path_root_def Let_def)

text \<open>A path is normalised once.\<close>

lemma py_path_idem [simp]: "py_path (py_path s) = py_path s"
proof (cases "path_root s = [] \<and> path_parts s = []")
  case True
  then show ?thesis by (simp add: py_path_def path_root_def path_parts_def)
next
  case False
  note root = path_root_cases [of s]
  then have "set (path_root s) \<subseteq> {CHR ''/''}" by auto
  then have parts: "path_parts (path_root s @ str_join ''/'' (path_parts s)) = path_parts s"
    using path_parts_join path_parts_good by (simp add: path_parts_rooted)
  have "takeWhile (\<lambda>c. c = CHR ''/'') (str_join ''/'' (path_parts s)) = []"
    using str_join_not_slash path_parts_good by blast
  then have "path_root (path_root s @ str_join ''/'' (path_parts s)) = path_root s"
    using root by (auto simp: path_root_def)
  moreover have "py_path s = path_root s @ str_join ''/'' (path_parts s)"
    using False by (auto simp: py_path_def)
  ultimately show ?thesis using False parts by (auto simp: py_path_def)
qed

section \<open>Reading a namespace\<close>

definition ns_text :: "arg_names \<Rightarrow> string \<Rightarrow> string" where
  "ns_text ns d = (case map_of ns d of Some (PStr s) \<Rightarrow> s | _ \<Rightarrow> [])"

definition ns_text_option :: "arg_names \<Rightarrow> string \<Rightarrow> string option" where
  "ns_text_option ns d = (case map_of ns d of Some (PStr s) \<Rightarrow> Some s | _ \<Rightarrow> None)"

definition ns_int_option :: "arg_names \<Rightarrow> string \<Rightarrow> int option" where
  "ns_int_option ns d = (case map_of ns d of Some (PInt i) \<Rightarrow> Some i | _ \<Rightarrow> None)"

definition ns_float :: "arg_names \<Rightarrow> string \<Rightarrow> pyfloat" where
  "ns_float ns d = (case map_of ns d of Some (PFloat x) \<Rightarrow> x | _ \<Rightarrow> fzero)"

definition ns_flag :: "arg_names \<Rightarrow> string \<Rightarrow> bool" where
  "ns_flag ns d = (map_of ns d = Some (PBool True))"

definition ns_texts :: "arg_names \<Rightarrow> string \<Rightarrow> string list" where
  "ns_texts ns d = (case map_of ns d of Some (PList vs) \<Rightarrow> map value_str vs | _ \<Rightarrow> [])"

lemmas ns_defs = ns_text_def ns_text_option_def ns_int_option_def ns_float_def ns_flag_def ns_texts_def

section \<open>The options of the three scripts\<close>

definition option_with :: "string \<Rightarrow> (string \<Rightarrow> pyval option) \<Rightarrow> pyval \<Rightarrow> option_spec" where
  "option_with name convert v =
     \<lparr>opt_string = name, opt_action = Store convert, opt_default = v, opt_required = False\<rparr>"

definition switch :: "string \<Rightarrow> option_spec" where
  "switch name = \<lparr>opt_string = name, opt_action = StoreTrue, opt_default = PBool False, opt_required = False\<rparr>"

text \<open>Every sweep option is a text or absent.\<close>

definition base_options :: "string \<Rightarrow> option_spec list" where
  "base_options repo =
     [option_with ''--preset'' (choice_value (map fst PRESETS)) (PStr ''quick''),
      option_with ''--binary'' path_value (PStr (path_join (path_join repo ''build'') ''dm_simulator'')),
      option_with ''--results-dir'' path_value PNone,
      option_with ''--seeds'' text_value (PStr ''8888'')]"

definition sweep_options :: "option_spec list" where
  "sweep_options = map (\<lambda>name. option_with name text_value PNone)
     [''--policies'', ''--node-counts'', ''--object-counts'', ''--hot-set-sizes'', ''--hot-access-probabilities'',
      ''--epoch-counts'', ''--workload-issue-modes'', ''--burst-sizes'', ''--burst-intervals'', ''--intra-burst-gaps'',
      ''--node-phase-jitters'', ''--cache-hotset-multipliers'', ''--memory-bandwidth-levels'',
      ''--memory-base-latency-levels'', ''--link-latency-levels'', ''--churn-fractions'', ''--epoch-lengths'',
      ''--overlaps'', ''--object-size-modes'', ''--large-object-probabilities'', ''--memory-channel-counts'',
      ''--hot-object-channel-counts'']"

definition run_options :: "option_spec list" where
  "run_options = [option_with ''--expect-runs'' int_value PNone, switch ''--dry-run'', switch ''--keep-going'']"

definition matrix_options :: "string \<Rightarrow> option_spec list" where
  "matrix_options repo = base_options repo @ sweep_options @ run_options"

definition matrix_namespace :: "arg_names \<Rightarrow> cli_args" where
  "matrix_namespace ns = \<lparr>
    arg_preset = ns_text ns ''preset'', arg_binary = ns_text ns ''binary'',
    arg_results_dir = ns_text_option ns ''results_dir'', arg_seeds = ns_text ns ''seeds'',
    arg_policies = ns_text_option ns ''policies'', arg_node_counts = ns_text_option ns ''node_counts'',
    arg_object_counts = ns_text_option ns ''object_counts'', arg_hot_set_sizes = ns_text_option ns ''hot_set_sizes'',
    arg_hot_access_probabilities = ns_text_option ns ''hot_access_probabilities'',
    arg_epoch_counts = ns_text_option ns ''epoch_counts'',
    arg_workload_issue_modes = ns_text_option ns ''workload_issue_modes'',
    arg_burst_sizes = ns_text_option ns ''burst_sizes'', arg_burst_intervals = ns_text_option ns ''burst_intervals'',
    arg_intra_burst_gaps = ns_text_option ns ''intra_burst_gaps'',
    arg_node_phase_jitters = ns_text_option ns ''node_phase_jitters'',
    arg_cache_hotset_multipliers = ns_text_option ns ''cache_hotset_multipliers'',
    arg_memory_bandwidth_levels = ns_text_option ns ''memory_bandwidth_levels'',
    arg_memory_base_latency_levels = ns_text_option ns ''memory_base_latency_levels'',
    arg_link_latency_levels = ns_text_option ns ''link_latency_levels'',
    arg_churn_fractions = ns_text_option ns ''churn_fractions'', arg_epoch_lengths = ns_text_option ns ''epoch_lengths'',
    arg_overlaps = ns_text_option ns ''overlaps'', arg_object_size_modes = ns_text_option ns ''object_size_modes'',
    arg_large_object_probabilities = ns_text_option ns ''large_object_probabilities'',
    arg_memory_channel_counts = ns_text_option ns ''memory_channel_counts'',
    arg_hot_object_channel_counts = ns_text_option ns ''hot_object_channel_counts'',
    arg_expect_runs = ns_int_option ns ''expect_runs'',
    arg_dry_run = ns_flag ns ''dry_run'', arg_keep_going = ns_flag ns ''keep_going''\<rparr>"

definition parse_matrix_args :: "string \<Rightarrow> string list \<Rightarrow> cli_args parsed" where
  "parse_matrix_args repo argv =
     bindA (parse_args (matrix_options repo, None) argv) (\<lambda>ns. Parsed (matrix_namespace ns))"

definition report_options :: "option_spec list" where
  "report_options =
     [\<lparr>opt_string = ''--aggregate'', opt_action = AppendTo path_value, opt_default = PNone, opt_required = True\<rparr>,
      option_with ''--output-dir'' path_value PNone,
      option_with ''--baseline'' text_value (PStr ''lru''),
      option_with ''--tie-threshold'' float_value (PFloat (flit 2 2)),
      option_with ''--formats'' text_value (PStr ''svg''),
      option_with ''--title'' text_value (PStr ''DM Simulator Results Analysis''),
      option_with ''--report-mode'' (choice_value REPORT_MODES) (PStr ''auto'')]"

definition report_namespace :: "arg_names \<Rightarrow> report_args" where
  "report_namespace ns =
     \<lparr>ra_aggregate = ns_texts ns ''aggregate'', ra_output_dir = ns_text_option ns ''output_dir'',
      ra_baseline = ns_text ns ''baseline'', ra_tie_threshold = ns_float ns ''tie_threshold'',
      ra_formats = ns_text ns ''formats'', ra_title = ns_text ns ''title'', ra_report_mode = ns_text ns ''report_mode''\<rparr>"

definition parse_report_args :: "string list \<Rightarrow> report_args parsed" where
  "parse_report_args argv = bindA (parse_args (report_options, None) argv) (\<lambda>ns. Parsed (report_namespace ns))"

text \<open>
  The positional \<open>configs\<close> have \<open>type=Path\<close> too, which \<open>argparse\<close> applies to every item of the
  list; \<open>parse_args\<close> of the library model leaves them as texts.
\<close>

definition experiment_options :: "string \<Rightarrow> option_spec list" where
  "experiment_options repo =
     [option_with ''--binary'' path_value (PStr (path_join (path_join repo ''build'') ''dm_simulator'')),
      option_with ''--results-dir'' path_value (PStr (path_join repo ''results''))]"

definition experiment_namespace :: "arg_names \<Rightarrow> experiment_args" where
  "experiment_namespace ns =
     \<lparr>ex_configs = map py_path (ns_texts ns ''configs''), ex_binary = ns_text ns ''binary'',
      ex_results_dir = ns_text ns ''results_dir''\<rparr>"

definition parse_experiment_args :: "string \<Rightarrow> string list \<Rightarrow> experiment_args parsed" where
  "parse_experiment_args repo argv =
     bindA (parse_args (experiment_options repo, Some ''configs'') argv) (\<lambda>ns. Parsed (experiment_namespace ns))"

section \<open>The parsers satisfy the contract\<close>

lemmas option_defs = option_with_def switch_def base_options_def sweep_options_def run_options_def

lemmas contract_defs = long_option_def dest_of_def

interpretation matrix_cli: command_line "matrix_options repo" None
  by unfold_locales (simp_all add: matrix_options_def option_defs contract_defs)

interpretation report_cli: command_line report_options None
  by unfold_locales (simp_all add: report_options_def option_defs contract_defs)

interpretation experiment_cli: command_line "experiment_options repo" "Some ''configs''"
  by unfold_locales (auto simp: experiment_options_def option_defs contract_defs)

section \<open>Whole invocations\<close>

text \<open>
  \<open>raise SystemExit(main())\<close>: the process exits with the integer \<open>main\<close> returns. A message of
  \<open>SystemExit\<close> and any other exception exit with 1, a refused command line with 2, and the help
  text with 0.
\<close>

definition exit_status :: "int res \<Rightarrow> int" where
  "exit_status r = (case r of Inl e \<Rightarrow> 1 | Inr n \<Rightarrow> n)"

definition invoke :: "'a parsed \<Rightarrow> ('a \<Rightarrow> 's \<Rightarrow> 's \<times> int res) \<Rightarrow> 's \<Rightarrow> 's \<times> int" where
  "invoke parsed run w =
     (case parsed of
        Refused \<Rightarrow> (w, 2)
      | Helped \<Rightarrow> (w, 0)
      | Parsed args \<Rightarrow> (case run args w of (w', r) \<Rightarrow> (w', exit_status r)))"

definition matrix_program :: "launcher \<Rightarrow> string \<Rightarrow> string list \<Rightarrow> world \<Rightarrow> world \<times> int" where
  "matrix_program launch repo argv = invoke (parse_matrix_args repo argv) (main launch repo)"

definition report_program ::
    "environment \<Rightarrow> string list \<Rightarrow> (string \<Rightarrow> string option) \<Rightarrow> (string \<Rightarrow> string option) \<times> int" where
  "report_program env argv = invoke (parse_report_args argv) (report_main env)"

definition experiments_program :: "launcher \<Rightarrow> string \<Rightarrow> string list \<Rightarrow> world \<Rightarrow> world \<times> int" where
  "experiments_program launch repo argv = invoke (parse_experiment_args repo argv) (experiments_main launch)"

section \<open>Command lines\<close>

definition text_field :: "string \<Rightarrow> string \<Rightarrow> field" where "text_field name s = (name, Some (Some s))"

definition option_field :: "string \<Rightarrow> string option \<Rightarrow> field" where
  "option_field name v = (name, map_option Some v)"

definition switch_field :: "string \<Rightarrow> bool \<Rightarrow> field" where
  "switch_field name b = (name, if b then Some None else None)"

definition matrix_fields :: "cli_args \<Rightarrow> field list" where
  "matrix_fields args =
     [text_field ''--preset'' (arg_preset args), text_field ''--binary'' (arg_binary args),
      option_field ''--results-dir'' (arg_results_dir args), text_field ''--seeds'' (arg_seeds args),
      option_field ''--policies'' (arg_policies args), option_field ''--node-counts'' (arg_node_counts args),
      option_field ''--object-counts'' (arg_object_counts args), option_field ''--hot-set-sizes'' (arg_hot_set_sizes args),
      option_field ''--hot-access-probabilities'' (arg_hot_access_probabilities args),
      option_field ''--epoch-counts'' (arg_epoch_counts args),
      option_field ''--workload-issue-modes'' (arg_workload_issue_modes args),
      option_field ''--burst-sizes'' (arg_burst_sizes args), option_field ''--burst-intervals'' (arg_burst_intervals args),
      option_field ''--intra-burst-gaps'' (arg_intra_burst_gaps args),
      option_field ''--node-phase-jitters'' (arg_node_phase_jitters args),
      option_field ''--cache-hotset-multipliers'' (arg_cache_hotset_multipliers args),
      option_field ''--memory-bandwidth-levels'' (arg_memory_bandwidth_levels args),
      option_field ''--memory-base-latency-levels'' (arg_memory_base_latency_levels args),
      option_field ''--link-latency-levels'' (arg_link_latency_levels args),
      option_field ''--churn-fractions'' (arg_churn_fractions args), option_field ''--epoch-lengths'' (arg_epoch_lengths args),
      option_field ''--overlaps'' (arg_overlaps args), option_field ''--object-size-modes'' (arg_object_size_modes args),
      option_field ''--large-object-probabilities'' (arg_large_object_probabilities args),
      option_field ''--memory-channel-counts'' (arg_memory_channel_counts args),
      option_field ''--hot-object-channel-counts'' (arg_hot_object_channel_counts args),
      option_field ''--expect-runs'' (map_option show_int (arg_expect_runs args)),
      switch_field ''--dry-run'' (arg_dry_run args), switch_field ''--keep-going'' (arg_keep_going args)]"

definition matrix_command_line :: "cli_args \<Rightarrow> string list" where
  "matrix_command_line args = map setting_word (field_settings (matrix_fields args))"

text \<open>Arguments a command line can express: a known preset, normalised paths and a count \<open>int\<close> reads.\<close>

definition expressible :: "cli_args \<Rightarrow> bool" where
  "expressible args =
     (arg_preset args \<in> set (map fst PRESETS) \<and> py_path (arg_binary args) = arg_binary args \<and>
      (case arg_results_dir args of None \<Rightarrow> True | Some d \<Rightarrow> py_path d = d) \<and>
      (case arg_expect_runs args of None \<Rightarrow> True | Some n \<Rightarrow> int_in_limit n))"

lemma fits_simps:
  "field_fits (option_with name convert v) (text_field n s) \<longleftrightarrow> name = n \<and> convert s \<noteq> None"
  "field_fits (option_with name convert v) (option_field n t) \<longleftrightarrow>
     name = n \<and> (\<forall>s. t = Some s \<longrightarrow> convert s \<noteq> None)"
  "field_fits (switch name) (switch_field n b) \<longleftrightarrow> name = n"
  by (auto simp: field_fits_def option_with_def switch_def text_field_def option_field_def switch_field_def setting_ok_def
      split: option.splits)

lemma field_value_simps:
  "field_value (option_with name convert v) (snd (text_field n s)) = the (convert s)"
  "field_value (option_with name convert v) (snd (option_field n t)) = (case t of None \<Rightarrow> v | Some s \<Rightarrow> the (convert s))"
  "field_value (switch name) (snd (switch_field n b)) = PBool b"
  by (auto simp: field_value_def option_with_def switch_def text_field_def option_field_def switch_field_def
      split: option.splits)

lemma field_names [simp]:
  "fst (text_field n s) = n" "fst (option_field n t) = n" "fst (switch_field n b) = n"
  by (simp_all add: text_field_def option_field_def switch_field_def)

lemma matrix_fields_fit:
  assumes "expressible args"
  shows "list_all2 field_fits (matrix_options repo) (matrix_fields args)"
proof -
  have "int_value s \<noteq> None" if "arg_expect_runs args = Some n" "s = show_int n" for s n
    using assms that by (simp add: expressible_def int_value_def py_int_show_int)
  then have "\<forall>s. map_option show_int (arg_expect_runs args) = Some s \<longrightarrow> int_value s \<noteq> None" by auto
  moreover have "choice_value (map fst PRESETS) (arg_preset args) \<noteq> None"
    using assms by (simp add: expressible_def choice_value_def)
  ultimately show ?thesis
    by (simp only: matrix_options_def base_options_def sweep_options_def run_options_def matrix_fields_def
        list.map append.simps list_all2_Cons list_all2_Nil fits_simps)
      (simp add: text_value_def path_value_def)
qed

lemma read_text: "map_of ns d = Some (the (text_value s)) \<Longrightarrow> ns_text ns d = s"
  by (simp add: ns_text_def text_value_def)

lemma read_option: "map_of ns d = Some (case t of None \<Rightarrow> PNone | Some s \<Rightarrow> the (text_value s)) \<Longrightarrow> ns_text_option ns d = t"
  by (cases t) (simp_all add: ns_text_option_def text_value_def)

lemma read_path: "map_of ns d = Some (the (path_value s)) \<Longrightarrow> ns_text ns d = py_path s"
  by (simp add: ns_text_def path_value_def)

lemma read_path_option:
  "map_of ns d = Some (case t of None \<Rightarrow> PNone | Some s \<Rightarrow> the (path_value s)) \<Longrightarrow>
     ns_text_option ns d = map_option py_path t"
  by (cases t) (simp_all add: ns_text_option_def path_value_def)

lemma read_choice:
  "map_of ns d = Some (the (choice_value choices s)) \<Longrightarrow> s \<in> set choices \<Longrightarrow> ns_text ns d = s"
  by (simp add: ns_text_def choice_value_def)

lemma read_int_option:
  "map_of ns d = Some (case map_option show_int t of None \<Rightarrow> PNone | Some s \<Rightarrow> the (int_value s)) \<Longrightarrow>
     (\<forall>n. t = Some n \<longrightarrow> int_in_limit n) \<Longrightarrow> ns_int_option ns d = t"
  by (cases t) (simp_all add: ns_int_option_def int_value_def py_int_show_int)

text \<open>The texts of the infinities and of NaN are read back as well.\<close>

lemma py_float_repr_any: "canonical x \<Longrightarrow> py_float (py_repr x) = Some x"
proof (cases x)
  case (Inf s)
  then show ?thesis by (cases s) (simp_all add: eval_simps)
qed (simp_all add: py_float_py_repr, simp add: eval_simps)

lemma read_float:
  "map_of ns d = Some (the (float_value (py_repr x))) \<Longrightarrow> canonical x \<Longrightarrow> ns_float ns d = x"
  by (simp add: ns_float_def float_value_def py_float_repr_any)

lemma read_flag: "map_of ns d = Some (PBool b) \<Longrightarrow> ns_flag ns d = b"
  by (simp add: ns_flag_def)

text \<open>
  C13. Every setting of the matrix script can be written on its command line and is read back:
  an argument record with a known preset, normalised paths and an expected run count of at most
  4300 digits, written with one \<open>--option=value\<close> word per setting, is exactly what
  \<open>parse_args\<close> returns, whatever the texts of the sweep options are (also empty texts and
  texts that look like options).
\<close>

theorem matrix_command_line_roundtrip:
  assumes "expressible args"
  shows "parse_matrix_args repo (matrix_command_line args) = Parsed args"
proof -
  obtain ns where ns: "parse_args (matrix_options repo, None) (matrix_command_line args) = Parsed ns"
    and read: "list_all2 (\<lambda>opt field. map_of ns (dest_of (fst field)) = Some (field_value opt (snd field)))
      (matrix_options repo) (matrix_fields args)"
    using matrix_cli.parse_fields [OF matrix_fields_fit [OF assms]] unfolding matrix_command_line_def by blast
  have ok: "arg_preset args \<in> set (map fst PRESETS)" "py_path (arg_binary args) = arg_binary args"
    "map_option py_path (arg_results_dir args) = arg_results_dir args"
    "\<forall>n. arg_expect_runs args = Some n \<longrightarrow> int_in_limit n"
    using assms by (auto simp: expressible_def split: option.splits)
  note read = read [unfolded matrix_options_def base_options_def sweep_options_def run_options_def matrix_fields_def
      list.map append.simps list_all2_Cons list_all2_Nil field_value_simps field_names dest_of_def, simplified]
  have "matrix_namespace ns = args"
    using read ok
    by (intro cli_args.equality)
      (simp_all add: matrix_namespace_def read_text read_option read_path read_path_option read_choice
        read_int_option read_flag del: set_map)
  then show ?thesis using ns by (simp add: parse_matrix_args_def)
qed

lemma read_texts: "map_of ns d = Some (PList (map PStr ss)) \<Longrightarrow> ns_texts ns d = ss"
  by (simp add: ns_texts_def value_str_def o_def)

lemma option_with_simps [simp]: "opt_string (option_with name convert v) = name"
  by (simp add: option_with_def)

theorem matrix_command_line_roundtrip_witness:
  "parse_matrix_args ''.'' (matrix_command_line ((default_args ''.'')\<lparr>arg_overlaps := Some ''--help'', arg_keep_going := True\<rparr>)) =
     Parsed ((default_args ''.'')\<lparr>arg_overlaps := Some ''--help'', arg_keep_going := True\<rparr>)"
  by (rule matrix_command_line_roundtrip)
    (simp add: expressible_def default_args_def PRESETS_def path_eval_defs)

definition report_fields :: "report_args \<Rightarrow> field list" where
  "report_fields args =
     [option_field ''--output-dir'' (ra_output_dir args), text_field ''--baseline'' (ra_baseline args),
      text_field ''--tie-threshold'' (py_repr (ra_tie_threshold args)), text_field ''--formats'' (ra_formats args),
      text_field ''--title'' (ra_title args), text_field ''--report-mode'' (ra_report_mode args)]"

definition report_settings :: "report_args \<Rightarrow> setting list" where
  "report_settings args =
     map (\<lambda>a. (''--aggregate'', Some a)) (ra_aggregate args) @ field_settings (report_fields args)"

definition report_command_line :: "report_args \<Rightarrow> string list" where
  "report_command_line args = map setting_word (report_settings args)"

definition report_expressible :: "report_args \<Rightarrow> bool" where
  "report_expressible args =
     (ra_aggregate args \<noteq> [] \<and> list_all (\<lambda>a. py_path a = a) (ra_aggregate args) \<and>
      (case ra_output_dir args of None \<Rightarrow> True | Some d \<Rightarrow> py_path d = d) \<and>
      canonical (ra_tie_threshold args) \<and> ra_report_mode args \<in> set REPORT_MODES)"

lemma settings_for_append: "settings_for (xs @ ys) name = settings_for xs name @ settings_for ys name"
  by (simp add: settings_for_def)

lemma settings_for_repeated: "settings_for (map (\<lambda>a. (n, Some a)) xs) name = (if name = n then map Some xs else [])"
  by (induction xs) (auto simp: settings_for_def)

lemma report_fields_fit:
  assumes "report_expressible args"
  shows "list_all2 field_fits (tl report_options) (report_fields args)"
  using assms
  by (simp add: report_options_def report_fields_def fits_simps text_value_def path_value_def float_value_def
      choice_value_def py_float_repr_any report_expressible_def)

lemma report_settings_value:
  assumes "report_expressible args"
  shows "setting_value (hd report_options) (report_settings args) = PList (map PStr (ra_aggregate args))"
    and "list_all2 (\<lambda>opt field. setting_value opt (report_settings args) = field_value opt (snd field))
      (tl report_options) (report_fields args)"
proof -
  have names: "map fst (report_fields args) =
      [''--output-dir'', ''--baseline'', ''--tie-threshold'', ''--formats'', ''--title'', ''--report-mode'']"
    by (simp add: report_fields_def)
  have absent: "''--aggregate'' \<notin> fst ` set (report_fields args)"
    using arg_cong [OF names, of set] by auto
  have "map (\<lambda>a. PStr (py_path a)) (ra_aggregate args) = map PStr (ra_aggregate args)"
    using assms by (auto simp: report_expressible_def list_all_iff)
  then show "setting_value (hd report_options) (report_settings args) = PList (map PStr (ra_aggregate args))"
    using assms settings_for_absent [OF absent]
    by (simp add: report_expressible_def report_options_def report_settings_def setting_value_def settings_for_append
        settings_for_repeated path_value_def o_def)
  have field: "setting_value opt (report_settings args) = field_value opt v"
    if "(opt_string opt, v) \<in> set (report_fields args)" for opt v
  proof -
    have "opt_string opt \<noteq> ''--aggregate''" using that absent by force
    then have "setting_value opt (report_settings args) = setting_value opt (field_settings (report_fields args))"
      by (simp add: setting_value_def report_settings_def settings_for_append settings_for_repeated)
    moreover have "distinct (map fst (report_fields args))" by (simp add: names)
    ultimately show ?thesis using setting_value_field that by simp
  qed
  show "list_all2 (\<lambda>opt field. setting_value opt (report_settings args) = field_value opt (snd field))
      (tl report_options) (report_fields args)"
    unfolding list_all2_iff
  proof (intro conjI ballI)
    show "length (tl report_options) = length (report_fields args)" by (simp add: report_options_def report_fields_def)
    fix z assume z: "z \<in> set (zip (tl report_options) (report_fields args))"
    obtain opt name v where split: "z = (opt, name, v)" by (cases z)
    then have "field_fits opt (name, v)" "(name, v) \<in> set (report_fields args)"
      using z report_fields_fit [OF assms] by (auto simp: list_all2_iff dest: set_zip_rightD)
    then show "case z of (opt, field) \<Rightarrow> setting_value opt (report_settings args) = field_value opt (snd field)"
      using field by (simp add: split field_fits_def)
  qed
qed

text \<open>
  C25. The same for the report script: with at least one aggregate, normalised paths, a known report
  mode and any tie threshold (written the way Python prints it, also an infinity or NaN), the written command
  line gives back every aggregate in its order and every other setting unchanged.
\<close>

theorem report_command_line_roundtrip:
  assumes "report_expressible args"
  shows "parse_report_args (report_command_line args) = Parsed args"
proof -
  have "settings_ok (tl report_options) (field_settings (report_fields args))"
    using report_fields_fit [OF assms] by (rule field_settings_ok)
  then have "settings_ok report_options (field_settings (report_fields args))"
    by (rule settings_ok_mono) (simp add: report_options_def)
  moreover have "settings_ok report_options (map (\<lambda>a. (''--aggregate'', Some a)) (ra_aggregate args))"
    by (simp add: settings_ok_def list_all_iff report_options_def setting_ok_def path_value_def)
  ultimately have "settings_ok report_options (report_settings args)"
    by (simp add: report_settings_def)
  moreover have "list_all (\<lambda>opt. opt_required opt \<longrightarrow> opt_string opt \<in> fst ` set (report_settings args)) report_options"
    using assms by (auto simp: report_options_def option_with_def report_settings_def report_expressible_def neq_Nil_conv)
  ultimately obtain ns where ns: "parse_args (report_options, None) (report_command_line args) = Parsed ns"
    and read: "\<forall>opt\<in>set report_options. map_of ns (dest_of (opt_string opt)) = Some (setting_value opt (report_settings args))"
    using report_cli.parse_settings unfolding report_command_line_def by blast
  note known = report_settings_value(1) [OF assms, unfolded report_options_def list.sel]
    report_settings_value(2) [OF assms, unfolded report_options_def report_fields_def list.sel
      list_all2_Cons list_all2_Nil field_value_simps]
  note read = read [unfolded report_options_def list.set ball_simps option_with_simps dest_of_def, simplified known, simplified]
  have "map_option py_path (ra_output_dir args) = ra_output_dir args"
    using assms by (auto simp: report_expressible_def split: option.splits)
  then have "report_namespace ns = args"
    using read assms
    by (intro report_args.equality)
      (simp_all add: report_namespace_def read_text read_path_option read_choice read_float read_texts
        report_expressible_def)
  then show ?thesis using ns by (simp add: parse_report_args_def)
qed

theorem report_command_line_roundtrip_witness:
  "parse_report_args (report_command_line (demo_report_args\<lparr>ra_title := ''--baseline=opt'', ra_tie_threshold := NaN\<rparr>)) =
     Parsed (demo_report_args\<lparr>ra_title := ''--baseline=opt'', ra_tie_threshold := NaN\<rparr>)"
  by (rule report_command_line_roundtrip)
    (simp add: report_expressible_def demo_report_args_def default_report_args_def REPORT_MODES_def path_eval_defs
      canonical_def)

section \<open>What a namespace can hold\<close>

lemma show_nat_length: "n < 10 ^ k \<Longrightarrow> 0 < k \<Longrightarrow> length (show_nat n) \<le> k"
proof (induction k arbitrary: n)
  case (Suc k)
  show ?case
  proof (cases "n < 10")
    case False
    then have "n div 10 < 10 ^ k" "0 < k" using Suc.prems by (auto intro!: Nat.gr0I)
    then show ?thesis using Suc.IH False by (simp add: show_nat.simps [of n])
  qed (simp add: show_nat.simps [of n])
qed simp

lemma digits_val_bound: "list_all is_digit ds \<Longrightarrow> digits_val ds < 10 ^ length ds"
proof (induction ds rule: rev_induct)
  case (snoc d ds)
  then have "digit_val d < 10" by (auto simp: digit_val_def is_digit_def)
  then show ?case using snoc by (simp add: digits_val_snoc)
qed (simp add: digits_val_def)

lemma py_int_in_limit: "py_int s = Some i \<Longrightarrow> int_in_limit i"
proof -
  assume "py_int s = Some i"
  then obtain neg ds where ds: "all_digits ds" "length ds \<le> 4300" "nat \<bar>i\<bar> = digits_val ds"
    by (auto simp: py_int_def Let_def PyFloat.signed_def split: prod.splits if_splits)
  then have "digits_val ds < 10 ^ length ds" "0 < length ds"
    using digits_val_bound by (auto simp: all_digits_def)
  then have "length (show_nat (digits_val ds)) \<le> length ds" by (rule show_nat_length)
  then show ?thesis using ds(2,3) by (simp add: int_in_limit_def)
qed

lemma py_float_canonical: "py_float s = Some x \<Longrightarrow> canonical x"
  using canonical_round_ratio
  by (auto simp: py_float_def parse_decimal_def decimal_float_def canonical_def Let_def
      split: if_splits option.splits prod.splits list.splits)

text \<open>An option with a converter holds its default or a converted text.\<close>

lemma option_value:
  assumes "command_line opts rest" and "parse_args (opts, rest) argv = Parsed ns"
    and "option_with name convert v \<in> set opts"
  shows "\<exists>u. map_of ns (dest_of name) = Some u \<and> (u = v \<or> (\<exists>s. convert s = Some u))"
  using command_line.parsed_values [OF assms] by (auto simp: option_with_def given_value_def)

lemma str_split_at: "str_split c (s @ c # t) = str_split c s @ str_split c t"
  by (induction s) (simp_all split: list.split)

lemma path_parts_at: "path_parts (s @ CHR ''/'' # t) = path_parts s @ path_parts t"
  by (simp add: path_parts_def str_split_at)

lemma path_parts_name: "p \<noteq> [] \<Longrightarrow> p \<noteq> ''.'' \<Longrightarrow> CHR ''/'' \<notin> set p \<Longrightarrow> path_parts p = [p]"
  by (simp add: path_parts_def str_split_no_sep)

lemma path_root_append:
  assumes "hd t \<noteq> CHR ''/'' \<or> \<not> suffix ''/'' s" and "t \<noteq> []" and "s \<noteq> []"
  shows "path_root (s @ t) = path_root s"
proof -
  have "takeWhile (\<lambda>c. c = CHR ''/'') (s @ t) = takeWhile (\<lambda>c. c = CHR ''/'') s"
  proof (cases "\<exists>c\<in>set s. c \<noteq> CHR ''/''")
    case False
    then have "last s = CHR ''/''" using assms(3) last_in_set by blast
    then have "suffix ''/'' s" using assms(3) append_butlast_last_id [of s] by (metis suffixI)
    then have "hd t \<noteq> CHR ''/''" using assms(1) by simp
    then have none: "takeWhile (\<lambda>c. c = CHR ''/'') t = []" using assms(2) by (cases t) simp_all
    have "takeWhile (\<lambda>c. c = CHR ''/'') (s @ t) = s @ takeWhile (\<lambda>c. c = CHR ''/'') t"
      using False by (intro takeWhile_append2) blast
    moreover have "takeWhile (\<lambda>c. c = CHR ''/'') s = s" using False by (subst takeWhile_eq_all_conv) blast
    ultimately show ?thesis using none by (simp only: append_Nil2)
  qed (auto simp: takeWhile_append1)
  then show ?thesis by (simp add: path_root_def)
qed

lemma str_join_no_slash_end:
  assumes "ps \<noteq> []" and "\<forall>p\<in>set ps. p \<noteq> [] \<and> CHR ''/'' \<notin> set p"
  shows "str_join ''/'' ps \<noteq> [] \<and> last (str_join ''/'' ps) \<noteq> CHR ''/''"
  using assms
proof (induction ps)
  case (Cons p ps)
  then have "p \<noteq> []" by simp
  moreover have "last p \<noteq> CHR ''/''" using Cons.prems(2) last_in_set [of p] by fastforce
  ultimately show ?case using Cons by (cases "ps = []") (auto simp: str_join_Cons)
qed simp

text \<open>Joining a normalised path and a name gives a normalised path.\<close>

lemma path_join_normal:
  assumes repo: "py_path repo = repo" and p: "p \<noteq> []" "p \<noteq> ''.''" "CHR ''/'' \<notin> set p"
  shows "py_path (path_join repo p) = path_join repo p"
proof (cases "repo = ''.''")
  case True
  have "path_root p = []" using p by (cases p) (auto simp: path_root_def)
  then show ?thesis using p by (simp add: True path_join_def py_path_def path_parts_name)
next
  case False
  then have eq: "repo = path_root repo @ str_join ''/'' (path_parts repo)"
    using repo by (auto simp: py_path_def split: if_splits)
  have ne: "repo \<noteq> []" using repo by (auto simp: py_path_def path_root_def path_parts_def split: if_splits)
  have hd: "hd p \<noteq> CHR ''/''" using p by (cases p) auto
  show ?thesis
  proof (cases "suffix ''/'' repo")
    case True
    then obtain r where r: "repo = r @ ''/''" by (auto simp: suffix_def)
    have parts: "path_parts (repo @ p) = path_parts repo @ [p]"
      using path_parts_at [of r p] path_parts_at [of r "[]"] p by (simp add: r path_parts_name) (simp add: path_parts_def)
    have "path_parts repo = []"
    proof (rule ccontr)
      assume some: "path_parts repo \<noteq> []"
      then have "last repo \<noteq> CHR ''/''"
        using str_join_no_slash_end [OF some] path_parts_good eq by (metis last_appendR)
      then show False by (simp add: r)
    qed
    then have "py_path (repo @ p) = repo @ p"
      using parts path_root_append [of p repo] hd p(1) ne eq by (simp add: py_path_def)
    then show ?thesis using True False by (simp add: path_join_def)
  next
    case no_slash: False
    have some: "path_parts repo \<noteq> []"
    proof
      assume "path_parts repo = []"
      then have "repo = path_root repo" using eq by simp
      then have "repo = ''/'' \<or> repo = ''//''" using ne by (metis path_root_cases)
      then show False using no_slash by (auto simp: suffix_def)
    qed
    have "path_parts (repo @ CHR ''/'' # p) = path_parts repo @ [p]"
      by (simp add: path_parts_at path_parts_name p)
    moreover have "path_root (repo @ CHR ''/'' # p) = path_root repo"
      using no_slash ne by (intro path_root_append) simp_all
    ultimately have "py_path (repo @ CHR ''/'' # p) = path_root repo @ str_join ''/'' (path_parts repo) @ CHR ''/'' # p"
      using some by (simp add: py_path_def str_join_append)
    also have "\<dots> = repo @ CHR ''/'' # p" using eq by (metis append.assoc)
    finally show ?thesis using no_slash False by (simp add: path_join_def)
  qed
qed

lemma program_path_normal:
  assumes "py_path repo = repo"
  shows "py_path (path_join (path_join repo ''build'') ''dm_simulator'') = path_join (path_join repo ''build'') ''dm_simulator''"
  by (intro path_join_normal assms) simp_all

lemma matrix_expressible:
  assumes repo: "py_path repo = repo" and "parse_matrix_args repo argv = Parsed args"
  shows "expressible args"
proof -
  obtain ns where ns: "parse_args (matrix_options repo, None) argv = Parsed ns" "args = matrix_namespace ns"
    using assms(2) by (auto simp: parse_matrix_args_def res_iff)
  note have_value = option_value [OF matrix_cli.command_line_axioms ns(1)]
  have quick: "''quick'' \<in> set (map fst PRESETS)" by (simp add: PRESETS_def)
  have "\<exists>u. map_of ns ''preset'' = Some u \<and> (u = PStr ''quick'' \<or> (\<exists>s. choice_value (map fst PRESETS) s = Some u))"
    using have_value [of "''--preset''" "choice_value (map fst PRESETS)" "PStr ''quick''"]
    by (simp add: matrix_options_def base_options_def dest_of_def)
  then obtain s where "map_of ns ''preset'' = Some (PStr s)" "s \<in> set (map fst PRESETS)"
    using quick by (auto simp only: choice_value_def option.inject split: if_splits)
  then have preset: "arg_preset args \<in> set (map fst PRESETS)"
    by (simp add: ns(2) matrix_namespace_def ns_text_def del: set_map)
  have "\<exists>s. map_of ns ''binary'' = Some (PStr s) \<and> py_path s = s"
    using have_value [of "''--binary''" path_value "PStr (path_join (path_join repo ''build'') ''dm_simulator'')"]
      program_path_normal [OF repo]
    by (auto simp: matrix_options_def base_options_def dest_of_def path_value_def)
  then have binary: "py_path (arg_binary args) = arg_binary args"
    by (auto simp: ns(2) matrix_namespace_def ns_text_def)
  have results: "py_path d = d" if "arg_results_dir args = Some d" for d
    using have_value [of "''--results-dir''" path_value PNone] that
    by (auto simp: matrix_options_def base_options_def dest_of_def path_value_def ns(2) matrix_namespace_def ns_text_option_def)
  have "int_in_limit n" if "arg_expect_runs args = Some n" for n
    using have_value [of "''--expect-runs''" int_value PNone] that py_int_in_limit
    by (auto simp: matrix_options_def run_options_def dest_of_def int_value_def ns(2) matrix_namespace_def ns_int_option_def)
  then show ?thesis using preset binary results by (simp add: expressible_def split: option.split)
qed

lemma report_arguments_expressible:
  assumes "parse_report_args argv = Parsed args"
  shows "report_expressible args"
proof -
  obtain ns where ns: "parse_args (report_options, None) argv = Parsed ns" "args = report_namespace ns"
    using assms by (auto simp: parse_report_args_def res_iff)
  note have_value = option_value [OF report_cli.command_line_axioms ns(1)]
  have "hd report_options \<in> set report_options" by (simp add: report_options_def)
  from report_cli.parsed_values [OF ns(1) this]
  obtain vs where vs: "map_of ns ''aggregate'' = Some (PList vs)" "vs \<noteq> []" "\<forall>x\<in>set vs. \<exists>s. path_value s = Some x"
    by (auto simp: report_options_def dest_of_def given_value_def)
  then have aggregates: "ra_aggregate args \<noteq> []" "list_all (\<lambda>a. py_path a = a) (ra_aggregate args)"
    by (auto simp: ns(2) report_namespace_def ns_texts_def list_all_iff path_value_def value_str_def)
  have dir: "py_path d = d" if "ra_output_dir args = Some d" for d
    using have_value [of "''--output-dir''" path_value PNone] that
    by (auto simp: report_options_def dest_of_def path_value_def ns(2) report_namespace_def ns_text_option_def)
  have threshold: "canonical (ra_tie_threshold args)"
    using have_value [of "''--tie-threshold''" float_value "PFloat (flit 2 2)"] py_float_canonical
    by (auto simp: report_options_def dest_of_def float_value_def ns(2) report_namespace_def ns_float_def)
  have "ra_report_mode args \<in> set REPORT_MODES"
    using have_value [of "''--report-mode''" "choice_value REPORT_MODES" "PStr ''auto''"]
    by (auto simp: report_options_def dest_of_def choice_value_def ns(2) report_namespace_def ns_text_def REPORT_MODES_def
        split: if_splits)
  then show ?thesis using aggregates dir threshold by (simp add: report_expressible_def split: option.split)
qed

lemmas parse_eval_defs = parse_args_def option_names_def help_options_def classify_word_def before_equals_def
  after_equals_def start_state_def take_value_def action_of_def takes_value_def set_option_def finish_def
  take_arguments_def is_plain_def dest_of_def unmatched_word_def negative_number_def

lemma demo_matrix_words: "parse_matrix_args ''.'' [''--pol'', ''lru'', ''--dry-run''] = Parsed demo_args"
  by (simp add: parse_matrix_args_def parse_eval_defs matrix_options_def option_defs matrix_namespace_def ns_defs
      text_value_def demo_args_def default_args_def)

lemma demo_report_words:
  "parse_report_args [''--agg=results//aggregate_summary.csv''] = Parsed demo_report_args"
  by (simp add: parse_report_args_def parse_eval_defs report_options_def option_defs report_namespace_def ns_defs
      path_value_def path_eval_defs appended_def value_str_def demo_report_args_def default_report_args_def)

text \<open>
  C26. The converse: whatever words the matrix or the report script is given, the arguments it
  accepts have a known preset or report mode, normalised paths, an expected run count within
  Python's digit limit, a threshold that is a float, and at least one aggregate. With the two
  round trips this says exactly which argument records reach the rest of the scripts.
\<close>

theorem parsed_arguments_expressible:
  assumes "py_path repo = repo"
  shows "(parse_matrix_args repo argv = Parsed args \<longrightarrow> expressible args) \<and>
    (parse_report_args argv' = Parsed args' \<longrightarrow> report_expressible args')"
  using matrix_expressible [OF assms] report_arguments_expressible by blast

theorem parsed_arguments_expressible_witness:
  "expressible demo_args \<and> report_expressible demo_report_args"
proof -
  have "py_path ''.'' = ''.''" by (simp add: path_eval_defs)
  from parsed_arguments_expressible [OF this] demo_matrix_words demo_report_words show ?thesis by blast
qed

section \<open>Outcomes of whole invocations\<close>

lemma exit_status_simps [simp]: "exit_status (Inl e) = 1" "exit_status (Inr n) = n"
  by (simp_all add: exit_status_def)

text \<open>The ways an invocation ends: a usage error, the help text, or a run with parsed arguments.\<close>

lemma invoke_cases:
  assumes "invoke parsed run w = (w', code)"
  obtains (refused) "parsed = Refused" "w' = w" "code = 2"
    | (helped) "parsed = Helped" "w' = w" "code = 0"
    | (raised) args e where "parsed = Parsed args" "run args w = (w', Inl e)" "code = 1"
    | (returned) args where "parsed = Parsed args" "run args w = (w', Inr code)"
  using assms
proof (cases parsed)
  case (Parsed args)
  obtain w1 r where run: "run args w = (w1, r)" by fastforce
  then show ?thesis using assms Parsed raised returned by (cases r) (auto simp: invoke_def)
qed (use assms refused helped in \<open>auto simp: invoke_def\<close>)

lemma main_returns_0: "main launch repo args w = (w', Inr code) \<Longrightarrow> code = 0"
  by (auto simp: main_def execute_def bindP_Inr split: if_splits prod.splits)

lemma main_planned:
  "main launch repo args w = (w', Inr code) \<Longrightarrow> \<exists>d policies runs. plan_runs repo args = Inr (d, policies, runs)"
  by (auto simp: main_def bindP_Inr)

text \<open>
  C3. What the exit status of the matrix script tells its caller. Status 2 means the command line was
  refused and nothing was written or launched. Status 0 without a help request means the runs
  were planned and the aggregate file has exactly one row per planned run, in order, each with
  the run's name and a final status (only \<open>success\<close> unless a dry run or keep-going was asked for).
  Status 1 means the script raised an exception. There is no other status.
\<close>

theorem matrix_program_outcome:
  assumes "matrix_program launch repo argv w = (w', code)"
  shows "(code = 2 \<and> parse_matrix_args repo argv = Refused \<and> w' = w) \<or>
    (code = 0 \<and> parse_matrix_args repo argv = Helped \<and> w' = w) \<or>
    (\<exists>args. parse_matrix_args repo argv = Parsed args \<and>
       ((code = 1 \<and> (\<exists>e. main launch repo args w = (w', Inl e))) \<or>
        (code = 0 \<and> (\<exists>d policies runs rows. plan_runs repo args = Inr (d, policies, runs) \<and>
           w_files w' (aggregate_path_of d) = Some (aggregate_text rows) \<and>
           list_all2 (describes (loop_statuses args)) runs rows))))"
  using assms unfolding matrix_program_def
proof (cases rule: invoke_cases)
  case (returned args)
  obtain d policies runs where "plan_runs repo args = Inr (d, policies, runs)"
    using main_planned [OF returned(2)] by blast
  with finished_aggregate [OF this returned(2)] main_returns_0 [OF returned(2)] returned(1) show ?thesis by blast
qed blast+

theorem matrix_program_outcome_witness:
  "\<forall>launch w. \<exists>w' rows. matrix_program launch ''.'' [''--pol'', ''lru'', ''--dry-run''] w = (w', 0) \<and>
     w_files w' (aggregate_path_of ''results/matrix_quick'') = Some (aggregate_text rows) \<and> length rows = 1"
proof (intro allI)
  fix launch w
  have "\<exists>w'. main launch ''.'' demo_args w = (w', Inr 0)"
    using main_dry [OF demo_plan, of launch w] demo_plan_capacity by (simp add: demo_args_def)
  then obtain w' where run: "matrix_program launch ''.'' [''--pol'', ''lru'', ''--dry-run''] w = (w', 0)"
    by (auto simp: matrix_program_def invoke_def demo_matrix_words)
  from matrix_program_outcome [OF run] obtain rows where
    "w_files w' (aggregate_path_of ''results/matrix_quick'') = Some (aggregate_text rows)" "length rows = 1"
    by (auto simp: demo_matrix_words demo_plan dest: list_all2_lengthD)
  then show "\<exists>w' rows. matrix_program launch ''.'' [''--pol'', ''lru'', ''--dry-run''] w = (w', 0) \<and>
      w_files w' (aggregate_path_of ''results/matrix_quick'') = Some (aggregate_text rows) \<and> length rows = 1"
    using run by blast
qed

text \<open>
  C27. The experiment runner exits with 0 exactly when every configuration of the command line ran, in
  order. At the first failing run it exits with 1, in the world that run left and without
  launching the rest. With a refused command line (status 2) or a help request nothing is
  launched.
\<close>

theorem experiments_program_outcome:
  assumes "experiments_program launch repo argv w = (w', code)"
  shows "(code = 2 \<and> parse_experiment_args repo argv = Refused \<and> w' = w) \<or>
    (code = 0 \<and> parse_experiment_args repo argv = Helped \<and> w' = w) \<or>
    (\<exists>args. parse_experiment_args repo argv = Parsed args \<and>
       ((code = 0 \<and> launches launch args (ex_configs args) w w') \<or>
        (code = 1 \<and> (\<exists>before config later w1 e. ex_configs args = before @ config # later \<and>
           launches launch args before w w1 \<and> launch (experiment_command args config) w1 = (w', Inl e)))))"
  using assms unfolding experiments_program_def
proof (cases rule: invoke_cases)
  case (raised args e)
  then show ?thesis using experiments_outcome [of launch args w] by auto
next
  case (returned args)
  then show ?thesis using experiments_outcome [of launch args w] by auto
qed blast+

lemma demo_experiment_words:
  "parse_experiment_args ''.'' [''a.yaml'', ''configs//b.yaml'', ''--results-dir'', ''out''] =
     Parsed \<lparr>ex_configs = [''a.yaml'', ''configs/b.yaml''], ex_binary = ''build/dm_simulator'', ex_results_dir = ''out''\<rparr>"
  by (simp add: parse_experiment_args_def parse_eval_defs experiment_options_def option_defs experiment_namespace_def
      ns_defs path_value_def py_path_def path_root_def path_parts_def value_str_def
      path_join_def suffix_to_prefix)

theorem experiments_program_outcome_witness:
  "\<forall>w. experiments_program (\<lambda>c w. (w, Inl (CalledProcessError ''exit 1''))) ''.''
       [''a.yaml'', ''configs//b.yaml'', ''--results-dir'', ''out''] w = (w, 1) \<and>
     (\<exists>before config later. [''a.yaml'', ''configs/b.yaml''] = before @ config # later)"
proof
  fix w
  let ?launch = "\<lambda>c w. (w, Inl (CalledProcessError ''exit 1'')) :: world \<times> unit res"
  have run: "experiments_program ?launch ''.'' [''a.yaml'', ''configs//b.yaml'', ''--results-dir'', ''out''] w = (w, 1)"
    by (simp add: experiments_program_def invoke_def demo_experiment_words experiments_main_def bindP_def)
  from experiments_program_outcome [OF run]
  show "experiments_program ?launch ''.'' [''a.yaml'', ''configs//b.yaml'', ''--results-dir'', ''out''] w = (w, 1) \<and>
      (\<exists>before config later. [''a.yaml'', ''configs/b.yaml''] = before @ config # later)"
    using run by (auto simp: demo_experiment_words)
qed

lemma write_report_writes:
  "write_report it square square_root cf parent path title aggregates baseline t plots summary comparison mode dims best final fs = Inr fs'
     \<Longrightarrow> fs' path \<noteq> None"
  by (auto simp: write_report_def bindR_Inr_iff)

lemma write_tables_written:
  "name \<in> {''policy_comparison.csv'', ''policy_summary.csv'', ''condition_summary.csv''} \<Longrightarrow>
     write_tables dir d fs (path_join dir name) \<noteq> None"
  by (auto simp: write_tables_def write_csv_def Let_def)

lemma report_main_returns:
  assumes "report_main env args fs = (fs', Inr code)"
  shows "(code = 2 \<and> \<not> env_matplotlib env \<and> fs' = fs) \<or>
    (code = 0 \<and> env_matplotlib env \<and> (\<exists>dir. output_dir_of args = Inr dir \<and>
       (\<forall>name\<in>{''report.md'', ''policy_comparison.csv'', ''policy_summary.csv'', ''condition_summary.csv''}.
          fs' (path_join dir name) \<noteq> None)))"
proof (cases "env_matplotlib env")
  case True
  then obtain formats dir d plots figures drawn where dir: "output_dir_of args = Inr dir"
    and written: "write_report (env_set_order env) (env_square env) (env_square_root env)
        (contention_file_of (write_tables dir d fs)) dir (path_join dir ''report.md'') (ra_title args) (ra_aggregate args)
        (ra_baseline args) (ra_tie_threshold args) plots (rd_policy_summary d) (rd_comparison d) (rd_mode d)
        (rd_dimensions d) (rd_best_summary d) (rd_final_table d) (write_tables dir d fs) = Inr fs'"
    and code: "code = 0"
    using assms by (auto simp: report_main_def Let_def bindR_Inr_iff split: sum.splits prod.splits)
  have "fs' (path_join dir name) \<noteq> None"
    if "name \<in> {''policy_comparison.csv'', ''policy_summary.csv'', ''condition_summary.csv''}" for name
    using write_report_frame [OF written, of "path_join dir name"] write_tables_written [OF that, of dir d fs] that by auto
  then show ?thesis using True dir code write_report_writes [OF written] by auto
next
  case False
  then show ?thesis using assms by (auto simp: report_main_def split: sum.splits prod.splits)
qed

text \<open>
  C12. What the exit status of the report script tells its caller: with 0, and no help request, the
  report and the three tables every report has are in the output directory; with 2 the command
  line was refused or the plotting library is missing, and no file has changed; any exception
  gives 1.
\<close>

theorem report_program_outcome:
  assumes "report_program env argv fs = (fs', code)"
  shows "(code = 2 \<and> fs' = fs \<and> (parse_report_args argv = Refused \<or> \<not> env_matplotlib env)) \<or>
    (code = 0 \<and> parse_report_args argv = Helped \<and> fs' = fs) \<or>
    (\<exists>args. parse_report_args argv = Parsed args \<and>
       ((code = 1 \<and> (\<exists>e. report_main env args fs = (fs', Inl e))) \<or>
        (code = 0 \<and> (\<exists>dir. output_dir_of args = Inr dir \<and>
           (\<forall>name\<in>{''report.md'', ''policy_comparison.csv'', ''policy_summary.csv'', ''condition_summary.csv''}.
              fs' (path_join dir name) \<noteq> None)))))"
  using assms unfolding report_program_def
proof (cases rule: invoke_cases)
  case (returned args)
  with report_main_returns [OF returned(2)] show ?thesis by blast
qed blast+

theorem report_program_outcome_witness:
  "\<forall>fs. report_program (demo_environment\<lparr>env_matplotlib := False\<rparr>) [''--agg=results//aggregate_summary.csv''] fs = (fs, 2) \<and>
     parse_report_args [''--agg=results//aggregate_summary.csv''] \<noteq> Refused"
proof
  fix fs
  have run: "report_program (demo_environment\<lparr>env_matplotlib := False\<rparr>) [''--agg=results//aggregate_summary.csv''] fs = (fs, 2)"
    by (simp add: report_program_def invoke_def demo_report_words report_main_def demo_report_options)
  from report_program_outcome [OF run] run demo_report_words
  show "report_program (demo_environment\<lparr>env_matplotlib := False\<rparr>) [''--agg=results//aggregate_summary.csv''] fs = (fs, 2) \<and>
      parse_report_args [''--agg=results//aggregate_summary.csv''] \<noteq> Refused"
    by auto
qed

end
