(* ===== verification/EndToEnd.thy ===== *)
theory EndToEnd
  imports CommandLines Pipeline
begin

text \<open>
  From one command line to the next: a matrix that exited with 0 leaves an aggregate file the
  report script can be pointed at, and the report over it is finished. The lemmas say what the
  rows of a finished matrix hold, and where the report script puts its output.
\<close>

section \<open>The rows of a finished matrix\<close>

lemma base_row_bandwidth:
  "base_row run status error = Inr r0 \<Longrightarrow>
     map_of r0 ''memory_bandwidth_level'' = Some (PStr (run_memory_bandwidth_level run))"
  by (auto simp: base_row_def Let_def bindR_Inr_iff)

text \<open>A row of a successful run, with the run's bandwidth level.\<close>

definition reports_success :: "MatrixRun \<Rightarrow> row \<Rightarrow> bool" where
  "reports_success r row =
     (map_of row ''status'' = Some (PStr ''success'') \<and>
      map_of row ''memory_bandwidth_level'' = Some (PStr (run_memory_bandwidth_level r)))"

lemma summarized_success:
  assumes "summarize_run r out status error = Inr row" and "status \<in> loop_statuses args"
    and "\<not> arg_dry_run args" and "\<not> arg_keep_going args"
  shows "reports_success r row"
proof -
  have status: "status = ''success''" using assms(2-4) by (simp add: loop_statuses_def)
  obtain r0 where r0: "base_row r status error = Inr r0"
    using assms(1) by (auto simp: summarize_run_Inr)
  have "map_of row k = map_of r0 k" if "map_of r0 k \<noteq> None" for k
  proof -
    have "k \<in> fst ` set r0" using that by (metis map_of_eq_None_iff)
    then show ?thesis by (rule base_column_kept [OF r0 assms(1)])
  qed
  then show ?thesis
    using base_row_identity(3) [OF r0] base_row_bandwidth [OF r0] by (simp add: reports_success_def status)
qed

lemma planned_bandwidth:
  assumes "plan_runs repo args = Inr (d, policies, runs)" and "r \<in> set runs"
  shows "run_memory_bandwidth_level r \<in> {''mild'', ''moderate'', ''severe''}"
proof -
  obtain preset s where p: "map_of PRESETS (arg_preset args) = Some preset" "resolve_sweep args preset = Inr s"
    "build_runs preset s d = Inr runs"
    using assms(1) by (auto simp: plan_runs_Inr)
  have "run_memory_bandwidth_level r \<in> fst ` set MEMORY_BANDWIDTH_BYTES_PER_TIME_BY_LEVEL"
    using built_run(4) [OF p(3) assms(2)] resolved_sweep(2) [OF p(2) presets_ok [OF p(1)]] by blast
  then show ?thesis by (simp add: MEMORY_BANDWIDTH_BYTES_PER_TIME_BY_LEVEL_def)
qed

text \<open>The report script reads every row of such a matrix.\<close>

lemma successful_rows_read:
  assumes "list_all2 reports_success runs rows" and "runs \<noteq> []"
    and "\<forall>r\<in>set runs. run_memory_bandwidth_level r \<in> {''mild'', ''moderate'', ''severe''}"
    and "fs path = Some (aggregate_text rows)"
  shows "read_aggregate_rows fs [path] = Inr (map (reported_row path) rows)"
    and "bandwidth_named (map (reported_row path) rows)"
proof -
  have row: "\<exists>r\<in>set runs. reports_success r row" if "row \<in> set rows" for row
    using that assms(1) by (metis in_set_conv_nth list_all2_conv_all_nth)
  have all: "filter row_succeeded rows = rows"
    using row by (intro filter_True) (auto simp: reports_success_def row_succeeded_def csv_value_def value_str_def)
  have "rows \<noteq> []" using assms(1,2) by auto
  then show "read_aggregate_rows fs [path] = Inr (map (reported_row path) rows)"
    using read_aggregate_written [of fs path rows] assms(4) all by simp
  have column: "''memory_bandwidth_level'' \<in> set AGGREGATE_COLUMNS" by (simp add: AGGREGATE_COLUMNS_def)
  have "str_strip (row_text (reported_row path row) ''memory_bandwidth_level'') \<noteq> []" if "row \<in> set rows" for row
  proof -
    obtain r where r: "r \<in> set runs" "reports_success r row" using row [OF \<open>row \<in> set rows\<close>] by blast
    have "row_text (reported_row path row) ''memory_bandwidth_level'' = run_memory_bandwidth_level r"
      using r(2) by (simp add: row_text_def reported_cell [OF column] reports_success_def csv_value_def value_str_def)
    moreover have "str_strip ''mild'' \<noteq> []" "str_strip ''moderate'' \<noteq> []" "str_strip ''severe'' \<noteq> []"
      by (simp_all add: str_strip_def is_space_def)
    ultimately show ?thesis using assms(3) r(1) by auto
  qed
  then show "bandwidth_named (map (reported_row path) rows)" by (simp add: bandwidth_named_def list_all_iff)
qed

section \<open>Where the report goes\<close>

lemma str_join_head: "str_join sep ((c # p) # ps) = c # str_join sep (p # ps)"
  by (cases ps) simp_all

lemma str_join_split: "str_join [c] (str_split c s) = s"
  by (induction s) (auto simp: str_join_Cons str_join_head split: list.split)

lemma normal_rooted:
  assumes "py_path d = d" and "suffix ''/'' d"
  shows "d = ''/'' \<or> d = ''//''"
proof (cases "path_parts d = []")
  case True
  then have "d = (if path_root d = [] then ''.'' else path_root d)" using assms(1) by (auto simp: py_path_def split: if_splits)
  then show ?thesis using assms(2) path_root_cases [of d] by (auto simp: suffix_to_prefix split: if_splits)
next
  case False
  then have "d = path_root d @ str_join ''/'' (path_parts d)" using assms(1) by (simp add: py_path_def)
  moreover have "str_join ''/'' (path_parts d) \<noteq> []" "last (str_join ''/'' (path_parts d)) \<noteq> CHR ''/''"
    using str_join_no_slash_end [OF False] path_parts_good by blast+
  ultimately have "last d \<noteq> CHR ''/''" by (metis last_appendR)
  then show ?thesis using assms(2) by (auto simp: suffix_def)
qed

text \<open>\<open>(d / name).parent\<close> is \<open>d\<close>.\<close>

lemma path_parent_join:
  assumes "py_path d = d" and "CHR ''/'' \<notin> set name" and "name \<noteq> []"
  shows "path_parent (path_join d name) = d"
proof (cases "d = ''.'' \<or> suffix ''/'' d")
  case True
  then have "d = ''.'' \<or> d = ''/'' \<or> d = ''//''" using normal_rooted [OF assms(1)] by blast
  then show ?thesis
    using assms(2) by (auto simp: path_join_def path_parent_def str_split_no_sep suffix_to_prefix Let_def)
next
  case False
  let ?parts = "str_split (CHR ''/'') d"
  have joined: "str_join ''/'' ?parts = d" by (rule str_join_split)
  have "?parts \<noteq> [[]]" "?parts \<noteq> [[], []]"
    using joined assms(1) False by (auto simp: py_path_def path_root_def path_parts_def suffix_to_prefix)
  moreover have "path_join d name = d @ CHR ''/'' # name" using False by (simp add: path_join_def)
  ultimately show ?thesis
    using joined by (simp add: path_parent_def str_split_at str_split_no_sep assms(2) Let_def)
qed

lemma presets_named: "map_of PRESETS n = Some p \<Longrightarrow> CHR ''/'' \<notin> set (preset_name p)"
proof -
  have "list_all (\<lambda>(n, p). CHR ''/'' \<notin> set (preset_name p)) PRESETS"
    unfolding PRESETS_def list.pred_inject prod.case
    by (intro conjI TrueI; simp add: preset_defs)
  then show "map_of PRESETS n = Some p \<Longrightarrow> CHR ''/'' \<notin> set (preset_name p)"
    by (auto simp: list_all_iff dest!: map_of_SomeD)
qed

lemma results_dir_normal:
  assumes "py_path repo = repo" and "expressible args" and "plan_runs repo args = Inr (d, policies, runs)"
  shows "py_path d = d"
proof -
  obtain preset where preset: "map_of PRESETS (arg_preset args) = Some preset" "d = results_dir_of repo args preset"
    using assms(3) by (auto simp: plan_runs_Inr)
  show ?thesis
  proof (cases "arg_results_dir args")
    case None
    have "py_path (path_join repo ''results'') = path_join repo ''results''"
      by (rule path_join_normal) (use assms(1) in simp_all)
    then have "py_path (path_join (path_join repo ''results'') (''matrix_'' @ preset_name preset)) =
        path_join (path_join repo ''results'') (''matrix_'' @ preset_name preset)"
      by (rule path_join_normal) (use presets_named [OF preset(1)] in simp_all)
    then show ?thesis by (simp add: preset(2) results_dir_of_def None)
  next
    case (Some dir)
    then show ?thesis using assms(2) by (simp add: preset(2) results_dir_of_def expressible_def)
  qed
qed

section \<open>The report over one aggregate\<close>

lemma parse_one_aggregate:
  assumes "py_path path = path"
  shows "parse_report_args [''--aggregate='' @ path] = Parsed (default_report_args [path])"
proof -
  let ?settings = "[(''--aggregate'', Some path)]"
  have ok: "settings_ok report_options ?settings"
    by (simp add: settings_ok_def report_options_def setting_ok_def path_value_def)
  have required: "list_all (\<lambda>opt. opt_required opt \<longrightarrow> opt_string opt \<in> fst ` set ?settings) report_options"
    by (simp add: report_options_def option_with_def)
  have words: "map setting_word ?settings = [''--aggregate='' @ path]" by (simp add: setting_word_def)
  from report_cli.parse_settings [OF ok refl required] obtain ns where
    ns: "parse_args (report_options, None) [''--aggregate='' @ path] = Parsed ns"
    and read: "\<forall>opt\<in>set report_options. map_of ns (dest_of (opt_string opt)) = Some (setting_value opt ?settings)"
    unfolding words by blast
  have given: "setting_value (option_with name convert v) ?settings = v" if "name \<noteq> ''--aggregate''" for name convert v
    using that by (simp add: setting_value_def settings_for_def option_with_def)
  have aggregate: "setting_value (hd report_options) ?settings = PList [PStr path]"
    by (simp add: report_options_def setting_value_def settings_for_def path_value_def assms)
  note aggregate = aggregate [unfolded report_options_def list.sel]
  note read = read [unfolded report_options_def list.set ball_simps option_with_simps dest_of_def aggregate, simplified]
  have "report_namespace ns = default_report_args [path]"
    using read by (simp add: given report_namespace_def ns_defs value_str_def default_report_args_def)
  then show ?thesis using ns by (simp add: parse_report_args_def)
qed

section \<open>Matrix, then report\<close>


section \<open>A matrix of one run\<close>

definition real_args :: cli_args where "real_args = demo_args\<lparr>arg_dry_run := False\<rparr>"

definition demo_world :: world where "demo_world = \<lparr>w_files = Map.empty, w_outputs = (\<lambda>_. demo_output)\<rparr>"

lemma real_words: "parse_matrix_args ''.'' [''--policies=lru''] = Parsed real_args"
  by (simp add: parse_matrix_args_def parse_eval_defs matrix_options_def option_defs matrix_namespace_def ns_defs
      text_value_def real_args_def demo_args_def default_args_def)

lemma real_plan:
  "plan_runs ''.'' real_args = Inr (''results/matrix_quick'', [''lru''],
     [make_run preset_quick ''results/matrix_quick'' (quick_combo ''lru'') NO_CONTENTION_WEIGHT_PROFILE])"
proof -
  have "plan_runs ''.'' real_args = plan_runs ''.'' demo_args"
    by (simp add: plan_runs_def resolve_sweep_def results_dir_of_def real_args_def)
  then show ?thesis by (simp add: demo_plan)
qed

lemma real_run: "\<exists>w'. main (\<lambda>_ w. (w, Inr ())) ''.'' real_args demo_world = (w', Inr 0)"
proof -
  let ?r = "make_run preset_quick ''results/matrix_quick'' (quick_combo ''lru'') NO_CONTENTION_WEIGHT_PROFILE"
  let ?w = "demo_world\<lparr>w_files := [run_config_path ?r \<mapsto> config_of ?r]\<rparr>"
  have yaml: "\<exists>t. yaml_config_text ?r = Inr t"
    using planned_config [OF real_plan] demo_plan_capacity by simp
  then have config: "write_config ?r demo_world = (?w, Inr ())"
    by (simp add: write_config_Inr demo_world_def)
  from yaml obtain r0 where "base_row ?r ''success'' [] = Inr r0"
    using base_row_total yaml_config_text_total by blast
  then obtain row where row: "summarize_run ?r demo_output ''success'' [] = Inr row"
    using demo_output_summary by blast
  have outputs: "w_outputs ?w = (\<lambda>_. demo_output)" by (simp add: demo_world_def)
  have flags: "\<not> arg_dry_run real_args" by (simp add: real_args_def)
  have "run_loop (\<lambda>_ w. (w, Inr ())) real_args ''results/matrix_quick'' [?r] [] demo_world = (?w, Inr [row])"
    by (simp only: run_loop.simps flags if_False bindP_def config prod.case sum.case run_simulator_def summarize_def
        outputs row returnP_def append_Nil)
  then show ?thesis
    by (simp add: main_def real_plan execute_def bindP_def flags save_aggregate_def stateP_def returnP_def)
qed


end
