(* ===== verification/Spec2Isabelle.thy ===== *)
theory Spec2Isabelle
  imports RunMatrixSpec Pipeline RunExperiments PlotScale PlotSweep EndToEnd
begin

text \<open>
  \<^bold>\<open>Verification of the experiment scripts of dm\_simulator\<close>

  The repository simulates data placement in disaggregated memory. Its Python side drives the
  simulator: \<^verbatim>\<open>scripts/run_matrix.py\<close> expands a preset into runs, writes a configuration per
  run, launches the simulator, collects its outputs into \<^verbatim>\<open>aggregate_summary.csv\<close> and checks
  itself in a dry run; \<^verbatim>\<open>scripts/plot_results.py\<close> reads aggregate files, compares every run
  with its baseline, derives summary tables and writes a report; \<^verbatim>\<open>scripts/run_experiments.py\<close>
  runs hand-written configurations. The scripts meet in files only: the configuration text,
  the tables the simulator leaves, and the aggregate file.

  \<^bold>\<open>Python underneath.\<close> \<open>Prelude\<close> has exceptions as values of a sum type with its bind and loops,
  the string methods, decimal integers and dictionaries in insertion order. \<open>PyFloat\<close> is binary64
  arithmetic over integers, with one rounding function, and \<open>PyRound\<close> proves that it is monotone;
  \<open>PyText\<close> parses and formats numbers;
  \<open>PyRepr\<close> proves that \<open>float(repr(x))\<close> is \<open>x\<close>. \<open>PyValue\<close> is the type of dynamic values,
  \<open>PyCsv\<close> the csv module with the proof that a written table reads back (the locale
  \<open>table_format\<close>), \<open>Sha1\<close> the digest that ends long run names.

  \<^bold>\<open>run\_matrix.py.\<close> \<open>RunMatrixData\<close> and \<open>RunMatrixPresets\<close> hold the tables and presets value for
  value. \<open>RunMatrixCli\<close> has the options and their parsers, with exact acceptance conditions.
  \<open>RunMatrixBuild\<close> has naming, feasibility and \<open>build_runs\<close>, with the matching of conditions
  across policies and the exact error condition. \<open>RunMatrixYaml\<close> writes the configuration and
  proves it readable; \<open>RunMatrixSummary\<close> builds the aggregate rows; \<open>RunMatrixDriver\<close> and
  \<open>RunMatrixMain\<close> have option resolution, the run loop, the dry-run checks and \<open>main\<close> as state
  passing over a \<open>world\<close> of files and simulator outputs. \<open>RunMatrixSpec\<close> states what a matrix run
  promises as a step relation over run names and proves that the loop refines it.

  \<^bold>\<open>plot\_results.py.\<close> \<open>PlotData\<close> holds the constants. \<open>PlotRows\<close> reads tables and cells, orders the
  values of a column and detects the report mode; \<open>PlotCompare\<close> is \<open>build_policy_comparison\<close>;
  \<open>PlotSummary\<close> has the averages, deviations, the final, policy and condition tables; \<open>PlotBest\<close>
  the best-run examples; \<open>PlotObserve\<close> the automatic remarks; \<open>PlotReport\<close> the Markdown text;
  \<open>PlotMain\<close> the program. \<open>Pipeline\<close> composes the two scripts: a number a run reported is the
  number the report computes with, and a report over written aggregates is always finished.
  \<open>RunExperiments\<close> is the small runner.

  \<^bold>\<open>Command lines.\<close> \<open>PyArgs\<close> is the part of \<open>argparse\<close> the scripts use, as in Python 3.11: how words are
  classified, abbreviated and consumed, and what a parsed namespace can hold. Its locale
  \<open>command_line\<close> is the contract a list of options meets. \<open>CommandLines\<close> declares the options of the
  three scripts, interprets the locale on each, and ends with the whole invocations: from the
  words of the command line to the files left behind and the exit status. \<open>EndToEnd\<close> runs the report
  script on what the matrix script left, from one command line to the next.

  \<^bold>\<open>The figures.\<close> Matplotlib is only called, so a figure is the list of the calls made on it, from
  \<open>plt.subplots\<close> to \<open>plt.close\<close>, with every argument. \<open>PlotCanvas\<close> has placeholders, saving and the
  charts per policy; \<open>PlotCharts\<close> the sweeps, sweeps by facet and heatmaps; \<open>PlotStudies\<close> the
  calibration, viability and best-run figures; \<open>PlotFinal\<close> the four figures of the final report;
  \<open>PlotBundles\<close> which figures a report mode draws and how they are named, up to \<open>generate_plots\<close>.
  Every figure is well formed for the library: it is laid out on a grid with axes, drawn, saved,
  then closed, and each image listed was saved once. The one exception is the scaling figure over
  rows without a bandwidth, stated exactly in \<open>PlotFinal\<close>. \<open>PlotSweep\<close> and \<open>PlotScale\<close> show that the drawn points
  are the means of the right rows and that colour limits enclose the drawn values.

  \<^bold>\<open>What is a parameter.\<close> Launching the simulator is an arbitrary function on worlds that succeeds or
  raises; the JSON document of a run is the value \<open>json.load\<close> returns; the iteration order of a
  Python set is any function that lists its elements once (\<open>set_iteration\<close>); \<open>x ** 2\<close> and
  \<open>math.sqrt\<close> are functions with the contract of the locale \<open>libm\<close>, which the correctly rounded
  operations satisfy; carrying out the calls of a figure succeeds or raises, with the contract of the
  locale \<open>plot_library\<close>, and whether axes report legend handles is a function of the calls on them.

  \<^bold>\<open>Bounds.\<close> A character is a code point below 256. Recursion is structural or has a measure; no
  definition takes fuel. The shortest \<open>repr\<close> is searched among 1 to 17 digits and falls back to
  the exact decimal value, so the round trip needs no bound.

  \<^bold>\<open>Not modelled.\<close> The C++ simulator (\<^verbatim>\<open>src/src\<close>), what Matplotlib renders for the calls it is given (calls on
  different figures are kept in order within each figure only), \<open>str.title\<close> beyond ASCII letters, the
  place of an average that overflowed to NaN among sorted points (it is put last), help and
  usage texts, terminal messages, directory creation, text encodings, the normalisation of paths
  other than those of a command line, fields of a record beyond the header (kept by
  \<open>csv.DictReader\<close> under the key \<open>None\<close>, read by nobody), and the compensated summation of
  \<open>sum\<close> on floats in Python 3.12 and later: sums add from the left, as earlier versions do.
\<close>

end
